(* ===== verification/Prelude.thy ===== *)
theory Prelude
  imports Main "HOL-Library.Char_ord" "HOL-Library.List_Lexorder"
begin

text \<open>
  Generic vocabulary of the development: identifiers and timestamps, Python's \<open>or\<close> on
  optional values, first-occurrence de-duplication (\<open>dict.fromkeys\<close>), insertion-ordered
  dictionaries as association lists, result values, and the lemmas on lists that the component
  theories share.  Two collections steer the automation: \<open>status_simps\<close> holds the
  decision tables of the status vocabularies, \<open>frame_simps\<close> the facts that an operation
  leaves a part of the state alone.
\<close>

named_theorems status_simps \<open>decision tables of the status vocabularies\<close>
named_theorems frame_simps \<open>what an operation leaves unchanged\<close>

type_synonym uuid = nat
type_synonym timestamp = nat

section \<open>Results\<close>

text \<open>A raising computation is a sum: \<open>Inl\<close> is the exception, \<open>Inr\<close> the value.\<close>

definition res_bind :: "'e + 'a \<Rightarrow> ('a \<Rightarrow> 'e + 'b) \<Rightarrow> 'e + 'b" where
  "res_bind r f = (case r of Inl e \<Rightarrow> Inl e | Inr a \<Rightarrow> f a)"

lemma res_bind_simps [simp]:
  "res_bind (Inl e) f = Inl e"
  "res_bind (Inr a) f = f a"
  by (simp_all add: res_bind_def)

lemma res_bind_eq_Inr:
  "res_bind r f = Inr b \<longleftrightarrow> (\<exists>a. r = Inr a \<and> f a = Inr b)"
  by (cases r) simp_all

lemma res_bind_eq_Inl:
  "res_bind r f = Inl e \<longleftrightarrow> r = Inl e \<or> (\<exists>a. r = Inr a \<and> f a = Inl e)"
  by (cases r) simp_all

fun is_ok :: "'e + 'a \<Rightarrow> bool" where
  "is_ok (Inl _) = False"
| "is_ok (Inr _) = True"

section \<open>Python's \<open>or\<close> and truthiness\<close>

text \<open>
  \<open>x or y\<close> of Python for strings, where the empty string is false, and for optional
  strings, where \<open>None\<close> is false as well.
\<close>

definition or_str :: "string \<Rightarrow> string \<Rightarrow> string" where
  "or_str x y = (if x = [] then y else x)"

definition opt_or :: "string option \<Rightarrow> string \<Rightarrow> string" where
  "opt_or x y = (case x of None \<Rightarrow> y | Some s \<Rightarrow> or_str s y)"

definition opt_truthy :: "string option \<Rightarrow> bool" where
  "opt_truthy x = (case x of None \<Rightarrow> False | Some s \<Rightarrow> s \<noteq> [])"

lemma or_str_simps [simp]:
  "or_str [] y = y" "x \<noteq> [] \<Longrightarrow> or_str x y = x" "or_str x [] = x"
  by (simp_all add: or_str_def)

lemma opt_or_simps [simp]:
  "opt_or None y = y" "opt_or (Some s) y = or_str s y"
  by (simp_all add: opt_or_def)

lemma opt_or_Nil: "opt_or x y = [] \<Longrightarrow> y = []"
  by (auto simp: opt_or_def or_str_def split: option.splits if_splits)

lemma opt_truthy_simps [simp]:
  "\<not> opt_truthy None" "opt_truthy (Some s) \<longleftrightarrow> s \<noteq> []"
  by (simp_all add: opt_truthy_def)

lemma opt_or_truthy: "opt_truthy x \<Longrightarrow> opt_or x y = the x"
  by (cases x) auto

lemma opt_or_falsy: "\<not> opt_truthy x \<Longrightarrow> opt_or x y = y"
  by (cases x) auto

section \<open>First-occurrence de-duplication\<close>

text \<open>\<open>list(dict.fromkeys(xs))\<close>: each element once, at its first position.\<close>

fun dedup_from :: "'a list \<Rightarrow> 'a list \<Rightarrow> 'a list" where
  "dedup_from seen [] = []"
| "dedup_from seen (x # xs) =
     (if x \<in> set seen then dedup_from seen xs else x # dedup_from (x # seen) xs)"

definition dict_fromkeys :: "'a list \<Rightarrow> 'a list" where
  "dict_fromkeys xs = dedup_from [] xs"

lemma set_dedup_from: "set (dedup_from seen xs) = set xs - set seen"
  by (induction seen xs rule: dedup_from.induct) auto

lemma distinct_dedup_from: "distinct (dedup_from seen xs)"
  by (induction seen xs rule: dedup_from.induct) (auto simp: set_dedup_from)

lemma dedup_from_id: "distinct xs \<Longrightarrow> set xs \<inter> set seen = {} \<Longrightarrow> dedup_from seen xs = xs"
  by (induction xs arbitrary: seen) auto

lemma set_dict_fromkeys [simp]: "set (dict_fromkeys xs) = set xs"
  by (simp add: dict_fromkeys_def set_dedup_from)

lemma distinct_dict_fromkeys [simp]: "distinct (dict_fromkeys xs)"
  by (simp add: dict_fromkeys_def distinct_dedup_from)

lemma dict_fromkeys_id [simp]: "distinct xs \<Longrightarrow> dict_fromkeys xs = xs"
  by (simp add: dict_fromkeys_def dedup_from_id)

lemma dict_fromkeys_eq_Nil [simp]: "dict_fromkeys xs = [] \<longleftrightarrow> xs = []"
  by (cases xs) (simp_all add: dict_fromkeys_def)

lemma dict_fromkeys_idem: "dict_fromkeys (dict_fromkeys xs) = dict_fromkeys xs"
  by simp

section \<open>Insertion-ordered dictionaries\<close>

text \<open>
  A Python dictionary keeps insertion order; storing at a key that is present keeps its position.
\<close>

fun dict_put :: "'k \<Rightarrow> 'v \<Rightarrow> ('k \<times> 'v) list \<Rightarrow> ('k \<times> 'v) list" where
  "dict_put k v [] = [(k, v)]"
| "dict_put k v ((k', v') # xs) = (if k = k' then (k, v) # xs else (k', v') # dict_put k v xs)"

definition dict_setdefault :: "'k \<Rightarrow> 'v \<Rightarrow> ('k \<times> 'v) list \<Rightarrow> ('k \<times> 'v) list" where
  "dict_setdefault k v d = (case map_of d k of None \<Rightarrow> d @ [(k, v)] | Some _ \<Rightarrow> d)"

lemma map_of_dict_put [simp]: "map_of (dict_put k v d) = (map_of d)(k \<mapsto> v)"
  by (induction d rule: dict_put.induct) (auto simp: fun_upd_twist)

lemma fst_set_dict_put [simp]: "fst ` set (dict_put k v d) = insert k (fst ` set d)"
  by (induction d rule: dict_put.induct) auto

lemma distinct_dict_put [simp]:
  "distinct (map fst d) \<Longrightarrow> distinct (map fst (dict_put k v d))"
  by (induction d rule: dict_put.induct) (auto simp: image_iff)

lemma map_of_dict_setdefault:
  "map_of (dict_setdefault k v d) k' =
     (if map_of d k' = None \<and> k' = k then Some v else map_of d k')"
  by (auto simp: dict_setdefault_def map_add_def split: option.splits)

lemma distinct_dict_setdefault [simp]:
  "distinct (map fst d) \<Longrightarrow> distinct (map fst (dict_setdefault k v d))"
  by (auto simp: dict_setdefault_def map_of_eq_None_iff split: option.splits)

section \<open>Lists\<close>

definition count_if :: "('a \<Rightarrow> bool) \<Rightarrow> 'a list \<Rightarrow> nat" where
  "count_if P xs = length (filter P xs)"

lemma count_if_simps [simp]:
  "count_if P [] = 0"
  "count_if P (x # xs) = (if P x then Suc (count_if P xs) else count_if P xs)"
  "count_if P (xs @ ys) = count_if P xs + count_if P ys"
  by (simp_all add: count_if_def)

lemma count_if_le_length: "count_if P xs \<le> length xs"
  by (simp add: count_if_def)

lemma count_if_mono: "(\<And>x. P x \<Longrightarrow> Q x) \<Longrightarrow> count_if P xs \<le> count_if Q xs"
  by (induction xs) (auto simp: le_SucI)

lemma count_if_add_le:
  "(\<And>x. \<not> (P x \<and> Q x)) \<Longrightarrow> count_if P xs + count_if Q xs \<le> length xs"
  by (induction xs) (auto simp: le_SucI)

lemma count_if_eq_0: "count_if P xs = 0 \<longleftrightarrow> (\<forall>x \<in> set xs. \<not> P x)"
  by (auto simp: count_if_def filter_empty_conv)

lemma count_if_eq_length: "count_if P xs = length xs \<longleftrightarrow> (\<forall>x \<in> set xs. P x)"
proof (induction xs)
  case (Cons a xs)
  then show ?case using count_if_le_length [of P xs] by auto
qed simp

lemma count_if_cong:
  "(\<And>x. x \<in> set xs \<Longrightarrow> P x = Q x) \<Longrightarrow> count_if P xs = count_if Q xs"
  by (simp add: count_if_def cong: filter_cong)

text \<open>
  Two lists with the same image under \<open>s\<close> agree on every column that \<open>s\<close>
  determines.
\<close>

lemma map_via:
  assumes "map s xs = map s ys" and "\<And>x. f x = g (s x)"
  shows "map f xs = map f ys"
proof -
  have f: "f = g \<circ> s" using assms(2) by (simp add: fun_eq_iff)
  have "map f xs = map g (map s xs)" by (simp add: f)
  also have "\<dots> = map f ys" by (simp add: f assms(1))
  finally show ?thesis .
qed

lemma filter_via:
  assumes "map s xs = map s ys" and "\<And>x. P x = Q (s x)"
  shows "map s (filter P xs) = map s (filter P ys)"
proof -
  have P: "P = Q \<circ> s" using assms(2) by (simp add: fun_eq_iff)
  have "map s (filter P xs) = filter Q (map s xs)" by (simp add: P filter_map)
  also have "\<dots> = map s (filter P ys)" by (simp add: P filter_map assms(1))
  finally show ?thesis .
qed

lemma in_via:
  assumes "map s xs = map s ys" and "x \<in> set xs"
  shows "\<exists>y \<in> set ys. s y = s x"
proof -
  from assms(2) have "s x \<in> set (map s xs)" by simp
  then show ?thesis unfolding assms(1) by auto
qed

lemma find_SomeD: "List.find P xs = Some x \<Longrightarrow> x \<in> set xs \<and> P x"
  by (induction xs) (auto split: if_splits)

lemma find_eq_NoneD: "List.find P xs = None \<Longrightarrow> x \<in> set xs \<Longrightarrow> \<not> P x"
  by (induction xs) (auto split: if_splits)

lemma find_first:
  "List.find P xs = Some x \<Longrightarrow> \<exists>ys zs. xs = ys @ x # zs \<and> P x \<and> (\<forall>y \<in> set ys. \<not> P y)"
proof (induction xs)
  case (Cons a xs)
  show ?case
  proof (cases "P a")
    case True
    with Cons.prems show ?thesis by fastforce
  next
    case False
    with Cons obtain ys zs where "xs = ys @ x # zs" "P x" "\<forall>y \<in> set ys. \<not> P y"
      by auto
    with False have "a # xs = (a # ys) @ x # zs \<and> P x \<and> (\<forall>y \<in> set (a # ys). \<not> P y)"
      by simp
    then show ?thesis by blast
  qed
qed simp

text \<open>Row update: every row with the given key is replaced by its image under \<open>f\<close>.\<close>

definition update_where :: "('a \<Rightarrow> bool) \<Rightarrow> ('a \<Rightarrow> 'a) \<Rightarrow> 'a list \<Rightarrow> 'a list" where
  "update_where P f xs = map (\<lambda>x. if P x then f x else x) xs"

lemma update_where_simps [simp]:
  "update_where P f [] = []"
  "update_where P f (x # xs) = (if P x then f x else x) # update_where P f xs"
  "update_where P f (xs @ ys) = update_where P f xs @ update_where P f ys"
  "length (update_where P f xs) = length xs"
  by (simp_all add: update_where_def)

lemma in_update_where:
  "y \<in> set (update_where P f xs) \<longleftrightarrow> (\<exists>x \<in> set xs. y = (if P x then f x else x))"
  by (auto simp: update_where_def)

lemma map_update_where:
  "(\<And>x. g (f x) = g x) \<Longrightarrow> map g (update_where P f xs) = map g xs"
  by (simp add: update_where_def)

lemma filter_update_where:
  "(\<And>x. Q (f x) = Q x) \<Longrightarrow> filter Q (update_where P f xs) = update_where P f (filter Q xs)"
  by (induction xs) (auto simp: update_where_def)

lemma update_where_id: "(\<And>x. x \<in> set xs \<Longrightarrow> P x \<Longrightarrow> f x = x) \<Longrightarrow> update_where P f xs = xs"
  by (simp add: update_where_def map_idI)

end
