(* ===== verification/PyStr.thy ===== *)
theory PyStr
  imports Prelude
begin

text \<open>
  The string operations of Python that the source uses, on \<open>string\<close> (lists of bytes).  A
  Python \<open>str\<close> is represented by its UTF-8 bytes; classification and case mapping act on
  the ASCII range, and the few non-ASCII punctuation marks of the source's literals (the em dash,
  the middle dot) are written out as their UTF-8 bytes.  Holds the lemmas that the matching and
  key-building components rest on.
\<close>

section \<open>Characters\<close>

abbreviation code_of :: "char \<Rightarrow> nat" where
  "code_of c \<equiv> of_char c"

text \<open>\<open>str.isspace\<close> on ASCII: tab to carriage return, the separators 28 to 31, blank.\<close>

definition is_space :: "char \<Rightarrow> bool" where
  "is_space c = (let n = code_of c in (9 \<le> n \<and> n \<le> 13) \<or> (28 \<le> n \<and> n \<le> 32))"

definition is_digit :: "char \<Rightarrow> bool" where
  "is_digit c = (let n = code_of c in 48 \<le> n \<and> n \<le> 57)"

definition is_upper :: "char \<Rightarrow> bool" where
  "is_upper c = (let n = code_of c in 65 \<le> n \<and> n \<le> 90)"

definition is_lower :: "char \<Rightarrow> bool" where
  "is_lower c = (let n = code_of c in 97 \<le> n \<and> n \<le> 122)"

definition is_alpha :: "char \<Rightarrow> bool" where
  "is_alpha c = (is_upper c \<or> is_lower c)"

definition is_alnum :: "char \<Rightarrow> bool" where
  "is_alnum c = (is_alpha c \<or> is_digit c)"

definition lower_char :: "char \<Rightarrow> char" where
  "lower_char c = (if is_upper c then char_of (code_of c + 32) else c)"

definition upper_char :: "char \<Rightarrow> char" where
  "upper_char c = (if is_lower c then char_of (code_of c - 32) else c)"

definition emdash :: string where
  "emdash = [CHR 0xE2, CHR 0x80, CHR 0x94]"

definition middot :: string where
  "middot = [CHR 0xC2, CHR 0xB7]"

lemma code_of_char_of [simp]: "n < 256 \<Longrightarrow> code_of (char_of n) = (n::nat)"
  by simp

lemma not_upper_lower_char [simp]: "\<not> is_upper (lower_char c)"
  by (auto simp: lower_char_def is_upper_def Let_def)

lemma not_lower_upper_char [simp]: "\<not> is_lower (upper_char c)"
  by (auto simp: upper_char_def is_lower_def Let_def)

lemma lower_char_idem [simp]: "lower_char (lower_char c) = lower_char c"
  using not_upper_lower_char [of c] by (simp add: lower_char_def [of "lower_char c"])

lemma upper_char_idem [simp]: "upper_char (upper_char c) = upper_char c"
  using not_lower_upper_char [of c] by (simp add: upper_char_def [of "upper_char c"])

section \<open>Case\<close>

definition lower :: "string \<Rightarrow> string" where
  "lower s = map lower_char s"

definition upper :: "string \<Rightarrow> string" where
  "upper s = map upper_char s"

lemma lower_idem [simp]: "lower (lower s) = lower s"
  by (simp add: lower_def)

lemma upper_idem [simp]: "upper (upper s) = upper s"
  by (simp add: upper_def)

lemma lower_Nil [simp]: "lower [] = []" "lower s = [] \<longleftrightarrow> s = []"
  by (simp_all add: lower_def)

lemma upper_Nil [simp]: "upper [] = []" "upper s = [] \<longleftrightarrow> s = []"
  by (simp_all add: upper_def)

section \<open>Stripping\<close>

definition lstrip_if :: "(char \<Rightarrow> bool) \<Rightarrow> string \<Rightarrow> string" where
  "lstrip_if p s = dropWhile p s"

definition rstrip_if :: "(char \<Rightarrow> bool) \<Rightarrow> string \<Rightarrow> string" where
  "rstrip_if p s = rev (dropWhile p (rev s))"

definition strip_if :: "(char \<Rightarrow> bool) \<Rightarrow> string \<Rightarrow> string" where
  "strip_if p s = rstrip_if p (lstrip_if p s)"

definition strip :: "string \<Rightarrow> string" where
  "strip s = strip_if is_space s"

definition strip_chars :: "string \<Rightarrow> string \<Rightarrow> string" where
  "strip_chars cs s = strip_if (\<lambda>c. c \<in> set cs) s"

lemma set_rstrip_if: "set (rstrip_if p s) \<subseteq> set s"
  unfolding rstrip_if_def using set_dropWhileD [of _ p "rev s"] by auto

lemma set_strip_if: "set (strip_if p s) \<subseteq> set s"
  unfolding strip_if_def lstrip_if_def using set_rstrip_if set_dropWhileD by fastforce

lemma strip_if_Nil [simp]: "strip_if p [] = []"
  by (simp add: strip_if_def lstrip_if_def rstrip_if_def)

lemma strip_if_eq_Nil: "strip_if p s = [] \<longleftrightarrow> (\<forall>c \<in> set s. p c)"
proof -
  have "strip_if p s = [] \<longleftrightarrow> (\<forall>c \<in> set (dropWhile p s). p c)"
    by (simp add: strip_if_def lstrip_if_def rstrip_if_def dropWhile_eq_Nil_conv)
  also have "\<dots> \<longleftrightarrow> (\<forall>c \<in> set s. p c)"
    by (induction s) auto
  finally show ?thesis .
qed

lemma rstrip_if_no_last: "rstrip_if p s \<noteq> [] \<Longrightarrow> \<not> p (last (rstrip_if p s))"
  unfolding rstrip_if_def using hd_dropWhile [of p "rev s"]
  by (simp add: last_rev)

lemma strip_if_no_hd: "strip_if p s \<noteq> [] \<Longrightarrow> \<not> p (hd (strip_if p s))"
proof -
  assume ne: "strip_if p s \<noteq> []"
  define t where "t = dropWhile p s"
  have r: "strip_if p s = rev (dropWhile p (rev t))"
    by (simp add: strip_if_def lstrip_if_def rstrip_if_def t_def)
  obtain u where u: "t = strip_if p s @ u"
    using takeWhile_dropWhile_id [of p "rev t"] r
    by (metis rev_append rev_rev_ident)
  from ne u have "t \<noteq> []" by auto
  then have "\<not> p (hd t)"
    using hd_dropWhile [of p s] by (simp add: t_def)
  with ne u show ?thesis by (metis hd_append2)
qed

lemma strip_Nil [simp]: "strip [] = []"
  by (simp add: strip_def)

section \<open>Splitting and joining\<close>

text \<open>\<open>s.split(c)\<close> for a one-character separator: never empty.\<close>

fun split_on :: "char \<Rightarrow> string \<Rightarrow> string list" where
  "split_on c [] = [[]]"
| "split_on c (x # xs) =
     (if x = c then [] # split_on c xs
      else (case split_on c xs of [] \<Rightarrow> [[x]] | w # ws \<Rightarrow> (x # w) # ws))"

fun join :: "string \<Rightarrow> string list \<Rightarrow> string" where
  "join sep [] = []"
| "join sep [w] = w"
| "join sep (w # v # ws) = w @ sep @ join sep (v # ws)"

text \<open>\<open>s.split()\<close>: the maximal runs of non-space characters.\<close>

function split_ws :: "string \<Rightarrow> string list" where
  "split_ws s =
     (let t = dropWhile is_space s in
      if t = [] then []
      else takeWhile (\<lambda>c. \<not> is_space c) t # split_ws (dropWhile (\<lambda>c. \<not> is_space c) t))"
  by pat_completeness auto
termination
proof (relation "measure length", goal_cases)
  case (2 s t)
  then have "t \<noteq> []" by simp
  with 2 have "\<not> is_space (hd t)"
    using hd_dropWhile [of is_space s] by blast
  with \<open>t \<noteq> []\<close> have "length (dropWhile (\<lambda>c. \<not> is_space c) t) < length t"
    by (cases t) (auto simp: le_imp_less_Suc length_dropWhile_le)
  moreover have "length t \<le> length s"
    using 2 by (simp add: length_dropWhile_le)
  ultimately show ?case by simp
qed simp

declare split_ws.simps [simp del]

lemma split_on_neq_Nil [simp]: "split_on c s \<noteq> []"
  by (induction s) (auto split: list.splits)

lemma join_split_on: "join [c] (split_on c s) = s"
proof (induction s)
  case (Cons x xs)
  obtain w ws where w: "split_on c xs = w # ws"
    by (cases "split_on c xs") auto
  with Cons.IH show ?case by (cases ws) auto
qed simp

lemma split_on_no_sep: "w \<in> set (split_on c s) \<Longrightarrow> c \<notin> set w"
  by (induction s arbitrary: w) (auto split: list.splits if_splits)

lemma split_on_single: "c \<notin> set s \<Longrightarrow> split_on c s = [s]"
  by (induction s) auto

lemma split_on_append:
  "c \<notin> set a \<Longrightarrow> split_on c (a @ c # b) = a # split_on c b"
  by (induction a) auto

lemma split_ws_tokens: "w \<in> set (split_ws s) \<Longrightarrow> w \<noteq> [] \<and> (\<forall>c \<in> set w. \<not> is_space c)"
proof (induction s rule: split_ws.induct)
  case (1 s)
  define t where "t = dropWhile is_space s"
  from "1.prems" have ne: "t \<noteq> []" and
    w: "w = takeWhile (\<lambda>c. \<not> is_space c) t \<or> w \<in> set (split_ws (dropWhile (\<lambda>c. \<not> is_space c) t))"
    by (auto simp: split_ws.simps [of s] Let_def t_def split: if_splits)
  from ne have hd: "\<not> is_space (hd t)"
    using hd_dropWhile unfolding t_def by blast
  from w show ?case
  proof
    assume "w = takeWhile (\<lambda>c. \<not> is_space c) t"
    with ne hd show ?thesis by (cases t) (auto dest: set_takeWhileD)
  next
    assume "w \<in> set (split_ws (dropWhile (\<lambda>c. \<not> is_space c) t))"
    with "1.IH" [OF t_def] ne show ?thesis by simp
  qed
qed

section \<open>Searching and replacing\<close>

definition startswith :: "string \<Rightarrow> string \<Rightarrow> bool" where
  "startswith s p = (take (length p) s = p)"

definition endswith :: "string \<Rightarrow> string \<Rightarrow> bool" where
  "endswith s p = (length p \<le> length s \<and> drop (length s - length p) s = p)"

text \<open>\<open>needle in hay\<close>\<close>

fun contains :: "string \<Rightarrow> string \<Rightarrow> bool" where
  "contains needle [] = (needle = [])"
| "contains needle (c # cs) = (startswith (c # cs) needle \<or> contains needle cs)"

definition replace_char :: "char \<Rightarrow> string \<Rightarrow> string \<Rightarrow> string" where
  "replace_char c r s = concat (map (\<lambda>x. if x = c then r else [x]) s)"

lemma startswith_iff: "startswith s p \<longleftrightarrow> (\<exists>t. s = p @ t)"
  unfolding startswith_def by (metis append_eq_conv_conj append_take_drop_id)

lemma startswith_Nil [simp]: "startswith s []"
  by (simp add: startswith_def)

lemma contains_iff: "contains n h \<longleftrightarrow> (\<exists>a b. h = a @ n @ b)"
proof (induction h)
  case (Cons c cs)
  show ?case
  proof
    assume "contains n (c # cs)"
    then consider "startswith (c # cs) n" | "contains n cs" by auto
    then show "\<exists>a b. c # cs = a @ n @ b"
    proof cases
      case 1
      then show ?thesis by (metis append_Nil startswith_iff)
    next
      case 2
      with Cons.IH obtain a b where "cs = a @ n @ b" by auto
      then have "c # cs = (c # a) @ n @ b" by simp
      then show ?thesis by blast
    qed
  next
    assume "\<exists>a b. c # cs = a @ n @ b"
    then obtain a b where ab: "c # cs = a @ n @ b" by blast
    show "contains n (c # cs)"
    proof (cases a)
      case Nil
      with ab have "startswith (c # cs) n" by (auto simp: startswith_iff)
      then show ?thesis by simp
    next
      case (Cons x xs)
      with ab have "cs = xs @ n @ b" by simp
      with Cons.IH show ?thesis by auto
    qed
  qed
qed simp

lemma contains_Nil [simp]: "contains [] h"
  by (cases h) auto

lemma replace_char_not_in: "c \<notin> set r \<Longrightarrow> c \<notin> set (replace_char c r s)"
  by (auto simp: replace_char_def)

lemma replace_char_id: "c \<notin> set s \<Longrightarrow> replace_char c r s = s"
  by (induction s) (auto simp: replace_char_def)

section \<open>Decimal numerals\<close>

fun show_nat :: "nat \<Rightarrow> string" where
  "show_nat n = (if n < 10 then [char_of (48 + n)] else show_nat (n div 10) @ [char_of (48 + n mod 10)])"

declare show_nat.simps [simp del]

definition show_int :: "int \<Rightarrow> string" where
  "show_int i = (if i < 0 then CHR ''-'' # show_nat (nat (- i)) else show_nat (nat i))"

lemma show_nat_digits: "\<forall>c \<in> set (show_nat n). is_digit c"
proof (induction n rule: show_nat.induct)
  case (1 n)
  have d: "is_digit (char_of (48 + k))" if "k < 10" for k :: nat
    using that by (simp add: is_digit_def Let_def)
  show ?case
  proof (cases "n < 10")
    case True
    then show ?thesis by (simp add: show_nat.simps [of n] d)
  next
    case False
    with 1 show ?thesis
      by (auto simp: show_nat.simps [of n] d)
  qed
qed

lemma show_nat_neq_Nil [simp]: "show_nat n \<noteq> []"
  by (simp add: show_nat.simps [of n])

end
