(* ===== verification/Uuid.thy ===== *)
theory Uuid
  imports PyStr
begin

text \<open>
  The text form of the identifiers, as Python's \<open>uuid\<close> module prints and reads it: 32 hex
  digits in groups of 8, 4, 4, 4 and 12, and the constructor \<open>uuid.UUID(text)\<close>, which drops
  the markers \<open>urn:\<close> and \<open>uuid:\<close>, outer braces and all dashes and wants 32 hex
  digits.  (Python hands the 32 characters to \<open>int(hex, 16)\<close>, which also takes a sign, a
  \<open>0x\<close> prefix, blanks and underscores among them; those spellings are not modelled.)  A UUID is a number below \<open>2 ^ 128\<close>; \<open>parse_uuid\<close> reads back what
  \<open>uuid_str\<close> prints.
\<close>

definition hex_digit :: "nat \<Rightarrow> char" where
  "hex_digit n = (if n < 10 then char_of (48 + n) else char_of (87 + n))"

definition hex_value :: "char \<Rightarrow> nat option" where
  "hex_value c =
     (let n = code_of c in
      if 48 \<le> n \<and> n \<le> 57 then Some (n - 48)
      else if 97 \<le> n \<and> n \<le> 102 then Some (n - 87)
      else if 65 \<le> n \<and> n \<le> 70 then Some (n - 55)
      else None)"

text \<open>\<open>k\<close> hex digits of \<open>n\<close>, most significant first.\<close>

fun hex_fixed :: "nat \<Rightarrow> nat \<Rightarrow> string" where
  "hex_fixed 0 n = []"
| "hex_fixed (Suc k) n = hex_fixed k (n div 16) @ [hex_digit (n mod 16)]"

fun hex_parse :: "nat \<Rightarrow> string \<Rightarrow> nat option" where
  "hex_parse acc [] = Some acc"
| "hex_parse acc (c # cs) =
     (case hex_value c of None \<Rightarrow> None | Some v \<Rightarrow> hex_parse (16 * acc + v) cs)"

definition uuid_str :: "uuid \<Rightarrow> string" where
  "uuid_str n =
     (let h = hex_fixed 32 n in
      take 8 h @ ''-'' @ take 4 (drop 8 h) @ ''-'' @ take 4 (drop 12 h) @ ''-'' @
      take 4 (drop 16 h) @ ''-'' @ drop 20 h)"

text \<open>\<open>s.replace(pat, '')\<close> for a non-empty pattern.\<close>

function remove_all :: "string \<Rightarrow> string \<Rightarrow> string" where
  "remove_all pat s =
     (case s of [] \<Rightarrow> []
      | c # cs \<Rightarrow> if pat \<noteq> [] \<and> startswith s pat then remove_all pat (drop (length pat) s)
                  else c # remove_all pat cs)"
  by pat_completeness auto
termination
  by (relation "measure (\<lambda>(pat, s). length s)") auto

declare remove_all.simps [simp del]

definition parse_uuid :: "string \<Rightarrow> uuid option" where
  "parse_uuid text =
     (let hex = remove_all ''uuid:'' (remove_all ''urn:'' text);
          hex' = replace_char (CHR ''-'') [] (strip_chars ''{}'' hex)
      in if length hex' \<noteq> 32 then None else hex_parse 0 hex')"

section \<open>Printing and reading agree\<close>

lemma length_hex_fixed [simp]: "length (hex_fixed k n) = k"
  by (induction k arbitrary: n) auto

lemma code_of_hex_digit: "n < 16 \<Longrightarrow> code_of (hex_digit n) = (if n < 10 then 48 + n else 87 + n)"
  by (simp add: hex_digit_def)

lemma hex_value_hex_digit [simp]: "n < 16 \<Longrightarrow> hex_value (hex_digit n) = Some n"
  by (auto simp: hex_value_def code_of_hex_digit Let_def)

lemma hex_parse_append:
  "hex_parse acc (xs @ ys) = (case hex_parse acc xs of None \<Rightarrow> None | Some v \<Rightarrow> hex_parse v ys)"
  by (induction xs arbitrary: acc) (auto split: option.splits)

lemma hex_parse_hex_fixed: "hex_parse acc (hex_fixed k n) = Some (acc * 16 ^ k + n mod 16 ^ k)"
proof (induction k arbitrary: n)
  case (Suc k)
  have "n mod 16 ^ Suc k = 16 * (n div 16 mod 16 ^ k) + n mod 16"
    using mod_mult2_eq [of n 16 "16 ^ k"] by simp
  with Suc show ?case
    by (simp add: hex_parse_append algebra_simps)
qed simp

definition is_hex_lower :: "char \<Rightarrow> bool" where
  "is_hex_lower c = (let n = code_of c in (48 \<le> n \<and> n \<le> 57) \<or> (97 \<le> n \<and> n \<le> 102))"

lemma is_hex_lower_hex_digit: "n < 16 \<Longrightarrow> is_hex_lower (hex_digit n)"
  unfolding is_hex_lower_def Let_def by (simp add: code_of_hex_digit)

lemma set_hex_fixed: "c \<in> set (hex_fixed k n) \<Longrightarrow> is_hex_lower c"
  by (induction k arbitrary: n) (auto simp: is_hex_lower_hex_digit)

lemma set_uuid_str: "c \<in> set (uuid_str n) \<Longrightarrow> is_hex_lower c \<or> c = CHR ''-''"
  by (auto simp: uuid_str_def Let_def dest!: in_set_takeD in_set_dropD set_hex_fixed)

lemma length_uuid_str [simp]: "length (uuid_str n) = 36"
  by (simp add: uuid_str_def Let_def)

lemma remove_all_id: "hd pat \<notin> set s \<Longrightarrow> remove_all pat s = s"
proof (induction s)
  case (Cons c cs)
  then have "\<not> (pat \<noteq> [] \<and> startswith (c # cs) pat)"
    by (cases pat) (auto simp: startswith_iff)
  with Cons show ?case by (subst remove_all.simps) auto
qed (simp add: remove_all.simps)

lemma strip_if_id: "(\<And>c. c \<in> set s \<Longrightarrow> \<not> p c) \<Longrightarrow> strip_if p s = s"
proof -
  assume np: "\<And>c. c \<in> set s \<Longrightarrow> \<not> p c"
  then have "dropWhile p s = s" "dropWhile p (rev s) = rev s"
    by (cases s, simp, simp) (cases "rev s", simp, use np in force)
  then show ?thesis by (simp add: strip_if_def lstrip_if_def rstrip_if_def)
qed

lemma replace_dash_uuid_str: "replace_char (CHR ''-'') [] (uuid_str n) = hex_fixed 32 n"
proof -
  define h where "h = hex_fixed 32 n"
  have nd: "CHR ''-'' \<notin> set h"
    using set_hex_fixed [of "CHR ''-''" 32 n] by (auto simp: h_def is_hex_lower_def)
  have id: "replace_char (CHR ''-'') [] (take i (drop j h)) = take i (drop j h)"
      "replace_char (CHR ''-'') [] (drop j h) = drop j h"
      "replace_char (CHR ''-'') [] (take i h) = take i h" for i j
    using nd by (auto intro!: replace_char_id dest: in_set_takeD in_set_dropD)
  have app: "replace_char c r (a @ b) = replace_char c r a @ replace_char c r b" for c r a b
    by (simp add: replace_char_def)
  have dash: "replace_char (CHR ''-'') [] ''-'' = []"
    by (simp add: replace_char_def)
  have "take 8 h @ take 4 (drop 8 h) @ take 4 (drop 12 h) @ take 4 (drop 16 h) @ drop 20 h = h"
    using append_take_drop_id [of 8 h] append_take_drop_id [of 4 "drop 8 h"]
      append_take_drop_id [of 4 "drop 12 h"] append_take_drop_id [of 4 "drop 16 h"]
    by simp
  then show ?thesis
    unfolding uuid_str_def Let_def h_def [symmetric] app dash id by simp
qed

lemma parse_uuid_str: "n < 2 ^ 128 \<Longrightarrow> parse_uuid (uuid_str n) = Some n"
proof -
  assume n: "n < 2 ^ 128"
  have no: "c \<notin> set (uuid_str n)" if "\<not> is_hex_lower c" "c \<noteq> CHR ''-''" for c
    using set_uuid_str [of c n] that by blast
  have u: "CHR ''u'' \<notin> set (uuid_str n)"
    by (rule no) (simp_all add: is_hex_lower_def)
  have br: "strip_chars ''{}'' (uuid_str n) = uuid_str n"
    unfolding strip_chars_def by (rule strip_if_id) (use no in \<open>auto simp: is_hex_lower_def\<close>)
  have "hex_parse 0 (hex_fixed 32 n) = Some (n mod 16 ^ 32)"
    using hex_parse_hex_fixed [of 0 32 n] by simp
  moreover have "n mod 16 ^ 32 = n"
    using n by simp
  ultimately show ?thesis
    using u br by (simp add: parse_uuid_def Let_def remove_all_id replace_dash_uuid_str)
qed

lemma uuid_str_inj: "m < 2 ^ 128 \<Longrightarrow> n < 2 ^ 128 \<Longrightarrow> uuid_str m = uuid_str n \<Longrightarrow> m = n"
  by (metis option.inject parse_uuid_str)

end
