(* ===== verification/Contracts.thy ===== *)
theory Contracts
  imports Uuid Complex_Main
begin

text \<open>
  The vocabularies and payload shapes of \<open>engine/contracts.py\<close>,
  \<open>engine/schemas.py\<close> and \<open>engine/errors.py\<close>: status, outcome and confidence
  enumerations with their wire values, the engine exceptions with the code and HTTP status they
  carry, and the records of the request and response models.
\<close>

section \<open>Enumerations of \<open>contracts.py\<close>\<close>

datatype step_status = Step_ok | Step_link | Step_empty | Step_error

datatype source_outcome =
  Out_auto | Out_link_only | Out_blocked | Out_broken | Out_retryable | Out_manual_review

datatype confidence = Conf_high | Conf_medium | Conf_low | Conf_none

datatype run_state =
  Run_queued | Run_running | Run_completed | Run_partial | Run_failed | Run_reviewed | Run_archived

section \<open>Enumerations of \<open>schemas.py\<close>\<close>

datatype job_status =
  Job_queued | Job_running | Job_completed | Job_partial | Job_failed | Job_cancelling
| Job_cancelled | Job_reviewed | Job_archived

datatype doc_status =
  Doc_queued | Doc_fetching | Doc_fetched | Doc_uploading | Doc_uploaded | Doc_failed | Doc_skipped

datatype error_code =
  ORDER_NOT_FOUND | ORDER_NOT_RESEARCHABLE | INVALID_DOC_TYPES | JOB_NOT_FOUND
| JOB_NOT_RETRYABLE | JOB_NOT_CANCELLABLE | IDEMPOTENCY_CONFLICT | MISSING_ADDRESS
| GEOCODE_FAILED | PARCEL_NOT_FOUND | DEED_UNAVAILABLE | PLAT_UNAVAILABLE
| FLOOD_UNAVAILABLE | APPRAISER_UNAVAILABLE | SOURCE_UNAVAILABLE | S3_UPLOAD_FAILED | TIMEOUT
| INTERNAL_ERROR | RATE_LIMITED

fun job_status_value :: "job_status \<Rightarrow> string" where
  "job_status_value Job_queued = ''queued''"
| "job_status_value Job_running = ''running''"
| "job_status_value Job_completed = ''completed''"
| "job_status_value Job_partial = ''partial''"
| "job_status_value Job_failed = ''failed''"
| "job_status_value Job_cancelling = ''cancelling''"
| "job_status_value Job_cancelled = ''cancelled''"
| "job_status_value Job_reviewed = ''reviewed''"
| "job_status_value Job_archived = ''archived''"

fun doc_status_value :: "doc_status \<Rightarrow> string" where
  "doc_status_value Doc_queued = ''queued''"
| "doc_status_value Doc_fetching = ''fetching''"
| "doc_status_value Doc_fetched = ''fetched''"
| "doc_status_value Doc_uploading = ''uploading''"
| "doc_status_value Doc_uploaded = ''uploaded''"
| "doc_status_value Doc_failed = ''failed''"
| "doc_status_value Doc_skipped = ''skipped''"

text \<open>The wire value of a code (\<open>code.value\<close>), and \<open>ResearchErrorCode(value)\<close>.\<close>

fun error_code_value :: "error_code \<Rightarrow> string" where
  "error_code_value ORDER_NOT_FOUND = ''ORDER_NOT_FOUND''"
| "error_code_value ORDER_NOT_RESEARCHABLE = ''ORDER_NOT_RESEARCHABLE''"
| "error_code_value INVALID_DOC_TYPES = ''INVALID_DOC_TYPES''"
| "error_code_value JOB_NOT_FOUND = ''JOB_NOT_FOUND''"
| "error_code_value JOB_NOT_RETRYABLE = ''JOB_NOT_RETRYABLE''"
| "error_code_value JOB_NOT_CANCELLABLE = ''JOB_NOT_CANCELLABLE''"
| "error_code_value IDEMPOTENCY_CONFLICT = ''IDEMPOTENCY_CONFLICT''"
| "error_code_value MISSING_ADDRESS = ''MISSING_ADDRESS''"
| "error_code_value GEOCODE_FAILED = ''GEOCODE_FAILED''"
| "error_code_value PARCEL_NOT_FOUND = ''PARCEL_NOT_FOUND''"
| "error_code_value DEED_UNAVAILABLE = ''DEED_UNAVAILABLE''"
| "error_code_value PLAT_UNAVAILABLE = ''PLAT_UNAVAILABLE''"
| "error_code_value FLOOD_UNAVAILABLE = ''FLOOD_UNAVAILABLE''"
| "error_code_value APPRAISER_UNAVAILABLE = ''APPRAISER_UNAVAILABLE''"
| "error_code_value SOURCE_UNAVAILABLE = ''SOURCE_UNAVAILABLE''"
| "error_code_value S3_UPLOAD_FAILED = ''S3_UPLOAD_FAILED''"
| "error_code_value TIMEOUT = ''TIMEOUT''"
| "error_code_value INTERNAL_ERROR = ''INTERNAL_ERROR''"
| "error_code_value RATE_LIMITED = ''RATE_LIMITED''"

definition error_codes :: "error_code list" where
  "error_codes =
    [ORDER_NOT_FOUND, ORDER_NOT_RESEARCHABLE, INVALID_DOC_TYPES, JOB_NOT_FOUND,
     JOB_NOT_RETRYABLE, JOB_NOT_CANCELLABLE, IDEMPOTENCY_CONFLICT, MISSING_ADDRESS,
     GEOCODE_FAILED, PARCEL_NOT_FOUND, DEED_UNAVAILABLE, PLAT_UNAVAILABLE,
     FLOOD_UNAVAILABLE, APPRAISER_UNAVAILABLE, SOURCE_UNAVAILABLE, S3_UPLOAD_FAILED, TIMEOUT,
     INTERNAL_ERROR, RATE_LIMITED]"

definition error_code_of :: "string \<Rightarrow> error_code option" where
  "error_code_of v = List.find (\<lambda>c. error_code_value c = v) error_codes"

lemma error_code_of_value [simp]: "error_code_of (error_code_value c) = Some c"
  by (cases c) (simp_all add: error_code_of_def error_codes_def)

lemma error_code_of_SomeD: "error_code_of v = Some c \<Longrightarrow> error_code_value c = v"
  unfolding error_code_of_def by (drule find_SomeD) simp

section \<open>Engine exceptions\<close>

text \<open>
  \<open>errors.py\<close>: each subclass of \<open>ResearchEngineError\<close> fixes a code and an HTTP
  status.  The text given to the constructor goes to \<open>Exception.__init__\<close>, so it is what
  \<open>str(exc)\<close> prints; the class attribute \<open>message\<close> keeps its default except in
  \<open>DocumentFetchError\<close>, which assigns it.
\<close>

datatype engine_error =
  OrderNotFoundError string
| OrderNotResearchableError string
| InvalidDocTypesError string
| JobNotFoundError string
| JobNotRetryableError string
| JobNotCancellableError string
| IdempotencyConflictError string
| MissingAddressError string
| DocumentFetchError error_code string bool

fun err_code :: "engine_error \<Rightarrow> error_code" where
  "err_code (OrderNotFoundError _) = ORDER_NOT_FOUND"
| "err_code (OrderNotResearchableError _) = ORDER_NOT_RESEARCHABLE"
| "err_code (InvalidDocTypesError _) = INVALID_DOC_TYPES"
| "err_code (JobNotFoundError _) = JOB_NOT_FOUND"
| "err_code (JobNotRetryableError _) = JOB_NOT_RETRYABLE"
| "err_code (JobNotCancellableError _) = JOB_NOT_CANCELLABLE"
| "err_code (IdempotencyConflictError _) = IDEMPOTENCY_CONFLICT"
| "err_code (MissingAddressError _) = MISSING_ADDRESS"
| "err_code (DocumentFetchError c _ _) = c"

fun err_http_status :: "engine_error \<Rightarrow> nat" where
  "err_http_status (OrderNotFoundError _) = 404"
| "err_http_status (OrderNotResearchableError _) = 422"
| "err_http_status (InvalidDocTypesError _) = 422"
| "err_http_status (JobNotFoundError _) = 404"
| "err_http_status (JobNotRetryableError _) = 409"
| "err_http_status (JobNotCancellableError _) = 409"
| "err_http_status (IdempotencyConflictError _) = 409"
| "err_http_status (MissingAddressError _) = 422"
| "err_http_status (DocumentFetchError _ _ _) = 200"

text \<open>\<open>exc.message\<close>, the attribute the API handler reads.\<close>

fun err_message_attr :: "engine_error \<Rightarrow> string" where
  "err_message_attr (DocumentFetchError _ m _) = m"
| "err_message_attr _ = ''Internal error''"

text \<open>\<open>str(exc)\<close>, the text the raise site wrote.  \<open>DocumentFetchError\<close> never calls the base
  constructor with a text of its own: \<open>str\<close> then shows the constructor's arguments, which no
  code reads, so the model gives the empty string there.\<close>

fun err_str :: "engine_error \<Rightarrow> string" where
  "err_str (OrderNotFoundError m) = m"
| "err_str (OrderNotResearchableError m) = m"
| "err_str (InvalidDocTypesError m) = m"
| "err_str (JobNotFoundError m) = m"
| "err_str (JobNotRetryableError m) = m"
| "err_str (JobNotCancellableError m) = m"
| "err_str (IdempotencyConflictError m) = m"
| "err_str (MissingAddressError m) = m"
| "err_str (DocumentFetchError _ _ _) = []"

section \<open>Payload records of \<open>contracts.py\<close>\<close>

record provenance_record =
  pr_source_id :: string
  pr_provider :: string
  pr_url :: string
  pr_retrieved_utc :: string
  pr_attempt :: nat
  pr_fallback_chain :: "string list"
  pr_file :: "string option"
  pr_sha256 :: "string option"

record error_info =
  ei_code :: string
  ei_message :: string
  ei_retryable :: bool

section \<open>Request models of \<open>schemas.py\<close>\<close>

record create_request =
  cr_order_id :: uuid
  cr_document_types :: "string list"
  cr_idempotency_key :: "uuid option"
  cr_callback_url :: "string option"

record retry_request =
  rr_document_types :: "string list option"

record cancel_request =
  cq_reason :: "string option"

section \<open>Response models of \<open>schemas.py\<close>\<close>

record file_reference =
  fr_file_id :: uuid
  fr_order_file_id :: uuid
  fr_key :: string
  fr_filename :: string
  fr_size_bytes :: nat
  fr_sha256 :: string
  fr_mime_type :: string

record document_schema =
  ds_id :: uuid
  ds_doc_type :: string
  ds_status :: doc_status
  ds_source_outcome :: "source_outcome option"
  ds_confidence :: "confidence option"
  ds_file :: "file_reference option"
  ds_summary :: string
  ds_link :: string
  ds_link_label :: string
  ds_provenance :: "provenance_record list"
  ds_warnings :: "string list"
  ds_error_code :: "error_code option"
  ds_error_message :: "string option"
  ds_retryable :: bool
  ds_retry_count :: nat
  ds_fetched_at :: "timestamp option"

record job_schema =
  js_id :: uuid
  js_order_id :: uuid
  js_status :: job_status
  js_requested_doc_types :: "string list"
  js_total_documents :: nat
  js_fetched_documents :: nat
  js_uploaded_documents :: nat
  js_failed_documents :: nat
  js_cancelled_documents :: nat
  js_documents :: "document_schema list"
  js_started_at :: "timestamp option"
  js_completed_at :: "timestamp option"
  js_created_at :: timestamp
  js_updated_at :: timestamp
  js_created_by :: uuid
  js_error_code :: "error_code option"
  js_error_message :: "string option"
  js_cancel_reason :: "string option"

record job_summary =
  jm_id :: uuid
  jm_order_id :: uuid
  jm_status :: job_status
  jm_total_documents :: nat
  jm_fetched_documents :: nat
  jm_uploaded_documents :: nat
  jm_failed_documents :: nat
  jm_cancelled_documents :: nat
  jm_created_at :: timestamp
  jm_completed_at :: "timestamp option"
  jm_cancel_reason :: "string option"

record error_detail =
  ed_code :: string
  ed_message :: string

end
