(* ===== verification/Store.thy ===== *)
theory Store
  imports Contracts
begin

text \<open>
  The rows of \<open>engine/models.py\<close> (with the columns of \<open>db/base.py\<close> and
  \<open>db/mixins.py\<close>) and the queries of \<open>engine/repository.py\<close>.  A table is the
  list of its rows in insertion order; a query is a filter over it, in the order its
  \<open>ORDER BY\<close> gives (rows that the order does not separate stay in insertion order).  The
  database also carries its clock (seconds; \<open>func.now()\<close>) and the supply of
  \<open>uuid4\<close> values, a counter: the code relies on these values being new.

  The locale \<^verbatim>\<open>keyed_table\<close> is the contract of one table under \<open>save\<close>; it is interpreted for
  both tables, and the frame facts of the later theories come from it.
\<close>

section \<open>Rows\<close>

record job_row =
  j_id :: uuid
  j_tenant_id :: uuid
  j_order_id :: uuid
  j_idempotency_key :: uuid
  j_requested_doc_types :: "string list"
  j_status :: job_status
  j_total_documents :: nat
  j_fetched_documents :: nat
  j_uploaded_documents :: nat
  j_failed_documents :: nat
  j_cancelled_documents :: nat
  j_started_at :: "timestamp option"
  j_completed_at :: "timestamp option"
  j_error_code :: "string option"
  j_error_message :: "string option"
  j_cancel_reason :: "string option"
  j_callback_url :: "string option"
  j_callback_delivered :: bool
  j_created_by :: "uuid option"
  j_created_at :: timestamp
  j_updated_at :: timestamp
  j_deleted_at :: "timestamp option"

record doc_row =
  d_id :: uuid
  d_job_id :: uuid
  d_order_id :: uuid
  d_doc_type :: string
  d_status :: doc_status
  d_source_outcome :: "source_outcome option"
  d_confidence :: "confidence option"
  d_file_id :: "uuid option"
  d_order_file_id :: "uuid option"
  d_summary :: string
  d_link :: string
  d_link_label :: string
  d_provenance :: "provenance_record list"
  d_warnings :: "string list"
  d_error_code :: "string option"
  d_error_message :: "string option"
  d_retryable :: bool
  d_retry_count :: nat
  d_fetched_at :: "timestamp option"
  d_uploaded_at :: "timestamp option"
  d_created_at :: timestamp
  d_deleted_at :: "timestamp option"

record db =
  db_jobs :: "job_row list"
  db_docs :: "doc_row list"
  db_clock :: timestamp
  db_fresh :: uuid

text \<open>The only database error the code tells apart.\<close>

datatype db_error = IntegrityError

definition is_deleted :: "timestamp option \<Rightarrow> bool" where
  "is_deleted deleted_at = (deleted_at \<noteq> None)"

text \<open>The rows the mapped classes give a new object: every column default of the models.\<close>

definition new_job_row ::
  "uuid \<Rightarrow> timestamp \<Rightarrow> uuid \<Rightarrow> uuid \<Rightarrow> uuid \<Rightarrow> uuid \<Rightarrow> string list \<Rightarrow> string option \<Rightarrow> job_row" where
  "new_job_row i now order_id tenant_id created_by idempotency_key requested_doc_types callback_url =
     \<lparr> j_id = i, j_tenant_id = tenant_id, j_order_id = order_id,
       j_idempotency_key = idempotency_key, j_requested_doc_types = requested_doc_types,
       j_status = Job_queued, j_total_documents = length requested_doc_types,
       j_fetched_documents = 0, j_uploaded_documents = 0, j_failed_documents = 0,
       j_cancelled_documents = 0, j_started_at = None, j_completed_at = None,
       j_error_code = None, j_error_message = None, j_cancel_reason = None,
       j_callback_url = callback_url, j_callback_delivered = False,
       j_created_by = Some created_by, j_created_at = now, j_updated_at = now,
       j_deleted_at = None \<rparr>"

definition new_doc_row :: "uuid \<Rightarrow> timestamp \<Rightarrow> uuid \<Rightarrow> uuid \<Rightarrow> string \<Rightarrow> doc_row" where
  "new_doc_row i now job_id order_id doc_type =
     \<lparr> d_id = i, d_job_id = job_id, d_order_id = order_id, d_doc_type = doc_type,
       d_status = Doc_queued, d_source_outcome = None, d_confidence = None,
       d_file_id = None, d_order_file_id = None, d_summary = [], d_link = [],
       d_link_label = [], d_provenance = [], d_warnings = [], d_error_code = None,
       d_error_message = None, d_retryable = True, d_retry_count = 0, d_fetched_at = None,
       d_uploaded_at = None, d_created_at = now, d_deleted_at = None \<rparr>"

section \<open>\<open>ResearchJobRepository\<close>\<close>

definition job_get :: "db \<Rightarrow> uuid \<Rightarrow> uuid \<Rightarrow> job_row option" where
  "job_get db job_id tenant_id =
     List.find (\<lambda>j. j_id j = job_id \<and> j_tenant_id j = tenant_id \<and> j_deleted_at j = None)
       (db_jobs db)"

definition job_get_by_idempotency :: "db \<Rightarrow> uuid \<Rightarrow> uuid \<Rightarrow> job_row option" where
  "job_get_by_idempotency db idempotency_key tenant_id =
     List.find (\<lambda>j. j_idempotency_key j = idempotency_key \<and> j_tenant_id j = tenant_id \<and>
                  j_deleted_at j = None)
       (db_jobs db)"

definition job_list_for_order :: "db \<Rightarrow> uuid \<Rightarrow> uuid \<Rightarrow> job_row list" where
  "job_list_for_order db order_id tenant_id =
     sort_key (\<lambda>j. - int (j_created_at j))
       (filter (\<lambda>j. j_order_id j = order_id \<and> j_tenant_id j = tenant_id \<and>
                    j_deleted_at j = None) (db_jobs db))"

text \<open>
  The insert is refused by \<open>uq_research_job_idempotency_per_tenant\<close> when the tenant already
  has a row with the key, deleted rows included.
\<close>

definition job_create ::
  "db \<Rightarrow> uuid \<Rightarrow> uuid \<Rightarrow> uuid \<Rightarrow> uuid \<Rightarrow> string list \<Rightarrow> string option \<Rightarrow> db_error + job_row \<times> db" where
  "job_create db order_id tenant_id created_by idempotency_key requested_doc_types callback_url =
     (if \<exists>j \<in> set (db_jobs db). j_tenant_id j = tenant_id \<and> j_idempotency_key j = idempotency_key
      then Inl IntegrityError
      else
        let job = new_job_row (db_fresh db) (db_clock db) order_id tenant_id created_by
                    idempotency_key requested_doc_types callback_url
        in Inr (job, db\<lparr>db_jobs := db_jobs db @ [job], db_fresh := Suc (db_fresh db)\<rparr>))"

text \<open>\<open>save\<close> of an object already in the table writes its row, with \<open>onupdate=func.now()\<close>.\<close>

definition job_save :: "db \<Rightarrow> job_row \<Rightarrow> db" where
  "job_save db job =
     db\<lparr>db_jobs := update_where (\<lambda>j. j_id j = j_id job) (\<lambda>_. job\<lparr>j_updated_at := db_clock db\<rparr>)
                    (db_jobs db)\<rparr>"

definition job_list_stale_queued :: "db \<Rightarrow> nat \<Rightarrow> job_row list" where
  "job_list_stale_queued db minutes =
     filter (\<lambda>j. j_status j = Job_queued \<and>
                 int (j_created_at j) < int (db_clock db) - 60 * int minutes \<and>
                 j_deleted_at j = None) (db_jobs db)"

section \<open>\<open>ResearchDocumentRepository\<close>\<close>

definition doc_get :: "db \<Rightarrow> uuid \<Rightarrow> doc_row option" where
  "doc_get db doc_id = List.find (\<lambda>d. d_id d = doc_id) (db_docs db)"

definition doc_list_for_job :: "db \<Rightarrow> uuid \<Rightarrow> doc_row list" where
  "doc_list_for_job db job_id =
     sort_key d_created_at (filter (\<lambda>d. d_job_id d = job_id \<and> d_deleted_at d = None) (db_docs db))"

definition doc_list_failed :: "db \<Rightarrow> uuid \<Rightarrow> doc_row list" where
  "doc_list_failed db job_id =
     filter (\<lambda>d. d_job_id d = job_id \<and> d_status d = Doc_failed \<and> d_deleted_at d = None)
       (db_docs db)"

text \<open>Refused by \<open>uq_research_doc_per_job_type\<close>, or by the foreign key on the job.\<close>

definition doc_create :: "db \<Rightarrow> uuid \<Rightarrow> uuid \<Rightarrow> string \<Rightarrow> db_error + doc_row \<times> db" where
  "doc_create db job_id order_id doc_type =
     (if (\<exists>d \<in> set (db_docs db). d_job_id d = job_id \<and> d_doc_type d = doc_type) \<or>
         \<not> (\<exists>j \<in> set (db_jobs db). j_id j = job_id)
      then Inl IntegrityError
      else
        let doc = new_doc_row (db_fresh db) (db_clock db) job_id order_id doc_type
        in Inr (doc, db\<lparr>db_docs := db_docs db @ [doc], db_fresh := Suc (db_fresh db)\<rparr>))"

definition doc_save :: "db \<Rightarrow> doc_row \<Rightarrow> db" where
  "doc_save db doc =
     db\<lparr>db_docs := update_where (\<lambda>d. d_id d = d_id doc) (\<lambda>_. doc) (db_docs db)\<rparr>"

section \<open>The contract of a table\<close>

text \<open>
  What a client of \<open>save\<close> relies on: the row with the object's key takes the object's value
  (up to columns the database stamps, \<open>stamp\<close>), every other row stays, no row appears or
  disappears.
\<close>

locale keyed_table =
  fixes rows :: "'d \<Rightarrow> 'r list"
    and key :: "'r \<Rightarrow> uuid"
    and save :: "'d \<Rightarrow> 'r \<Rightarrow> 'd"
    and stamp :: "'d \<Rightarrow> 'r \<Rightarrow> 'r"
  assumes rows_save: "rows (save d r) = update_where (\<lambda>x. key x = key r) (\<lambda>_. stamp d r) (rows d)"
    and key_stamp: "key (stamp d r) = key r"
begin

lemma length_save [simp]: "length (rows (save d r)) = length (rows d)"
  by (simp add: rows_save)

lemma keys_save: "map key (rows (save d r)) = map key (rows d)"
  by (auto simp: rows_save update_where_def key_stamp)

lemma in_save:
  "x \<in> set (rows (save d r)) \<longleftrightarrow>
     (x \<in> set (rows d) \<and> key x \<noteq> key r) \<or> (x = stamp d r \<and> key r \<in> key ` set (rows d))"
proof
  assume "x \<in> set (rows (save d r))"
  then obtain y where "y \<in> set (rows d)" "x = (if key y = key r then stamp d r else y)"
    by (auto simp: rows_save in_update_where)
  then show "(x \<in> set (rows d) \<and> key x \<noteq> key r) \<or> (x = stamp d r \<and> key r \<in> key ` set (rows d))"
    by (cases "key y = key r") (metis imageI, simp)
next
  assume "(x \<in> set (rows d) \<and> key x \<noteq> key r) \<or> (x = stamp d r \<and> key r \<in> key ` set (rows d))"
  then show "x \<in> set (rows (save d r))"
    by (auto simp: rows_save in_update_where)
qed

lemma save_other:
  assumes "key x \<noteq> key r"
  shows "x \<in> set (rows (save d r)) \<longleftrightarrow> x \<in> set (rows d)"
  using assms by (auto simp: in_save key_stamp)

lemma column_save:
  assumes "\<And>x. x \<in> set (rows d) \<Longrightarrow> key x = key r \<Longrightarrow> f (stamp d r) = f x"
  shows "map f (rows (save d r)) = map f (rows d)"
  using assms by (auto simp: rows_save update_where_def)

lemma filter_save:
  assumes "\<And>x. x \<in> set (rows d) \<Longrightarrow> key x = key r \<Longrightarrow> \<not> P x" and "\<not> P (stamp d r)"
  shows "filter P (rows (save d r)) = filter P (rows d)"
proof -
  have "filter P (update_where (\<lambda>x. key x = key r) (\<lambda>_. stamp d r) xs) = filter P xs"
    if "\<And>x. x \<in> set xs \<Longrightarrow> key x = key r \<Longrightarrow> \<not> P x" for xs
    using that assms(2) by (induction xs) auto
  with assms(1) show ?thesis by (simp add: rows_save)
qed

end

interpretation job_table: keyed_table db_jobs j_id job_save "\<lambda>db job. job\<lparr>j_updated_at := db_clock db\<rparr>"
  by unfold_locales (simp_all add: job_save_def)

interpretation doc_table: keyed_table db_docs d_id doc_save "\<lambda>_ doc. doc"
  by unfold_locales (simp_all add: doc_save_def)

section \<open>Facts about the queries\<close>

lemma job_getD:
  "job_get db i t = Some j \<Longrightarrow>
     j \<in> set (db_jobs db) \<and> j_id j = i \<and> j_tenant_id j = t \<and> j_deleted_at j = None"
  unfolding job_get_def by (drule find_SomeD) simp

lemma job_get_by_idempotencyD:
  "job_get_by_idempotency db k t = Some j \<Longrightarrow>
     j \<in> set (db_jobs db) \<and> j_idempotency_key j = k \<and> j_tenant_id j = t \<and> j_deleted_at j = None"
  unfolding job_get_by_idempotency_def by (drule find_SomeD) simp

lemma in_doc_list_for_job:
  "d \<in> set (doc_list_for_job db i) \<longleftrightarrow> d \<in> set (db_docs db) \<and> d_job_id d = i \<and> d_deleted_at d = None"
  by (auto simp: doc_list_for_job_def)

lemma in_doc_list_failed:
  "d \<in> set (doc_list_failed db i) \<longleftrightarrow>
     d \<in> set (db_docs db) \<and> d_job_id d = i \<and> d_status d = Doc_failed \<and> d_deleted_at d = None"
  by (auto simp: doc_list_failed_def)

lemma in_job_list_stale_queued:
  "j \<in> set (job_list_stale_queued db m) \<longleftrightarrow>
     j \<in> set (db_jobs db) \<and> j_status j = Job_queued \<and>
     int (j_created_at j) < int (db_clock db) - 60 * int m \<and> j_deleted_at j = None"
  by (auto simp: job_list_stale_queued_def)

lemma job_list_for_order_set:
  "j \<in> set (job_list_for_order db i t) \<longleftrightarrow>
     j \<in> set (db_jobs db) \<and> j_order_id j = i \<and> j_tenant_id j = t \<and> j_deleted_at j = None"
  by (auto simp: job_list_for_order_def)

lemma sorted_wrt_map_uminus:
  "sorted (map (\<lambda>x. - int (f x)) xs) \<Longrightarrow> sorted_wrt (\<lambda>x y. f x \<ge> f y) xs"
  by (induction xs) auto

lemma job_list_for_order_newest_first:
  "sorted_wrt (\<lambda>x y. j_created_at x \<ge> j_created_at y) (job_list_for_order db i t)"
  unfolding job_list_for_order_def by (rule sorted_wrt_map_uminus) simp

lemma save_frames [frame_simps, simp]:
  "db_docs (job_save db j) = db_docs db"
  "db_clock (job_save db j) = db_clock db"
  "db_fresh (job_save db j) = db_fresh db"
  "db_jobs (doc_save db d) = db_jobs db"
  "db_clock (doc_save db d) = db_clock db"
  "db_fresh (doc_save db d) = db_fresh db"
  by (simp_all add: job_save_def doc_save_def)

text \<open>A unique key makes \<open>get\<close> and membership agree.\<close>

lemma find_unique:
  assumes same: "\<And>y. P y \<Longrightarrow> f y = f x" and px: "P x"
    and "distinct (map f xs)" "x \<in> set xs"
  shows "List.find P xs = Some x"
  using assms(3,4)
proof (induction xs)
  case (Cons a xs)
  show ?case
  proof (cases "P a")
    case True
    then have "f a = f x" by (rule same)
    with Cons.prems have "a = x" by (metis distinct.simps(2) image_eqI list.set_map list.simps(9) set_ConsD)
    with True show ?thesis by simp
  next
    case False
    with Cons.prems px have "x \<in> set xs" by auto
    with Cons False show ?thesis by simp
  qed
qed simp

lemma job_get_unique:
  assumes "distinct (map j_id (db_jobs db))" "j \<in> set (db_jobs db)" "j_deleted_at j = None"
  shows "job_get db (j_id j) (j_tenant_id j) = Some j"
  unfolding job_get_def by (rule find_unique [where f = j_id]) (use assms in auto)

end
