(* ===== verification/Service.thy ===== *)
theory Service
  imports Store
begin

text \<open>
  \<open>engine/service.py\<close>: the domain records, the two job-state helpers, and the operations
  of \<open>ResearchService\<close> on the database and the task queue.  The document-type tables of
  \<open>engine/adapters.py\<close> stand here because \<open>_validate_doc_types\<close> reads them.
\<close>

section \<open>Domain records\<close>

record order_data =
  od_id :: uuid
  od_address_line_1 :: string
  od_address_line_2 :: "string option"
  od_city :: "string option"
  od_state :: "string option"
  od_zip_code :: "string option"
  od_county :: "string option"
  od_parcel_id :: "string option"
  od_lat :: "rat option"
  od_lon :: "rat option"
  od_survey_type :: "string option"

record fetched_document =
  fd_doc_type :: string
  fd_status :: doc_status
  fd_summary :: string
  fd_link :: string
  fd_link_label :: string
  fd_file_key :: "string option"
  fd_file_name :: "string option"
  fd_file_size :: "nat option"
  fd_sha256 :: string
  fd_mime_type :: "string option"
  fd_file_id :: "uuid option"
  fd_order_file_id :: "uuid option"
  fd_provenance :: "provenance_record list"
  fd_warnings :: "string list"
  fd_error_code :: "error_code option"
  fd_error_message :: "string option"
  fd_retryable :: bool

text \<open>A published Celery task of \<open>research_job\<close>.\<close>

record task =
  tk_job_id :: uuid
  tk_tenant_id :: uuid
  tk_actor_id :: uuid

text \<open>What an API request reads and writes: the database and the broker's queue.\<close>

record engine_state =
  es_db :: db
  es_queue :: "task list"

text \<open>
  The injected dependencies the API operations use: the order provider (\<open>None\<close> when not
  configured) and whether an \<open>enqueue\<close> callable is wired in.
\<close>

record service =
  sv_order_provider :: "(uuid \<Rightarrow> uuid \<Rightarrow> order_data option) option"
  sv_enqueue :: bool

section \<open>Document types\<close>

definition STEP_TO_DOC_TYPE :: "(string \<times> string) list" where
  "STEP_TO_DOC_TYPE =
    [(''parcel'', ''PARCEL_RECORD''),
     (''appraiser'', ''PROPERTY_APPRAISER_TAX_RECORD''),
     (''plat'', ''RECORDED_PLAT_SUBDIVISION_MAP''),
     (''deed'', ''DEED_SUBJECT_PARCEL''),
     (''flood'', ''FEMA_FLOOD_ZONE_FIRM''),
     (''benchmarks'', ''NGS_CONTROL'')]"

definition DOC_TYPE_TO_STEP :: "(string \<times> string) list" where
  "DOC_TYPE_TO_STEP = map (\<lambda>(k, v). (v, k)) STEP_TO_DOC_TYPE"

abbreviation doc_types_known :: "string list" where
  "doc_types_known \<equiv> map fst DOC_TYPE_TO_STEP"

lemma doc_types_known_eq:
  "doc_types_known =
    [''PARCEL_RECORD'', ''PROPERTY_APPRAISER_TAX_RECORD'', ''RECORDED_PLAT_SUBDIVISION_MAP'',
     ''DEED_SUBJECT_PARCEL'', ''FEMA_FLOOD_ZONE_FIRM'', ''NGS_CONTROL'']"
  by (simp add: DOC_TYPE_TO_STEP_def STEP_TO_DOC_TYPE_def)

lemma distinct_doc_types_known: "distinct doc_types_known"
  by (simp add: doc_types_known_eq)

lemma DOC_TYPE_TO_STEP_Some_iff:
  "map_of DOC_TYPE_TO_STEP t \<noteq> None \<longleftrightarrow> t \<in> set doc_types_known"
  by (simp add: map_of_eq_None_iff image_image image_iff)

section \<open>Job state helpers\<close>

definition recalc_job_counters :: "job_row \<Rightarrow> doc_row list \<Rightarrow> job_row" where
  "recalc_job_counters job docs =
     job\<lparr> j_total_documents := length docs,
          j_fetched_documents := count_if (\<lambda>d. d_status d \<in> {Doc_fetched, Doc_uploaded}) docs,
          j_uploaded_documents := count_if (\<lambda>d. d_status d = Doc_uploaded) docs,
          j_failed_documents := count_if (\<lambda>d. d_status d = Doc_failed) docs,
          j_cancelled_documents := count_if (\<lambda>d. d_status d = Doc_skipped) docs \<rparr>"

text \<open>
  The session argument of the source is used for one query only, the job's documents; the model
  takes that query (\<open>doc_list_for_job db\<close> on a database, the session's own view of it in the
  worker).  The subtraction of the source is on integers: \<open>uploaded_ok = total - failed - skipped\<close>.
\<close>

definition resolve_job_terminal_status :: "(uuid \<Rightarrow> doc_row list) \<Rightarrow> job_row \<Rightarrow> job_status" where
  "resolve_job_terminal_status list_for_job job =
     (if j_status job = Job_cancelling then Job_cancelled
      else
        let docs = list_for_job (j_id job);
            total = length docs
        in if total = 0 then Job_failed
           else
             let failed = count_if (\<lambda>d. d_status d = Doc_failed) docs;
                 uploaded_ok = int total - int failed
                               - int (count_if (\<lambda>d. d_status d = Doc_skipped) docs)
             in if failed = 0 then Job_completed
                else if uploaded_ok = 0 then Job_failed
                else Job_partial)"

section \<open>Validation\<close>

definition resolve_order ::
  "service \<Rightarrow> uuid \<Rightarrow> uuid \<Rightarrow> engine_error + order_data" where
  "resolve_order svc tenant_id order_id =
     (case sv_order_provider svc of
        None \<Rightarrow> Inl (OrderNotResearchableError ''Order provider not configured'')
      | Some provider \<Rightarrow>
          (case provider order_id tenant_id of
             None \<Rightarrow> Inl (OrderNotFoundError (''Order '' @ uuid_str order_id @ '' not found''))
           | Some order \<Rightarrow>
               if od_address_line_1 order = []
               then Inl (OrderNotResearchableError
                          (''Order has no address '' @ emdash @ '' cannot research''))
               else Inr order))"

text \<open>The loop of \<open>_validate_doc_types\<close>: the canonical names and the unknown ones, in order.\<close>

fun classify_doc_types :: "string list \<Rightarrow> string list \<times> string list" where
  "classify_doc_types [] = ([], [])"
| "classify_doc_types (t # ts) =
     (let (canonical, unknown) = classify_doc_types ts in
      if map_of DOC_TYPE_TO_STEP t \<noteq> None then (t # canonical, unknown)
      else (case map_of STEP_TO_DOC_TYPE (lower t) of
              Some d \<Rightarrow> (d # canonical, unknown)
            | None \<Rightarrow> (canonical, t # unknown)))"

definition validate_doc_types :: "string list \<Rightarrow> engine_error + string list" where
  "validate_doc_types doc_types =
     (if doc_types = [] then Inr (map fst DOC_TYPE_TO_STEP)
      else
        let (canonical, unknown) = classify_doc_types doc_types
        in if unknown \<noteq> []
           then Inl (InvalidDocTypesError
                      (''unsupported document_types: '' @ join '', '' (sort unknown) @
                       '' (supported: '' @ join '', '' (sort (map fst DOC_TYPE_TO_STEP)) @ '')''))
           else Inr (dict_fromkeys canonical))"

section \<open>Create\<close>

text \<open>The document rows of the new job, in request order, inside the same transaction.\<close>

fun create_documents :: "db \<Rightarrow> uuid \<Rightarrow> uuid \<Rightarrow> string list \<Rightarrow> db_error + db" where
  "create_documents db job_id order_id [] = Inr db"
| "create_documents db job_id order_id (t # ts) =
     (case doc_create db job_id order_id t of
        Inl e \<Rightarrow> Inl e
      | Inr (_, db') \<Rightarrow> create_documents db' job_id order_id ts)"

text \<open>
  The checks before the insert, on the database as the request found it: the order, the document
  types, and the idempotency pre-check (\<open>Some job\<close> is the early return).
\<close>

definition create_precheck ::
  "service \<Rightarrow> db \<Rightarrow> uuid \<Rightarrow> uuid \<Rightarrow> string list \<Rightarrow> uuid option \<Rightarrow>
     engine_error + (order_data \<times> string list \<times> job_row option)" where
  "create_precheck svc db tenant_id order_id doc_types idempotency_key =
     res_bind (resolve_order svc tenant_id order_id) (\<lambda>order.
     res_bind (validate_doc_types doc_types) (\<lambda>types.
     Inr (order, types,
          case idempotency_key of
            None \<Rightarrow> None
          | Some k \<Rightarrow> job_get_by_idempotency db k tenant_id)))"

text \<open>
  The \<open>try\<close> block: insert the job and its documents and commit, or, on an
  \<open>IntegrityError\<close>, roll back and look for the winner of the race.
  \<open>idempotency_key or uuid.uuid4()\<close> draws a new value when the request carries no key.
\<close>

definition create_insert ::
  "db \<Rightarrow> uuid \<Rightarrow> uuid \<Rightarrow> order_data \<Rightarrow> string list \<Rightarrow> uuid option \<Rightarrow> string option \<Rightarrow>
     engine_error + (job_row \<times> db \<times> bool)" where
  "create_insert db tenant_id actor_id order types idempotency_key callback_url =
     (let (key, db1) = (case idempotency_key of
                          Some k \<Rightarrow> (k, db)
                        | None \<Rightarrow> (db_fresh db, db\<lparr>db_fresh := Suc (db_fresh db)\<rparr>));
          attempt = res_bind (job_create db1 (od_id order) tenant_id actor_id key types callback_url)
                      (\<lambda>(job, db2). res_bind (create_documents db2 (j_id job) (od_id order) types)
                        (\<lambda>db3. Inr (job, db3)))
      in case attempt of
           Inr (job, db') \<Rightarrow> Inr (job, db', True)
         | Inl IntegrityError \<Rightarrow>
             (case (case idempotency_key of
                      None \<Rightarrow> None
                    | Some k \<Rightarrow> job_get_by_idempotency db k tenant_id) of
                Some existing \<Rightarrow> Inr (existing, db, False)
              | None \<Rightarrow> Inl (IdempotencyConflictError
                               ''A job with this idempotency key already exists'')))"

text \<open>
  \<open>create_job\<close> over two snapshots: \<open>db0\<close> is what the pre-check saw, \<open>st\<close> the state
  the insert runs on.  Between them another request may have committed.
\<close>

definition create_job_race ::
  "service \<Rightarrow> db \<Rightarrow> engine_state \<Rightarrow> uuid \<Rightarrow> uuid \<Rightarrow> uuid \<Rightarrow> string list \<Rightarrow> uuid option \<Rightarrow> string option \<Rightarrow>
     engine_error + (job_row \<times> engine_state)" where
  "create_job_race svc db0 st tenant_id actor_id order_id doc_types idempotency_key callback_url =
     res_bind (create_precheck svc db0 tenant_id order_id doc_types idempotency_key)
       (\<lambda>(order, types, existing).
          case existing of
            Some job \<Rightarrow> Inr (job, st)
          | None \<Rightarrow>
              res_bind (create_insert (es_db st) tenant_id actor_id order types
                          idempotency_key callback_url)
                (\<lambda>(job, db', inserted).
                   if inserted \<and> sv_enqueue svc
                   then Inr (job, st\<lparr>es_db := db', es_queue := es_queue st @
                               [\<lparr>tk_job_id = j_id job, tk_tenant_id = tenant_id,
                                 tk_actor_id = actor_id\<rparr>]\<rparr>)
                   else Inr (job, st\<lparr>es_db := db'\<rparr>)))"

definition create_job ::
  "service \<Rightarrow> engine_state \<Rightarrow> uuid \<Rightarrow> uuid \<Rightarrow> uuid \<Rightarrow> string list \<Rightarrow> uuid option \<Rightarrow> string option \<Rightarrow>
     engine_error + (job_row \<times> engine_state)" where
  "create_job svc st tenant_id actor_id order_id doc_types idempotency_key callback_url =
     create_job_race svc (es_db st) st tenant_id actor_id order_id doc_types idempotency_key
       callback_url"

section \<open>Get and list\<close>

definition get_job :: "db \<Rightarrow> uuid \<Rightarrow> uuid \<Rightarrow> engine_error + job_row" where
  "get_job db tenant_id job_id =
     (case job_get db job_id tenant_id of
        None \<Rightarrow> Inl (JobNotFoundError (''Job '' @ uuid_str job_id @ '' not found''))
      | Some job \<Rightarrow> Inr job)"

definition list_order_jobs :: "db \<Rightarrow> uuid \<Rightarrow> uuid \<Rightarrow> job_row list" where
  "list_order_jobs db tenant_id order_id = job_list_for_order db order_id tenant_id"

section \<open>Retry\<close>

definition retry_job ::
  "service \<Rightarrow> engine_state \<Rightarrow> uuid \<Rightarrow> uuid \<Rightarrow> uuid \<Rightarrow> string list option \<Rightarrow>
     engine_error + (job_row \<times> engine_state)" where
  "retry_job svc st tenant_id actor_id job_id doc_types =
     res_bind (get_job (es_db st) tenant_id job_id) (\<lambda>original.
       if j_status original \<notin> {Job_completed, Job_partial, Job_failed, Job_cancelled}
       then Inl (JobNotRetryableError ''Original job is not in a retryable state'')
       else
         let failed_types = map d_doc_type (doc_list_failed (es_db st) job_id);
             types = (case doc_types of
                        None \<Rightarrow> failed_types
                      | Some ts \<Rightarrow> filter (\<lambda>t. t \<in> set failed_types) ts)
         in if types = [] then Inl (JobNotRetryableError ''No failed documents to retry'')
            else create_job svc st tenant_id actor_id (j_order_id original) types None None)"

section \<open>Cancel, review, archive\<close>

definition cancel_job ::
  "db \<Rightarrow> uuid \<Rightarrow> uuid \<Rightarrow> string option \<Rightarrow> engine_error + (job_row \<times> db)" where
  "cancel_job db tenant_id job_id reason =
     res_bind (get_job db tenant_id job_id) (\<lambda>job.
       if j_status job \<notin> {Job_queued, Job_running, Job_cancelling}
       then Inl (JobNotCancellableError ''Job is not cancellable'')
       else
         let job1 = job\<lparr>j_status := (if j_status job = Job_queued then Job_cancelled
                                      else Job_cancelling)\<rparr>;
             job2 = (if opt_truthy reason then job1\<lparr>j_cancel_reason := reason\<rparr> else job1);
             job3 = job2\<lparr>j_completed_at := None\<rparr>
         in Inr (job3\<lparr>j_updated_at := db_clock db\<rparr>, job_save db job3))"

definition mark_reviewed :: "db \<Rightarrow> uuid \<Rightarrow> uuid \<Rightarrow> engine_error + (job_row \<times> db)" where
  "mark_reviewed db tenant_id job_id =
     res_bind (get_job db tenant_id job_id) (\<lambda>job.
       if j_status job \<notin> {Job_completed, Job_partial}
       then Inl (OrderNotResearchableError ''Only completed/partial jobs can be marked reviewed'')
       else let job' = job\<lparr>j_status := Job_reviewed\<rparr>
            in Inr (job'\<lparr>j_updated_at := db_clock db\<rparr>, job_save db job'))"

definition archive_job :: "db \<Rightarrow> uuid \<Rightarrow> uuid \<Rightarrow> engine_error + (job_row \<times> db)" where
  "archive_job db tenant_id job_id =
     res_bind (get_job db tenant_id job_id) (\<lambda>job.
       if j_status job \<noteq> Job_reviewed
       then Inl (OrderNotResearchableError ''Only reviewed jobs can be archived'')
       else let job' = job\<lparr>j_status := Job_archived\<rparr>
            in Inr (job'\<lparr>j_updated_at := db_clock db\<rparr>, job_save db job'))"

end
