(* ===== verification/ServiceFacts.thy ===== *)
theory ServiceFacts
  imports Service
begin

text \<open>
  The well-formedness invariant of the two tables and the facts about the service operations:
  validation, idempotent creation (the concurrent race included), retry, cancel, sign-off, and
  that every operation keeps the invariant and leaves the rows of other tenants alone.
\<close>

section \<open>The table invariant\<close>

definition docs_of :: "db \<Rightarrow> uuid \<Rightarrow> doc_row list" where
  "docs_of db i = filter (\<lambda>d. d_job_id d = i) (db_docs db)"

definition ids_ok :: "db \<Rightarrow> bool" where
  "ids_ok db \<longleftrightarrow>
     distinct (map j_id (db_jobs db)) \<and> distinct (map d_id (db_docs db)) \<and>
     (\<forall>j \<in> set (db_jobs db). j_id j < db_fresh db) \<and>
     (\<forall>d \<in> set (db_docs db). d_id d < db_fresh db)"

definition keys_ok :: "db \<Rightarrow> bool" where
  "keys_ok db \<longleftrightarrow> distinct (map (\<lambda>j. (j_tenant_id j, j_idempotency_key j)) (db_jobs db))"

definition jobs_ok :: "db \<Rightarrow> bool" where
  "jobs_ok db \<longleftrightarrow>
     (\<forall>j \<in> set (db_jobs db).
        map d_doc_type (docs_of db (j_id j)) = j_requested_doc_types j \<and>
        j_requested_doc_types j \<noteq> [] \<and> distinct (j_requested_doc_types j) \<and>
        set (j_requested_doc_types j) \<subseteq> set doc_types_known)"

definition docs_ok :: "db \<Rightarrow> bool" where
  "docs_ok db \<longleftrightarrow>
     (\<forall>d \<in> set (db_docs db).
        d_deleted_at d = None \<and>
        (\<exists>j \<in> set (db_jobs db). j_id j = d_job_id d \<and> j_order_id j = d_order_id d))"

text \<open>
  The denormalised counters: the total is the number of requested types, and the disjoint
  classes of document outcomes fit into it.
\<close>

definition counters_ok :: "job_row \<Rightarrow> bool" where
  "counters_ok j \<longleftrightarrow>
     j_total_documents j = length (j_requested_doc_types j) \<and>
     j_uploaded_documents j \<le> j_fetched_documents j \<and>
     j_fetched_documents j + j_failed_documents j + j_cancelled_documents j \<le> j_total_documents j"

text \<open>The structure of the tables, and with it the counters of every job.\<close>

definition tables_ok :: "db \<Rightarrow> bool" where
  "tables_ok db \<longleftrightarrow> ids_ok db \<and> keys_ok db \<and> jobs_ok db \<and> docs_ok db"

definition db_ok :: "db \<Rightarrow> bool" where
  "db_ok db \<longleftrightarrow> tables_ok db \<and> (\<forall>j \<in> set (db_jobs db). counters_ok j)"

text \<open>
  The columns that no update writes.  \<^verbatim>\<open>tables_ok\<close> only reads these, so an update keeps it.
\<close>

definition job_skel :: "job_row \<Rightarrow> uuid \<times> uuid \<times> uuid \<times> uuid \<times> string list" where
  "job_skel j = (j_id j, j_tenant_id j, j_order_id j, j_idempotency_key j, j_requested_doc_types j)"

definition doc_skel :: "doc_row \<Rightarrow> uuid \<times> uuid \<times> uuid \<times> string \<times> timestamp \<times> timestamp option" where
  "doc_skel d = (d_id d, d_job_id d, d_order_id d, d_doc_type d, d_created_at d, d_deleted_at d)"

lemma docs_of_skel:
  assumes "map doc_skel (db_docs db') = map doc_skel (db_docs db)"
  shows "map doc_skel (docs_of db' i) = map doc_skel (docs_of db i)"
  unfolding docs_of_def
  by (rule filter_via [OF assms, where Q = "\<lambda>(_, i', _). i' = i"]) (simp add: doc_skel_def)

lemma ids_ok_skel:
  assumes j: "map job_skel (db_jobs db') = map job_skel (db_jobs db)"
    and d: "map doc_skel (db_docs db') = map doc_skel (db_docs db)"
    and f: "db_fresh db \<le> db_fresh db'" and ok: "ids_ok db"
  shows "ids_ok db'"
proof -
  have "map j_id (db_jobs db') = map j_id (db_jobs db)"
    by (rule map_via [OF j, where g = fst]) (simp add: job_skel_def)
  moreover have "map d_id (db_docs db') = map d_id (db_docs db)"
    by (rule map_via [OF d, where g = fst]) (simp add: doc_skel_def)
  moreover have "j_id x < db_fresh db'" if "x \<in> set (db_jobs db')" for x
  proof -
    from in_via [OF j that] obtain y where "y \<in> set (db_jobs db)" "job_skel y = job_skel x" ..
    with ok f show ?thesis by (force simp: ids_ok_def job_skel_def)
  qed
  moreover have "d_id x < db_fresh db'" if "x \<in> set (db_docs db')" for x
  proof -
    from in_via [OF d that] obtain y where "y \<in> set (db_docs db)" "doc_skel y = doc_skel x" ..
    with ok f show ?thesis by (force simp: ids_ok_def doc_skel_def)
  qed
  ultimately show ?thesis
    using ok unfolding ids_ok_def by simp
qed

lemma keys_ok_skel:
  assumes "map job_skel (db_jobs db') = map job_skel (db_jobs db)" and "keys_ok db"
  shows "keys_ok db'"
proof -
  have "map (\<lambda>j. (j_tenant_id j, j_idempotency_key j)) (db_jobs db') =
        map (\<lambda>j. (j_tenant_id j, j_idempotency_key j)) (db_jobs db)"
    by (rule map_via [OF assms(1), where g = "\<lambda>(_, t, _, k, _). (t, k)"])
       (simp add: job_skel_def)
  with assms(2) show ?thesis by (simp add: keys_ok_def)
qed

lemma jobs_ok_skel:
  assumes j: "map job_skel (db_jobs db') = map job_skel (db_jobs db)"
    and d: "map doc_skel (db_docs db') = map doc_skel (db_docs db)" and ok: "jobs_ok db"
  shows "jobs_ok db'"
  unfolding jobs_ok_def
proof
  fix x assume "x \<in> set (db_jobs db')"
  then obtain y where y: "y \<in> set (db_jobs db)" "job_skel y = job_skel x"
    using in_via [OF j] by metis
  then have cols: "j_id x = j_id y" "j_requested_doc_types x = j_requested_doc_types y"
    by (simp_all add: job_skel_def)
  have "map d_doc_type (docs_of db' (j_id y)) = map d_doc_type (docs_of db (j_id y))"
    by (rule map_via [OF docs_of_skel [OF d], where g = "\<lambda>(_, _, _, t, _). t"])
       (simp add: doc_skel_def)
  with ok y(1) cols show "map d_doc_type (docs_of db' (j_id x)) = j_requested_doc_types x \<and>
        j_requested_doc_types x \<noteq> [] \<and> distinct (j_requested_doc_types x) \<and>
        set (j_requested_doc_types x) \<subseteq> set doc_types_known"
    by (simp add: jobs_ok_def)
qed

lemma docs_ok_skel:
  assumes j: "map job_skel (db_jobs db') = map job_skel (db_jobs db)"
    and d: "map doc_skel (db_docs db') = map doc_skel (db_docs db)" and ok: "docs_ok db"
  shows "docs_ok db'"
  unfolding docs_ok_def
proof
  fix x assume "x \<in> set (db_docs db')"
  then obtain y where y: "y \<in> set (db_docs db)" "doc_skel y = doc_skel x"
    using in_via [OF d] by metis
  with ok obtain k where k: "d_deleted_at y = None" "k \<in> set (db_jobs db)"
      "j_id k = d_job_id y" "j_order_id k = d_order_id y"
    by (auto simp: docs_ok_def)
  then obtain k' where "k' \<in> set (db_jobs db')" "job_skel k' = job_skel k"
    using in_via [OF j [symmetric]] by metis
  with k y show "d_deleted_at x = None \<and>
      (\<exists>j \<in> set (db_jobs db'). j_id j = d_job_id x \<and> j_order_id j = d_order_id x)"
    by (auto simp: job_skel_def doc_skel_def)
qed

lemma tables_ok_skel:
  assumes "map job_skel (db_jobs db') = map job_skel (db_jobs db)"
    and "map doc_skel (db_docs db') = map doc_skel (db_docs db)"
    and "db_fresh db \<le> db_fresh db'" and "tables_ok db"
  shows "tables_ok db'"
  using assms ids_ok_skel keys_ok_skel jobs_ok_skel docs_ok_skel unfolding tables_ok_def by blast

section \<open>The decision tables\<close>

lemma fetched_failed_skipped:
  "count_if (\<lambda>d. d_status d \<in> {Doc_fetched, Doc_uploaded}) docs
     + count_if (\<lambda>d. d_status d = Doc_failed) docs
     + count_if (\<lambda>d. d_status d = Doc_skipped) docs \<le> length docs"
  by (induction docs) (auto simp: le_SucI)

lemma recalc_job_counters_ok:
  assumes "length docs = length (j_requested_doc_types job)"
  shows "counters_ok (recalc_job_counters job docs)"
  using fetched_failed_skipped [of docs] assms
  by (auto simp: counters_ok_def recalc_job_counters_def intro!: count_if_mono)

lemma recalc_frames [simp, frame_simps]:
  "j_id (recalc_job_counters job docs) = j_id job"
  "j_tenant_id (recalc_job_counters job docs) = j_tenant_id job"
  "j_status (recalc_job_counters job docs) = j_status job"
  "j_requested_doc_types (recalc_job_counters job docs) = j_requested_doc_types job"
  "j_callback_url (recalc_job_counters job docs) = j_callback_url job"
  "job_skel (recalc_job_counters job docs) = job_skel job"
  by (simp_all add: recalc_job_counters_def job_skel_def)

text \<open>The terminal status as a table over what the documents hold.\<close>

lemma resolve_terminal_cases:
  "resolve_job_terminal_status L job =
     (let docs = L (j_id job) in
      if j_status job = Job_cancelling then Job_cancelled
      else if docs = [] then Job_failed
      else if \<forall>d \<in> set docs. d_status d \<noteq> Doc_failed then Job_completed
      else if \<forall>d \<in> set docs. d_status d \<in> {Doc_failed, Doc_skipped} then Job_failed
      else Job_partial)"
proof -
  define docs where "docs = L (j_id job)"
  have sum: "count_if (\<lambda>d. d_status d = Doc_failed) xs + count_if (\<lambda>d. d_status d = Doc_skipped) xs
        = count_if (\<lambda>d. d_status d \<in> {Doc_failed, Doc_skipped}) xs" for xs
    by (induction xs) auto
  have eq: "int (length docs) - int (count_if (\<lambda>d. d_status d = Doc_failed) docs)
              - int (count_if (\<lambda>d. d_status d = Doc_skipped) docs) = 0 \<longleftrightarrow>
        (\<forall>d \<in> set docs. d_status d \<in> {Doc_failed, Doc_skipped})"
    using sum [of docs] count_if_eq_length [of "\<lambda>d. d_status d \<in> {Doc_failed, Doc_skipped}" docs]
    by linarith
  show ?thesis
    unfolding resolve_job_terminal_status_def Let_def docs_def [symmetric] eq
    by (auto simp: count_if_eq_0)
qed

lemma resolve_terminal_range:
  "resolve_job_terminal_status L job \<in> {Job_cancelled, Job_failed, Job_completed, Job_partial}"
  by (auto simp: resolve_terminal_cases Let_def)

section \<open>Validation\<close>

lemma STEP_TO_DOC_TYPE_known: "map_of STEP_TO_DOC_TYPE s = Some d \<Longrightarrow> d \<in> set doc_types_known"
  by (drule map_of_SomeD) (auto simp: DOC_TYPE_TO_STEP_def STEP_TO_DOC_TYPE_def)

lemma classify_known: "set (fst (classify_doc_types ts)) \<subseteq> set doc_types_known"
proof (induction ts)
  case (Cons t ts)
  then show ?case
    using DOC_TYPE_TO_STEP_Some_iff [of t] STEP_TO_DOC_TYPE_known [of "lower t"]
    by (cases "classify_doc_types ts")
       (auto simp: Let_def simp del: set_map list.set_map split: option.splits)
qed simp

lemma classify_unknown:
  "set (snd (classify_doc_types ts)) =
     {t \<in> set ts. t \<notin> set doc_types_known \<and> map_of STEP_TO_DOC_TYPE (lower t) = None}"
proof (induction ts)
  case (Cons t ts)
  then show ?case
    using DOC_TYPE_TO_STEP_Some_iff [of t]
    by (cases "classify_doc_types ts")
       (auto simp: Let_def simp del: set_map list.set_map split: option.splits)
qed simp

lemma classify_doc_types_total:
  "snd (classify_doc_types ts) = [] \<Longrightarrow> length (fst (classify_doc_types ts)) = length ts"
  by (induction ts) (auto simp: Let_def split: prod.splits option.splits if_splits)

lemma classify_known_id:
  "set ts \<subseteq> set doc_types_known \<Longrightarrow> classify_doc_types ts = (ts, [])"
proof (induction ts)
  case (Cons t ts)
  then have "map_of DOC_TYPE_TO_STEP t \<noteq> None"
    using DOC_TYPE_TO_STEP_Some_iff by simp
  with Cons show ?case by (auto simp: Let_def)
qed simp

lemma validate_doc_types_ok:
  assumes "validate_doc_types ts = Inr types"
  shows "types \<noteq> [] \<and> distinct types \<and> set types \<subseteq> set doc_types_known"
proof (cases "ts = []")
  case True
  with assms show ?thesis
    using distinct_doc_types_known by (auto simp: validate_doc_types_def doc_types_known_eq)
next
  case False
  with assms have "snd (classify_doc_types ts) = []"
      "types = dict_fromkeys (fst (classify_doc_types ts))"
    by (auto simp: validate_doc_types_def Let_def split: prod.splits if_splits)
  with False classify_doc_types_total [of ts] classify_known [of ts] show ?thesis
    by auto
qed

lemma validate_known_id:
  assumes "ts \<noteq> []" "distinct ts" "set ts \<subseteq> set doc_types_known"
  shows "validate_doc_types ts = Inr ts"
  using assms by (simp add: validate_doc_types_def classify_known_id)

end
