(* ===== verification/CreateFacts.thy ===== *)
theory CreateFacts
  imports ServiceFacts
begin

text \<open>
  What \<open>create_job\<close> does to the tables, in closed form: the inserted rows, the branch
  taken on a key conflict, and that the invariant \<^verbatim>\<open>tables_ok\<close> is kept on every branch.
\<close>

section \<open>The inserted document rows\<close>

fun new_docs :: "uuid \<Rightarrow> timestamp \<Rightarrow> uuid \<Rightarrow> uuid \<Rightarrow> string list \<Rightarrow> doc_row list" where
  "new_docs f now job_id order_id [] = []"
| "new_docs f now job_id order_id (t # ts) =
     new_doc_row f now job_id order_id t # new_docs (Suc f) now job_id order_id ts"

lemma new_doc_row_sel [simp]:
  "d_id (new_doc_row f now i ord t) = f" "d_job_id (new_doc_row f now i ord t) = i"
  "d_order_id (new_doc_row f now i ord t) = ord" "d_doc_type (new_doc_row f now i ord t) = t"
  "d_status (new_doc_row f now i ord t) = Doc_queued" "d_deleted_at (new_doc_row f now i ord t) = None"
  "d_created_at (new_doc_row f now i ord t) = now"
  by (simp_all add: new_doc_row_def)

lemma new_docs_columns:
  "map d_doc_type (new_docs f now i ord ts) = ts"
  "map d_id (new_docs f now i ord ts) = [f..<f + length ts]"
  by (induction ts arbitrary: f) (simp_all add: upt_conv_Cons del: upt_Suc)

lemma in_new_docs:
  "d \<in> set (new_docs f now i ord ts) \<Longrightarrow>
     f \<le> d_id d \<and> d_id d < f + length ts \<and> d_job_id d = i \<and> d_order_id d = ord \<and>
     d_doc_type d \<in> set ts \<and> d_status d = Doc_queued \<and> d_deleted_at d = None"
proof (induction ts arbitrary: f)
  case (Cons t ts)
  then consider "d = new_doc_row f now i ord t" | "d \<in> set (new_docs (Suc f) now i ord ts)"
    by auto
  then show ?case
    by cases (use Cons.IH [of "Suc f"] in auto)
qed simp

lemma filter_new_docs [simp]:
  "filter (\<lambda>d. d_job_id d = i) (new_docs f now i ord ts) = new_docs f now i ord ts"
  "i \<noteq> k \<Longrightarrow> filter (\<lambda>d. d_job_id d = k) (new_docs f now i ord ts) = []"
  by (induction ts arbitrary: f) simp_all

lemma create_documents_closed:
  assumes "\<exists>j \<in> set (db_jobs db). j_id j = i" and "distinct ts"
    and "\<And>d. d \<in> set (db_docs db) \<Longrightarrow> d_job_id d = i \<Longrightarrow> d_doc_type d \<notin> set ts"
  shows "create_documents db i ord ts =
           Inr (db\<lparr>db_docs := db_docs db @ new_docs (db_fresh db) (db_clock db) i ord ts,
                   db_fresh := db_fresh db + length ts\<rparr>)"
  using assms
proof (induction ts arbitrary: db)
  case (Cons t ts)
  let ?db = "db\<lparr>db_docs := db_docs db @ [new_doc_row (db_fresh db) (db_clock db) i ord t],
               db_fresh := Suc (db_fresh db)\<rparr>"
  have "doc_create db i ord t = Inr (new_doc_row (db_fresh db) (db_clock db) i ord t, ?db)"
    using Cons.prems by (auto simp: doc_create_def Let_def)
  moreover have "create_documents ?db i ord ts =
      Inr (?db\<lparr>db_docs := db_docs ?db @ new_docs (db_fresh ?db) (db_clock ?db) i ord ts,
               db_fresh := db_fresh ?db + length ts\<rparr>)"
  proof (rule Cons.IH)
    fix d assume "d \<in> set (db_docs ?db)" "d_job_id d = i"
    then consider "d \<in> set (db_docs db)" | "d = new_doc_row (db_fresh db) (db_clock db) i ord t"
      by auto
    then show "d_doc_type d \<notin> set ts"
      by cases (use Cons.prems \<open>d_job_id d = i\<close> in auto)
  qed (use Cons.prems in auto)
  ultimately show ?case by simp
qed simp

section \<open>The insert\<close>

definition key_taken :: "db \<Rightarrow> uuid \<Rightarrow> uuid \<Rightarrow> bool" where
  "key_taken db tenant_id key \<longleftrightarrow>
     (\<exists>j \<in> set (db_jobs db). j_tenant_id j = tenant_id \<and> j_idempotency_key j = key)"

text \<open>The database after a successful insert of a job with its documents.\<close>

definition inserted_db ::
  "db \<Rightarrow> uuid \<Rightarrow> uuid \<Rightarrow> uuid \<Rightarrow> uuid \<Rightarrow> string list \<Rightarrow> string option \<Rightarrow> db" where
  "inserted_db db ord tenant_id actor_id key types callback_url =
     db\<lparr>db_jobs := db_jobs db @ [new_job_row (db_fresh db) (db_clock db) ord tenant_id actor_id key
                                 types callback_url],
        db_docs := db_docs db @ new_docs (Suc (db_fresh db)) (db_clock db) (db_fresh db) ord types,
        db_fresh := Suc (db_fresh db) + length types\<rparr>"

lemma new_job_row_sel [simp]:
  "j_id (new_job_row f now ord t a k ts cb) = f"
  "j_tenant_id (new_job_row f now ord t a k ts cb) = t"
  "j_order_id (new_job_row f now ord t a k ts cb) = ord"
  "j_idempotency_key (new_job_row f now ord t a k ts cb) = k"
  "j_requested_doc_types (new_job_row f now ord t a k ts cb) = ts"
  "j_status (new_job_row f now ord t a k ts cb) = Job_queued"
  "j_deleted_at (new_job_row f now ord t a k ts cb) = None"
  "j_completed_at (new_job_row f now ord t a k ts cb) = None"
  "counters_ok (new_job_row f now ord t a k ts cb)"
  by (simp_all add: new_job_row_def counters_ok_def)

lemma fresh_job_no_docs:
  assumes "tables_ok db" "db_fresh db \<le> i" "d \<in> set (db_docs db)"
  shows "d_job_id d \<noteq> i"
proof
  assume "d_job_id d = i"
  with assms obtain j where "j \<in> set (db_jobs db)" "j_id j = i"
    by (auto simp: tables_ok_def docs_ok_def)
  with assms show False by (auto simp: tables_ok_def ids_ok_def)
qed

lemma inserted_db_ok:
  assumes ok: "tables_ok db" and fresh: "\<not> key_taken db tenant_id key"
    and types: "types \<noteq> []" "distinct types" "set types \<subseteq> set doc_types_known"
  shows "tables_ok (inserted_db db ord tenant_id actor_id key types callback_url)" (is "tables_ok ?db")
  unfolding tables_ok_def
proof (intro conjI)
  have ids: "ids_ok db" and keys: "keys_ok db" and jobs: "jobs_ok db" and docs: "docs_ok db"
    using ok by (simp_all add: tables_ok_def)
  have nodocs: "docs_of db (db_fresh db) = []"
    using fresh_job_no_docs [OF ok le_refl] by (auto simp: docs_of_def filter_empty_conv)
  have old: "j_id j < db_fresh db" if "j \<in> set (db_jobs db)" for j
    using ids that by (simp add: ids_ok_def)
  have neq: "db_fresh db \<noteq> j_id j" if "j \<in> set (db_jobs db)" for j
    using old [OF that] by simp
  show "ids_ok ?db"
    using ids unfolding ids_ok_def inserted_db_def
    by (auto simp: new_docs_columns dest!: in_new_docs)
  show "keys_ok ?db"
    using keys fresh by (auto simp: keys_ok_def inserted_db_def key_taken_def)
  show "jobs_ok ?db"
    using jobs types nodocs neq
    by (auto simp: jobs_ok_def docs_of_def inserted_db_def new_docs_columns
             simp del: set_map list.set_map)
  show "docs_ok ?db"
    using docs by (fastforce simp: docs_ok_def inserted_db_def dest!: in_new_docs)
qed

section \<open>The branches of \<open>create_insert\<close>\<close>

text \<open>The key of the inserted row, and the database it is inserted into.\<close>

definition drawn_key :: "db \<Rightarrow> uuid option \<Rightarrow> uuid" where
  "drawn_key db k = (case k of None \<Rightarrow> db_fresh db | Some k \<Rightarrow> k)"

definition drawn_db :: "db \<Rightarrow> uuid option \<Rightarrow> db" where
  "drawn_db db k = (case k of None \<Rightarrow> db\<lparr>db_fresh := Suc (db_fresh db)\<rparr> | Some _ \<Rightarrow> db)"

lemma drawn_db_sel [simp]:
  "db_jobs (drawn_db db k) = db_jobs db" "db_docs (drawn_db db k) = db_docs db"
  "db_clock (drawn_db db k) = db_clock db" "db_fresh db \<le> db_fresh (drawn_db db k)"
  "key_taken (drawn_db db k) t x = key_taken db t x"
  by (cases k; simp add: drawn_db_def key_taken_def)+

lemma drawn_db_ok: "tables_ok db \<Longrightarrow> tables_ok (drawn_db db k)"
  by (rule tables_ok_skel [of _ db]) (simp_all add: tables_ok_def)

lemma create_insert_fresh:
  assumes ok: "tables_ok db" and fresh: "\<not> key_taken db t (drawn_key db k)" and types: "distinct types"
  shows "create_insert db t a order types k cb =
           (let db1 = drawn_db db k in
            Inr (new_job_row (db_fresh db1) (db_clock db) (od_id order) t a (drawn_key db k) types cb,
                 inserted_db db1 (od_id order) t a (drawn_key db k) types cb, True))"
proof -
  let ?db1 = "drawn_db db k"
  let ?job = "new_job_row (db_fresh ?db1) (db_clock db) (od_id order) t a (drawn_key db k) types cb"
  let ?db2 = "?db1\<lparr>db_jobs := db_jobs ?db1 @ [?job], db_fresh := Suc (db_fresh ?db1)\<rparr>"
  have pair: "(case k of Some k \<Rightarrow> (k, db) | None \<Rightarrow> (db_fresh db, db\<lparr>db_fresh := Suc (db_fresh db)\<rparr>))
      = (drawn_key db k, ?db1)"
    by (cases k) (simp_all add: drawn_key_def drawn_db_def)
  have "\<not> key_taken ?db1 t (drawn_key db k)" using fresh by simp
  then have create: "job_create ?db1 (od_id order) t a (drawn_key db k) types cb = Inr (?job, ?db2)"
    unfolding key_taken_def job_create_def Let_def by simp
  have "create_documents ?db2 (j_id ?job) (od_id order) types =
      Inr (?db2\<lparr>db_docs := db_docs ?db2 @
                  new_docs (db_fresh ?db2) (db_clock ?db2) (j_id ?job) (od_id order) types,
               db_fresh := db_fresh ?db2 + length types\<rparr>)"
  proof (rule create_documents_closed)
    fix d assume "d \<in> set (db_docs ?db2)" "d_job_id d = j_id ?job"
    then show "d_doc_type d \<notin> set types"
      using fresh_job_no_docs [OF ok, of "db_fresh ?db1" d] by simp
  qed (use types in simp_all)
  then show ?thesis
    by (simp add: create_insert_def pair create Let_def inserted_db_def)
qed

lemma create_insert_taken:
  assumes "key_taken db t (drawn_key db k)"
  shows "create_insert db t a order types k cb =
           (case (case k of None \<Rightarrow> None | Some k \<Rightarrow> job_get_by_idempotency db k t) of
              Some existing \<Rightarrow> Inr (existing, db, False)
            | None \<Rightarrow> Inl (IdempotencyConflictError ''A job with this idempotency key already exists''))"
proof -
  have "\<exists>j \<in> set (db_jobs db). j_tenant_id j = t \<and> j_idempotency_key j = drawn_key db k"
    using assms by (simp add: key_taken_def)
  then show ?thesis
    by (cases k) (auto simp: create_insert_def job_create_def drawn_key_def Let_def)
qed

lemma create_precheck_InrD:
  assumes "create_precheck svc db t ord types k = Inr (order, types', existing)"
  shows "resolve_order svc t ord = Inr order \<and> validate_doc_types types = Inr types' \<and>
         existing = (case k of None \<Rightarrow> None | Some k \<Rightarrow> job_get_by_idempotency db k t)"
  using assms unfolding create_precheck_def by (auto simp: res_bind_eq_Inr)

text \<open>Every successful outcome of the race: an existing row, or a new one.\<close>

lemma create_job_race_cases:
  assumes ok: "tables_ok (es_db st)"
    and run: "create_job_race svc db0 st t a ord types k cb = Inr (job, st')"
  obtains (existing) key where "k = Some key" "st' = st"
      "job_get_by_idempotency db0 key t = Some job \<or>
       job_get_by_idempotency (es_db st) key t = Some job"
    | (inserted) order types' where "resolve_order svc t ord = Inr order"
      "validate_doc_types types = Inr types'"
      "\<not> key_taken (es_db st) t (drawn_key (es_db st) k)"
      "job = new_job_row (db_fresh (drawn_db (es_db st) k)) (db_clock (es_db st)) (od_id order) t a
               (drawn_key (es_db st) k) types' cb"
      "es_db st' = inserted_db (drawn_db (es_db st) k) (od_id order) t a
               (drawn_key (es_db st) k) types' cb"
      "es_queue st' = es_queue st @
         (if sv_enqueue svc then [\<lparr>tk_job_id = j_id job, tk_tenant_id = t, tk_actor_id = a\<rparr>] else [])"
proof -
  from run obtain order types' ex where pre: "create_precheck svc db0 t ord types k = Inr (order, types', ex)"
    unfolding create_job_race_def by (auto simp: res_bind_eq_Inr)
  note pre' = create_precheck_InrD [OF pre]
  show thesis
  proof (cases ex)
    case (Some j)
    with run pre have "job = j" "st' = st" by (auto simp: create_job_race_def)
    moreover from Some pre' obtain key where "k = Some key" "job_get_by_idempotency db0 key t = Some j"
      by (cases k) auto
    ultimately show thesis
      using existing by blast
  next
    case None
    show thesis
    proof (cases "key_taken (es_db st) t (drawn_key (es_db st) k)")
      case True
      with run pre None obtain key where "k = Some key"
          "job_get_by_idempotency (es_db st) key t = Some job" "st' = st"
        by (cases k) (auto simp: create_job_race_def create_insert_taken split: option.splits)
      then show thesis
        using existing by blast
    next
      case False
      have "distinct types'" using pre' validate_doc_types_ok by blast
      note create_insert_fresh [OF ok False this, of a order cb]
      with run pre None pre' False show thesis
        by (intro inserted [of order types'])
           (auto simp: create_job_race_def Let_def split: if_splits)
    qed
  qed
qed

lemma create_job_race_db_ok:
  assumes ok: "tables_ok (es_db st)"
    and run: "create_job_race svc db0 st t a ord types k cb = Inr (job, st')"
  shows "tables_ok (es_db st')"
  using assms
proof (cases rule: create_job_race_cases)
  case (inserted order types')
  moreover note validate_doc_types_ok [OF inserted(2)]
  ultimately show ?thesis
    using inserted_db_ok [OF drawn_db_ok [OF ok]] by simp
qed (use ok in simp)

end
