(* ===== verification/Worker.thy ===== *)
theory Worker
  imports ServiceFacts PyStr
begin

text \<open>
  \<open>engine/worker.py\<close>: the Celery task \<open>research_job\<close>, the callback delivery and the
  reaper.  A running task is a \<^verbatim>\<open>worker\<close> value: the ORM objects it holds, the changes it has
  flushed but not committed, and a program counter at the places where the code talks to the
  database or to a source.  One function per segment between two such places (\<^verbatim>\<open>w_start\<close>,
  \<^verbatim>\<open>w_check\<close>, \<^verbatim>\<open>w_fetch\<close>, \<^verbatim>\<open>w_finish\<close>, \<^verbatim>\<open>w_callback\<close>); between segments other sessions may
  commit, so every segment takes the database as it is then.

  The ORM's unit of work emits an UPDATE of the changed columns only: \<^verbatim>\<open>job_flush\<close> and
  \<^verbatim>\<open>doc_flush\<close> write a column when the object's value differs from the one it was loaded with.
  That is what makes a concurrent cancel survive or get lost.  Failures of the database itself
  (the outer \<open>except\<close>: rollback and \<open>self.retry\<close>) appear for the one call outside the inner
  \<open>try\<close> that can raise by itself, the order provider.
\<close>

section \<open>Flushing an object\<close>

definition set_col :: "'c \<Rightarrow> 'c \<Rightarrow> 'c \<Rightarrow> 'c" where
  "set_col old new cur = (if new = old then cur else new)"

lemma set_col_simps [simp]:
  "set_col c c x = x" "set_col c x x = x" "set_col x c x = c"
  by (simp_all add: set_col_def)

definition job_flush :: "timestamp \<Rightarrow> job_row \<Rightarrow> job_row \<Rightarrow> job_row \<Rightarrow> job_row" where
  "job_flush now old new row =
     (if new = old then row
      else row\<lparr> j_status := set_col (j_status old) (j_status new) (j_status row),
                j_total_documents := set_col (j_total_documents old) (j_total_documents new)
                                       (j_total_documents row),
                j_fetched_documents := set_col (j_fetched_documents old) (j_fetched_documents new)
                                         (j_fetched_documents row),
                j_uploaded_documents := set_col (j_uploaded_documents old) (j_uploaded_documents new)
                                          (j_uploaded_documents row),
                j_failed_documents := set_col (j_failed_documents old) (j_failed_documents new)
                                        (j_failed_documents row),
                j_cancelled_documents := set_col (j_cancelled_documents old)
                                           (j_cancelled_documents new) (j_cancelled_documents row),
                j_started_at := set_col (j_started_at old) (j_started_at new) (j_started_at row),
                j_completed_at := set_col (j_completed_at old) (j_completed_at new)
                                    (j_completed_at row),
                j_callback_delivered := set_col (j_callback_delivered old) (j_callback_delivered new)
                                          (j_callback_delivered row),
                j_updated_at := now \<rparr>)"

definition doc_flush :: "doc_row \<Rightarrow> doc_row \<Rightarrow> doc_row \<Rightarrow> doc_row" where
  "doc_flush old new row =
     row\<lparr> d_status := set_col (d_status old) (d_status new) (d_status row),
          d_file_id := set_col (d_file_id old) (d_file_id new) (d_file_id row),
          d_order_file_id := set_col (d_order_file_id old) (d_order_file_id new) (d_order_file_id row),
          d_summary := set_col (d_summary old) (d_summary new) (d_summary row),
          d_link := set_col (d_link old) (d_link new) (d_link row),
          d_link_label := set_col (d_link_label old) (d_link_label new) (d_link_label row),
          d_provenance := set_col (d_provenance old) (d_provenance new) (d_provenance row),
          d_warnings := set_col (d_warnings old) (d_warnings new) (d_warnings row),
          d_error_code := set_col (d_error_code old) (d_error_code new) (d_error_code row),
          d_error_message := set_col (d_error_message old) (d_error_message new) (d_error_message row),
          d_retryable := set_col (d_retryable old) (d_retryable new) (d_retryable row),
          d_retry_count := set_col (d_retry_count old) (d_retry_count new) (d_retry_count row),
          d_fetched_at := set_col (d_fetched_at old) (d_fetched_at new) (d_fetched_at row),
          d_uploaded_at := set_col (d_uploaded_at old) (d_uploaded_at new) (d_uploaded_at row) \<rparr>"

definition session_save_job :: "db \<Rightarrow> job_row \<Rightarrow> job_row \<Rightarrow> db" where
  "session_save_job db old new =
     db\<lparr>db_jobs := update_where (\<lambda>r. j_id r = j_id new) (job_flush (db_clock db) old new)
                    (db_jobs db)\<rparr>"

definition session_save_doc :: "db \<Rightarrow> doc_row \<Rightarrow> doc_row \<Rightarrow> db" where
  "session_save_doc db old new =
     db\<lparr>db_docs := update_where (\<lambda>r. d_id r = d_id new) (doc_flush old new) (db_docs db)\<rparr>"

text \<open>Commit the document changes flushed so far, oldest first.\<close>

fun commit_docs :: "db \<Rightarrow> (doc_row \<times> doc_row) list \<Rightarrow> db" where
  "commit_docs db [] = db"
| "commit_docs db ((old, new) # ps) = commit_docs (session_save_doc db old new) ps"

section \<open>The running task\<close>

datatype pc = Pc_start | Pc_check | Pc_fetch | Pc_callback | Pc_done | Pc_retry

record worker =
  w_task :: task
  w_pc :: pc
  w_job :: job_row
  w_done :: "doc_row list"
  w_todo :: "doc_row list"
  w_pending :: "(doc_row \<times> doc_row) list"
  w_order :: "order_data option"

type_synonym order_reader = "uuid \<Rightarrow> uuid \<Rightarrow> string + order_data option"

type_synonym 'w fetcher =
  "'w \<Rightarrow> order_data option \<Rightarrow> string list \<Rightarrow> uuid \<Rightarrow> (string + (string \<times> fetched_document) list) \<times> 'w"

definition cancel_seen :: "job_row \<Rightarrow> bool" where
  "cancel_seen job \<longleftrightarrow> j_status job \<in> {Job_cancelled, Job_cancelling}"

definition skip_doc :: "doc_row \<Rightarrow> doc_row" where
  "skip_doc d = d\<lparr>d_status := Doc_skipped\<rparr>"

text \<open>From the first query to the commit of \<open>running\<close>, or the drain of a cancelled job.\<close>

definition w_start :: "order_reader \<Rightarrow> db \<Rightarrow> worker \<Rightarrow> db \<times> worker" where
  "w_start provider db w =
     (let job_id = tk_job_id (w_task w); tenant_id = tk_tenant_id (w_task w); started = db_clock db
      in case job_get db job_id tenant_id of
           None \<Rightarrow> (db, w\<lparr>w_pc := Pc_done\<rparr>)
         | Some job \<Rightarrow>
             let docs = doc_list_for_job db job_id in
             if cancel_seen job then
               let docs' = map skip_doc docs;
                   job' = (recalc_job_counters job docs')\<lparr>j_status := Job_cancelled,
                             j_completed_at := Some started\<rparr>;
                   db' = commit_docs db (zip docs docs')
               in (session_save_job db' job job',
                   w\<lparr>w_pc := Pc_done, w_job := job', w_done := docs'\<rparr>)
             else
               let job' = job\<lparr>j_status := Job_running, j_started_at := Some started\<rparr>;
                   db' = session_save_job db job job';
                   w' = w\<lparr>w_job := job', w_done := [], w_todo := doc_list_for_job db' job_id,
                          w_pending := []\<rparr>
               in case provider (j_order_id job) tenant_id of
                    Inl _ \<Rightarrow> (db', w'\<lparr>w_pc := Pc_retry\<rparr>)
                  | Inr order \<Rightarrow> (db', w'\<lparr>w_pc := Pc_check, w_order := order\<rparr>))"

text \<open>
  The head of the loop: re-read the job, skip the document when a cancel is visible (flushed,
  not committed), otherwise commit it as \<open>fetching\<close>.
\<close>

definition w_check :: "db \<Rightarrow> worker \<Rightarrow> doc_row \<Rightarrow> doc_row list \<Rightarrow> db \<times> worker" where
  "w_check db w doc rest =
     (case job_get db (j_id (w_job w)) (tk_tenant_id (w_task w)) of
        None \<Rightarrow> (db, w\<lparr>w_pc := Pc_done, w_pending := []\<rparr>)
      | Some job \<Rightarrow>
          if cancel_seen job then
            (db, w\<lparr>w_job := job, w_done := w_done w @ [skip_doc doc], w_todo := rest,
                   w_pending := w_pending w @ [(doc, skip_doc doc)]\<rparr>)
          else
            let doc' = doc\<lparr>d_status := Doc_fetching\<rparr>
            in (commit_docs db (w_pending w @ [(doc, doc')]),
                w\<lparr>w_job := job, w_todo := doc' # rest, w_pending := [], w_pc := Pc_fetch\<rparr>))"

text \<open>What the document object takes from the fetched value, and from an exception.\<close>

definition apply_fetched :: "timestamp \<Rightarrow> fetched_document \<Rightarrow> doc_row \<Rightarrow> doc_row" where
  "apply_fetched now f d =
     (let d1 = d\<lparr>d_status := fd_status f, d_summary := fd_summary f, d_link := fd_link f,
                d_link_label := fd_link_label f, d_provenance := fd_provenance f,
                d_warnings := fd_warnings f, d_fetched_at := Some now\<rparr>
      in if fd_status f = Doc_uploaded \<and> opt_truthy (fd_file_key f)
         then d1\<lparr>d_file_id := fd_file_id f, d_order_file_id := fd_order_file_id f,
                 d_uploaded_at := Some now\<rparr>
         else if fd_status f = Doc_failed
         then d1\<lparr>d_error_code := map_option error_code_value (fd_error_code f),
                 d_error_message := fd_error_message f, d_retryable := fd_retryable f,
                 d_retry_count := d_retry_count d + 1\<rparr>
         else d1)"

definition apply_exception :: "string \<Rightarrow> doc_row \<Rightarrow> doc_row" where
  "apply_exception e d =
     d\<lparr>d_status := Doc_failed, d_error_code := Some ''INTERNAL_ERROR'', d_error_message := Some e,
       d_retryable := True, d_retry_count := d_retry_count d + 1\<rparr>"

definition fetch_outcome ::
  "timestamp \<Rightarrow> string + (string \<times> fetched_document) list \<Rightarrow> doc_row \<Rightarrow> doc_row" where
  "fetch_outcome now r d =
     (case r of
        Inl e \<Rightarrow> apply_exception e d
      | Inr out \<Rightarrow>
          (case map_of out (d_doc_type d) of
             None \<Rightarrow> apply_exception ([CHR 0x27] @ d_doc_type d @ [CHR 0x27]) d
           | Some f \<Rightarrow> apply_fetched now f d))"

text \<open>The fetch of one document, up to the commit of its outcome.\<close>

definition w_fetch ::
  "'w fetcher \<Rightarrow> db \<Rightarrow> worker \<Rightarrow> doc_row \<Rightarrow> doc_row list \<Rightarrow> 'w \<Rightarrow> db \<times> worker \<times> 'w" where
  "w_fetch fetcher db w doc rest x =
     (let (r, x') = fetcher x (w_order w) [d_doc_type doc] (tk_tenant_id (w_task w));
          doc' = fetch_outcome (db_clock db) r doc
      in (commit_docs db (w_pending w @ [(doc, doc')]),
          w\<lparr>w_done := w_done w @ [doc'], w_todo := rest, w_pending := [], w_pc := Pc_check\<rparr>,
          x'))"

text \<open>
  The session's answer to \<open>list_for_job\<close>: the rows of the database, each one replaced by the
  object the session already holds for it.
\<close>

definition with_objects :: "doc_row list \<Rightarrow> doc_row list \<Rightarrow> doc_row list" where
  "with_objects held rows =
     map (\<lambda>r. case List.find (\<lambda>d. d_id d = d_id r) held of Some d \<Rightarrow> d | None \<Rightarrow> r) rows"

definition held_docs :: "db \<Rightarrow> doc_row list \<Rightarrow> uuid \<Rightarrow> doc_row list" where
  "held_docs db held job_id = with_objects held (doc_list_for_job db job_id)"

definition w_finish :: "db \<Rightarrow> worker \<Rightarrow> db \<times> worker" where
  "w_finish db w =
     (let job1 = recalc_job_counters (w_job w) (w_done w);
          job2 = job1\<lparr>j_status := resolve_job_terminal_status (held_docs db (w_done w)) job1,
                      j_completed_at := Some (db_clock db)\<rparr>
      in (session_save_job (commit_docs db (w_pending w)) (w_job w) job2,
          w\<lparr>w_job := job2, w_pending := [],
            w_pc := (if opt_truthy (j_callback_url job2) then Pc_callback else Pc_done)\<rparr>))"

section \<open>The callback\<close>

record callback_payload =
  cp_job_id :: string
  cp_order_id :: string
  cp_status :: string
  cp_total :: nat
  cp_uploaded :: nat
  cp_failed :: nat

text \<open>A POST returns a status code or raises.\<close>

type_synonym 'w poster = "'w \<Rightarrow> string \<Rightarrow> callback_payload \<Rightarrow> (string + nat) \<times> 'w"

record callback_settings =
  CALLBACK_RETRY_ATTEMPTS :: nat
  CALLBACK_RETRY_BACKOFF :: rat
  CALLBACK_RETRY_SLEEP :: bool

definition default_callback_settings :: callback_settings where
  "default_callback_settings =
     \<lparr>CALLBACK_RETRY_ATTEMPTS = 3, CALLBACK_RETRY_BACKOFF = 1, CALLBACK_RETRY_SLEEP = True\<rparr>"

text \<open>
  The attempts that are left, with the current delay: whether one was accepted, and the sleeps
  in between.
\<close>

fun deliver ::
  "'w poster \<Rightarrow> string \<Rightarrow> callback_payload \<Rightarrow> bool \<Rightarrow> nat \<Rightarrow> rat \<Rightarrow> 'w \<Rightarrow> bool \<times> rat list \<times> 'w" where
  "deliver post url payload sleep 0 delay x = (False, [], x)"
| "deliver post url payload sleep (Suc left) delay x =
     (case post x url payload of
        (r, x') \<Rightarrow>
          if (case r of Inl _ \<Rightarrow> False | Inr code \<Rightarrow> code < 400) then (True, [], x')
          else if left = 0 then (False, [], x')
          else (case deliver post url payload sleep left (delay * 2) x' of
                  (ok, sleeps, x'') \<Rightarrow> (ok, (if sleep then delay # sleeps else sleeps), x'')))"

definition callback_payload_of :: "job_row \<Rightarrow> doc_row list \<Rightarrow> callback_payload" where
  "callback_payload_of job docs =
     \<lparr>cp_job_id = uuid_str (j_id job), cp_order_id = uuid_str (j_order_id job),
      cp_status = job_status_value (j_status job), cp_total = length docs,
      cp_uploaded = j_uploaded_documents job, cp_failed = j_failed_documents job\<rparr>"

definition w_callback ::
  "callback_settings \<Rightarrow> 'w poster \<Rightarrow> db \<Rightarrow> worker \<Rightarrow> 'w \<Rightarrow> db \<times> worker \<times> 'w" where
  "w_callback cfg post db w x =
     (let job = w_job w;
          payload = callback_payload_of job (held_docs db (w_done w) (j_id job));
          (ok, _, x') = deliver post (the (j_callback_url job)) payload (CALLBACK_RETRY_SLEEP cfg)
                          (CALLBACK_RETRY_ATTEMPTS cfg) (CALLBACK_RETRY_BACKOFF cfg) x;
          job' = job\<lparr>j_callback_delivered := True\<rparr>
      in if ok then (session_save_job db job job', w\<lparr>w_job := job', w_pc := Pc_done\<rparr>, x')
         else (db, w\<lparr>w_pc := Pc_done\<rparr>, x'))"

section \<open>The task\<close>

definition w_step ::
  "order_reader \<Rightarrow> 'w fetcher \<Rightarrow> 'w poster \<Rightarrow> callback_settings \<Rightarrow> db \<times> worker \<times> 'w \<Rightarrow>
     db \<times> worker \<times> 'w" where
  "w_step provider fetcher post cfg s =
     (case s of (db, w, x) \<Rightarrow>
        (case w_pc w of
           Pc_start \<Rightarrow> (case w_start provider db w of (db', w') \<Rightarrow> (db', w', x))
         | Pc_check \<Rightarrow>
             (case w_todo w of
                [] \<Rightarrow> (case w_finish db w of (db', w') \<Rightarrow> (db', w', x))
              | doc # rest \<Rightarrow> (case w_check db w doc rest of (db', w') \<Rightarrow> (db', w', x)))
         | Pc_fetch \<Rightarrow>
             (case w_todo w of
                [] \<Rightarrow> (db, w, x)
              | doc # rest \<Rightarrow> w_fetch fetcher db w doc rest x)
         | Pc_callback \<Rightarrow> w_callback cfg post db w x
         | Pc_done \<Rightarrow> (db, w, x)
         | Pc_retry \<Rightarrow> (db, w, x)))"

text \<open>The segments a task still has to run.\<close>

fun pc_left :: "pc \<Rightarrow> nat \<Rightarrow> nat" where
  "pc_left Pc_start n = 0"
| "pc_left Pc_check n = 2 * n + 2"
| "pc_left Pc_fetch n = 2 * n + 1"
| "pc_left Pc_callback n = 1"
| "pc_left Pc_done n = 0"
| "pc_left Pc_retry n = 0"

definition w_left :: "worker \<Rightarrow> nat" where
  "w_left w = pc_left (w_pc w) (length (w_todo w))"

text \<open>
  Other sessions commit between the segments: \<open>env n\<close> is what they do to the database before
  the segment with \<open>n\<close> segments of fuel behind it.
\<close>

fun run_worker ::
  "order_reader \<Rightarrow> 'w fetcher \<Rightarrow> 'w poster \<Rightarrow> callback_settings \<Rightarrow> (nat \<Rightarrow> db \<Rightarrow> db) \<Rightarrow> nat \<Rightarrow>
     db \<times> worker \<times> 'w \<Rightarrow> db \<times> worker \<times> 'w" where
  "run_worker provider fetcher post cfg env 0 s = s"
| "run_worker provider fetcher post cfg env (Suc n) s =
     (case s of (db, w, x) \<Rightarrow>
        run_worker provider fetcher post cfg env n
          (w_step provider fetcher post cfg (env n db, w, x)))"

definition blank_job :: job_row where
  "blank_job = new_job_row 0 0 0 0 0 0 [] None"

definition new_worker :: "task \<Rightarrow> worker" where
  "new_worker t =
     \<lparr>w_task = t, w_pc = Pc_start, w_job = blank_job, w_done = [], w_todo = [], w_pending = [],
      w_order = None\<rparr>"

definition research_job ::
  "order_reader \<Rightarrow> 'w fetcher \<Rightarrow> 'w poster \<Rightarrow> callback_settings \<Rightarrow> (nat \<Rightarrow> db \<Rightarrow> db) \<Rightarrow> db \<Rightarrow> task \<Rightarrow>
     'w \<Rightarrow> db \<times> worker \<times> 'w" where
  "research_job provider fetcher post cfg env db t x =
     (let s = w_step provider fetcher post cfg (db, new_worker t, x)
      in run_worker provider fetcher post cfg env (w_left (fst (snd s))) s)"

section \<open>The reaper and the publisher\<close>

definition enqueue_research_job :: "task list \<Rightarrow> uuid \<Rightarrow> uuid \<Rightarrow> uuid \<Rightarrow> task list" where
  "enqueue_research_job q job_id tenant_id actor_id =
     q @ [\<lparr>tk_job_id = job_id, tk_tenant_id = tenant_id, tk_actor_id = actor_id\<rparr>]"

text \<open>
  One sweep: every stale queued row is published again; then one UPDATE over the jobs that are
  running and have a start time.
\<close>

definition reaper_research_jobs :: "nat \<Rightarrow> engine_state \<Rightarrow> engine_state" where
  "reaper_research_jobs minutes st =
     (let db = es_db st;
          q = foldl (\<lambda>q j. enqueue_research_job q (j_id j) (j_tenant_id j)
                             (case j_created_by j of None \<Rightarrow> j_tenant_id j | Some a \<Rightarrow> a))
                (es_queue st) (job_list_stale_queued db minutes);
          jobs = update_where (\<lambda>j. j_status j = Job_running \<and> j_started_at j \<noteq> None)
                   (\<lambda>j. j\<lparr>j_status := Job_failed, j_updated_at := db_clock db\<rparr>) (db_jobs db)
      in st\<lparr>es_db := db\<lparr>db_jobs := jobs\<rparr>, es_queue := q\<rparr>)"

end
