(* ===== verification/WorkerFacts.thy ===== *)
theory WorkerFacts
  imports Worker
begin

text \<open>
  Facts about the worker: what a flush writes, termination of the task, the refinement of an
  undisturbed run by a sequential reference, and what a cancel does at each point of a run.
\<close>

section \<open>Flushes\<close>

text \<open>The columns an object may have changed; the worker changes no others.\<close>

definition same_doc :: "doc_row \<Rightarrow> doc_row \<Rightarrow> bool" where
  "same_doc a b \<longleftrightarrow> doc_skel a = doc_skel b \<and> d_source_outcome a = d_source_outcome b \<and>
     d_confidence a = d_confidence b"

lemma doc_flush_self [simp]: "same_doc old new \<Longrightarrow> doc_flush old new old = new"
  by (simp add: doc_flush_def same_doc_def doc_skel_def)

lemma doc_skel_flush [simp, frame_simps]: "doc_skel (doc_flush old new row) = doc_skel row"
  by (simp add: doc_flush_def doc_skel_def)

lemma job_skel_flush [simp, frame_simps]: "job_skel (job_flush now old new row) = job_skel row"
  by (simp add: job_flush_def job_skel_def)

text \<open>Likewise for jobs: the columns that only the API writes agree.\<close>

definition same_job :: "job_row \<Rightarrow> job_row \<Rightarrow> bool" where
  "same_job a b \<longleftrightarrow>
     b\<lparr>j_status := j_status a, j_total_documents := j_total_documents a,
       j_fetched_documents := j_fetched_documents a, j_uploaded_documents := j_uploaded_documents a,
       j_failed_documents := j_failed_documents a,
       j_cancelled_documents := j_cancelled_documents a, j_started_at := j_started_at a,
       j_completed_at := j_completed_at a, j_callback_delivered := j_callback_delivered a\<rparr> = a"

lemma job_flush_self:
  "same_job old new \<Longrightarrow>
     job_flush now old new old = (if new = old then old else new\<lparr>j_updated_at := now\<rparr>)"
  by (cases old; cases new) (auto simp: job_flush_def same_job_def)

lemma same_doc_refl [simp]: "same_doc d d"
  by (simp add: same_doc_def)

lemma same_doc_trans: "same_doc a b \<Longrightarrow> same_doc b c \<Longrightarrow> same_doc a c"
  by (simp add: same_doc_def)

lemma same_doc_sym: "same_doc a b \<Longrightarrow> same_doc b a"
  by (simp add: same_doc_def)

lemma same_doc_changes [simp]:
  "same_doc d (skip_doc d)" "same_doc d (d\<lparr>d_status := s\<rparr>)" "same_doc d (apply_exception e d)"
  "same_doc d (apply_fetched now f d)" "same_doc d (fetch_outcome now r d)"
  by (auto simp: same_doc_def doc_skel_def skip_doc_def apply_exception_def apply_fetched_def
      fetch_outcome_def Let_def split: sum.splits option.splits)

lemma same_docD: "same_doc a b \<Longrightarrow> d_id b = d_id a \<and> d_doc_type b = d_doc_type a \<and>
    d_job_id b = d_job_id a \<and> d_created_at b = d_created_at a \<and> d_deleted_at b = d_deleted_at a"
  by (simp add: same_doc_def doc_skel_def)

lemma session_save_frames [simp, frame_simps]:
  "db_docs (session_save_job db old new) = db_docs db"
  "db_clock (session_save_job db old new) = db_clock db"
  "db_fresh (session_save_job db old new) = db_fresh db"
  "db_jobs (session_save_doc db a b) = db_jobs db"
  "db_clock (session_save_doc db a b) = db_clock db"
  "db_fresh (session_save_doc db a b) = db_fresh db"
  "map job_skel (db_jobs (session_save_job db old new)) = map job_skel (db_jobs db)"
  "map doc_skel (db_docs (session_save_doc db a b)) = map doc_skel (db_docs db)"
  by (simp_all add: session_save_job_def session_save_doc_def update_where_def)

lemma commit_docs_frames [simp, frame_simps]:
  "db_jobs (commit_docs db ps) = db_jobs db"
  "db_clock (commit_docs db ps) = db_clock db"
  "db_fresh (commit_docs db ps) = db_fresh db"
  "map doc_skel (db_docs (commit_docs db ps)) = map doc_skel (db_docs db)"
  by (induction db ps rule: commit_docs.induct) (simp_all del: map_map)

lemma commit_docs_append: "commit_docs db (ps @ qs) = commit_docs (commit_docs db ps) qs"
  by (induction db ps rule: commit_docs.induct) simp_all

lemma job_get_commit_docs [simp]: "job_get (commit_docs db ps) i t = job_get db i t"
  by (simp add: job_get_def)

lemma doc_list_save_job [simp]:
  "doc_list_for_job (session_save_job db old new) i = doc_list_for_job db i"
  by (simp add: doc_list_for_job_def)

section \<open>Segments only write the columns they may\<close>

lemma w_start_skel:
  assumes "w_start provider db w = (db', w')"
  shows "map job_skel (db_jobs db') = map job_skel (db_jobs db) \<and>
         map doc_skel (db_docs db') = map doc_skel (db_docs db) \<and> db_fresh db' = db_fresh db"
  using assms by (auto simp: w_start_def Let_def simp del: map_map split: option.splits if_splits sum.splits)

lemma w_check_skel:
  assumes "w_check db w doc rest = (db', w')"
  shows "db_jobs db' = db_jobs db \<and>
         map doc_skel (db_docs db') = map doc_skel (db_docs db) \<and> db_fresh db' = db_fresh db"
  using assms by (auto simp: w_check_def Let_def simp del: map_map split: option.splits if_splits)

lemma w_fetch_skel:
  assumes "w_fetch fetcher db w doc rest x = (db', w', x')"
  shows "db_jobs db' = db_jobs db \<and>
         map doc_skel (db_docs db') = map doc_skel (db_docs db) \<and> db_fresh db' = db_fresh db"
  using assms by (auto simp: w_fetch_def Let_def simp del: map_map split: prod.splits)

lemma w_finish_skel:
  assumes "w_finish db w = (db', w')"
  shows "map job_skel (db_jobs db') = map job_skel (db_jobs db) \<and>
         map doc_skel (db_docs db') = map doc_skel (db_docs db) \<and> db_fresh db' = db_fresh db"
  using assms by (auto simp: w_finish_def Let_def simp del: map_map)

lemma w_callback_skel:
  assumes "w_callback cfg post db w x = (db', w', x')"
  shows "map job_skel (db_jobs db') = map job_skel (db_jobs db) \<and>
         db_docs db' = db_docs db \<and> db_fresh db' = db_fresh db"
  using assms by (auto simp: w_callback_def Let_def simp del: map_map split: prod.splits if_splits)

lemma w_step_skel:
  assumes "w_step provider fetcher post cfg (db, w, x) = (db', w', x')"
  shows "map job_skel (db_jobs db') = map job_skel (db_jobs db) \<and>
         map doc_skel (db_docs db') = map doc_skel (db_docs db) \<and> db_fresh db' = db_fresh db"
  using assms unfolding w_step_def
  by (auto simp del: map_map split: pc.splits prod.splits list.splits
      dest: w_start_skel w_check_skel w_fetch_skel w_finish_skel w_callback_skel)

section \<open>Termination\<close>

lemma w_step_left:
  assumes "w_step provider fetcher post cfg (db, w, x) = (db', w', x')"
    and "w_pc w \<notin> {Pc_start, Pc_done, Pc_retry}" and "w_pc w = Pc_fetch \<Longrightarrow> w_todo w \<noteq> []"
  shows "w_left w' < w_left w \<and> (w_pc w' = Pc_fetch \<longrightarrow> w_todo w' \<noteq> []) \<and> w_pc w' \<noteq> Pc_start"
proof (cases "w_pc w")
  case Pc_check
  show ?thesis
  proof (cases "w_todo w")
    case Nil
    with assms(1) Pc_check show ?thesis
      by (auto simp: w_step_def w_finish_def w_left_def Let_def split: if_splits)
  next
    case (Cons doc rest)
    with assms(1) Pc_check show ?thesis
      by (auto simp: w_step_def w_check_def w_left_def Let_def split: option.splits if_splits)
  qed
next
  case Pc_fetch
  with assms(3) obtain doc rest where "w_todo w = doc # rest" by (cases "w_todo w") auto
  with assms(1) Pc_fetch show ?thesis
    by (auto simp: w_step_def w_fetch_def w_left_def Let_def split: prod.splits)
next
  case Pc_callback
  with assms(1) show ?thesis
    by (auto simp: w_step_def w_callback_def w_left_def Let_def split: prod.splits if_splits)
qed (use assms(2) in auto)

lemma w_step_final:
  "w_pc w \<in> {Pc_done, Pc_retry} \<Longrightarrow> w_step provider fetcher post cfg (db, w, x) = (db, w, x)"
  by (auto simp: w_step_def)

lemma run_worker_ends:
  assumes "w_left w \<le> n" "w_pc w \<noteq> Pc_start" "w_pc w = Pc_fetch \<Longrightarrow> w_todo w \<noteq> []"
    and "run_worker provider fetcher post cfg env n (db, w, x) = (db', w', x')"
  shows "w_pc w' \<in> {Pc_done, Pc_retry}"
  using assms
proof (induction n arbitrary: db w x)
  case 0
  then show ?case by (cases "w_pc w") (auto simp: w_left_def)
next
  case (Suc n)
  obtain db1 w1 x1 where step: "w_step provider fetcher post cfg (env n db, w, x) = (db1, w1, x1)"
    by (cases "w_step provider fetcher post cfg (env n db, w, x)")
  show ?case
  proof (cases "w_pc w \<in> {Pc_done, Pc_retry}")
    case True
    with w_step_final step have "w1 = w" by (metis prod.inject)
    with True Suc step show ?thesis
      by (intro Suc.IH [of w1 db1 x1]) (auto simp: w_left_def)
  next
    case False
    with w_step_left [OF step] Suc.prems have "w_left w1 < w_left w" "w_pc w1 \<noteq> Pc_start"
        "w_pc w1 = Pc_fetch \<longrightarrow> w_todo w1 \<noteq> []" by auto
    with Suc step show ?thesis
      by (intro Suc.IH [of w1 db1 x1]) auto
  qed
qed

lemma w_start_pc:
  "w_start provider db w = (db', w') \<Longrightarrow> w_pc w' \<in> {Pc_check, Pc_done, Pc_retry}"
  by (auto simp: w_start_def Let_def split: option.splits if_splits sum.splits)

lemma research_job_ends:
  assumes "research_job provider fetcher post cfg env db t x = (db', w', x')"
  shows "w_pc w' \<in> {Pc_done, Pc_retry}"
proof -
  obtain db1 w1 where start: "w_start provider db (new_worker t) = (db1, w1)"
    by (cases "w_start provider db (new_worker t)")
  with assms have "run_worker provider fetcher post cfg env (w_left w1) (db1, w1, x) = (db', w', x')"
    by (simp add: research_job_def w_step_def new_worker_def)
  moreover have "w_pc w1 \<in> {Pc_check, Pc_done, Pc_retry}" by (rule w_start_pc [OF start])
  ultimately show ?thesis
    by (intro run_worker_ends [of w1 "w_left w1"]) auto
qed

section \<open>The undisturbed run\<close>

text \<open>The reference: fetch the documents one after the other.\<close>

fun fetch_all ::
  "'w fetcher \<Rightarrow> order_data option \<Rightarrow> uuid \<Rightarrow> timestamp \<Rightarrow> doc_row list \<Rightarrow> 'w \<Rightarrow> doc_row list \<times> 'w" where
  "fetch_all fetcher order t now [] x = ([], x)"
| "fetch_all fetcher order t now (d # ds) x =
     (case fetcher x order [d_doc_type d] t of
        (r, x') \<Rightarrow>
          (case fetch_all fetcher order t now ds x' of
             (ds', x'') \<Rightarrow> (fetch_outcome now r (d\<lparr>d_status := Doc_fetching\<rparr>) # ds', x'')))"

lemma fetch_all_same:
  "fetch_all fetcher order t now ds x = (ds', x') \<Longrightarrow> list_all2 same_doc ds ds'"
proof (induction ds arbitrary: x ds')
  case (Cons d ds)
  then show ?case
    using same_doc_trans [OF same_doc_changes(2) same_doc_changes(5)]
    by (auto split: prod.splits)
qed simp

lemma same_docs_columns:
  "list_all2 same_doc ds ds' \<Longrightarrow>
     map d_id ds' = map d_id ds \<and> map d_doc_type ds' = map d_doc_type ds \<and> length ds' = length ds"
  by (induction rule: list_all2_induct) (auto dest: same_docD)

lemma same_docs_in: "list_all2 same_doc ds ds' \<Longrightarrow> d \<in> set ds' \<Longrightarrow> \<exists>q \<in> set ds. same_doc q d"
  by (induction rule: list_all2_induct) auto

lemma with_objects_Nil [simp]: "with_objects [] rows = rows"
  by (simp add: with_objects_def)

lemma find_id_None: "List.find (\<lambda>d. d_id d = i) ds = None \<longleftrightarrow> i \<notin> d_id ` set ds"
  by (induction ds) auto

lemma find_id_SomeD: "List.find (\<lambda>d. d_id d = i) ds = Some d \<Longrightarrow> d \<in> set ds \<and> d_id d = i"
  by (drule find_SomeD) simp

lemma with_objects_snoc:
  assumes "d_id n \<notin> d_id ` set ds"
  shows "with_objects [n] (with_objects ds rows) = with_objects (ds @ [n]) rows"
proof -
  have app: "List.find P (xs @ [y]) = (case List.find P xs of Some z \<Rightarrow> Some z
      | None \<Rightarrow> if P y then Some y else None)" for P :: "doc_row \<Rightarrow> bool" and xs y
    by (induction xs) auto
  have "with_objects [n] (with_objects ds [r]) = with_objects (ds @ [n]) [r]" for r
  proof (cases "List.find (\<lambda>d. d_id d = d_id r) ds")
    case None
    then show ?thesis by (simp add: with_objects_def app)
  next
    case (Some d)
    from find_id_SomeD [OF this] assms have "d_id n \<noteq> d_id d" by (metis imageI)
    with Some show ?thesis by (simp add: with_objects_def app)
  qed
  then show ?thesis by (simp add: with_objects_def)
qed

lemma with_objects_twice:
  "d_id a = d_id b \<Longrightarrow> with_objects [b] (with_objects [a] rows) = with_objects [b] rows"
  by (auto simp: with_objects_def)

lemma save_doc_object:
  assumes "distinct (map d_id (db_docs db))" "old \<in> set (db_docs db)" "same_doc old new"
  shows "db_docs (session_save_doc db old new) = with_objects [new] (db_docs db)"
proof -
  have "doc_flush old new r = new" if "r \<in> set (db_docs db)" "d_id r = d_id new" for r
  proof -
    have "r = old"
      using assms(1,2) that same_docD [OF assms(3)] by (simp add: distinct_map inj_on_def)
    with assms(3) show ?thesis by simp
  qed
  then show ?thesis
    by (auto simp: session_save_doc_def with_objects_def update_where_def)
qed

lemma in_with_objects_other:
  assumes "r \<in> set rows" "d_id r \<notin> d_id ` set ds"
  shows "r \<in> set (with_objects ds rows)"
proof -
  have "List.find (\<lambda>d. d_id d = d_id r) ds = None"
    using assms(2) by (simp add: find_id_None)
  with assms(1) show ?thesis
    unfolding with_objects_def set_map by (intro image_eqI [of _ _ r]) simp_all
qed

lemma with_objects_mem:
  assumes "r \<in> set rows" "d_id r = d_id n"
  shows "n \<in> set (with_objects [n] rows)"
  unfolding with_objects_def set_map by (intro image_eqI [of _ _ r]) (use assms in simp_all)

lemma map_id_with_objects [simp]: "map d_id (with_objects ds rows) = map d_id rows"
  by (auto simp: with_objects_def dest!: find_id_SomeD split: option.splits)

text \<open>One turn of the loop with no cancel in sight: two segments, one document.\<close>

lemma loop_turn:
  assumes pc: "w_pc w = Pc_check" "w_todo w = d # ds" "w_pending w = []"
    and job: "job_get db (j_id (w_job w)) (tk_tenant_id (w_task w)) = Some job" "\<not> cancel_seen job"
    and ids: "distinct (map d_id (db_docs db))" "d \<in> set (db_docs db)"
    and r: "fetcher x (w_order w) [d_doc_type d] (tk_tenant_id (w_task w)) = (r, x')"
  defines "d' \<equiv> fetch_outcome (db_clock db) r (d\<lparr>d_status := Doc_fetching\<rparr>)"
  shows "w_step provider fetcher post cfg (w_step provider fetcher post cfg (db, w, x)) =
           (db\<lparr>db_docs := with_objects [d'] (db_docs db)\<rparr>,
            w\<lparr>w_job := job, w_done := w_done w @ [d'], w_todo := ds\<rparr>, x')"
proof -
  let ?f = "d\<lparr>d_status := Doc_fetching\<rparr>"
  let ?db1 = "session_save_doc db d ?f"
  let ?w1 = "w\<lparr>w_job := job, w_todo := ?f # ds, w_pending := [], w_pc := Pc_fetch\<rparr>"
  have one: "w_step provider fetcher post cfg (db, w, x) = (?db1, ?w1, x)"
    using pc job by (simp add: w_step_def w_check_def Let_def)
  have docs1: "db_docs ?db1 = with_objects [?f] (db_docs db)"
    by (rule save_doc_object) (use ids in simp_all)
  have "db_docs (session_save_doc ?db1 ?f d') = with_objects [d'] (db_docs ?db1)"
    by (rule save_doc_object)
      (use ids docs1 with_objects_mem [of d "db_docs db" ?f] in \<open>simp_all add: d'_def\<close>)
  also have "\<dots> = with_objects [d'] (db_docs db)"
    unfolding docs1
    by (rule with_objects_twice) (use same_docD [OF same_doc_changes(5) [of ?f]] in \<open>simp add: d'_def\<close>)
  finally have docs2: "session_save_doc ?db1 ?f d' = db\<lparr>db_docs := with_objects [d'] (db_docs db)\<rparr>"
    by (simp add: session_save_doc_def)
  have "w_step provider fetcher post cfg (?db1, ?w1, x) =
      (session_save_doc ?db1 ?f d',
       ?w1\<lparr>w_done := w_done w @ [d'], w_todo := ds, w_pending := [], w_pc := Pc_check\<rparr>, x')"
    using pc r by (simp add: w_step_def w_fetch_def d'_def Let_def)
  with one docs2 pc show ?thesis by (cases w) simp
qed

lemma loop_run:
  assumes "w_pc w = Pc_check" "w_pending w = []"
    and "job_get db (j_id (w_job w)) (tk_tenant_id (w_task w)) = Some job" "\<not> cancel_seen job"
    and "distinct (map d_id (db_docs db))" "set (w_todo w) \<subseteq> set (db_docs db)"
    and "distinct (map d_id (w_done w @ w_todo w))"
    and "fetch_all fetcher (w_order w) (tk_tenant_id (w_task w)) (db_clock db) (w_todo w) x = (ds', x')"
    and "db_docs db = with_objects (w_done w) rows"
  shows "run_worker provider fetcher post cfg (\<lambda>_ db. db) (2 * length (w_todo w) + n) (db, w, x) =
         run_worker provider fetcher post cfg (\<lambda>_ db. db) n
           (db\<lparr>db_docs := with_objects (w_done w @ ds') rows\<rparr>,
            w\<lparr>w_job := (if w_todo w = [] then w_job w else job), w_done := w_done w @ ds', w_todo := []\<rparr>,
            x')"
  using assms
proof (induction "w_todo w" arbitrary: db w x ds')
  case Nil
  then have "ds' = []" "x' = x" by (metis fetch_all.simps(1) prod.inject)+
  with Nil show ?case by (cases w, cases db) simp
next
  case (Cons d ds)
  obtain r x1 where r: "fetcher x (w_order w) [d_doc_type d] (tk_tenant_id (w_task w)) = (r, x1)"
    by (cases "fetcher x (w_order w) [d_doc_type d] (tk_tenant_id (w_task w))")
  obtain es where es: "fetch_all fetcher (w_order w) (tk_tenant_id (w_task w)) (db_clock db) ds x1 = (es, x')"
      "ds' = fetch_outcome (db_clock db) r (d\<lparr>d_status := Doc_fetching\<rparr>) # es"
    using Cons.prems(8) r unfolding Cons.hyps(2) [symmetric] by (auto split: prod.splits)
  define d' where "d' = fetch_outcome (db_clock db) r (d\<lparr>d_status := Doc_fetching\<rparr>)"
  have same': "same_doc d d'"
    unfolding d'_def by (rule same_doc_trans [OF same_doc_changes(2) same_doc_changes(5)])
  then have id': "d_id d' = d_id d" by (simp add: same_docD)
  let ?db1 = "db\<lparr>db_docs := with_objects [d'] (db_docs db)\<rparr>"
  let ?w1 = "w\<lparr>w_job := job, w_done := w_done w @ [d'], w_todo := ds\<rparr>"
  have todo: "w_todo w = d # ds" using Cons.hyps(2) by simp
  have turn: "w_step provider fetcher post cfg (w_step provider fetcher post cfg (db, w, x)) =
      (?db1, ?w1, x1)"
    unfolding d'_def by (rule loop_turn) (use Cons.prems todo r in simp_all)
  have jid: "j_id job = j_id (w_job w)" using job_getD [OF Cons.prems(3)] by simp
  have rows: "with_objects [d'] (db_docs db) = with_objects (w_done w @ [d']) rows"
    unfolding Cons.prems(9)
    by (rule with_objects_snoc) (use Cons.prems(7) todo id' in simp)
  have "run_worker provider fetcher post cfg (\<lambda>_ db. db) (2 * length (w_todo ?w1) + n) (?db1, ?w1, x1) =
      run_worker provider fetcher post cfg (\<lambda>_ db. db) n
        (?db1\<lparr>db_docs := with_objects (w_done ?w1 @ es) rows\<rparr>,
         ?w1\<lparr>w_job := (if w_todo ?w1 = [] then w_job ?w1 else job), w_done := w_done ?w1 @ es,
             w_todo := []\<rparr>, x')"
  proof (rule Cons.hyps(1))
    show "job_get ?db1 (j_id (w_job ?w1)) (tk_tenant_id (w_task ?w1)) = Some job"
      using Cons.prems(3) jid by (simp add: job_get_def)
    have "d_id e \<noteq> d_id d'" if "e \<in> set ds" for e
      using Cons.prems(7) todo that id' by (auto simp: image_iff)
    then show "set (w_todo ?w1) \<subseteq> set (db_docs ?db1)"
      using Cons.prems(6) todo by (auto intro!: in_with_objects_other)
    show "distinct (map d_id (w_done ?w1 @ w_todo ?w1))"
      using Cons.prems(7) todo id' by simp
  qed (use Cons.prems es rows in simp_all)
  with turn todo es(2) show ?case by (simp add: d'_def)
qed

text \<open>The objects of a finished loop answer the final query.\<close>

lemma held_docs_set:
  assumes "map doc_skel (db_docs db') = map doc_skel (db_docs db)"
    and same: "list_all2 same_doc (doc_list_for_job db i) ds'"
    and "distinct (map d_id (db_docs db))"
  shows "set (held_docs db' ds' i) = set ds'"
proof
  have ids: "map d_id ds' = map d_id (doc_list_for_job db i)"
    using same_docs_columns [OF same] by simp
  have dist: "distinct (map d_id ds')"
    unfolding ids using assms(3) by (auto simp: doc_list_for_job_def distinct_map inj_on_def)
  have found: "List.find (\<lambda>d. d_id d = d_id e) ds' = Some e" if "e \<in> set ds'" for e
    by (rule find_unique [where f = d_id]) (use dist that in auto)
  have row: "\<exists>d \<in> set ds'. d_id d = d_id r" if "r \<in> set (doc_list_for_job db' i)" for r
  proof -
    from that have r: "r \<in> set (db_docs db')" "d_job_id r = i" "d_deleted_at r = None"
      by (auto simp: in_doc_list_for_job)
    with in_via [OF assms(1)] obtain q where "q \<in> set (db_docs db)" "doc_skel q = doc_skel r" by metis
    with r have "q \<in> set (doc_list_for_job db i)" "d_id q = d_id r"
      by (auto simp: in_doc_list_for_job doc_skel_def)
    then have "d_id r \<in> set (map d_id (doc_list_for_job db i))" by (metis image_eqI set_map)
    then show ?thesis unfolding ids [symmetric] by auto
  qed
  show "set (held_docs db' ds' i) \<subseteq> set ds'"
  proof
    fix e assume "e \<in> set (held_docs db' ds' i)"
    then obtain r where r: "r \<in> set (doc_list_for_job db' i)"
        "e = (case List.find (\<lambda>d. d_id d = d_id r) ds' of Some d \<Rightarrow> d | None \<Rightarrow> r)"
      by (auto simp: held_docs_def with_objects_def)
    from row [OF r(1)] obtain d where "d \<in> set ds'" "d_id d = d_id r" by blast
    with found [OF this(1)] r(2) show "e \<in> set ds'" by simp
  qed
  show "set ds' \<subseteq> set (held_docs db' ds' i)"
  proof
    fix e assume e: "e \<in> set ds'"
    then have "d_id e \<in> set (map d_id (doc_list_for_job db i))" unfolding ids [symmetric] by simp
    then obtain q where q: "q \<in> set (doc_list_for_job db i)" "d_id q = d_id e" by auto
    then have "q \<in> set (db_docs db)" by (simp add: in_doc_list_for_job)
    with in_via [OF assms(1) [symmetric]] obtain r where "r \<in> set (db_docs db')" "doc_skel r = doc_skel q"
      by metis
    with q have "r \<in> set (doc_list_for_job db' i)" "d_id r = d_id e"
      by (auto simp: in_doc_list_for_job doc_skel_def)
    with found [OF e] show "e \<in> set (held_docs db' ds' i)"
      unfolding held_docs_def with_objects_def set_map by (intro image_eqI [of _ _ r]) simp_all
  qed
qed

lemma resolve_by_set:
  assumes "set (L (j_id job)) = set (L' (j_id job))"
  shows "resolve_job_terminal_status L job = resolve_job_terminal_status L' job"
proof -
  have "L (j_id job) = [] \<longleftrightarrow> L' (j_id job) = []" using assms by (metis set_empty)
  with assms show ?thesis by (auto simp: resolve_terminal_cases Let_def)
qed

text \<open>The job row a finished run leaves, before the callback.\<close>

definition finished_job :: "timestamp \<Rightarrow> job_row \<Rightarrow> doc_row list \<Rightarrow> job_row" where
  "finished_job now job docs =
     (recalc_job_counters job docs)\<lparr>
        j_status := (if docs = [] then Job_failed
                     else if \<forall>d \<in> set docs. d_status d \<noteq> Doc_failed then Job_completed
                     else if \<forall>d \<in> set docs. d_status d \<in> {Doc_failed, Doc_skipped} then Job_failed
                     else Job_partial),
        j_started_at := Some now, j_completed_at := Some now, j_updated_at := now\<rparr>"

lemma doc_list_ids:
  assumes "distinct (map d_id (db_docs db))"
  shows "distinct (map d_id (doc_list_for_job db i))"
  using assms by (auto simp: doc_list_for_job_def distinct_map inj_on_def)

lemma job_get_save_job:
  assumes "distinct (map j_id (db_jobs db))" "job_get db i t = Some job" "j_id new = j_id job"
    "j_deleted_at (job_flush (db_clock db) old new job) = None"
  shows "job_get (session_save_job db old new) i t = Some (job_flush (db_clock db) old new job)"
proof -
  note D = job_getD [OF assms(2)]
  have "map j_id (db_jobs (session_save_job db old new)) = map j_id (db_jobs db)"
    by (rule map_via [where s = job_skel and g = fst]) (simp_all add: job_skel_def)
  moreover have "job_flush (db_clock db) old new job \<in> set (db_jobs (session_save_job db old new))"
    using D assms(3) by (auto simp: session_save_job_def in_update_where job_skel_def intro!: bexI [of _ job])
  ultimately have "job_get (session_save_job db old new) (j_id (job_flush (db_clock db) old new job))
      (j_tenant_id (job_flush (db_clock db) old new job)) = Some (job_flush (db_clock db) old new job)"
    using assms by (intro job_get_unique) auto
  moreover have "job_skel (job_flush (db_clock db) old new job) = job_skel job" by simp
  ultimately show ?thesis using D by (simp add: job_skel_def)
qed

lemma flush_own_row:
  assumes "same_job old new"
  shows "\<exists>u. job_flush now old new old = new\<lparr>j_updated_at := u\<rparr>"
proof (cases "new = old")
  case True
  then have "job_flush now old new old = new\<lparr>j_updated_at := j_updated_at new\<rparr>"
    by (simp add: job_flush_def)
  then show ?thesis ..
next
  case False
  with job_flush_self [OF assms] show ?thesis by auto
qed

lemma job_docs_nonempty:
  assumes ok: "tables_ok db" and job: "job_get db i t = Some job"
  shows "doc_list_for_job db i \<noteq> []"
proof -
  have "docs_of db i \<noteq> []"
    using ok job_getD [OF job] by (metis tables_ok_def jobs_ok_def map_is_Nil_conv)
  then obtain d where "d \<in> set (db_docs db)" "d_job_id d = i"
    by (auto simp: docs_of_def filter_empty_conv)
  moreover then have "d_deleted_at d = None" using ok by (auto simp: tables_ok_def docs_ok_def)
  ultimately show ?thesis by (metis empty_iff empty_set in_doc_list_for_job)
qed

lemma with_objects_skel:
  assumes same: "list_all2 same_doc ds ds'" and "set ds \<subseteq> set rows" and "distinct (map d_id rows)"
  shows "map doc_skel (with_objects ds' rows) = map doc_skel rows"
proof -
  have "doc_skel (case List.find (\<lambda>d. d_id d = d_id r) ds' of Some d \<Rightarrow> d | None \<Rightarrow> r) = doc_skel r"
    if r: "r \<in> set rows" for r
  proof (cases "List.find (\<lambda>d. d_id d = d_id r) ds'")
    case (Some d)
    from find_id_SomeD [OF this] have "d \<in> set ds'" "d_id d = d_id r" by auto
    moreover from same_docs_in [OF same this(1)] obtain q where "q \<in> set ds" "same_doc q d" ..
    ultimately have "q \<in> set rows" "d_id q = d_id r" "doc_skel d = doc_skel q"
      using assms(2) by (auto simp: same_doc_def doc_skel_def)
    with r assms(3) have "q = r" by (simp add: distinct_map inj_on_def)
    with Some \<open>doc_skel d = doc_skel q\<close> show ?thesis by simp
  qed simp
  then show ?thesis by (simp add: with_objects_def)
qed

text \<open>The row a started task reads back, and the row its last flush leaves.\<close>

definition started_job :: "timestamp \<Rightarrow> job_row \<Rightarrow> job_row" where
  "started_job now job = job\<lparr>j_status := Job_running, j_started_at := Some now\<rparr>"

lemma finish_flush:
  fixes docs :: "doc_row list"
  assumes "row = (started_job now job)\<lparr>j_updated_at := u\<rparr>"
  defines "job2 \<equiv> (recalc_job_counters row docs)\<lparr>
     j_status := resolve_job_terminal_status (\<lambda>_. docs) (recalc_job_counters row docs),
     j_completed_at := Some now\<rparr>"
  shows "job_flush now row job2 row = finished_job now job docs"
proof -
  have "j_status row = Job_running" by (simp add: assms(1) started_job_def)
  then have "j_status job2 \<noteq> j_status row"
    using resolve_terminal_range [of "\<lambda>_. docs" "recalc_job_counters row docs"]
    by (auto simp: job2_def)
  then have "job2 \<noteq> row" by metis
  moreover have "same_job row job2" by (simp add: job2_def same_job_def recalc_job_counters_def)
  ultimately have "job_flush now row job2 row = job2\<lparr>j_updated_at := now\<rparr>"
    by (simp add: job_flush_self)
  then show ?thesis
    unfolding job2_def assms(1) started_job_def finished_job_def resolve_terminal_cases
    by (simp add: recalc_job_counters_def Let_def)
qed

lemma save_job_twice:
  assumes "distinct (map j_id (db_jobs db))" "job \<in> set (db_jobs db)" "j_id a = j_id job"
    "j_id b = j_id job" "db_jobs db2 = db_jobs (session_save_job db job a)" "db_clock db2 = db_clock db"
    and final: "job_flush (db_clock db) c b (job_flush (db_clock db) job a job) = r"
  shows "db_jobs (session_save_job db2 c b) = update_where (\<lambda>j. j_id j = j_id job) (\<lambda>_. r) (db_jobs db)"
proof -
  have "job_flush (db_clock db) c b (job_flush (db_clock db) job a j) = r"
    if "j \<in> set (db_jobs db)" "j_id j = j_id job" for j
    using that assms(1,2) final by (metis distinct_map inj_onD)
  moreover have "j_id (job_flush now a b j) = j_id j" for now a b j
    by (simp add: job_flush_def)
  ultimately show ?thesis
    using assms by (simp add: session_save_job_def update_where_def)
qed

lemma research_job_undisturbed:
  assumes ok: "tables_ok db" and job: "job_get db (tk_job_id t) (tk_tenant_id t) = Some job"
    and live: "\<not> cancel_seen job"
    and order: "provider (j_order_id job) (tk_tenant_id t) = Inr order"
    and no_callback: "\<not> opt_truthy (j_callback_url job)"
    and all: "fetch_all fetcher order (tk_tenant_id t) (db_clock db)
                (doc_list_for_job db (tk_job_id t)) x = (docs, x')"
    and run: "research_job provider fetcher post cfg (\<lambda>_ db. db) db t x = (db', w', x'')"
  shows "db' = db\<lparr>db_jobs := update_where (\<lambda>j. j_id j = tk_job_id t)
                               (\<lambda>_. finished_job (db_clock db) job docs) (db_jobs db),
                  db_docs := with_objects docs (db_docs db)\<rparr> \<and> x'' = x'"
proof -
  let ?i = "tk_job_id t" and ?now = "db_clock db" and ?env = "\<lambda>(_::nat) (db::db). db"
  let ?docs0 = "doc_list_for_job db ?i" and ?run = "started_job ?now job"
  let ?db1 = "session_save_job db job ?run" and ?row = "job_flush ?now job ?run job"
  let ?w1 = "(new_worker t)\<lparr>w_pc := Pc_check, w_job := ?run, w_todo := ?docs0, w_order := order\<rparr>"
  note D = job_getD [OF job]
  have ids: "distinct (map d_id (db_docs db))" "distinct (map j_id (db_jobs db))"
    using ok by (simp_all add: tables_ok_def ids_ok_def)
  have start: "w_start provider db (new_worker t) = (?db1, ?w1)"
    using job live order D by (simp add: w_start_def Let_def new_worker_def started_job_def)
  have "same_job job ?run" by (simp add: same_job_def started_job_def)
  then obtain u where u: "?row = ?run\<lparr>j_updated_at := u\<rparr>" using flush_own_row by blast
  have row: "job_get ?db1 ?i (tk_tenant_id t) = Some ?row"
    by (rule job_get_save_job [OF ids(2) job])
       (use D in \<open>simp_all add: job_flush_def job_skel_def started_job_def\<close>)
  have cols: "j_status ?row = Job_running" "j_id ?row = ?i" "j_id ?run = ?i"
      "\<not> opt_truthy (j_callback_url ?row)"
    unfolding u using D no_callback by (simp_all add: started_job_def)
  have loop: "run_worker provider fetcher post cfg ?env (2 * length (w_todo ?w1) + 2) (?db1, ?w1, x) =
      run_worker provider fetcher post cfg ?env 2
        (?db1\<lparr>db_docs := with_objects (w_done ?w1 @ docs) (db_docs db)\<rparr>,
         ?w1\<lparr>w_job := (if w_todo ?w1 = [] then w_job ?w1 else ?row), w_done := w_done ?w1 @ docs,
            w_todo := []\<rparr>, x')"
    by (rule loop_run)
       (use row D cols ids doc_list_ids all in
         \<open>auto simp: new_worker_def cancel_seen_def in_doc_list_for_job\<close>)
  let ?db2 = "?db1\<lparr>db_docs := with_objects docs (db_docs db)\<rparr>"
  let ?w2 = "?w1\<lparr>w_job := ?row, w_done := docs, w_todo := []\<rparr>"
  have same: "list_all2 same_doc ?docs0 docs" by (rule fetch_all_same [OF all])
  have sub: "set ?docs0 \<subseteq> set (db_docs db)" by (auto simp: in_doc_list_for_job)
  have skel2: "map doc_skel (db_docs ?db2) = map doc_skel (db_docs db)"
    using with_objects_skel [OF same sub ids(1)] by simp
  have held: "resolve_job_terminal_status (held_docs ?db2 docs) (recalc_job_counters ?row docs) =
      resolve_job_terminal_status (\<lambda>_. docs) (recalc_job_counters ?row docs)"
    by (rule resolve_by_set) (use held_docs_set [OF skel2 same ids(1)] cols(2) in simp)
  let ?job2 = "(recalc_job_counters ?row docs)
      \<lparr>j_status := resolve_job_terminal_status (\<lambda>_. docs) (recalc_job_counters ?row docs),
       j_completed_at := Some ?now\<rparr>"
  have jobs: "db_jobs (session_save_job ?db2 ?row ?job2) =
      update_where (\<lambda>j. j_id j = j_id job) (\<lambda>_. finished_job ?now job docs) (db_jobs db)"
    by (rule save_job_twice [OF ids(2)]) (use D cols finish_flush [OF u] in simp_all)
  have "w_step provider fetcher post cfg (?db2, ?w2, x') =
      (session_save_job ?db2 ?row ?job2, ?w2\<lparr>w_job := ?job2, w_pc := Pc_done\<rparr>, x')"
    using held cols by (simp add: w_step_def w_finish_def Let_def new_worker_def)
  then have "run_worker provider fetcher post cfg ?env 2 (?db2, ?w2, x') =
      (session_save_job ?db2 ?row ?job2, ?w2\<lparr>w_job := ?job2, w_pc := Pc_done\<rparr>, x')"
    by (simp add: numeral_2_eq_2 w_step_final)
  moreover have "run_worker provider fetcher post cfg ?env (w_left ?w1) (?db1, ?w1, x) = (db', w', x'')"
    using run start by (simp add: research_job_def w_step_def new_worker_def)
  moreover have "w_left ?w1 = 2 * length (w_todo ?w1) + 2" "w_done ?w1 = []" "w_todo ?w1 = ?docs0"
    by (simp_all add: w_left_def new_worker_def)
  ultimately have "db' = session_save_job ?db2 ?row ?job2" "x'' = x'"
    using loop job_docs_nonempty [OF ok job] by simp_all
  with jobs D show ?thesis by (simp add: session_save_job_def)
qed

section \<open>A cancel that the task sees\<close>

lemma commit_docs_status:
  assumes "distinct (map d_id (db_docs db))" "set ds \<subseteq> set (db_docs db)" "distinct (map d_id ds)"
  shows "db_docs (commit_docs db (zip ds (map skip_doc ds))) =
           with_objects (map skip_doc ds) (db_docs db)"
  using assms
proof (induction ds rule: rev_induct)
  case (snoc d ds)
  let ?db = "commit_docs db (zip ds (map skip_doc ds))"
  have docs: "db_docs ?db = with_objects (map skip_doc ds) (db_docs db)"
    using snoc by simp
  have ids: "d_id ` set (map skip_doc ds) = d_id ` set ds" by (simp add: image_image skip_doc_def)
  have "d_id d \<notin> d_id ` set ds" using snoc.prems(3) by simp
  then have "d \<in> set (db_docs ?db)"
    unfolding docs by (intro in_with_objects_other) (use snoc.prems ids in auto)
  then have "db_docs (session_save_doc ?db d (skip_doc d)) = with_objects [skip_doc d] (db_docs ?db)"
    by (intro save_doc_object) (use snoc.prems docs in simp_all)
  also have "\<dots> = with_objects (map skip_doc ds @ [skip_doc d]) (db_docs db)"
    unfolding docs by (rule with_objects_snoc)
      (use \<open>d_id d \<notin> d_id ` set ds\<close> ids in \<open>simp add: skip_doc_def\<close>)
  finally show ?case by (simp add: commit_docs_append)
qed simp

lemma loop_cancelled:
  assumes "w_pc w = Pc_check"
    and "job_get db (j_id (w_job w)) (tk_tenant_id (w_task w)) = Some job" "cancel_seen job"
  shows "run_worker provider fetcher post cfg (\<lambda>_ db. db) (length (w_todo w) + n) (db, w, x) =
         run_worker provider fetcher post cfg (\<lambda>_ db. db) n
           (db, w\<lparr>w_job := (if w_todo w = [] then w_job w else job),
                  w_done := w_done w @ map skip_doc (w_todo w), w_todo := [],
                  w_pending := w_pending w @ zip (w_todo w) (map skip_doc (w_todo w))\<rparr>, x)"
  using assms
proof (induction "w_todo w" arbitrary: w)
  case Nil
  then show ?case by (cases w) simp
next
  case (Cons d ds)
  let ?w1 = "w\<lparr>w_job := job, w_done := w_done w @ [skip_doc d], w_todo := ds,
               w_pending := w_pending w @ [(d, skip_doc d)]\<rparr>"
  have jid: "j_id job = j_id (w_job w)" using job_getD [OF Cons.prems(2)] by simp
  have todo: "w_todo w = d # ds" using Cons.hyps(2) by simp
  have "w_step provider fetcher post cfg (db, w, x) = (db, ?w1, x)"
    using Cons.prems todo by (simp add: w_step_def w_check_def)
  moreover have "run_worker provider fetcher post cfg (\<lambda>_ db. db) (length (w_todo ?w1) + n) (db, ?w1, x) =
         run_worker provider fetcher post cfg (\<lambda>_ db. db) n
           (db, ?w1\<lparr>w_job := (if w_todo ?w1 = [] then w_job ?w1 else job),
                  w_done := w_done ?w1 @ map skip_doc (w_todo ?w1), w_todo := [],
                  w_pending := w_pending ?w1 @ zip (w_todo ?w1) (map skip_doc (w_todo ?w1))\<rparr>, x)"
    by (rule Cons.hyps(1)) (use Cons.prems jid in simp_all)
  ultimately show ?case by (simp add: todo)
qed

lemma in_with_objects:
  assumes "e \<in> set (with_objects ds rows)"
  shows "e \<in> set ds \<or> (e \<in> set rows \<and> d_id e \<notin> d_id ` set ds)"
proof -
  from assms obtain r where r: "r \<in> set rows"
      "e = (case List.find (\<lambda>d. d_id d = d_id r) ds of Some d \<Rightarrow> d | None \<Rightarrow> r)"
    by (auto simp: with_objects_def)
  show ?thesis
  proof (cases "List.find (\<lambda>d. d_id d = d_id r) ds")
    case None
    with r show ?thesis by (simp add: find_id_None)
  next
    case (Some d)
    with r find_id_SomeD [OF Some] show ?thesis by simp
  qed
qed

lemma docs_all_skipped:
  assumes "db_docs db' = with_objects ds' (db_docs db)"
    and "d_id ` set ds' = d_id ` set (doc_list_for_job db i)"
    and "\<And>e. e \<in> set ds' \<Longrightarrow> P e"
    and "d \<in> set (doc_list_for_job db' i)"
  shows "P d"
proof -
  from assms(4) have d: "d \<in> set (with_objects ds' (db_docs db))" "d_job_id d = i" "d_deleted_at d = None"
    by (auto simp: in_doc_list_for_job assms(1))
  from in_with_objects [OF d(1)] show ?thesis
  proof
    assume "d \<in> set (db_docs db) \<and> d_id d \<notin> d_id ` set ds'"
    with d assms(2) show ?thesis by (auto simp: in_doc_list_for_job)
  qed (rule assms(3))
qed

lemma w_start_drains:
  assumes ok: "tables_ok db" and job: "job_get db (tk_job_id (w_task w)) (tk_tenant_id (w_task w)) = Some job"
    and seen: "cancel_seen job"
    and start: "w_start provider db w = (db', w')"
  shows "w_pc w' = Pc_done \<and>
         (\<exists>j. job_get db' (tk_job_id (w_task w)) (tk_tenant_id (w_task w)) = Some j \<and>
              j_status j = Job_cancelled \<and> j_completed_at j = Some (db_clock db)) \<and>
         (\<forall>d \<in> set (doc_list_for_job db' (tk_job_id (w_task w))). d_status d = Doc_skipped)"
proof -
  let ?i = "tk_job_id (w_task w)" and ?docs = "doc_list_for_job db (tk_job_id (w_task w))"
  let ?job' = "(recalc_job_counters job (map skip_doc ?docs))
      \<lparr>j_status := Job_cancelled, j_completed_at := Some (db_clock db)\<rparr>"
  let ?db1 = "commit_docs db (zip ?docs (map skip_doc ?docs))"
  have ids: "distinct (map d_id (db_docs db))" "distinct (map j_id (db_jobs db))"
    using ok by (simp_all add: tables_ok_def ids_ok_def)
  have eq: "db' = session_save_job ?db1 job ?job'" "w_pc w' = Pc_done"
    using start job seen by (auto simp: w_start_def Let_def)
  have "same_job job ?job'" by (simp add: same_job_def recalc_job_counters_def)
  then obtain u where u: "job_flush (db_clock db) job ?job' job = ?job'\<lparr>j_updated_at := u\<rparr>"
    using flush_own_row by blast
  have "job_get db' ?i (tk_tenant_id (w_task w)) = Some (job_flush (db_clock ?db1) job ?job' job)"
    unfolding eq by (rule job_get_save_job)
      (use ids job job_getD [OF job] u in \<open>simp_all add: job_skel_def recalc_job_counters_def\<close>)
  moreover have "db_docs ?db1 = with_objects (map skip_doc ?docs) (db_docs db)"
    by (rule commit_docs_status) (use ids doc_list_ids in \<open>auto simp: in_doc_list_for_job\<close>)
  then have "db_docs db' = with_objects (map skip_doc ?docs) (db_docs db)"
    by (simp add: eq)
  then have "d_status d = Doc_skipped" if "d \<in> set (doc_list_for_job db' ?i)" for d
    by (rule docs_all_skipped [OF _ _ _ that]) (auto simp: image_image skip_doc_def)
  ultimately show ?thesis using u eq(2) by simp
qed

lemma w_start_task: "w_start provider db w = (db', w') \<Longrightarrow> w_task w' = w_task w"
  by (auto simp: w_start_def Let_def split: option.splits if_splits sum.splits)

lemma research_job_drains:
  assumes "tables_ok db" and "job_get db (tk_job_id t) (tk_tenant_id t) = Some job" and "cancel_seen job"
    and "research_job provider fetcher post cfg env db t x = (db', w', x')"
  shows "x' = x \<and>
         (\<exists>j. job_get db' (tk_job_id t) (tk_tenant_id t) = Some j \<and>
              j_status j = Job_cancelled \<and> j_completed_at j = Some (db_clock db)) \<and>
         (\<forall>d \<in> set (doc_list_for_job db' (tk_job_id t)). d_status d = Doc_skipped)"
proof -
  obtain db1 w1 where start: "w_start provider db (new_worker t) = (db1, w1)" by fastforce
  have task: "w_task (new_worker t) = t" by (simp add: new_worker_def)
  note D = w_start_drains [OF assms(1) _ assms(3) start, unfolded task, OF assms(2)]
  then have "research_job provider fetcher post cfg env db t x = (db1, w1, x)"
    using start by (simp add: research_job_def w_step_def new_worker_def w_left_def)
  with assms(4) D show ?thesis by simp
qed

lemma cancelled_run:
  assumes ok: "tables_ok db" and pc: "w_pc w = Pc_check" "w_pending w = []" "w_todo w \<noteq> []"
    and job: "job_get db (j_id (w_job w)) (tk_tenant_id (w_task w)) = Some job"
    and seen: "j_status job = Job_cancelling"
    and todo: "set (w_todo w) \<subseteq> set (db_docs db)" "distinct (map d_id (w_todo w))"
    and run: "run_worker provider fetcher post cfg (\<lambda>_ db. db) (length (w_todo w) + 1) (db, w, x) =
              (db', w', x')"
  shows "x' = x \<and> db_docs db' = with_objects (map skip_doc (w_todo w)) (db_docs db) \<and>
         (\<exists>j. job_get db' (j_id (w_job w)) (tk_tenant_id (w_task w)) = Some j \<and>
              j_status j = Job_cancelled \<and> j_completed_at j = Some (db_clock db))"
proof -
  let ?ds = "w_todo w" and ?done = "w_done w @ map skip_doc (w_todo w)"
  let ?db1 = "commit_docs db (zip ?ds (map skip_doc ?ds))"
  let ?job' = "(recalc_job_counters job ?done)\<lparr>j_status := Job_cancelled,
      j_completed_at := Some (db_clock db)\<rparr>"
  have "same_job job ?job'" by (simp add: same_job_def recalc_job_counters_def)
  then obtain u where u: "job_flush (db_clock db) job ?job' job = ?job'\<lparr>j_updated_at := u\<rparr>"
    using flush_own_row by blast
  have "cancel_seen job" using seen by (simp add: cancel_seen_def)
  note loop_cancelled [OF pc(1) job this, of provider fetcher post cfg 1 x]
  then have "db' = session_save_job ?db1 job ?job'" "x' = x"
    using run pc seen
    by (simp_all add: w_step_def w_finish_def Let_def resolve_job_terminal_status_def)
  moreover have "job_get (session_save_job ?db1 job ?job') (j_id (w_job w)) (tk_tenant_id (w_task w)) =
      Some (job_flush (db_clock ?db1) job ?job' job)"
    by (rule job_get_save_job)
      (use ok job job_getD [OF job] u in
        \<open>simp_all add: job_skel_def recalc_job_counters_def tables_ok_def ids_ok_def\<close>)
  moreover have "db_docs ?db1 = with_objects (map skip_doc ?ds) (db_docs db)"
    by (rule commit_docs_status) (use ok todo in \<open>simp_all add: tables_ok_def ids_ok_def\<close>)
  ultimately show ?thesis using u by simp
qed

section \<open>A cancel that the task does not see\<close>

lemma lost_cancel:
  assumes ok: "tables_ok db" and pc: "w_pc w = Pc_fetch" "w_todo w = [doc]"
    and held: "j_status (w_job w) = Job_running" "j_deleted_at (w_job w) = None"
    and job: "job_get db (j_id (w_job w)) (tk_tenant_id (w_task w)) = Some job" "j_status job = Job_running"
    and cancel: "cancel_job db (tk_tenant_id (w_task w)) (j_id (w_job w)) (Some reason) = Inr (seen, db1)"
    and run: "run_worker provider fetcher post cfg (\<lambda>_ db. db) 2 (db1, w, x) = (db', w', x')"
  shows "\<exists>j. job_get db' (j_id (w_job w)) (tk_tenant_id (w_task w)) = Some j \<and>
             j_status j \<in> {Job_completed, Job_partial, Job_failed}"
proof -
  let ?i = "j_id (w_job w)" and ?t = "tk_tenant_id (w_task w)"
  note D = job_getD [OF job(1)]
  have ids: "distinct (map j_id (db_jobs db))" using ok by (simp add: tables_ok_def ids_ok_def)
  obtain j3 where j3: "db1 = job_save db j3" "job_skel j3 = job_skel job" "j_deleted_at j3 = None"
    using cancel job D by (auto simp: cancel_job_def get_job_def Let_def job_skel_def split: if_splits)
  let ?row = "j3\<lparr>j_updated_at := db_clock db\<rparr>"
  have cols: "j_id ?row = ?i" "j_tenant_id ?row = ?t" using j3(2) D by (simp_all add: job_skel_def)
  have ids1: "distinct (map j_id (db_jobs db1))"
    using ids unfolding j3(1) job_table.keys_save .
  have "?row \<in> set (db_jobs db1)"
    unfolding j3(1) job_table.in_save
    using D j3(2) by (auto simp: job_skel_def intro!: image_eqI [of _ j_id job])
  from job_get_unique [OF ids1 this] cols have row: "job_get db1 ?i ?t = Some ?row"
    using j3(3) by simp
  obtain db2 w2 where two: "w_fetch fetcher db1 w doc [] x = (db2, w2, x')"
      "db' = fst (w_finish db2 w2)" "db_jobs db2 = db_jobs db1" "w_job w2 = w_job w"
  proof -
    obtain db2 w2 x2 where f: "w_fetch fetcher db1 w doc [] x = (db2, w2, x2)" by (rule prod_cases3)
    then have "w_pc w2 = Pc_check" "w_todo w2 = []" "w_job w2 = w_job w" "db_jobs db2 = db_jobs db1"
      by (auto simp: w_fetch_def Let_def split: prod.splits)
    with that f run pc show thesis
      by (simp add: numeral_2_eq_2 w_step_def split: prod.splits)
  qed
  define job1 where "job1 = recalc_job_counters (w_job w) (w_done w2)"
  define s where "s = resolve_job_terminal_status (held_docs db2 (w_done w2)) job1"
  let ?job2 = "job1\<lparr>j_status := s, j_completed_at := Some (db_clock db2)\<rparr>"
  have s: "s \<in> {Job_completed, Job_partial, Job_failed}"
    using held by (auto simp: s_def job1_def resolve_terminal_cases Let_def)
  have db': "db' = session_save_job (commit_docs db2 (w_pending w2)) (w_job w) ?job2"
    using two by (simp add: w_finish_def Let_def job1_def s_def)
  have "job_get db' ?i ?t = Some (job_flush (db_clock db2) (w_job w) ?job2 ?row)"
  proof -
    have "job_get (commit_docs db2 (w_pending w2)) ?i ?t = Some ?row"
      using row two(3) by (simp add: job_get_def)
    then show ?thesis
      unfolding db' using ids1 two(3) cols j3(3)
      by (subst job_get_save_job) (simp_all add: job1_def job_flush_def)
  qed
  moreover have "j_status ?job2 \<noteq> j_status (w_job w)" using s held by auto
  then have "?job2 \<noteq> w_job w" by metis
  then have "j_status (job_flush (db_clock db2) (w_job w) ?job2 ?row) = s"
    using s held by (auto simp: job_flush_def set_col_def)
  ultimately show ?thesis using s by simp
qed

section \<open>Callback delivery\<close>

text \<open>The answers of \<open>k\<close> consecutive posts, and the world after them.\<close>

fun posts :: "'w poster \<Rightarrow> string \<Rightarrow> callback_payload \<Rightarrow> nat \<Rightarrow> 'w \<Rightarrow> (string + nat) list \<times> 'w" where
  "posts post url p 0 x = ([], x)"
| "posts post url p (Suc k) x =
     (case post x url p of (r, x') \<Rightarrow> (case posts post url p k x' of (rs, x'') \<Rightarrow> (r # rs, x'')))"

definition accepted :: "string + nat \<Rightarrow> bool" where
  "accepted r = (case r of Inl _ \<Rightarrow> False | Inr code \<Rightarrow> code < 400)"

lemma deliver_spec:
  "n > 0 \<Longrightarrow> deliver post url p sleep n delay x = (ok, sleeps, x') \<Longrightarrow>
     \<exists>k rs r. 0 < k \<and> k \<le> n \<and> posts post url p k x = (rs @ [r], x') \<and>
       (\<forall>q \<in> set rs. \<not> accepted q) \<and> accepted r = ok \<and> (\<not> ok \<longrightarrow> k = n) \<and>
       sleeps = (if sleep then map (\<lambda>i. delay * 2 ^ i) [0..<k - 1] else [])"
proof (induction n arbitrary: delay x sleeps)
  case (Suc n)
  obtain r x1 where r: "post x url p = (r, x1)" by fastforce
  show ?case
  proof (cases "accepted r \<or> n = 0")
    case True
    with Suc.prems(2) r have "sleeps = []" "x' = x1" "ok = accepted r"
      by (auto simp: accepted_def split: if_splits)
    with True r show ?thesis
      by (intro exI [of _ "1::nat"] exI [of _ "[]"] exI [of _ r]) auto
  next
    case False
    then have more: "\<not> accepted r" "n > 0" by auto
    obtain ok1 sl x2 where d: "deliver post url p sleep n (delay * 2) x1 = (ok1, sl, x2)"
      by (rule prod_cases3)
    with Suc.prems(2) r more have eq: "ok1 = ok" "x2 = x'" "sleeps = (if sleep then delay # sl else sl)"
      by (auto simp: accepted_def split: if_splits)
    from Suc.IH [OF more(2) d [unfolded eq]] obtain k rs r' where
      k: "0 < k" "k \<le> n" "posts post url p k x1 = (rs @ [r'], x')" "\<forall>q \<in> set rs. \<not> accepted q"
        "accepted r' = ok" "\<not> ok \<longrightarrow> k = n"
        "sl = (if sleep then map (\<lambda>i. delay * 2 * 2 ^ i) [0..<k - 1] else [])" by blast
    have "delay # map (\<lambda>i. delay * 2 * 2 ^ i) [0..<k - 1] = map (\<lambda>i. delay * 2 ^ i) [0..<k]"
      using \<open>0 < k\<close> by (cases k) (simp_all add: upt_conv_Cons map_Suc_upt [symmetric] del: upt_Suc)
    with k r more eq show ?thesis
      by (intro exI [of _ "Suc k"] exI [of _ "r # rs"] exI [of _ r']) auto
  qed
qed simp

section \<open>The reaper\<close>

lemma enqueue_foldl:
  "foldl (\<lambda>q j. enqueue_research_job q (f j) (g j) (h j)) q js =
     q @ map (\<lambda>j. \<lparr>tk_job_id = f j, tk_tenant_id = g j, tk_actor_id = h j\<rparr>) js"
  by (induction js arbitrary: q) (simp_all add: enqueue_research_job_def)

lemma reaper_queue:
  "es_queue (reaper_research_jobs m st) = es_queue st @
     map (\<lambda>j. \<lparr>tk_job_id = j_id j, tk_tenant_id = j_tenant_id j,
              tk_actor_id = (case j_created_by j of None \<Rightarrow> j_tenant_id j | Some a \<Rightarrow> a)\<rparr>)
       (job_list_stale_queued (es_db st) m)"
  by (simp add: reaper_research_jobs_def Let_def enqueue_foldl)

lemma reaper_skel:
  "map job_skel (db_jobs (es_db (reaper_research_jobs m st))) = map job_skel (db_jobs (es_db st))"
  "db_docs (es_db (reaper_research_jobs m st)) = db_docs (es_db st)"
  "db_fresh (es_db (reaper_research_jobs m st)) = db_fresh (es_db st)"
  "map counters_ok (db_jobs (es_db (reaper_research_jobs m st))) = map counters_ok (db_jobs (es_db st))"
  by (simp_all add: reaper_research_jobs_def Let_def update_where_def job_skel_def counters_ok_def)

end
