(* ===== verification/WorkerProps.thy ===== *)
theory WorkerProps
  imports WorkerFacts
begin

text \<open>
  The properties of the worker: termination under arbitrary interference, the refinement of an
  undisturbed run by the sequential reference, drains and mid-run cancels, the cancel that a run
  can overwrite, callback delivery, and the reaper.  The concrete database of the witnesses holds
  one job with two documents.
\<close>

section \<open>A concrete instance\<close>

definition demo_db :: "job_status \<Rightarrow> db" where
  "demo_db s =
     \<lparr>db_jobs = [(new_job_row 1 0 7 8 9 5 [''PARCEL_RECORD'', ''NGS_CONTROL''] None)\<lparr>j_status := s\<rparr>],
      db_docs = [new_doc_row 2 0 1 7 ''PARCEL_RECORD'', new_doc_row 3 0 1 7 ''NGS_CONTROL''],
      db_clock = 60, db_fresh = 4\<rparr>"

definition demo_task :: task where
  "demo_task = \<lparr>tk_job_id = 1, tk_tenant_id = 8, tk_actor_id = 9\<rparr>"

definition demo_provider :: order_reader where
  "demo_provider i t = Inr None"

text \<open>Fetches a link for everything; the world counts the calls.\<close>

definition demo_fetcher :: "nat fetcher" where
  "demo_fetcher x order types t =
     (Inr (map (\<lambda>ty. (ty, \<lparr>fd_doc_type = ty, fd_status = Doc_fetched, fd_summary = [], fd_link = [],
          fd_link_label = [], fd_file_key = None, fd_file_name = None, fd_file_size = None,
          fd_sha256 = [], fd_mime_type = None, fd_file_id = None, fd_order_file_id = None,
          fd_provenance = [], fd_warnings = [], fd_error_code = None, fd_error_message = None,
          fd_retryable = True\<rparr>)) types), Suc x)"

text \<open>A callback endpoint that refuses twice.\<close>

definition demo_post :: "nat poster" where
  "demo_post x url p = (Inr (if x < 2 then 503 else 200), Suc x)"

lemmas demo_defs = demo_db_def demo_task_def demo_provider_def demo_fetcher_def demo_post_def
  new_job_row_def new_doc_row_def

lemma demo_db_ok: "tables_ok (demo_db s)"
  by (simp add: demo_defs tables_ok_def ids_ok_def keys_ok_def jobs_ok_def docs_ok_def docs_of_def
      counters_ok_def doc_types_known_eq)

lemma demo_get:
  "job_get (demo_db s) (tk_job_id demo_task) (tk_tenant_id demo_task) =
     Some ((new_job_row 1 0 7 8 9 5 [''PARCEL_RECORD'', ''NGS_CONTROL''] None)\<lparr>j_status := s\<rparr>)"
  by (simp add: job_get_def demo_defs)

lemma demo_docs:
  "doc_list_for_job (demo_db s) (tk_job_id demo_task) =
     [new_doc_row 2 0 1 7 ''PARCEL_RECORD'', new_doc_row 3 0 1 7 ''NGS_CONTROL'']"
  by (simp add: doc_list_for_job_def demo_defs)

section \<open>Runs\<close>

text \<open>
  C7: Whatever other sessions commit between the segments of a task, \<open>research_job\<close> comes to an
  end: with the segments its own documents need (two per document and two for the finish and the
  callback) it has returned, or has handed the task back to Celery's retry.
\<close>

theorem research_job_terminates:
  "w_pc (fst (snd (research_job provider fetcher post cfg env db t x))) \<in> {Pc_done, Pc_retry}"
  by (cases "research_job provider fetcher post cfg env db t x") (auto dest: research_job_ends)

text \<open>
  C3: A task that nobody disturbs refines the sequential reference: the documents of the job are
  fetched one after the other in order, each document row takes the outcome of its fetch, the job
  row takes the recomputed counters, the terminal status that the outcomes give by the table of
  \<open>finished_job\<close> and both timestamps, and no other row or column of the database changes.
\<close>

theorem research_job_refines:
  assumes "tables_ok db" and "job_get db (tk_job_id t) (tk_tenant_id t) = Some job"
    and "j_status job \<notin> {Job_cancelled, Job_cancelling}"
    and "provider (j_order_id job) (tk_tenant_id t) = Inr order"
    and "\<not> opt_truthy (j_callback_url job)"
  shows "(case fetch_all fetcher order (tk_tenant_id t) (db_clock db)
                 (doc_list_for_job db (tk_job_id t)) x of
            (docs, x') \<Rightarrow>
              (case research_job provider fetcher post cfg (\<lambda>_ db. db) db t x of
                 (db', w', x'') \<Rightarrow>
                   db' = db\<lparr>db_jobs := update_where (\<lambda>j. j_id j = tk_job_id t)
                                (\<lambda>_. finished_job (db_clock db) job docs) (db_jobs db),
                            db_docs := with_objects docs (db_docs db)\<rparr> \<and> x'' = x'))"
proof -
  obtain docs x' where "fetch_all fetcher order (tk_tenant_id t) (db_clock db)
      (doc_list_for_job db (tk_job_id t)) x = (docs, x')" by fastforce
  moreover obtain db' w' x'' where
      "research_job provider fetcher post cfg (\<lambda>_ db. db) db t x = (db', w', x'')"
    by (rule prod_cases3)
  ultimately show ?thesis
    using research_job_undisturbed assms by (simp add: cancel_seen_def)
qed

theorem research_job_refines_witness:
  "(case research_job demo_provider demo_fetcher demo_post default_callback_settings (\<lambda>_ db. db)
          (demo_db Job_queued) demo_task 0 of
      (db', w', n) \<Rightarrow> map j_status (db_jobs db') = [Job_completed] \<and>
        map d_status (db_docs db') = [Doc_fetched, Doc_fetched] \<and> n = 2)"
proof -
  let ?db = "demo_db Job_queued"
  have pre: "fetch_all demo_fetcher None (tk_tenant_id demo_task) (db_clock ?db)
      (doc_list_for_job ?db (tk_job_id demo_task)) 0 =
      (map (apply_fetched 60 (snd (hd (projr (fst (demo_fetcher 0 None [''''] 0))))))
         [new_doc_row 2 0 1 7 ''PARCEL_RECORD'', new_doc_row 3 0 1 7 ''NGS_CONTROL''], 2)"
    unfolding demo_docs
    by (simp add: fetch_outcome_def apply_fetched_def demo_defs)
  show ?thesis
    using research_job_refines [OF demo_db_ok [of Job_queued] demo_get [of Job_queued], where provider = demo_provider
        and order = None and fetcher = demo_fetcher and x = 0 and post = demo_post
        and cfg = default_callback_settings]
    unfolding pre
    by (auto simp: finished_job_def with_objects_def update_where_def apply_fetched_def demo_defs
        recalc_job_counters_def split: prod.splits)
qed

text \<open>
  A task delivered after a cancel is drained: no source is touched (the fetcher's world is
  unchanged), every document of the job becomes \<open>skipped\<close>, and the job ends \<open>cancelled\<close> with its
  completion time, whether it was found \<open>cancelled\<close> or \<open>cancelling\<close>.
\<close>

theorem drained_without_fetching:
  assumes "tables_ok db" and "job_get db (tk_job_id t) (tk_tenant_id t) = Some job"
    and "j_status job \<in> {Job_cancelled, Job_cancelling}"
  shows "case research_job provider fetcher post cfg env db t x of
           (db', w', x') \<Rightarrow> x' = x \<and>
             (\<exists>j. job_get db' (tk_job_id t) (tk_tenant_id t) = Some j \<and>
                  j_status j = Job_cancelled \<and> j_completed_at j = Some (db_clock db)) \<and>
             (\<forall>d \<in> set (doc_list_for_job db' (tk_job_id t)). d_status d = Doc_skipped)"
proof -
  obtain db' w' x' where "research_job provider fetcher post cfg env db t x = (db', w', x')"
    by (rule prod_cases3)
  then show ?thesis
    using research_job_drains assms by (simp add: cancel_seen_def)
qed

theorem drained_without_fetching_witness:
  "case research_job demo_provider demo_fetcher demo_post default_callback_settings (\<lambda>_ db. db)
          (demo_db Job_cancelling) demo_task 0 of
     (db', w', x') \<Rightarrow> x' = 0 \<and> (\<forall>d \<in> set (doc_list_for_job db' 1). d_status d = Doc_skipped)"
  using drained_without_fetching [OF demo_db_ok [of Job_cancelling] demo_get [of Job_cancelling],
      where provider = demo_provider and fetcher = demo_fetcher and x = 0 and post = demo_post
        and cfg = default_callback_settings and env = "\<lambda>_ db. db"]
  by (auto simp: demo_task_def split: prod.splits)

text \<open>
  C8: A cancel that is committed before a loop turn stops the run at that turn: no further source
  is touched, the documents still to do become \<open>skipped\<close>, the documents already done keep their
  outcome, and the job ends \<open>cancelled\<close>.
\<close>

theorem cancelling_stops_the_run:
  assumes "tables_ok db" and "w_pc w = Pc_check" and "w_pending w = []" and "w_todo w \<noteq> []"
    and "job_get db (j_id (w_job w)) (tk_tenant_id (w_task w)) = Some job"
    and "j_status job = Job_cancelling"
    and "set (w_todo w) \<subseteq> set (db_docs db)" and "distinct (map d_id (w_todo w))"
  shows "case run_worker provider fetcher post cfg (\<lambda>_ db. db) (length (w_todo w) + 1) (db, w, x) of
           (db', w', x') \<Rightarrow> x' = x \<and>
             db_docs db' = with_objects (map skip_doc (w_todo w)) (db_docs db) \<and>
             (\<exists>j. job_get db' (j_id (w_job w)) (tk_tenant_id (w_task w)) = Some j \<and>
                  j_status j = Job_cancelled \<and> j_completed_at j = Some (db_clock db))"
proof -
  obtain db' w' x' where "run_worker provider fetcher post cfg (\<lambda>_ db. db) (length (w_todo w) + 1)
      (db, w, x) = (db', w', x')" by (rule prod_cases3)
  then show ?thesis using cancelled_run [OF assms] by simp
qed

definition demo_worker :: "pc \<Rightarrow> doc_row list \<Rightarrow> worker" where
  "demo_worker pc docs =
     (new_worker demo_task)\<lparr>w_pc := pc, w_job := hd (db_jobs (demo_db Job_running)), w_todo := docs\<rparr>"

theorem cancelling_stops_the_run_witness:
  "map d_status (db_docs (fst (run_worker demo_provider demo_fetcher demo_post
      default_callback_settings (\<lambda>_ db. db) 3
      (demo_db Job_cancelling, demo_worker Pc_check (db_docs (demo_db Job_cancelling)), 0)))) =
   [Doc_skipped, Doc_skipped]"
proof -
  let ?db = "demo_db Job_cancelling" and ?w = "demo_worker Pc_check (db_docs (demo_db Job_cancelling))"
  have w: "w_pc ?w = Pc_check" "w_pending ?w = []" "w_todo ?w \<noteq> []"
      "job_get ?db (j_id (w_job ?w)) (tk_tenant_id (w_task ?w)) = Some (hd (db_jobs ?db))"
      "j_status (hd (db_jobs ?db)) = Job_cancelling" "set (w_todo ?w) \<subseteq> set (db_docs ?db)"
      "distinct (map d_id (w_todo ?w))" "length (w_todo ?w) + 1 = 3"
    by (simp_all add: demo_worker_def new_worker_def job_get_def demo_defs)
  have "map d_status (with_objects (map skip_doc (w_todo ?w)) (db_docs ?db)) = [Doc_skipped, Doc_skipped]"
    by (simp add: demo_worker_def demo_defs with_objects_def skip_doc_def)
  then show ?thesis
    using cancelling_stops_the_run [OF demo_db_ok w(1-7), where provider = demo_provider
        and fetcher = demo_fetcher and post = demo_post and cfg = default_callback_settings
        and x = 0, unfolded w(8)]
    by (simp split: prod.splits)
qed

text \<open>
  C12: A cancel accepted while the last document is being fetched is lost: the API answers with a
  \<open>cancelling\<close> job, and the run then overwrites the status with the outcome of the documents
  (never \<open>cancelled\<close>), because the final flush uses the job as last read by the loop.
\<close>

theorem cancel_during_last_fetch_is_lost:
  assumes "tables_ok db" and "w_pc w = Pc_fetch" and "w_todo w = [doc]"
    and "j_status (w_job w) = Job_running" and "j_deleted_at (w_job w) = None"
    and "job_get db (j_id (w_job w)) (tk_tenant_id (w_task w)) = Some job"
    and "j_status job = Job_running"
    and "cancel_job db (tk_tenant_id (w_task w)) (j_id (w_job w)) (Some reason) = Inr (seen, db1)"
  shows "j_status seen = Job_cancelling \<and>
         (case run_worker provider fetcher post cfg (\<lambda>_ db. db) 2 (db1, w, x) of
            (db', w', x') \<Rightarrow>
              \<exists>j. job_get db' (j_id (w_job w)) (tk_tenant_id (w_task w)) = Some j \<and>
                  j_status j \<in> {Job_completed, Job_partial, Job_failed})"
proof -
  obtain db' w' x' where "run_worker provider fetcher post cfg (\<lambda>_ db. db) 2 (db1, w, x) = (db', w', x')"
    by (rule prod_cases3)
  moreover have "j_status seen = Job_cancelling"
    using assms(6,7,8) by (auto simp: cancel_job_def get_job_def Let_def split: if_splits)
  ultimately show ?thesis using lost_cancel [OF assms] by simp
qed

theorem cancel_during_last_fetch_is_lost_witness:
  "\<exists>db1 seen. cancel_job (demo_db Job_running) 8 1 (Some ''no longer needed'') = Inr (seen, db1) \<and>
     j_status seen = Job_cancelling \<and>
     (case run_worker demo_provider demo_fetcher demo_post default_callback_settings (\<lambda>_ db. db) 2
             (db1, demo_worker Pc_fetch [new_doc_row 3 0 1 7 ''NGS_CONTROL''], 0) of
        (db', w', x') \<Rightarrow> \<exists>j. job_get db' 1 8 = Some j \<and>
           j_status j \<in> {Job_completed, Job_partial, Job_failed})"
proof -
  let ?db = "demo_db Job_running" and ?w = "demo_worker Pc_fetch [new_doc_row 3 0 1 7 ''NGS_CONTROL'']"
  have job: "job_get ?db 1 8 = Some (hd (db_jobs ?db))" "j_status (hd (db_jobs ?db)) = Job_running"
    by (simp_all add: job_get_def demo_defs)
  then obtain seen db1 where c: "cancel_job ?db 8 1 (Some ''no longer needed'') = Inr (seen, db1)"
    by (auto simp: cancel_job_def get_job_def Let_def)
  have w: "w_pc ?w = Pc_fetch" "w_todo ?w = [new_doc_row 3 0 1 7 ''NGS_CONTROL'']"
      "j_status (w_job ?w) = Job_running" "j_deleted_at (w_job ?w) = None" "j_id (w_job ?w) = 1"
      "tk_tenant_id (w_task ?w) = 8"
    by (simp_all add: demo_worker_def new_worker_def demo_defs)
  show ?thesis
    using c cancel_during_last_fetch_is_lost [where db = ?db and w = ?w, OF demo_db_ok w(1-4),
        unfolded w(5,6), OF job c,
        of demo_provider demo_fetcher demo_post default_callback_settings 0]
    by (intro exI [of _ db1] exI [of _ seen]) simp
qed

section \<open>Callback\<close>

text \<open>
  Delivery of the callback posts at most the configured number of attempts, stops at the
  first answer below 400, reports success exactly for it, gives up only after the last attempt,
  and sleeps between attempts for the configured back-off, doubled each time.
\<close>

theorem callback_attempts:
  assumes "attempts > 0" and "deliver post url p sleep attempts backoff x = (ok, sleeps, x')"
  shows "\<exists>k rs r. 0 < k \<and> k \<le> attempts \<and> posts post url p k x = (rs @ [r], x') \<and>
           (\<forall>q \<in> set rs. \<not> accepted q) \<and> accepted r = ok \<and> (\<not> ok \<longrightarrow> k = attempts) \<and>
           sleeps = (if sleep then map (\<lambda>i. backoff * 2 ^ i) [0..<k - 1] else [])"
  using assms by (rule deliver_spec)

theorem callback_attempts_witness:
  "\<exists>k rs r. 0 < k \<and> k \<le> (3::nat) \<and>
     posts demo_post [] (callback_payload_of blank_job []) k 0 = (rs @ [r], 3) \<and>
     (\<forall>q \<in> set rs. \<not> accepted q) \<and> accepted r \<and> [1, 2] = map (\<lambda>i. 1 * 2 ^ i :: rat) [0..<k - 1]"
proof -
  have "deliver demo_post [] (callback_payload_of blank_job []) True 3 1 0 = (True, [1, 2], 3)"
    by (simp add: numeral_3_eq_3 demo_post_def)
  from callback_attempts [OF _ this] show ?thesis by simp
qed

end
