(* ===== verification/ServiceProps.thy ===== *)
theory ServiceProps
  imports CreateFacts WorkerProps
begin

text \<open>The properties of the service operations.\<close>

section \<open>Idempotent creation\<close>

lemma find_append_new:
  "\<forall>y \<in> set xs. \<not> P y \<Longrightarrow> P x \<Longrightarrow> List.find P (xs @ [x]) = Some x"
  by (induction xs) auto

lemma find_none: "\<forall>y \<in> set xs. \<not> P y \<Longrightarrow> List.find P xs = None"
  by (induction xs) auto

lemma not_taken_no_row:
  "\<not> key_taken db t k \<Longrightarrow> job_get_by_idempotency db k t = None"
  unfolding job_get_by_idempotency_def key_taken_def by (rule find_none) auto

lemma inserted_row_found:
  assumes "\<not> key_taken db t key"
  shows "job_get_by_idempotency (inserted_db db ord t a key types cb) key t =
           Some (new_job_row (db_fresh db) (db_clock db) ord t a key types cb)"
  unfolding job_get_by_idempotency_def inserted_db_def
  using assms by (auto simp: key_taken_def intro!: find_append_new)

text \<open>
  C2: Creating with an idempotency key is idempotent and safe under a race.  After a create that
  returned \<open>job\<close>, every later create of the same tenant with the same key that passes validation
  (whatever order, document types and callback it names) returns that very row and changes nothing:
  no row, no published task.  This holds when its pre-check saw the state after the first create
  (a retry by the client) and also when it saw the state before it (two requests that both passed
  the pre-check; the unique constraint then rejects the second insert).
\<close>

theorem create_job_idempotent:
  assumes "tables_ok (es_db st)"
    and "create_job svc st t a ord types (Some k) cb = Inr (job, st1)"
    and "resolve_order svc t ord' = Inr order'" and "validate_doc_types types' = Inr canon'"
    and "db0 \<in> {es_db st, es_db st1}"
  shows "create_job_race svc db0 st1 t a' ord' types' (Some k) cb' = Inr (job, st1)"
proof -
  have found: "create_job_race svc db0 st1 t a' ord' types' (Some k) cb' = Inr (job, st1)"
    if "job_get_by_idempotency db0 k t = Some job" for db0
    using that assms(3,4) by (simp add: create_job_race_def create_precheck_def)
  from assms(1) assms(2) [unfolded create_job_def] show ?thesis
  proof (cases rule: create_job_race_cases)
    case (existing key)
    with assms(5) found show ?thesis by auto
  next
    case (inserted order types1)
    have free: "\<not> key_taken (es_db st) t k" and db: "drawn_db (es_db st) (Some k) = es_db st"
        "drawn_key (es_db st) (Some k) = k"
      using inserted(3) by (simp_all add: drawn_key_def drawn_db_def)
    have new: "job_get_by_idempotency (es_db st1) k t = Some job"
      unfolding inserted(4,5) db by (rule inserted_row_found [OF free])
    from assms(5) consider "db0 = es_db st1" | "db0 = es_db st" by blast
    then show ?thesis
    proof cases
      case 1
      with new found show ?thesis by simp
    next
      case 2
      have "key_taken (es_db st1) t (drawn_key (es_db st1) (Some k))"
        using job_get_by_idempotencyD [OF new] by (auto simp: key_taken_def drawn_key_def)
      from create_insert_taken [OF this] new not_taken_no_row [OF free] 2 assms(3,4) show ?thesis
        by (simp add: create_job_race_def create_precheck_def)
    qed
  qed
qed

definition plain_service :: service where
  "plain_service = \<lparr>sv_order_provider = Some (\<lambda>i t. Some
     \<lparr>od_id = i, od_address_line_1 = ''123 Main St'', od_address_line_2 = None,
      od_city = None, od_state = None, od_zip_code = None, od_county = None, od_parcel_id = None,
      od_lat = None, od_lon = None, od_survey_type = None\<rparr>), sv_enqueue = True\<rparr>"

lemma plain_resolve:
  "resolve_order plain_service t i = Inr \<lparr>od_id = i, od_address_line_1 = ''123 Main St'',
     od_address_line_2 = None, od_city = None, od_state = None, od_zip_code = None,
     od_county = None, od_parcel_id = None, od_lat = None, od_lon = None, od_survey_type = None\<rparr>"
  by (simp add: resolve_order_def plain_service_def)

lemma plain_enqueue: "sv_enqueue plain_service"
  by (simp add: plain_service_def)

lemma validate_parcel: "validate_doc_types [''PARCEL_RECORD''] = Inr [''PARCEL_RECORD'']"
  by (rule validate_known_id) (simp_all add: doc_types_known_eq)

theorem create_job_idempotent_witness:
  "\<exists>job st1. create_job plain_service \<lparr>es_db = demo_db Job_queued, es_queue = []\<rparr> 8 9 7
       [''PARCEL_RECORD''] (Some 6) None = Inr (job, st1) \<and> length (es_queue st1) = 1 \<and>
     create_job_race plain_service (demo_db Job_queued) st1 8 9 70 [''PARCEL_RECORD''] (Some 6) None =
       Inr (job, st1)"
proof -
  let ?st = "\<lparr>es_db = demo_db Job_queued, es_queue = []\<rparr>"
  have free: "\<not> key_taken (es_db ?st) 8 (drawn_key (es_db ?st) (Some 6))"
    by (simp add: key_taken_def drawn_key_def demo_defs)
  have ok: "tables_ok (es_db ?st)" using demo_db_ok [of Job_queued] by simp
  have "job_get_by_idempotency (es_db ?st) 6 8 = None"
    using not_taken_no_row [OF free] by (simp add: drawn_key_def)
  with create_insert_fresh [OF ok free] obtain job st1 where
      c: "create_job plain_service ?st 8 9 7 [''PARCEL_RECORD''] (Some 6) None = Inr (job, st1)"
         "length (es_queue st1) = 1"
    by (simp add: create_job_def create_job_race_def create_precheck_def plain_resolve validate_parcel
        Let_def) (simp add: plain_service_def)
  have "create_job_race plain_service (demo_db Job_queued) st1 8 9 70 [''PARCEL_RECORD''] (Some 6) None =
      Inr (job, st1)"
    by (rule create_job_idempotent [OF ok c(1) plain_resolve validate_parcel]) simp
  with c show ?thesis by blast
qed

section \<open>Retry\<close>

definition failed_types :: "db \<Rightarrow> uuid \<Rightarrow> string set" where
  "failed_types db i =
     {d_doc_type d | d. d \<in> set (db_docs db) \<and> d_job_id d = i \<and> d_status d = Doc_failed}"

lemma failed_types_eq:
  "tables_ok db \<Longrightarrow> d_doc_type ` set (doc_list_failed db i) = failed_types db i"
  by (auto simp: failed_types_def in_doc_list_failed tables_ok_def docs_ok_def)

lemma failed_types_known:
  assumes "tables_ok db"
  shows "failed_types db i \<subseteq> set doc_types_known"
proof
  fix t assume "t \<in> failed_types db i"
  then obtain d where d: "d \<in> set (db_docs db)" "d_job_id d = i" "d_doc_type d = t"
    by (auto simp: failed_types_def)
  with assms obtain j where j: "j \<in> set (db_jobs db)" "j_id j = i"
    by (auto simp: tables_ok_def docs_ok_def)
  with d have "t \<in> set (map d_doc_type (docs_of db (j_id j)))" by (auto simp: docs_of_def)
  with assms j(1) show "t \<in> set doc_types_known"
    unfolding tables_ok_def jobs_ok_def by (metis subsetD)
qed

lemma validate_known:
  assumes "ts \<noteq> []" "set ts \<subseteq> set doc_types_known"
  shows "validate_doc_types ts = Inr (dict_fromkeys ts)"
  using assms by (simp add: validate_doc_types_def classify_known_id)

text \<open>
  C6: A successful retry leaves every existing row as it is (the original job included) and
  appends one new queued job of the same tenant, with one queued document per requested type; the
  types are the failed types of the original job, restricted to the ones the request names, each
  once, and there is at least one; the original was found for the tenant and had ended.
\<close>

theorem retry_creates_new_job:
  assumes "tables_ok (es_db st)" and "retry_job svc st t a i ts = Inr (job, st')"
  shows "\<exists>original ds. job_get (es_db st) i t = Some original \<and>
           j_status original \<in> {Job_completed, Job_partial, Job_failed, Job_cancelled} \<and>
           db_jobs (es_db st') = db_jobs (es_db st) @ [job] \<and>
           db_docs (es_db st') = db_docs (es_db st) @ ds \<and>
           map d_doc_type ds = j_requested_doc_types job \<and>
           (\<forall>d \<in> set ds. d_job_id d = j_id job \<and> d_status d = Doc_queued) \<and>
           j_tenant_id job = t \<and> j_status job = Job_queued \<and>
           j_requested_doc_types job \<noteq> [] \<and> distinct (j_requested_doc_types job) \<and>
           set (j_requested_doc_types job) =
             (case ts of None \<Rightarrow> failed_types (es_db st) i
              | Some ts \<Rightarrow> set ts \<inter> failed_types (es_db st) i)"
proof -
  let ?failed = "map d_doc_type (doc_list_failed (es_db st) i)"
  define types where "types = (case ts of None \<Rightarrow> ?failed | Some ts \<Rightarrow> filter (\<lambda>t. t \<in> set ?failed) ts)"
  from assms(2) obtain original where orig: "job_get (es_db st) i t = Some original"
      "j_status original \<in> {Job_completed, Job_partial, Job_failed, Job_cancelled}" "types \<noteq> []"
      "create_job_race svc (es_db st) st t a (j_order_id original) types None None = Inr (job, st')"
    by (auto simp: retry_job_def create_job_def get_job_def res_bind_eq_Inr Let_def types_def
        split: if_splits option.splits)
  have fset: "set ?failed = failed_types (es_db st) i"
    using failed_types_eq [OF assms(1)] by simp
  have set_types: "set types = (case ts of None \<Rightarrow> failed_types (es_db st) i
      | Some ts \<Rightarrow> set ts \<inter> failed_types (es_db st) i)"
    unfolding types_def using fset by (auto split: option.splits)
  have "set types \<subseteq> set doc_types_known"
    using failed_types_known [OF assms(1), of i] set_types by (auto split: option.splits)
  then have valid: "validate_doc_types types = Inr (dict_fromkeys types)"
    by (rule validate_known [OF orig(3)])
  from assms(1) orig(4) show ?thesis
  proof (cases rule: create_job_race_cases)
    case (inserted order types')
    let ?db = "drawn_db (es_db st) None"
    let ?ds = "new_docs (Suc (db_fresh ?db)) (db_clock ?db) (db_fresh ?db) (od_id order) types'"
    have types': "types' = dict_fromkeys types" using inserted(2) valid by simp
    have "db_jobs (es_db st') = db_jobs (es_db st) @ [job]" "db_docs (es_db st') = db_docs (es_db st) @ ?ds"
      unfolding inserted(4,5) by (simp_all add: inserted_db_def)
    moreover have "d_job_id d = j_id job \<and> d_status d = Doc_queued" if "d \<in> set ?ds" for d
      using in_new_docs [OF that] inserted(4) by simp
    ultimately show ?thesis
      using orig set_types types' inserted(4)
      by (intro exI [of _ original] exI [of _ ?ds]) (simp add: new_docs_columns)
  qed simp
qed

theorem retry_creates_new_job_witness:
  "\<exists>job st'. retry_job plain_service \<lparr>es_db = (demo_db Job_partial)\<lparr>db_docs :=
       [(new_doc_row 2 0 1 7 ''PARCEL_RECORD'')\<lparr>d_status := Doc_failed\<rparr>,
        new_doc_row 3 0 1 7 ''NGS_CONTROL'']\<rparr>, es_queue = []\<rparr> 8 9 1 None = Inr (job, st') \<and>
     set (j_requested_doc_types job) = {''PARCEL_RECORD''}"
proof -
  let ?db = "(demo_db Job_partial)\<lparr>db_docs := [(new_doc_row 2 0 1 7 ''PARCEL_RECORD'')\<lparr>d_status := Doc_failed\<rparr>,
        new_doc_row 3 0 1 7 ''NGS_CONTROL'']\<rparr>"
  let ?st = "\<lparr>es_db = ?db, es_queue = []\<rparr>"
  have ok: "tables_ok (es_db ?st)"
    by (simp add: demo_defs tables_ok_def ids_ok_def keys_ok_def jobs_ok_def docs_ok_def docs_of_def
        doc_types_known_eq)
  have free: "\<not> key_taken ?db 8 (drawn_key ?db None)"
    by (simp add: key_taken_def drawn_key_def demo_defs)
  have "get_job ?db 8 1 = Inr (hd (db_jobs ?db))" "j_status (hd (db_jobs ?db)) = Job_partial"
      "map d_doc_type (doc_list_failed ?db 1) = [''PARCEL_RECORD'']"
    by (simp_all add: get_job_def job_get_def doc_list_failed_def demo_defs)
  with create_insert_fresh [OF ok, of 8 None] free obtain job st' where
      run: "retry_job plain_service ?st 8 9 1 None = Inr (job, st')"
    by (auto simp: retry_job_def create_job_def create_job_race_def create_precheck_def plain_resolve
        validate_parcel plain_enqueue Let_def)
  have "failed_types ?db 1 = {''PARCEL_RECORD''}"
    using failed_types_eq [OF ok, of 1] by (simp add: doc_list_failed_def demo_defs)
  with retry_creates_new_job [OF ok run] run show ?thesis by auto
qed

section \<open>Cancel\<close>

text \<open>
  C10: Cancelling a job the tenant can see succeeds exactly when it is \<open>queued\<close>, \<open>running\<close> or
  \<open>cancelling\<close>.  A queued job becomes \<open>cancelled\<close> at once, the others \<open>cancelling\<close>; the reason is
  recorded when one is given and kept otherwise; the returned job is the stored row; every other
  job and all documents are untouched.
\<close>

theorem cancel_job_spec:
  assumes "tables_ok db" and "job_get db i t = Some row"
  shows "case cancel_job db t i reason of
           Inl e \<Rightarrow> j_status row \<notin> {Job_queued, Job_running, Job_cancelling} \<and>
                    e = JobNotCancellableError ''Job is not cancellable''
         | Inr (job, db') \<Rightarrow>
             j_status row \<in> {Job_queued, Job_running, Job_cancelling} \<and>
             j_status job = (if j_status row = Job_queued then Job_cancelled else Job_cancelling) \<and>
             j_cancel_reason job = (if opt_truthy reason then reason else j_cancel_reason row) \<and>
             job_get db' i t = Some job \<and> db_docs db' = db_docs db \<and>
             (\<forall>j. j_id j \<noteq> i \<longrightarrow> j \<in> set (db_jobs db') \<longleftrightarrow> j \<in> set (db_jobs db))"
proof (cases "j_status row \<in> {Job_queued, Job_running, Job_cancelling}")
  case False
  with assms(2) show ?thesis by (auto simp: cancel_job_def get_job_def)
next
  case True
  note D = job_getD [OF assms(2)]
  define row' where "row' = row\<lparr>j_status := (if j_status row = Job_queued then Job_cancelled else Job_cancelling),
      j_cancel_reason := (if opt_truthy reason then reason else j_cancel_reason row), j_completed_at := None\<rparr>"
  let ?job = "row'\<lparr>j_updated_at := db_clock db\<rparr>" and ?db = "job_save db row'"
  have run: "cancel_job db t i reason = Inr (?job, ?db)"
    using True assms(2) by (auto simp: cancel_job_def get_job_def Let_def row'_def)
  have id: "j_id row' = i" "j_tenant_id row' = t" "j_deleted_at row' = None"
    using D by (simp_all add: row'_def)
  have "distinct (map j_id (db_jobs ?db))"
    using assms(1) by (simp add: job_table.keys_save tables_ok_def ids_ok_def)
  moreover have "?job \<in> set (db_jobs ?db)"
    unfolding job_table.in_save using D id by (auto intro: image_eqI [of _ j_id row])
  ultimately have "job_get ?db i t = Some ?job"
    using job_get_unique [of ?db ?job] id by simp
  moreover have "j \<in> set (db_jobs ?db) \<longleftrightarrow> j \<in> set (db_jobs db)" if "j_id j \<noteq> i" for j
    using that id by (intro job_table.save_other) simp
  ultimately show ?thesis
    using True run by (simp add: row'_def)
qed

theorem cancel_job_spec_witness:
  "\<exists>job db'. cancel_job (demo_db Job_queued) 8 1 None = Inr (job, db') \<and> j_status job = Job_cancelled"
  using cancel_job_spec [OF demo_db_ok demo_get [of Job_queued], of None]
  by (auto simp: demo_task_def new_job_row_def split: sum.splits)

section \<open>Validation of document types\<close>

text \<open>The document type a request string stands for: itself, or its lower-case step alias.\<close>

definition canonical_type :: "string \<Rightarrow> string option" where
  "canonical_type t = (if t \<in> set doc_types_known then Some t else map_of STEP_TO_DOC_TYPE (lower t))"

lemma classify_canonical:
  "classify_doc_types ts =
     (map (\<lambda>t. the (canonical_type t)) (filter (\<lambda>t. canonical_type t \<noteq> None) ts),
      filter (\<lambda>t. canonical_type t = None) ts)"
proof (induction ts)
  case (Cons t ts)
  then show ?case
    using DOC_TYPE_TO_STEP_Some_iff [of t]
    by (auto simp: canonical_type_def Let_def simp del: set_map list.set_map split: option.splits)
qed simp

text \<open>
  Validation accepts a non-empty request exactly when every entry is a document type or an
  alias of one; it then returns the document types in order of first mention, each once.  Otherwise
  the error names the unknown entries, sorted.  An empty request stands for every document type.
  What validation returns is its own normal form.
\<close>

theorem validate_doc_types_spec:
  "validate_doc_types ts =
     (if ts = [] then Inr doc_types_known
      else if \<exists>t \<in> set ts. canonical_type t = None
      then Inl (InvalidDocTypesError
             (''unsupported document_types: '' @
              join '', '' (sort (filter (\<lambda>t. canonical_type t = None) ts)) @
              '' (supported: '' @ join '', '' (sort doc_types_known) @ '')''))
      else Inr (dict_fromkeys (map (\<lambda>t. the (canonical_type t)) ts))) \<and>
   (case validate_doc_types ts of
      Inl e \<Rightarrow> True
    | Inr types \<Rightarrow> validate_doc_types types = Inr types)"
proof
  have all: "filter (\<lambda>t. \<exists>y. canonical_type t = Some y) ts = ts"
    if "\<forall>t \<in> set ts. \<exists>y. canonical_type t = Some y"
    using that by simp
  show "validate_doc_types ts =
     (if ts = [] then Inr doc_types_known
      else if \<exists>t \<in> set ts. canonical_type t = None
      then Inl (InvalidDocTypesError
             (''unsupported document_types: '' @
              join '', '' (sort (filter (\<lambda>t. canonical_type t = None) ts)) @
              '' (supported: '' @ join '', '' (sort doc_types_known) @ '')''))
      else Inr (dict_fromkeys (map (\<lambda>t. the (canonical_type t)) ts)))"
    using all by (auto simp: validate_doc_types_def classify_canonical filter_empty_conv)
  show "case validate_doc_types ts of Inl e \<Rightarrow> True | Inr types \<Rightarrow> validate_doc_types types = Inr types"
    using validate_doc_types_ok [of ts] validate_known_id by (auto split: sum.splits)
qed

section \<open>Reaper\<close>


end
