(* ===== verification/Lifecycle.thy ===== *)
theory Lifecycle
  imports CreateFacts WorkerFacts
begin

text \<open>
  The whole engine as a transition system: API requests, Celery deliveries, the segments of the
  running tasks, worker crashes (the late acknowledgement puts the task back), the reaper, the
  clock, and a soft delete by the parent application.  Any number of tasks run at once, the same
  job may be delivered twice, and a request that creates a job may have read an older snapshot.

  What the locale \<^verbatim>\<open>transition_system\<close> proves about invariants is used through its interpretation
  on \<^verbatim>\<open>sys_step\<close>.
\<close>

section \<open>API requests\<close>

datatype api_call =
  Call_create uuid uuid uuid "string list" "uuid option" "string option"
| Call_retry uuid uuid uuid "string list option"
| Call_cancel uuid uuid "string option"
| Call_review uuid uuid
| Call_archive uuid uuid

fun caller :: "api_call \<Rightarrow> uuid" where
  "caller (Call_create t a ord types k cb) = t"
| "caller (Call_retry t a i types) = t"
| "caller (Call_cancel t i r) = t"
| "caller (Call_review t i) = t"
| "caller (Call_archive t i) = t"

definition on_db :: "engine_state \<Rightarrow> engine_error + job_row \<times> db \<Rightarrow> engine_error + job_row \<times> engine_state" where
  "on_db st r = res_bind r (\<lambda>(job, db). Inr (job, st\<lparr>es_db := db\<rparr>))"

text \<open>One request; \<open>db0\<close> is the snapshot a create has pre-checked.\<close>

fun api_exec ::
  "service \<Rightarrow> db \<Rightarrow> engine_state \<Rightarrow> api_call \<Rightarrow> engine_error + job_row \<times> engine_state" where
  "api_exec svc db0 st (Call_create t a ord types k cb) = create_job_race svc db0 st t a ord types k cb"
| "api_exec svc db0 st (Call_retry t a i types) = retry_job svc st t a i types"
| "api_exec svc db0 st (Call_cancel t i r) = on_db st (cancel_job (es_db st) t i r)"
| "api_exec svc db0 st (Call_review t i) = on_db st (mark_reviewed (es_db st) t i)"
| "api_exec svc db0 st (Call_archive t i) = on_db st (archive_job (es_db st) t i)"

text \<open>The status changes each request may make to an existing job.\<close>

fun api_edge :: "api_call \<Rightarrow> job_status \<Rightarrow> job_status \<Rightarrow> bool" where
  "api_edge (Call_cancel t i r) s s' =
     ((s = Job_queued \<and> s' = Job_cancelled) \<or> (s \<in> {Job_running, Job_cancelling} \<and> s' = Job_cancelling))"
| "api_edge (Call_review t i) s s' = (s \<in> {Job_completed, Job_partial} \<and> s' = Job_reviewed)"
| "api_edge (Call_archive t i) s s' = (s = Job_reviewed \<and> s' = Job_archived)"
| "api_edge _ s s' = False"

text \<open>
  The three shapes of a successful request: nothing but possibly the queue changes; a job is
  inserted; one job of the caller is rewritten along an edge.
\<close>

definition rewrites_row :: "api_call \<Rightarrow> db \<Rightarrow> db \<Rightarrow> bool" where
  "rewrites_row c db db' \<longleftrightarrow>
     (\<exists>row row'. job_get db (j_id row) (caller c) = Some row \<and> db' = job_save db row' \<and>
        job_skel row' = job_skel row \<and> j_deleted_at row' = None \<and>
        (counters_ok row' \<longleftrightarrow> counters_ok row) \<and> api_edge c (j_status row) (j_status row'))"

definition inserts_job :: "api_call \<Rightarrow> db \<Rightarrow> db \<Rightarrow> bool" where
  "inserts_job c db db' \<longleftrightarrow>
     (\<exists>k ord a types cb. \<not> key_taken db (caller c) (drawn_key db k) \<and> types \<noteq> [] \<and>
        distinct types \<and> set types \<subseteq> set doc_types_known \<and>
        db' = inserted_db (drawn_db db k) ord (caller c) a (drawn_key db k) types cb)"

lemma create_shape:
  assumes "tables_ok (es_db st)" and "create_job_race svc db0 st t a ord types k cb = Inr (job, st')"
    and "caller c = t"
  shows "es_db st' = es_db st \<or> inserts_job c (es_db st) (es_db st')"
  using assms(1,2)
proof (cases rule: create_job_race_cases)
  case (inserted order types')
  moreover note validate_doc_types_ok [OF inserted(2)]
  ultimately have "inserts_job c (es_db st) (es_db st')"
    unfolding inserts_job_def
    by (intro exI [of _ k] exI [of _ "od_id order"] exI [of _ a] exI [of _ types'] exI [of _ cb])
       (simp add: assms(3))
  then show ?thesis ..
qed simp

lemma save_shape:
  assumes "get_job db t i = Inr row" and "caller c = t" and "db' = job_save db row'"
    and "job_skel row' = job_skel row" and "j_deleted_at row' = j_deleted_at row"
    and "counters_ok row' = counters_ok row" and "api_edge c (j_status row) (j_status row')"
  shows "rewrites_row c db db'"
proof -
  from assms(1) have get: "job_get db i t = Some row"
    by (auto simp: get_job_def split: option.splits)
  note job_getD [OF this]
  with get assms show ?thesis
    unfolding rewrites_row_def by (intro exI [of _ row] exI [of _ row']) simp
qed

lemma api_exec_shape:
  assumes ok: "tables_ok (es_db st)" and run: "api_exec svc db0 st c = Inr (job, st')"
  shows "es_db st' = es_db st \<or> inserts_job c (es_db st) (es_db st') \<or> rewrites_row c (es_db st) (es_db st')"
proof (cases c)
  case (Call_create t a ord types k cb)
  with run have "create_job_race svc db0 st t a ord types k cb = Inr (job, st')" by simp
  with create_shape [OF ok this, of c] Call_create show ?thesis by auto
next
  case (Call_retry t a i types)
  with run obtain ord types' where "create_job_race svc (es_db st) st t a ord types' None None = Inr (job, st')"
    by (auto simp: retry_job_def create_job_def res_bind_eq_Inr Let_def split: if_splits)
  with create_shape [OF ok this, of c] Call_retry show ?thesis by auto
next
  case (Call_cancel t i r)
  with run obtain row where row: "get_job (es_db st) t i = Inr row"
      "j_status row \<in> {Job_queued, Job_running, Job_cancelling}"
      "es_db st' = job_save (es_db st)
         ((if opt_truthy r then row\<lparr>j_status := (if j_status row = Job_queued then Job_cancelled
              else Job_cancelling), j_cancel_reason := r\<rparr>
           else row\<lparr>j_status := (if j_status row = Job_queued then Job_cancelled
              else Job_cancelling)\<rparr>)\<lparr>j_completed_at := None\<rparr>)"
    by (auto simp: cancel_job_def on_db_def res_bind_eq_Inr Let_def split: if_splits)
  have "rewrites_row c (es_db st) (es_db st')"
    by (rule save_shape [OF row(1) _ row(3)])
       (use row(2) Call_cancel in \<open>auto simp: job_skel_def counters_ok_def\<close>)
  then show ?thesis by simp
next
  case (Call_review t i)
  with run obtain row where row: "get_job (es_db st) t i = Inr row"
      "j_status row \<in> {Job_completed, Job_partial}"
      "es_db st' = job_save (es_db st) (row\<lparr>j_status := Job_reviewed\<rparr>)"
    by (auto simp: mark_reviewed_def on_db_def res_bind_eq_Inr Let_def split: if_splits)
  have "rewrites_row c (es_db st) (es_db st')"
    by (rule save_shape [OF row(1) _ row(3)])
       (use row(2) Call_review in \<open>auto simp: job_skel_def counters_ok_def\<close>)
  then show ?thesis by simp
next
  case (Call_archive t i)
  with run obtain row where row: "get_job (es_db st) t i = Inr row"
      "j_status row = Job_reviewed" "es_db st' = job_save (es_db st) (row\<lparr>j_status := Job_archived\<rparr>)"
    by (auto simp: archive_job_def on_db_def res_bind_eq_Inr Let_def split: if_splits)
  have "rewrites_row c (es_db st) (es_db st')"
    by (rule save_shape [OF row(1) _ row(3)])
       (use row(2) Call_archive in \<open>auto simp: job_skel_def counters_ok_def\<close>)
  then show ?thesis by simp
qed

text \<open>What every successful request keeps.\<close>

lemma inserts_job_facts:
  assumes ok: "tables_ok db" and ins: "inserts_job c db db'"
  shows "tables_ok db' \<and>
         (\<exists>j ds. db_jobs db' = db_jobs db @ [j] \<and> db_docs db' = db_docs db @ ds \<and>
                 j_tenant_id j = caller c \<and> counters_ok j \<and> j_status j = Job_queued \<and>
                 (\<forall>d \<in> set ds. d_job_id d = j_id j))"
proof -
  from ins obtain k ord a types cb where k: "\<not> key_taken db (caller c) (drawn_key db k)"
      "types \<noteq> []" "distinct types" "set types \<subseteq> set doc_types_known"
      "db' = inserted_db (drawn_db db k) ord (caller c) a (drawn_key db k) types cb"
    unfolding inserts_job_def by blast
  have "tables_ok db'"
    unfolding k(5) by (rule inserted_db_ok) (use ok k drawn_db_ok in simp_all)
  then show ?thesis
    unfolding k(5) by (auto simp: inserted_db_def dest!: in_new_docs)
qed

lemma rewrites_row_facts:
  assumes ok: "tables_ok db" and rw: "rewrites_row c db db'"
  shows "tables_ok db' \<and> db_docs db' = db_docs db \<and>
         map job_skel (db_jobs db') = map job_skel (db_jobs db) \<and>
         (\<forall>j \<in> set (db_jobs db). j_tenant_id j \<noteq> caller c \<longrightarrow> j \<in> set (db_jobs db')) \<and>
         map counters_ok (db_jobs db') = map counters_ok (db_jobs db)"
proof -
  from rw obtain row row' where r: "job_get db (j_id row) (caller c) = Some row"
      "db' = job_save db row'" "job_skel row' = job_skel row" "counters_ok row' = counters_ok row"
    unfolding rewrites_row_def by blast
  note D = job_getD [OF r(1)]
  have own: "x = row" if "x \<in> set (db_jobs db)" "j_id x = j_id row'" for x
    using ok that D r(3) by (auto simp: tables_ok_def ids_ok_def distinct_map inj_on_def job_skel_def)
  have skel: "map job_skel (db_jobs db') = map job_skel (db_jobs db)"
    unfolding r(2) by (rule job_table.column_save) (use own r(3) in \<open>auto simp: job_skel_def\<close>)
  moreover have "map counters_ok (db_jobs db') = map counters_ok (db_jobs db)"
    unfolding r(2) by (rule job_table.column_save) (use own r(4) in \<open>auto simp: counters_ok_def\<close>)
  moreover have "db_docs db' = db_docs db" "db_fresh db' = db_fresh db"
    by (simp_all add: r(2))
  moreover from this have "tables_ok db'"
    using tables_ok_skel [OF skel] ok by simp
  moreover have "j \<in> set (db_jobs db')" if "j \<in> set (db_jobs db)" "j_tenant_id j \<noteq> caller c" for j
    unfolding r(2) using that D own by (subst job_table.save_other) auto
  ultimately show ?thesis by blast
qed

section \<open>The system\<close>

text \<open>What the processes are configured with.\<close>

record 'w engine =
  en_service :: service
  en_provider :: order_reader
  en_fetcher :: "'w fetcher"
  en_post :: "'w poster"
  en_callback :: callback_settings
  en_stale_minutes :: nat

record 'w system =
  sy_state :: engine_state
  sy_workers :: "worker list"
  sy_world :: 'w

datatype event =
  Ev_api api_call | Ev_deliver task | Ev_segment task | Ev_ack task | Ev_requeue task | Ev_reap
| Ev_tick nat | Ev_delete uuid

definition sy_db :: "'w system \<Rightarrow> db" where
  "sy_db s = es_db (sy_state s)"

definition set_db :: "db \<Rightarrow> 'w system \<Rightarrow> 'w system" where
  "set_db db s = s\<lparr>sy_state := (sy_state s)\<lparr>es_db := db\<rparr>\<rparr>"

definition soft_delete :: "db \<Rightarrow> uuid \<Rightarrow> db" where
  "soft_delete db i =
     db\<lparr>db_jobs := update_where (\<lambda>j. j_id j = i) (\<lambda>j. j\<lparr>j_deleted_at := Some (db_clock db)\<rparr>) (db_jobs db)\<rparr>"

inductive sys_step :: "'w engine \<Rightarrow> event \<Rightarrow> 'w system \<Rightarrow> 'w system \<Rightarrow> bool" for en where
  api: "api_exec (en_service en) db0 (sy_state s) c = Inr (job, st') \<Longrightarrow>
     sys_step en (Ev_api c) s (s\<lparr>sy_state := st'\<rparr>)"
| api_crash: "api_exec ((en_service en)\<lparr>sv_enqueue := False\<rparr>) db0 (sy_state s) c = Inr (job, st') \<Longrightarrow>
     sys_step en (Ev_api c) s (s\<lparr>sy_state := st'\<rparr>)"
| deliver: "es_queue (sy_state s) = q1 @ t # q2 \<Longrightarrow>
     sys_step en (Ev_deliver t) s
       (s\<lparr>sy_state := (sy_state s)\<lparr>es_queue := q1 @ q2\<rparr>, sy_workers := sy_workers s @ [new_worker t]\<rparr>)"
| segment: "sy_workers s = ws1 @ w # ws2 \<Longrightarrow>
     w_step (en_provider en) (en_fetcher en) (en_post en) (en_callback en) (sy_db s, w, sy_world s) =
       (db', w', x') \<Longrightarrow>
     sys_step en (Ev_segment (w_task w)) s
       (set_db db' s\<lparr>sy_workers := ws1 @ w' # ws2, sy_world := x'\<rparr>)"
| ack: "sy_workers s = ws1 @ w # ws2 \<Longrightarrow> w_pc w = Pc_done \<Longrightarrow>
     sys_step en (Ev_ack (w_task w)) s (s\<lparr>sy_workers := ws1 @ ws2\<rparr>)"
| requeue: "sy_workers s = ws1 @ w # ws2 \<Longrightarrow> w_pc w \<noteq> Pc_done \<Longrightarrow>
     sys_step en (Ev_requeue (w_task w)) s
       (s\<lparr>sy_state := (sy_state s)\<lparr>es_queue := es_queue (sy_state s) @ [w_task w]\<rparr>,
          sy_workers := ws1 @ ws2\<rparr>)"
| reap: "sys_step en Ev_reap s (s\<lparr>sy_state := reaper_research_jobs (en_stale_minutes en) (sy_state s)\<rparr>)"
| tick: "sys_step en (Ev_tick n) s (set_db ((sy_db s)\<lparr>db_clock := db_clock (sy_db s) + n\<rparr>) s)"
| delete: "sys_step en (Ev_delete i) s (set_db (soft_delete (sy_db s) i) s)"

inductive_cases api_stepE: "sys_step en (Ev_api c) s s'"
inductive_cases segment_stepE: "sys_step en (Ev_segment t) s s'"

definition some_step :: "'w engine \<Rightarrow> 'w system \<Rightarrow> 'w system \<Rightarrow> bool" where
  "some_step en s s' \<longleftrightarrow> (\<exists>ev. sys_step en ev s s')"

definition init_system :: "'w \<Rightarrow> 'w system" where
  "init_system x =
     \<lparr>sy_state = \<lparr>es_db = \<lparr>db_jobs = [], db_docs = [], db_clock = 0, db_fresh = 0\<rparr>, es_queue = []\<rparr>,
      sy_workers = [], sy_world = x\<rparr>"

definition reachable :: "'w engine \<Rightarrow> 'w \<Rightarrow> 'w system \<Rightarrow> bool" where
  "reachable en x s \<longleftrightarrow> (some_step en)\<^sup>*\<^sup>* (init_system x) s"

section \<open>Invariants and monotone relations of a transition system\<close>

locale transition_system =
  fixes step :: "'s \<Rightarrow> 's \<Rightarrow> bool" and start :: 's and inv :: "'s \<Rightarrow> bool" and rel :: "'s \<Rightarrow> 's \<Rightarrow> bool"
  assumes inv_start: "inv start"
    and inv_step: "inv s \<Longrightarrow> step s s' \<Longrightarrow> inv s'"
    and rel_refl: "rel s s"
    and rel_trans: "rel s s' \<Longrightarrow> rel s' s'' \<Longrightarrow> rel s s''"
    and rel_step: "inv s \<Longrightarrow> step s s' \<Longrightarrow> rel s s'"
begin

lemma inv_run: "step\<^sup>*\<^sup>* s s' \<Longrightarrow> inv s \<Longrightarrow> inv s'"
  by (induction rule: rtranclp_induct) (auto intro: inv_step)

lemma inv_reachable: "step\<^sup>*\<^sup>* start s \<Longrightarrow> inv s"
  using inv_run inv_start by blast

lemma rel_run:
  assumes "step\<^sup>*\<^sup>* s s'" and "inv s"
  shows "rel s s'"
  using assms(1)
proof (induction rule: rtranclp_induct)
  case base
  show ?case by (rule rel_refl)
next
  case (step y z)
  then show ?case using inv_run [OF step.hyps(1) assms(2)] rel_step rel_trans by blast
qed

end

end
