(* ===== verification/LifecycleFacts.thy ===== *)
theory LifecycleFacts
  imports Lifecycle
begin

text \<open>
  Invariants of the engine: the tables stay well formed, every running task only holds rows of
  its own job and tenant, and the tables only grow (no row disappears and the identifying columns
  of a row never change).
\<close>

section \<open>Growth of the tables\<close>

definition extends :: "db \<Rightarrow> db \<Rightarrow> bool" where
  "extends db db' \<longleftrightarrow>
     (\<exists>js ds. map job_skel (db_jobs db') = map job_skel (db_jobs db) @ js \<and>
              map doc_skel (db_docs db') = map doc_skel (db_docs db) @ ds)"

lemma extends_refl: "extends db db"
  by (simp add: extends_def)

lemma extends_trans: "extends a b \<Longrightarrow> extends b c \<Longrightarrow> extends a c"
  by (auto simp: extends_def)

lemma extends_skel:
  "map job_skel (db_jobs db') = map job_skel (db_jobs db) \<Longrightarrow>
   map doc_skel (db_docs db') = map doc_skel (db_docs db) \<Longrightarrow> extends db db'"
  by (simp add: extends_def)

lemma extends_job:
  assumes "extends db db'" "j \<in> set (db_jobs db)"
  shows "\<exists>j' \<in> set (db_jobs db'). job_skel j' = job_skel j"
proof -
  from assms(1) obtain js where "map job_skel (db_jobs db') = map job_skel (db_jobs db) @ js"
    unfolding extends_def by blast
  with assms(2) have "job_skel j \<in> set (map job_skel (db_jobs db'))" by simp
  then show ?thesis by auto
qed

lemma extends_doc:
  assumes "extends db db'" "d \<in> set (db_docs db)"
  shows "\<exists>d' \<in> set (db_docs db'). doc_skel d' = doc_skel d"
proof -
  from assms(1) obtain ds where "map doc_skel (db_docs db') = map doc_skel (db_docs db) @ ds"
    unfolding extends_def by blast
  with assms(2) have "doc_skel d \<in> set (map doc_skel (db_docs db'))" by simp
  then show ?thesis by auto
qed

lemma api_exec_facts:
  assumes ok: "tables_ok (es_db st)" and run: "api_exec svc db0 st c = Inr (job, st')"
  shows "tables_ok (es_db st') \<and> extends (es_db st) (es_db st')"
  using api_exec_shape [OF assms]
proof (elim disjE)
  assume "es_db st' = es_db st"
  with ok show ?thesis by (simp add: extends_refl)
next
  assume "inserts_job c (es_db st) (es_db st')"
  from inserts_job_facts [OF ok this] show ?thesis by (auto simp: extends_def)
next
  assume "rewrites_row c (es_db st) (es_db st')"
  from rewrites_row_facts [OF ok this] show ?thesis by (auto simp: extends_def)
qed

lemma skel_step:
  assumes "tables_ok db" "map job_skel (db_jobs db') = map job_skel (db_jobs db)"
    and "map doc_skel (db_docs db') = map doc_skel (db_docs db)" and "db_fresh db' = db_fresh db"
  shows "tables_ok db' \<and> extends db db'"
  using tables_ok_skel [OF assms(2,3)] assms extends_skel [OF assms(2,3)] by simp

lemma set_db_sel [simp]:
  "sy_db (set_db db s) = db" "sy_workers (set_db db s) = sy_workers s" "sy_world (set_db db s) = sy_world s"
  by (simp_all add: set_db_def sy_db_def)

lemma sys_step_tables:
  assumes "sys_step en ev s s'" "tables_ok (sy_db s)"
  shows "tables_ok (sy_db s') \<and> extends (sy_db s) (sy_db s')"
  using assms
proof (cases rule: sys_step.cases)
  case (api db0 c job st')
  with assms(2) show ?thesis using api_exec_facts by (simp add: sy_db_def)
next
  case (api_crash db0 c job st')
  with assms(2) show ?thesis using api_exec_facts by (simp add: sy_db_def)
next
  case (segment ws1 w ws2 db' w' x')
  note step = w_step_skel [OF segment(4)]
  with assms(2) have "tables_ok db' \<and> extends (sy_db s) db'"
    by (intro skel_step) auto
  moreover have "sy_db s' = db'" using segment by (simp add: sy_db_def set_db_def)
  ultimately show ?thesis by simp
next
  case reap
  have "tables_ok (es_db (reaper_research_jobs (en_stale_minutes en) (sy_state s))) \<and>
      extends (sy_db s) (es_db (reaper_research_jobs (en_stale_minutes en) (sy_state s)))"
    by (rule skel_step) (use assms(2) reaper_skel in \<open>simp_all add: sy_db_def del: map_map\<close>)
  with reap show ?thesis by (simp add: sy_db_def)
next
  case (delete i)
  have "tables_ok (soft_delete (sy_db s) i) \<and> extends (sy_db s) (soft_delete (sy_db s) i)"
    by (rule skel_step) (use assms(2) in \<open>simp_all add: soft_delete_def update_where_def job_skel_def\<close>)
  with delete show ?thesis by simp
next
  case (tick n)
  have "tables_ok ((sy_db s)\<lparr>db_clock := db_clock (sy_db s) + n\<rparr>) \<and>
      extends (sy_db s) ((sy_db s)\<lparr>db_clock := db_clock (sy_db s) + n\<rparr>)"
    by (rule skel_step) (use assms(2) in simp_all)
  with tick show ?thesis by simp
qed (simp_all add: sy_db_def extends_refl)

section \<open>What a running task holds\<close>

definition held_ok :: "db \<Rightarrow> uuid \<Rightarrow> doc_row \<Rightarrow> bool" where
  "held_ok db i d \<longleftrightarrow> (\<exists>r \<in> set (db_docs db). d_id r = d_id d \<and> d_job_id r = i)"

definition session_ok :: "db \<Rightarrow> worker \<Rightarrow> bool" where
  "session_ok db w \<longleftrightarrow> (w_pc w \<in> {Pc_check, Pc_fetch, Pc_callback} \<longrightarrow>
     (\<exists>row \<in> set (db_jobs db). j_id row = j_id (w_job w) \<and> j_tenant_id row = tk_tenant_id (w_task w)) \<and>
     (\<forall>d \<in> set (w_done w). held_ok db (j_id (w_job w)) d) \<and>
     (\<forall>d \<in> set (w_todo w). held_ok db (j_id (w_job w)) d) \<and>
     (\<forall>(old, new) \<in> set (w_pending w). held_ok db (j_id (w_job w)) new))"

lemma held_ok_extends: "held_ok db i d \<Longrightarrow> extends db db' \<Longrightarrow> held_ok db' i d"
  unfolding held_ok_def using extends_doc by (fastforce simp: doc_skel_def)

lemma session_ok_extends:
  assumes "session_ok db w" "extends db db'"
  shows "session_ok db' w"
  unfolding session_ok_def
proof (intro impI conjI)
  assume pc: "w_pc w \<in> {Pc_check, Pc_fetch, Pc_callback}"
  with assms(1) obtain row where "row \<in> set (db_jobs db)" "j_id row = j_id (w_job w)"
      "j_tenant_id row = tk_tenant_id (w_task w)" unfolding session_ok_def by blast
  with extends_job [OF assms(2)] show "\<exists>row \<in> set (db_jobs db'). j_id row = j_id (w_job w) \<and>
      j_tenant_id row = tk_tenant_id (w_task w)"
    by (fastforce simp: job_skel_def)
qed (use assms held_ok_extends in \<open>unfold session_ok_def, blast+\<close>)

lemma held_ok_same: "same_doc d d' \<Longrightarrow> held_ok db i d' = held_ok db i d"
  using same_docD by (simp add: held_ok_def)

lemma held_ok_changes [simp]:
  "held_ok db i (skip_doc d) = held_ok db i d"
  "held_ok db i (d\<lparr>d_status := s\<rparr>) = held_ok db i d"
  "held_ok db i (fetch_outcome now r d) = held_ok db i d"
  by (simp_all add: held_ok_same [OF same_doc_changes(1)] held_ok_same [OF same_doc_changes(2)]
      held_ok_same [OF same_doc_changes(5)])

lemma w_step_session:
  assumes ses: "session_ok db w"
    and step: "w_step provider fetcher post cfg (db, w, x) = (db', w', x')"
  shows "session_ok db w' \<and> w_task w' = w_task w"
proof (cases "w_pc w")
  case Pc_start
  with step obtain db1 where "w_start provider db w = (db1, w')"
    by (auto simp: w_step_def split: prod.splits)
  then show ?thesis
    by (auto simp: w_start_def session_ok_def held_ok_def in_doc_list_for_job Let_def
        dest!: job_getD split: option.splits if_splits sum.splits)
next
  case Pc_check
  show ?thesis
  proof (cases "w_todo w")
    case Nil
    with step Pc_check ses show ?thesis
      by (auto simp: w_step_def w_finish_def session_ok_def Let_def)
  next
    case (Cons d ds)
    with step Pc_check ses show ?thesis
      by (auto simp: w_step_def w_check_def session_ok_def Let_def 
          dest!: job_getD split: option.splits if_splits)
  qed
next
  case Pc_fetch
  with step ses show ?thesis
    by (auto simp: w_step_def w_fetch_def session_ok_def Let_def 
        split: list.splits prod.splits)
next
  case Pc_callback
  with step ses show ?thesis
    by (auto simp: w_step_def w_callback_def session_ok_def Let_def split: prod.splits if_splits)
qed (use step ses in \<open>simp_all add: w_step_def\<close>)

section \<open>The interpretation\<close>

definition system_ok :: "'w system \<Rightarrow> bool" where
  "system_ok s \<longleftrightarrow> tables_ok (sy_db s) \<and> (\<forall>w \<in> set (sy_workers s). session_ok (sy_db s) w)"

lemma new_worker_session: "session_ok db (new_worker t)"
  by (simp add: session_ok_def new_worker_def)

lemma system_ok_step:
  assumes ok: "system_ok s" and step: "sys_step en ev s s'"
  shows "system_ok s' \<and> extends (sy_db s) (sy_db s')"
proof -
  have tab: "tables_ok (sy_db s')" and ext: "extends (sy_db s) (sy_db s')"
    using sys_step_tables [OF step] ok by (simp_all add: system_ok_def)
  have old: "session_ok (sy_db s') w" if "w \<in> set (sy_workers s)" for w
    using that ok ext session_ok_extends by (auto simp: system_ok_def)
  have "session_ok (sy_db s') w" if "w \<in> set (sy_workers s')" for w
    using step
  proof (cases rule: sys_step.cases)
    case (segment ws1 u ws2 db' u' x')
    have "session_ok (sy_db s) u" using segment(3) ok by (simp add: system_ok_def)
    from w_step_session [OF this segment(4)] have "session_ok (sy_db s) u'" by simp
    then have "session_ok (sy_db s') u'" using ext session_ok_extends by blast
    with that old segment(2,3) show ?thesis by auto
  qed (use that old new_worker_session in \<open>auto simp: sy_db_def\<close>)
  with tab ext show ?thesis by (simp add: system_ok_def)
qed

interpretation engine_sys: transition_system "some_step en" "init_system x" system_ok
  "\<lambda>s s'. extends (sy_db s) (sy_db s')"
proof
  show "system_ok (init_system x)"
    by (simp add: system_ok_def init_system_def sy_db_def tables_ok_def ids_ok_def keys_ok_def
        jobs_ok_def docs_ok_def)
  show "system_ok s' " if "system_ok s" "some_step en s s'" for s s'
    using that system_ok_step unfolding some_step_def by blast
  show "extends (sy_db s) (sy_db s')" if "system_ok s" "some_step en s s'" for s s'
    using that system_ok_step unfolding some_step_def by blast
  show "extends (sy_db s) (sy_db s)" for s by (rule extends_refl)
  show "extends (sy_db s) (sy_db s'')"
    if "extends (sy_db s) (sy_db s')" "extends (sy_db s') (sy_db s'')" for s s' s''
    using that by (rule extends_trans)
qed

lemma reachable_ok: "reachable en x s \<Longrightarrow> system_ok s"
  unfolding reachable_def by (rule engine_sys.inv_reachable)

section \<open>Status changes of the worker\<close>

definition worker_edge :: "job_status \<Rightarrow> job_status \<Rightarrow> bool" where
  "worker_edge s s' \<longleftrightarrow>
     (s \<notin> {Job_cancelled, Job_cancelling} \<and> s' = Job_running) \<or>
     s' \<in> {Job_completed, Job_partial, Job_failed, Job_cancelled}"

lemma job_flush_status:
  "j_status (job_flush now old new row) =
     (if j_status new = j_status old then j_status row else j_status new)"
  by (auto simp: job_flush_def set_col_def)

text \<open>The job row a segment rewrites, if any.\<close>

lemma w_step_job_write:
  assumes "w_step provider fetcher post cfg (db, w, x) = (db', w', x')" and "session_ok db w"
  shows "db_jobs db' = db_jobs db \<or>
    (\<exists>old new. db_jobs db' = update_where (\<lambda>r. j_id r = j_id new) (job_flush (db_clock db) old new)
                               (db_jobs db) \<and>
       (\<exists>row \<in> set (db_jobs db). j_id row = j_id new \<and> j_tenant_id row = tk_tenant_id (w_task w)) \<and>
       (j_status new = j_status old \<or> j_status new \<in> {Job_completed, Job_partial, Job_failed, Job_cancelled} \<or>
        (old \<in> set (db_jobs db) \<and> j_id new = j_id old \<and> worker_edge (j_status old) (j_status new))))"
  (is "?same \<or> ?wrote")
proof (cases "w_pc w")
  case Pc_start
  with assms(1) obtain d where start: "w_start provider db w = (db', w')"
    by (auto simp: w_step_def split: prod.splits)
  show ?thesis
  proof (cases "job_get db (tk_job_id (w_task w)) (tk_tenant_id (w_task w))")
    case None
    with start show ?thesis by (simp add: w_start_def)
  next
    case (Some job)
    note D = job_getD [OF Some]
    let ?docs = "map skip_doc (doc_list_for_job db (tk_job_id (w_task w)))"
    let ?new = "if cancel_seen job
      then (recalc_job_counters job ?docs)\<lparr>j_status := Job_cancelled, j_completed_at := Some (db_clock db)\<rparr>
      else job\<lparr>j_status := Job_running, j_started_at := Some (db_clock db)\<rparr>"
    have "db_jobs db' = update_where (\<lambda>r. j_id r = j_id ?new) (job_flush (db_clock db) job ?new) (db_jobs db)"
      using start Some by (auto simp: w_start_def session_save_job_def Let_def split: sum.splits)
    moreover have "j_status ?new = j_status job \<or> j_status ?new = Job_cancelled \<or>
        worker_edge (j_status job) (j_status ?new)"
      by (auto simp: cancel_seen_def worker_edge_def)
    ultimately have ?wrote
      using D by (intro exI [of _ job] exI [of _ ?new]) auto
    then show ?thesis ..
  qed
next
  case Pc_check
  show ?thesis
  proof (cases "w_todo w")
    case Nil
    let ?job1 = "recalc_job_counters (w_job w) (w_done w)"
    let ?new = "?job1\<lparr>j_status := resolve_job_terminal_status (held_docs db (w_done w)) ?job1,
        j_completed_at := Some (db_clock db)\<rparr>"
    have "db_jobs db' = update_where (\<lambda>r. j_id r = j_id ?new) (job_flush (db_clock db) (w_job w) ?new) (db_jobs db)"
      using assms(1) Pc_check Nil by (auto simp: w_step_def w_finish_def session_save_job_def Let_def)
    moreover have "j_status ?new \<in> {Job_completed, Job_partial, Job_failed, Job_cancelled}"
      using resolve_terminal_range by fastforce
    moreover have "\<exists>row \<in> set (db_jobs db). j_id row = j_id ?new \<and> j_tenant_id row = tk_tenant_id (w_task w)"
      using assms(2) Pc_check by (auto simp: session_ok_def)
    ultimately have ?wrote by (intro exI [of _ "w_job w"] exI [of _ ?new]) blast
    then show ?thesis ..
  next
    case (Cons d ds)
    with assms(1) Pc_check show ?thesis using w_check_skel [of db w d ds]
      by (auto simp: w_step_def split: prod.splits)
  qed
next
  case Pc_fetch
  with assms(1) show ?thesis using w_fetch_skel [of fetcher db w _ _ x]
    by (auto simp: w_step_def split: list.splits prod.splits)
next
  case Pc_callback
  let ?new = "w_job w\<lparr>j_callback_delivered := True\<rparr>"
  have "db_jobs db' = db_jobs db \<or>
      db_jobs db' = update_where (\<lambda>r. j_id r = j_id ?new) (job_flush (db_clock db) (w_job w) ?new) (db_jobs db)"
    using assms(1) Pc_callback
    by (auto simp: w_step_def w_callback_def session_save_job_def Let_def split: prod.splits if_splits)
  moreover have "\<exists>row \<in> set (db_jobs db). j_id row = j_id ?new \<and> j_tenant_id row = tk_tenant_id (w_task w)"
    using assms(2) Pc_callback by (auto simp: session_ok_def)
  moreover have ?wrote if "db_jobs db' =
      update_where (\<lambda>r. j_id r = j_id ?new) (job_flush (db_clock db) (w_job w) ?new) (db_jobs db)"
    using that calculation(2) by (intro exI [of _ "w_job w"] exI [of _ ?new]) simp
  ultimately show ?thesis by blast
qed (use assms in \<open>simp_all add: w_step_def\<close>)

section \<open>Documents a segment may write\<close>

lemma commit_docs_confined:
  assumes "distinct (map d_id (db_docs db))" and "\<forall>(old, new) \<in> set ps. held_ok db i new"
  shows "filter (\<lambda>d. d_job_id d \<noteq> i) (db_docs (commit_docs db ps)) = filter (\<lambda>d. d_job_id d \<noteq> i) (db_docs db)"
  using assms
proof (induction db ps rule: commit_docs.induct)
  case (2 db old new ps)
  let ?db1 = "session_save_doc db old new"
  have skel: "map doc_skel (db_docs ?db1) = map doc_skel (db_docs db)" by (simp del: map_map)
  have ids: "map d_id (db_docs ?db1) = map d_id (db_docs db)"
    by (rule map_via [OF skel, where g = fst]) (simp add: doc_skel_def)
  have ext: "extends db ?db1" by (rule extends_skel) (simp_all del: map_map)
  obtain r where r: "r \<in> set (db_docs db)" "d_id r = d_id new" "d_job_id r = i"
    using "2.prems"(2) by (auto simp: held_ok_def)
  have own: "d_job_id d = i" if "d \<in> set (db_docs db)" "d_id d = d_id new" for d
    using that r "2.prems"(1) by (metis distinct_map inj_onD)
  have "filter (\<lambda>d. d_job_id d \<noteq> i) (update_where (\<lambda>d. d_id d = d_id new) (doc_flush old new) ds) =
      filter (\<lambda>d. d_job_id d \<noteq> i) ds" if "set ds \<subseteq> set (db_docs db)" for ds
    using that own by (induction ds) (auto simp: doc_flush_def)
  then have "filter (\<lambda>d. d_job_id d \<noteq> i) (db_docs ?db1) = filter (\<lambda>d. d_job_id d \<noteq> i) (db_docs db)"
    by (simp add: session_save_doc_def)
  moreover have "\<forall>(old, new) \<in> set ps. held_ok ?db1 i new"
    using "2.prems"(2) ext held_ok_extends by fastforce
  ultimately show ?case
    using "2.IH" "2.prems"(1) by (simp add: ids)
qed simp

lemma w_step_docs_confined:
  assumes ok: "tables_ok db" and ses: "session_ok db w"
    and step: "w_step provider fetcher post cfg (db, w, x) = (db', w', x')"
  shows "db_docs db' = db_docs db \<or>
    (\<exists>row \<in> set (db_jobs db). j_tenant_id row = tk_tenant_id (w_task w) \<and>
       filter (\<lambda>d. d_job_id d \<noteq> j_id row) (db_docs db') = filter (\<lambda>d. d_job_id d \<noteq> j_id row) (db_docs db))"
proof -
  have ids: "distinct (map d_id (db_docs db))" using ok by (simp add: tables_ok_def ids_ok_def)
  have commit: ?thesis if "db_docs db' = db_docs (commit_docs db ps)"
      "\<forall>(old, new) \<in> set ps. held_ok db (j_id row) new" "row \<in> set (db_jobs db)"
      "j_tenant_id row = tk_tenant_id (w_task w)" for ps row
    using commit_docs_confined [OF ids that(2)] that by auto
  show ?thesis
  proof (cases "w_pc w")
    case Pc_start
    with step have start: "w_start provider db w = (db', w')"
      by (auto simp: w_step_def split: prod.splits)
    show ?thesis
    proof (cases "job_get db (tk_job_id (w_task w)) (tk_tenant_id (w_task w))")
      case None
      with start show ?thesis by (simp add: w_start_def)
    next
      case (Some job)
      note D = job_getD [OF Some]
      let ?docs = "doc_list_for_job db (tk_job_id (w_task w))"
      show ?thesis
      proof (cases "cancel_seen job")
        case True
        with start Some have "db_docs db' = db_docs (commit_docs db (zip ?docs (map skip_doc ?docs)))"
          by (auto simp: w_start_def Let_def)
        moreover have "\<forall>(old, new) \<in> set (zip ?docs (map skip_doc ?docs)). held_ok db (j_id job) new"
          using D by (auto simp: zip_map2 held_ok_def in_doc_list_for_job skip_doc_def dest!: set_zip_rightD)
        ultimately show ?thesis using commit D by blast
      next
        case False
        with start Some show ?thesis by (auto simp: w_start_def Let_def split: sum.splits)
      qed
    qed
  next
    case Pc_check
    with ses obtain row where row: "row \<in> set (db_jobs db)" "j_id row = j_id (w_job w)"
        "j_tenant_id row = tk_tenant_id (w_task w)"
        and pend: "\<forall>(old, new) \<in> set (w_pending w). held_ok db (j_id row) new"
        and todo: "\<forall>d \<in> set (w_todo w). held_ok db (j_id row) d"
      by (auto simp: session_ok_def)
    show ?thesis
    proof (cases "w_todo w")
      case Nil
      with step Pc_check have "db_docs db' = db_docs (commit_docs db (w_pending w))"
        by (auto simp: w_step_def w_finish_def Let_def)
      then show ?thesis by (rule commit [OF _ pend row(1,3)])
    next
      case (Cons d ds)
      with step Pc_check have "db_docs db' = db_docs db \<or>
          db_docs db' = db_docs (commit_docs db (w_pending w @ [(d, d\<lparr>d_status := Doc_fetching\<rparr>)]))"
        by (auto simp: w_step_def w_check_def Let_def split: option.splits if_splits)
      moreover have "\<forall>(old, new) \<in> set (w_pending w @ [(d, d\<lparr>d_status := Doc_fetching\<rparr>)]).
          held_ok db (j_id row) new"
        using pend todo Cons by auto
      ultimately show ?thesis using commit row(1,3) by blast
    qed
  next
    case Pc_fetch
    with ses obtain row where row: "row \<in> set (db_jobs db)" "j_tenant_id row = tk_tenant_id (w_task w)"
        and pend: "\<forall>(old, new) \<in> set (w_pending w). held_ok db (j_id row) new"
        and todo: "\<forall>d \<in> set (w_todo w). held_ok db (j_id row) d"
      by (auto simp: session_ok_def)
    show ?thesis
    proof (cases "w_todo w")
      case (Cons d ds)
      with step Pc_fetch obtain r where
          "db_docs db' = db_docs (commit_docs db (w_pending w @ [(d, fetch_outcome (db_clock db) r d)]))"
        by (auto simp: w_step_def w_fetch_def Let_def split: prod.splits)
      moreover have "\<forall>(old, new) \<in> set (w_pending w @ [(d, fetch_outcome (db_clock db) r d)]).
          held_ok db (j_id row) new"
        using pend todo Cons by auto
      ultimately show ?thesis using commit row by blast
    qed (use step Pc_fetch in \<open>simp add: w_step_def\<close>)
  next
    case Pc_callback
    with step show ?thesis using w_callback_skel [of cfg post db w x]
      by (auto simp: w_step_def)
  qed (use step in \<open>simp_all add: w_step_def\<close>)
qed

end
