(* ===== verification/LifecycleProps.thy ===== *)
theory LifecycleProps
  imports LifecycleFacts WorkerProps
begin

text \<open>
  The properties of the engine as a whole, over every interleaving of requests, deliveries, task
  segments, crashes, reaper sweeps and soft deletes.
\<close>

section \<open>A concrete run\<close>

definition demo_order :: order_data where
  "demo_order = \<lparr>od_id = 7, od_address_line_1 = ''123 Main St'', od_address_line_2 = None,
     od_city = None, od_state = None, od_zip_code = None, od_county = None, od_parcel_id = None,
     od_lat = None, od_lon = None, od_survey_type = None\<rparr>"

definition demo_service :: service where
  "demo_service = \<lparr>sv_order_provider = Some (\<lambda>i t. if i = 7 then Some demo_order else None),
     sv_enqueue = True\<rparr>"

definition demo_engine :: "nat engine" where
  "demo_engine = \<lparr>en_service = demo_service, en_provider = demo_provider, en_fetcher = demo_fetcher,
     en_post = demo_post, en_callback = default_callback_settings, en_stale_minutes = 10\<rparr>"

definition demo_create :: api_call where
  "demo_create = Call_create 8 9 7 [''PARCEL_RECORD'', ''NGS_CONTROL''] (Some 5) None"

definition demo_state :: "nat system" where
  "demo_state =
     \<lparr>sy_state = \<lparr>es_db = (demo_db Job_queued)\<lparr>db_jobs := [(new_job_row 0 0 7 8 9 5
          [''PARCEL_RECORD'', ''NGS_CONTROL''] None)], db_docs := new_docs 1 0 0 7
          [''PARCEL_RECORD'', ''NGS_CONTROL''], db_clock := 0, db_fresh := 3\<rparr>,
        es_queue = [\<lparr>tk_job_id = 0, tk_tenant_id = 8, tk_actor_id = 9\<rparr>]\<rparr>,
      sy_workers = [], sy_world = 0\<rparr>"

lemma demo_create_step: "sys_step demo_engine (Ev_api demo_create) (init_system 0) demo_state"
proof -
  have "validate_doc_types [''PARCEL_RECORD'', ''NGS_CONTROL''] =
      Inr [''PARCEL_RECORD'', ''NGS_CONTROL'']"
    by (rule validate_known_id) (simp_all add: doc_types_known_eq)
  then have "api_exec (en_service demo_engine) (sy_db (init_system 0)) (sy_state (init_system 0)) demo_create =
      Inr (new_job_row 0 0 7 8 9 5 [''PARCEL_RECORD'', ''NGS_CONTROL''] None, sy_state demo_state)"
    by (simp add: demo_create_def demo_engine_def demo_service_def create_job_race_def
        create_precheck_def resolve_order_def demo_order_def job_get_by_idempotency_def
        create_insert_def job_create_def doc_create_def init_system_def sy_db_def demo_state_def demo_db_def
        numeral_3_eq_3 Let_def)
  from sys_step.api [OF this] show ?thesis
    by (simp add: demo_state_def init_system_def)
qed

lemma demo_reachable: "reachable demo_engine 0 demo_state"
  unfolding reachable_def some_step_def using demo_create_step by blast

lemma demo_state_rows:
  "db_jobs (sy_db demo_state) = [new_job_row 0 0 7 8 9 5 [''PARCEL_RECORD'', ''NGS_CONTROL''] None]"
  by (simp add: demo_state_def sy_db_def)

section \<open>Invariants\<close>

text \<open>
  C1: In every reachable state, whatever the interleaving, the tables are well formed: job and
  document identifiers are unique, a tenant has at most one job per idempotency key, every job has
  exactly one document per requested type in request order, the requested types are non-empty,
  distinct and known, and every document belongs to an existing job of the same order.
\<close>

theorem reachable_tables_ok:
  assumes "reachable en x s"
  shows "tables_ok (sy_db s)"
  using reachable_ok [OF assms] by (simp add: system_ok_def)

theorem reachable_tables_ok_witness:
  "tables_ok (sy_db demo_state) \<and> length (db_jobs (sy_db demo_state)) = 1"
  using reachable_tables_ok [OF demo_reachable] by (simp add: demo_state_rows)

text \<open>
  C9: The tables are an audit trail: no step ever removes a row or changes its identity (job id,
  tenant, order, idempotency key and requested types; document id, job, order and type), in any
  continuation of a reachable state.
\<close>

theorem tables_append_only:
  assumes "reachable en x s" and "(some_step en)\<^sup>*\<^sup>* s s'"
  shows "\<exists>js ds. map job_skel (db_jobs (sy_db s')) = map job_skel (db_jobs (sy_db s)) @ js \<and>
                 map doc_skel (db_docs (sy_db s')) = map doc_skel (db_docs (sy_db s)) @ ds"
  using engine_sys.rel_run [OF assms(2) reachable_ok [OF assms(1)]] by (simp add: extends_def)

theorem tables_append_only_witness:
  "\<exists>js ds. map job_skel (db_jobs (sy_db demo_state)) = map job_skel (db_jobs (sy_db (init_system (0::nat)))) @ js \<and>
           map doc_skel (db_docs (sy_db demo_state)) = map doc_skel (db_docs (sy_db (init_system (0::nat)))) @ ds"
proof (rule tables_append_only)
  show "reachable demo_engine 0 (init_system 0)" by (simp add: reachable_def)
  show "(some_step demo_engine)\<^sup>*\<^sup>* (init_system 0) demo_state"
    using demo_reachable by (simp add: reachable_def)
qed

section \<open>Status changes\<close>

text \<open>What each event may do to the status of a job that exists.\<close>

fun event_edge :: "event \<Rightarrow> job_status \<Rightarrow> job_status \<Rightarrow> bool" where
  "event_edge (Ev_api c) s s' = api_edge c s s'"
| "event_edge (Ev_segment t) s s' = worker_edge s s'"
| "event_edge Ev_reap s s' = (s = Job_running \<and> s' = Job_failed)"
| "event_edge _ s s' = False"

lemma status_after_save:
  assumes "tables_ok db" and "j \<in> set (db_jobs db)" and "j' \<in> set (db_jobs db')" and "j_id j' = j_id j"
    and "db_jobs db' = update_where P f (db_jobs db)" and "\<And>r. P r \<Longrightarrow> j_id (f r) = j_id r"
  shows "j' = (if P j then f j else j)"
proof -
  from assms(3,5) obtain r where r: "r \<in> set (db_jobs db)" "j' = (if P r then f r else r)"
    by (auto simp: in_update_where)
  with assms(4,6) have "j_id r = j_id j" by (auto split: if_splits)
  with r(1) assms(1,2) have "r = j"
    by (auto simp: tables_ok_def ids_ok_def distinct_map inj_on_def)
  with r(2) show ?thesis by simp
qed

lemma same_row:
  assumes "tables_ok db" "j \<in> set (db_jobs db)" "j' \<in> set (db_jobs db)" "j_id j' = j_id j"
  shows "j' = j"
  using assms by (auto simp: tables_ok_def ids_ok_def distinct_map inj_on_def)

lemma api_status:
  assumes ok: "tables_ok (es_db st)" and run: "api_exec svc db0 st c = Inr (job, st')"
    and j: "j \<in> set (db_jobs (es_db st))" "j' \<in> set (db_jobs (es_db st'))" "j_id j' = j_id j"
  shows "j_status j' = j_status j \<or> api_edge c (j_status j) (j_status j')"
  using api_exec_shape [OF ok run]
proof (elim disjE)
  assume "es_db st' = es_db st"
  with same_row [OF ok j(1), of j'] j(2,3) show ?thesis by simp
next
  assume "inserts_job c (es_db st) (es_db st')"
  with inserts_job_facts [OF ok] obtain n where n: "db_jobs (es_db st') = db_jobs (es_db st) @ [n]"
    "tables_ok (es_db st')" by blast
  with same_row [OF n(2), of j j'] j show ?thesis by simp
next
  assume "rewrites_row c (es_db st) (es_db st')"
  then obtain row row' where r: "job_get (es_db st) (j_id row) (caller c) = Some row"
      "es_db st' = job_save (es_db st) row'" "job_skel row' = job_skel row"
      "api_edge c (j_status row) (j_status row')" unfolding rewrites_row_def by blast
  have "j' = (if j_id j = j_id row' then row'\<lparr>j_updated_at := db_clock (es_db st)\<rparr> else j)"
    by (rule status_after_save [OF ok j]) (simp_all add: r(2) job_table.rows_save)
  moreover have "j = row" if "j_id j = j_id row'"
    by (rule same_row [OF ok]) (use that job_getD [OF r(1)] r(3) j in \<open>simp_all add: job_skel_def\<close>)
  ultimately show ?thesis using r(4) by auto
qed

lemma segment_status:
  assumes ok: "tables_ok db" and ses: "session_ok db w"
    and step: "w_step provider fetcher post cfg (db, w, x) = (db', w', x')"
    and j: "j \<in> set (db_jobs db)" "j' \<in> set (db_jobs db')" "j_id j' = j_id j"
  shows "j_status j' = j_status j \<or> worker_edge (j_status j) (j_status j')"
proof -
  from w_step_job_write [OF step ses] consider (same) "db_jobs db' = db_jobs db"
    | (flushed) old new where
        "db_jobs db' = update_where (\<lambda>r. j_id r = j_id new) (job_flush (db_clock db) old new) (db_jobs db)"
        "j_status new = j_status old \<or> j_status new \<in> {Job_completed, Job_partial, Job_failed, Job_cancelled} \<or>
         (old \<in> set (db_jobs db) \<and> j_id new = j_id old \<and> worker_edge (j_status old) (j_status new))"
    by blast
  then show ?thesis
  proof cases
    case same
    with same_row [OF ok j(1), of j'] j(2,3) show ?thesis by simp
  next
    case (flushed old new)
    note w = flushed(1) and cond = flushed(2)
  have "j' = (if j_id j = j_id new then job_flush (db_clock db) old new j else j)"
    by (rule status_after_save [OF ok j w]) (simp add: job_flush_def)
  moreover have "worker_edge (j_status j) (j_status new)"
    if "j_status new \<noteq> j_status old" "j_id j = j_id new"
    using cond that
  proof (elim disjE conjE)
    assume "old \<in> set (db_jobs db)" "j_id new = j_id old" "worker_edge (j_status old) (j_status new)"
    with same_row [OF ok j(1), of old] that show ?thesis by simp
  qed (simp_all add: worker_edge_def)
  ultimately show ?thesis by (auto simp: job_flush_status)
  qed
qed



text \<open>
  C13: A task delivered again after its job has ended (late acknowledgement, or the reaper and a
  normal delivery racing) reopens the job: its first segment puts a \<open>completed\<close>, \<open>partial\<close>,
  \<open>failed\<close>, \<open>reviewed\<close> or \<open>archived\<close> job back to \<open>running\<close>, against the documented rule that no
  terminal status is ever left.
\<close>

theorem redelivery_reopens_terminal_job:
  assumes "tables_ok db" and "job_get db (tk_job_id t) (tk_tenant_id t) = Some job"
    and "j_status job \<in> {Job_completed, Job_partial, Job_failed, Job_reviewed, Job_archived}"
  shows "case w_step provider fetcher post cfg (db, new_worker t, x) of
           (db', w', x') \<Rightarrow>
             (\<exists>j. job_get db' (tk_job_id t) (tk_tenant_id t) = Some j \<and> j_status j = Job_running)"
proof -
  let ?run = "job\<lparr>j_status := Job_running, j_started_at := Some (db_clock db)\<rparr>"
  have live: "\<not> cancel_seen job" using assms(3) by (auto simp: cancel_seen_def)
  note D = job_getD [OF assms(2)]
  obtain db' w' where start: "w_start provider db (new_worker t) = (db', w')" by fastforce
  then have "db' = session_save_job db job ?run"
    using assms(2) live by (auto simp: w_start_def new_worker_def Let_def split: sum.splits)
  moreover have "job_get (session_save_job db job ?run) (tk_job_id t) (tk_tenant_id t) =
      Some (job_flush (db_clock db) job ?run job)"
    by (rule job_get_save_job) (use assms D in \<open>simp_all add: tables_ok_def ids_ok_def job_flush_def\<close>)
  moreover have "j_status (job_flush (db_clock db) job ?run job) = Job_running"
    using assms(3) by (auto simp: job_flush_status)
  ultimately show ?thesis
    using start by (simp add: w_step_def new_worker_def)
qed

theorem redelivery_reopens_terminal_job_witness:
  "case w_step demo_provider demo_fetcher demo_post default_callback_settings
          (demo_db Job_reviewed, new_worker demo_task, 0) of
     (db', w', x') \<Rightarrow> \<exists>j. job_get db' 1 8 = Some j \<and> j_status j = Job_running"
  using redelivery_reopens_terminal_job [OF demo_db_ok demo_get [of Job_reviewed],
      where provider = demo_provider and fetcher = demo_fetcher and post = demo_post
        and cfg = default_callback_settings and x = 0]
  by (simp add: demo_task_def)

section \<open>Tenant isolation\<close>

text \<open>What one tenant owns: its jobs, and the documents of those jobs.\<close>

definition tenant_jobs :: "db \<Rightarrow> uuid \<Rightarrow> job_row list" where
  "tenant_jobs db u = filter (\<lambda>j. j_tenant_id j = u) (db_jobs db)"

definition tenant_docs :: "db \<Rightarrow> uuid \<Rightarrow> doc_row list" where
  "tenant_docs db u =
     filter (\<lambda>d. \<exists>j \<in> set (db_jobs db). j_tenant_id j = u \<and> j_id j = d_job_id d) (db_docs db)"

lemma rewrite_keeps_jobs:
  assumes "\<And>j. j \<in> set js \<Longrightarrow> P j \<Longrightarrow> \<not> Q j \<and> \<not> Q (f j)"
  shows "filter Q (update_where P f js) = filter Q js"
  using assms by (induction js) auto

lemma api_isolation:
  assumes ok: "tables_ok (es_db st)" and run: "api_exec svc db0 st c = Inr (job, st')"
    and u: "u \<noteq> caller c"
  shows "tenant_jobs (es_db st') u = tenant_jobs (es_db st) u \<and>
         tenant_docs (es_db st') u = tenant_docs (es_db st) u"
  using api_exec_shape [OF ok run]
proof (elim disjE)
  assume "inserts_job c (es_db st) (es_db st')"
  with inserts_job_facts [OF ok] obtain j ds where n: "tables_ok (es_db st')"
      "db_jobs (es_db st') = db_jobs (es_db st) @ [j]" "db_docs (es_db st') = db_docs (es_db st) @ ds"
      "j_tenant_id j = caller c" "\<forall>d \<in> set ds. d_job_id d = j_id j" by blast
  have "j_id k \<noteq> j_id j" if "k \<in> set (db_jobs (es_db st))" for k
    using n(1,2) imageI [OF that, of j_id] by (auto simp: tables_ok_def ids_ok_def)
  with n u show ?thesis
    by (auto simp: tenant_jobs_def tenant_docs_def filter_empty_conv)
next
  assume rw: "rewrites_row c (es_db st) (es_db st')"
  then obtain row row' where r: "job_get (es_db st) (j_id row) (caller c) = Some row"
      "es_db st' = job_save (es_db st) row'" "job_skel row' = job_skel row"
    unfolding rewrites_row_def by blast
  note D = job_getD [OF r(1)]
  have own: "j = row" if "j \<in> set (db_jobs (es_db st))" "j_id j = j_id row'" for j
    by (rule same_row [OF ok]) (use that D r(3) in \<open>simp_all add: job_skel_def\<close>)
  have jobs: "tenant_jobs (es_db st') u = tenant_jobs (es_db st) u"
    unfolding tenant_jobs_def r(2)
    by (rule job_table.filter_save) (use own D r(3) u in \<open>auto simp: job_skel_def\<close>)
  moreover have "db_docs (es_db st') = db_docs (es_db st)" by (simp add: r(2))
  moreover have "(\<exists>j \<in> set (db_jobs (es_db st')). j_tenant_id j = u \<and> j_id j = i) \<longleftrightarrow>
      (\<exists>j \<in> set (db_jobs (es_db st)). j_tenant_id j = u \<and> j_id j = i)" for i
    using arg_cong [OF jobs, of set] unfolding tenant_jobs_def by auto
  ultimately show ?thesis by (simp add: tenant_docs_def)
qed (simp add: tenant_jobs_def tenant_docs_def)

lemma segment_isolation:
  assumes ok: "tables_ok db" and ses: "session_ok db w"
    and step: "w_step provider fetcher post cfg (db, w, x) = (db', w', x')"
    and u: "u \<noteq> tk_tenant_id (w_task w)"
  shows "tenant_jobs db' u = tenant_jobs db u \<and> tenant_docs db' u = tenant_docs db u"
proof -
  have jobs: "tenant_jobs db' u = tenant_jobs db u"
  proof -
    from w_step_job_write [OF step ses] consider (same) "db_jobs db' = db_jobs db"
      | (flushed) old new row where
          "db_jobs db' = update_where (\<lambda>r. j_id r = j_id new) (job_flush (db_clock db) old new) (db_jobs db)"
          "row \<in> set (db_jobs db)" "j_id row = j_id new" "j_tenant_id row = tk_tenant_id (w_task w)"
      by blast
    then show ?thesis
    proof cases
      case (flushed old new row)
      have "j = row" if "j \<in> set (db_jobs db)" "j_id j = j_id new" for j
        by (rule same_row [OF ok]) (use that flushed in simp_all)
      then show ?thesis
        unfolding tenant_jobs_def flushed(1)
        by (intro rewrite_keeps_jobs) (use flushed(4) u in \<open>auto simp: job_flush_def\<close>)
    qed (simp add: tenant_jobs_def)
  qed
  have owner: "(\<exists>j \<in> set (db_jobs db'). j_tenant_id j = u \<and> j_id j = i) \<longleftrightarrow>
      (\<exists>j \<in> set (db_jobs db). j_tenant_id j = u \<and> j_id j = i)" for i
    using arg_cong [OF jobs, of set] unfolding tenant_jobs_def by auto
  from w_step_docs_confined [OF ok ses step] have "tenant_docs db' u = tenant_docs db u"
  proof (elim disjE bexE conjE)
    assume "db_docs db' = db_docs db"
    then show ?thesis by (simp add: tenant_docs_def owner)
  next
    fix row assume row: "row \<in> set (db_jobs db)" "j_tenant_id row = tk_tenant_id (w_task w)"
      and f: "filter (\<lambda>d. d_job_id d \<noteq> j_id row) (db_docs db') = filter (\<lambda>d. d_job_id d \<noteq> j_id row) (db_docs db)"
    have imp: "d_job_id d \<noteq> j_id row" if "\<exists>j \<in> set (db_jobs db). j_tenant_id j = u \<and> j_id j = d_job_id d" for d
    proof
      assume "d_job_id d = j_id row"
      with that obtain j where "j \<in> set (db_jobs db)" "j_tenant_id j = u" "j_id j = j_id row" by auto
      with same_row [OF ok row(1), of j] row(2) u show False by simp
    qed
    have "filter (\<lambda>d. \<exists>j \<in> set (db_jobs db). j_tenant_id j = u \<and> j_id j = d_job_id d) ds =
        filter (\<lambda>d. \<exists>j \<in> set (db_jobs db). j_tenant_id j = u \<and> j_id j = d_job_id d)
          (filter (\<lambda>d. d_job_id d \<noteq> j_id row) ds)" for ds
      unfolding filter_filter by (rule filter_cong) (use imp in auto)
    from this [of "db_docs db'"] this [of "db_docs db"] f show ?thesis
      unfolding tenant_docs_def owner by argo
  qed
  with jobs show ?thesis by simp
qed

text \<open>
  C4: Tenants are isolated: a request of one tenant, or a segment of a task published for it,
  changes no job and no document of any other tenant, in any reachable state.
\<close>

theorem tenant_isolation:
  assumes "reachable en x s" and "sys_step en ev s s'"
    and "(\<exists>c. ev = Ev_api c \<and> caller c \<noteq> u) \<or> (\<exists>t. ev = Ev_segment t \<and> tk_tenant_id t \<noteq> u)"
  shows "tenant_jobs (sy_db s') u = tenant_jobs (sy_db s) u \<and>
         tenant_docs (sy_db s') u = tenant_docs (sy_db s) u"
proof -
  have ok: "tables_ok (sy_db s)" and ses: "\<forall>w \<in> set (sy_workers s). session_ok (sy_db s) w"
    using reachable_ok [OF assms(1)] by (simp_all add: system_ok_def)
  from assms(3) show ?thesis
  proof (elim disjE exE conjE)
    fix c assume c: "ev = Ev_api c" "caller c \<noteq> u"
    from assms(2) [unfolded c(1)] obtain svc db0 job st' where
        run: "api_exec svc db0 (sy_state s) c = Inr (job, st')" and s': "s' = s\<lparr>sy_state := st'\<rparr>"
      by (rule api_stepE) blast+
    from api_isolation [OF _ run, of u] ok c(2) show ?thesis by (simp add: s' sy_db_def)
  next
    fix t assume t: "ev = Ev_segment t" "tk_tenant_id t \<noteq> u"
    from assms(2) [unfolded t(1)] obtain ws1 w ws2 db' w' x' where
        seg: "sy_workers s = ws1 @ w # ws2" "w_task w = t"
        and step: "w_step (en_provider en) (en_fetcher en) (en_post en) (en_callback en)
               (sy_db s, w, sy_world s) = (db', w', x')"
        and s': "s' = set_db db' s\<lparr>sy_workers := ws1 @ w' # ws2, sy_world := x'\<rparr>"
      by (rule segment_stepE) blast
    have "session_ok (sy_db s) w" using ses seg by simp
    from segment_isolation [OF ok this step, of u] seg(2) t(2) show ?thesis
      by (simp add: s' sy_db_def set_db_def)
  qed
qed

theorem tenant_isolation_witness:
  "tenant_jobs (sy_db demo_state) 77 = [] \<and> tenant_docs (sy_db demo_state) 77 = []"
proof -
  have "tenant_jobs (sy_db demo_state) 77 = tenant_jobs (sy_db (init_system (0::nat))) 77 \<and>
        tenant_docs (sy_db demo_state) 77 = tenant_docs (sy_db (init_system (0::nat))) 77"
  proof (rule tenant_isolation)
    show "reachable demo_engine 0 (init_system 0)" by (simp add: reachable_def)
    show "sys_step demo_engine (Ev_api demo_create) (init_system 0) demo_state" by (rule demo_create_step)
  qed (simp add: demo_create_def)
  then show ?thesis by (simp add: tenant_jobs_def tenant_docs_def init_system_def sy_db_def)
qed

end
