(* ===== verification/Evidence.thy ===== *)
theory Evidence
  imports Service
begin

text \<open>
  The stand-in tables of \<open>engine/evidence_source.py\<close> (\<open>files\<close>, \<open>order_files\<close>) and
  \<open>engine/order_source.py\<close> (\<open>orders\<close>, \<open>tenants\<close>) with the functions over them, and the mappers of
  \<open>engine/mappers.py\<close> from rows to the API contract.
\<close>

section \<open>Evidence rows\<close>

record file_row =
  f_id :: uuid
  f_filename :: string
  f_content_key :: "string option"
  f_mime_type :: "string option"
  f_size :: "nat option"
  f_sha256 :: "string option"
  f_deleted_at :: "timestamp option"

record order_file_row =
  l_id :: uuid
  l_order_id :: uuid
  l_file_id :: uuid

record evidence =
  ev_files :: "file_row list"
  ev_links :: "order_file_row list"
  ev_fresh :: uuid

text \<open>The dictionary \<open>get_file_reference\<close> returns.\<close>

record file_meta =
  fm_key :: string
  fm_filename :: string
  fm_size_bytes :: nat
  fm_sha256 :: string
  fm_mime_type :: string

definition create_evidence ::
  "evidence \<Rightarrow> uuid \<Rightarrow> string \<Rightarrow> string \<Rightarrow> nat \<Rightarrow> string \<Rightarrow> string option \<Rightarrow> (uuid \<times> uuid) \<times> evidence" where
  "create_evidence ev order_id storage_key filename file_size sha256 mime_type =
     (let i = ev_fresh ev;
          file = \<lparr>f_id = i, f_filename = filename, f_content_key = Some storage_key,
                  f_mime_type = Some (opt_or mime_type ''application/pdf''), f_size = Some file_size,
                  f_sha256 = Some sha256, f_deleted_at = None\<rparr>;
          link = \<lparr>l_id = Suc i, l_order_id = order_id, l_file_id = i\<rparr>
      in ((i, Suc i), ev\<lparr>ev_files := ev_files ev @ [file], ev_links := ev_links ev @ [link],
                        ev_fresh := Suc (Suc i)\<rparr>))"

definition get_file_reference :: "evidence \<Rightarrow> uuid \<Rightarrow> file_meta option" where
  "get_file_reference ev file_id =
     (case List.find (\<lambda>f. f_id f = file_id \<and> f_deleted_at f = None) (ev_files ev) of
        None \<Rightarrow> None
      | Some f \<Rightarrow> Some \<lparr>fm_key = opt_or (f_content_key f) [], fm_filename = f_filename f,
                      fm_size_bytes = (case f_size f of None \<Rightarrow> 0 | Some n \<Rightarrow> n),
                      fm_sha256 = opt_or (f_sha256 f) [],
                      fm_mime_type = opt_or (f_mime_type f) ''application/pdf''\<rparr>)"

definition evidence_ok :: "evidence \<Rightarrow> bool" where
  "evidence_ok ev \<longleftrightarrow> distinct (map f_id (ev_files ev)) \<and> (\<forall>f \<in> set (ev_files ev). f_id f < ev_fresh ev) \<and>
     (\<forall>l \<in> set (ev_links ev). l_file_id l \<in> f_id ` set (ev_files ev))"

section \<open>Orders and tenants\<close>

record order_row =
  or_id :: uuid
  or_tenant_id :: uuid
  or_order_number :: "string option"
  or_address_line_1 :: string
  or_address_line_2 :: "string option"
  or_city :: "string option"
  or_state :: "string option"
  or_zip_code :: "string option"
  or_county :: "string option"
  or_parcel_id :: "string option"
  or_lat :: "rat option"
  or_lon :: "rat option"
  or_survey_type :: "string option"
  or_deleted_at :: "timestamp option"

record order_db =
  ob_tenants :: "uuid list"
  ob_orders :: "order_row list"
  ob_fresh :: uuid

definition order_provider :: "order_db \<Rightarrow> uuid \<Rightarrow> uuid \<Rightarrow> order_data option" where
  "order_provider ob order_id tenant_id =
     (case List.find (\<lambda>r. or_id r = order_id \<and> or_tenant_id r = tenant_id \<and> or_deleted_at r = None)
             (ob_orders ob) of
        None \<Rightarrow> None
      | Some r \<Rightarrow> Some \<lparr>od_id = or_id r, od_address_line_1 = or_address_line_1 r,
          od_address_line_2 = or_address_line_2 r, od_city = or_city r, od_state = or_state r,
          od_zip_code = or_zip_code r, od_county = or_county r, od_parcel_id = or_parcel_id r,
          od_lat = or_lat r, od_lon = or_lon r, od_survey_type = or_survey_type r\<rparr>)"

definition seed_dev_order ::
  "order_db \<Rightarrow> uuid option \<Rightarrow> string \<Rightarrow> string option \<Rightarrow> string option \<Rightarrow> string option \<Rightarrow>
     string option \<Rightarrow> string option \<Rightarrow> string option \<Rightarrow> string option \<Rightarrow> order_row \<times> order_db" where
  "seed_dev_order ob tenant address1 address2 city state zip_code county parcel survey =
     (let (tenant_id, ob1) = (case tenant of
                                Some t \<Rightarrow> (t, ob)
                              | None \<Rightarrow> (ob_fresh ob, ob\<lparr>ob_fresh := Suc (ob_fresh ob)\<rparr>));
          ob2 = (if tenant_id \<in> set (ob_tenants ob1) then ob1
                 else ob1\<lparr>ob_tenants := ob_tenants ob1 @ [tenant_id]\<rparr>)
      in case List.find (\<lambda>r. or_tenant_id r = tenant_id \<and> or_address_line_1 r = address1 \<and>
                            or_deleted_at r = None) (ob_orders ob2) of
           Some row \<Rightarrow> (row, ob2)
         | None \<Rightarrow>
             let row = \<lparr>or_id = ob_fresh ob2, or_tenant_id = tenant_id, or_order_number = None,
                        or_address_line_1 = address1, or_address_line_2 = address2, or_city = city,
                        or_state = state, or_zip_code = zip_code, or_county = county,
                        or_parcel_id = parcel, or_lat = None, or_lon = None,
                        or_survey_type = survey, or_deleted_at = None\<rparr>
             in (row, ob2\<lparr>ob_orders := ob_orders ob2 @ [row], ob_fresh := Suc (ob_fresh ob2)\<rparr>))"

text \<open>
  \<open>scripts/seed_demo_order.py\<close>: the order of the demo for the arguments of the command line, and
  the line the script prints.
\<close>

definition arg_or :: "string list \<Rightarrow> nat \<Rightarrow> string \<Rightarrow> string" where
  "arg_or argv n fallback = (if length argv > n then argv ! n else fallback)"

definition seed_demo_order :: "string list \<Rightarrow> order_db \<Rightarrow> string \<times> order_db" where
  "seed_demo_order argv ob =
     (let address = arg_or argv 1 ''2628 US Hwy 98 N'';
          city = arg_or argv 2 ''Lakeland'';
          state = arg_or argv 3 ''FL'';
          county = arg_or argv 4 ''Polk'';
          parcel_id = arg_or argv 5 ''262828612000000060'';
          tenant_id = the (parse_uuid ''c0000000-0000-0000-0000-000000000001'');
          (row, ob') = seed_dev_order ob (Some tenant_id) address None (Some city) (Some state) None
                         (Some county) (Some parcel_id) (Some ''Location Survey'')
      in (''ORDER_ID='' @ uuid_str (or_id row), ob'))"

section \<open>Mappers\<close>

definition s3_key :: "doc_row \<Rightarrow> string" where
  "s3_key doc =
     ''orders/'' @ uuid_str (d_order_id doc) @ ''/research/'' @
     (case d_file_id doc of None \<Rightarrow> ''None'' | Some i \<Rightarrow> uuid_str i) @ ''/'' @
     or_str (d_link_label doc) ''document.pdf''"

definition to_file_reference :: "evidence \<Rightarrow> doc_row \<Rightarrow> file_reference option" where
  "to_file_reference ev doc =
     (case (d_file_id doc, d_order_file_id doc) of
        (Some file_id, Some order_file_id) \<Rightarrow>
          let meta = get_file_reference ev file_id;
              text = (\<lambda>f. case meta of None \<Rightarrow> [] | Some m \<Rightarrow> f m)
          in Some \<lparr>fr_file_id = file_id, fr_order_file_id = order_file_id,
                   fr_key = or_str (text fm_key) (s3_key doc),
                   fr_filename = or_str (text fm_filename) (d_doc_type doc @ ''.pdf''),
                   fr_size_bytes = (case meta of None \<Rightarrow> 0 | Some m \<Rightarrow> fm_size_bytes m),
                   fr_sha256 = text fm_sha256,
                   fr_mime_type = or_str (text fm_mime_type) ''application/pdf''\<rparr>
      | _ \<Rightarrow> None)"

definition to_error_code :: "string option \<Rightarrow> error_code option" where
  "to_error_code v = (if opt_truthy v then error_code_of (the v) else None)"

definition to_document_schema :: "evidence \<Rightarrow> doc_row \<Rightarrow> document_schema" where
  "to_document_schema ev doc =
     \<lparr>ds_id = d_id doc, ds_doc_type = d_doc_type doc, ds_status = d_status doc,
      ds_source_outcome = d_source_outcome doc, ds_confidence = d_confidence doc,
      ds_file = to_file_reference ev doc, ds_summary = d_summary doc, ds_link = d_link doc,
      ds_link_label = d_link_label doc, ds_provenance = d_provenance doc,
      ds_warnings = d_warnings doc, ds_error_code = to_error_code (d_error_code doc),
      ds_error_message = d_error_message doc, ds_retryable = d_retryable doc,
      ds_retry_count = d_retry_count doc, ds_fetched_at = d_fetched_at doc\<rparr>"

definition to_job_schema :: "evidence \<Rightarrow> db \<Rightarrow> job_row \<Rightarrow> bool \<Rightarrow> job_schema" where
  "to_job_schema ev db job with_documents =
     (let docs = (if with_documents then doc_list_for_job db (j_id job) else [])
      in \<lparr>js_id = j_id job, js_order_id = j_order_id job, js_status = j_status job,
          js_requested_doc_types = j_requested_doc_types job,
          js_total_documents = j_total_documents job, js_fetched_documents = j_fetched_documents job,
          js_uploaded_documents = j_uploaded_documents job,
          js_failed_documents = j_failed_documents job,
          js_cancelled_documents = j_cancelled_documents job,
          js_documents = map (to_document_schema ev) docs, js_started_at = j_started_at job,
          js_completed_at = j_completed_at job, js_created_at = j_created_at job,
          js_updated_at = j_updated_at job,
          js_created_by = (case j_created_by job of None \<Rightarrow> j_tenant_id job | Some a \<Rightarrow> a),
          js_error_code = to_error_code (j_error_code job),
          js_error_message = j_error_message job, js_cancel_reason = j_cancel_reason job\<rparr>)"

definition to_job_summary_schema :: "job_row \<Rightarrow> job_summary" where
  "to_job_summary_schema job =
     \<lparr>jm_id = j_id job, jm_order_id = j_order_id job, jm_status = j_status job,
      jm_total_documents = j_total_documents job, jm_fetched_documents = j_fetched_documents job,
      jm_uploaded_documents = j_uploaded_documents job, jm_failed_documents = j_failed_documents job,
      jm_cancelled_documents = j_cancelled_documents job, jm_created_at = j_created_at job,
      jm_completed_at = j_completed_at job, jm_cancel_reason = j_cancel_reason job\<rparr>"

section \<open>Facts\<close>

lemma find_append:
  "List.find P (xs @ ys) = (case List.find P xs of Some x \<Rightarrow> Some x | None \<Rightarrow> List.find P ys)"
  by (induction xs) auto

lemma create_evidence_ok:
  assumes "evidence_ok ev" "create_evidence ev ord key name sz sha mime = (ids, ev')"
  shows "evidence_ok ev'"
  using assms by (fastforce simp: evidence_ok_def create_evidence_def Let_def less_Suc_eq)

text \<open>What is stored is read back, and the other files are read as before.\<close>

lemma get_created:
  assumes ok: "evidence_ok ev" and new: "create_evidence ev ord key name sz sha mime = ((i, l), ev')"
  shows "get_file_reference ev' k =
     (if k = i then Some \<lparr>fm_key = key, fm_filename = name, fm_size_bytes = sz, fm_sha256 = sha,
                         fm_mime_type = opt_or mime ''application/pdf''\<rparr>
      else get_file_reference ev k)"
proof -
  have i: "i = ev_fresh ev" using new by (simp add: create_evidence_def Let_def)
  have "List.find (\<lambda>f. f_id f = i \<and> f_deleted_at f = None) (ev_files ev) = None"
    using ok i by (auto simp: evidence_ok_def find_None_iff)
  moreover have "opt_or mime ''application/pdf'' \<noteq> []" using opt_or_Nil by blast
  ultimately show ?thesis
    using new by (cases "k = i") (auto simp: create_evidence_def get_file_reference_def Let_def find_append
        i [symmetric] split: option.splits)
qed

lemma order_provider_own:
  "order_provider ob i t = Some od \<Longrightarrow>
     \<exists>r \<in> set (ob_orders ob). or_id r = i \<and> or_tenant_id r = t \<and> od_id od = i \<and>
        od_address_line_1 od = or_address_line_1 r"
  by (auto simp: order_provider_def dest!: find_SomeD split: option.splits)

lemma seed_finds_again:
  assumes "seed_dev_order ob (Some t) a1 a2 c s z co p su = (row, ob')"
  shows "seed_dev_order ob' (Some t) a1 a2' c' s' z' co' p' su' = (row, ob')"
  using assms by (auto simp: seed_dev_order_def Let_def find_append split: option.splits if_splits)

lemma seed_demo_order_again:
  "seed_demo_order argv ob = (line, ob') \<Longrightarrow> seed_demo_order argv ob' = (line, ob')"
  using seed_finds_again [where ?a2' = None and ?z' = None] unfolding seed_demo_order_def Let_def
  by (auto split: prod.splits)

end
