(* ===== verification/Api.thy ===== *)
theory Api
  imports Evidence
begin

text \<open>
  The HTTP surface: \<open>engine/dependencies.py\<close> (actor and tenant of a request), \<open>core/limiter.py\<close>,
  \<open>core/middleware.py\<close>, the endpoints of \<open>engine/router.py\<close>, and the exception handlers and the
  health probes of \<open>main.py\<close>.  Decoding a JWT and counting hits in a rate window are libraries
  (\<open>jose\<close>, \<open>limits\<close>): they are arguments.  FastAPI resolves the rate limit first, then the actor,
  then the tenant, then runs the endpoint; the first exception ends the request.
\<close>

section \<open>Settings and requests\<close>

record app_settings =
  RUN_ENV :: string
  COGNITO_REGION :: "string option"
  COGNITO_USER_POOL_ID :: "string option"
  COGNITO_CLIENT_ID :: "string option"
  COGNITO_ISSUER :: "string option"
  COGNITO_AUDIENCE :: "string option"
  RATE_LIMIT_RESEARCH :: string
  CORS_ORIGINS :: string

definition cors_origins_list :: "app_settings \<Rightarrow> string list" where
  "cors_origins_list cfg =
     filter (\<lambda>o'. o' \<noteq> []) (map strip (split_on (CHR '','') (CORS_ORIGINS cfg)))"

record request =
  rq_bearer :: "string option"
  rq_x_actor_id :: "string option"
  rq_x_tenant_id :: "string option"
  rq_x_request_id :: "string option"
  rq_client_host :: "string option"

text \<open>What an endpoint may raise.\<close>

datatype api_exc =
  Http_exc nat string
| Engine_exc engine_error
| Other_exc string

text \<open>The decoded claims: a dictionary of strings.\<close>

type_synonym claims = "(string \<times> string) list"

type_synonym jwt_decode =
  "string \<Rightarrow> string \<Rightarrow> string option \<Rightarrow> string option \<Rightarrow> claims option"

section \<open>Actor and tenant\<close>

definition jwt_auth_enabled :: "app_settings \<Rightarrow> bool" where
  "jwt_auth_enabled cfg =
     (opt_truthy (COGNITO_USER_POOL_ID cfg) \<and> opt_truthy (COGNITO_REGION cfg) \<and>
      opt_truthy (COGNITO_ISSUER cfg))"

definition claim :: "claims \<Rightarrow> string \<Rightarrow> string" where
  "claim payload k = (case map_of payload k of None \<Rightarrow> [] | Some v \<Rightarrow> v)"

text \<open>
  The actor, with what \<open>request.state.cognito_payload\<close> is afterwards (it is stored before the
  \<open>sub\<close> claim is parsed).
\<close>

definition get_actor_id ::
  "app_settings \<Rightarrow> jwt_decode \<Rightarrow> request \<Rightarrow> api_exc + uuid \<times> claims option" where
  "get_actor_id cfg decode rq =
     (if jwt_auth_enabled cfg then
        (case rq_bearer rq of
           None \<Rightarrow> Inl (Http_exc 401 ''Missing Authorization Bearer token'')
         | Some token \<Rightarrow>
             (case decode token (opt_or (COGNITO_CLIENT_ID cfg) []) (COGNITO_ISSUER cfg)
                     (COGNITO_AUDIENCE cfg) of
                None \<Rightarrow> Inl (Http_exc 401 ''Invalid or expired token'')
              | Some payload \<Rightarrow>
                  if claim payload ''sub'' = []
                  then Inl (Http_exc 401 (''Token missing '' @ [CHR 0x27] @ ''sub'' @ [CHR 0x27] @ '' claim''))
                  else (case parse_uuid (claim payload ''sub'') of
                          None \<Rightarrow> Inl (Http_exc 401 (''Invalid '' @ [CHR 0x27] @ ''sub'' @ [CHR 0x27] @ '' in token''))
                        | Some i \<Rightarrow> Inr (i, Some payload))))
      else if \<not> opt_truthy (rq_x_actor_id rq) then Inl (Http_exc 401 ''Missing X-Actor-Id'')
      else (case parse_uuid (the (rq_x_actor_id rq)) of
              None \<Rightarrow> Inl (Http_exc 401 ''Invalid X-Actor-Id'')
            | Some i \<Rightarrow> Inr (i, None)))"

definition get_tenant_id ::
  "app_settings \<Rightarrow> request \<Rightarrow> claims option \<Rightarrow> api_exc + uuid" where
  "get_tenant_id cfg rq cognito_payload =
     (if jwt_auth_enabled cfg then
        (case cognito_payload of
           None \<Rightarrow> Inl (Http_exc 401 ''Token not validated'')
         | Some payload \<Rightarrow>
             let tenant = or_str (claim payload ''custom:tenant_id'') (claim payload ''tenant_id'')
             in if tenant = [] then Inl (Http_exc 401 ''Token missing tenant claim'')
                else (case parse_uuid tenant of
                        None \<Rightarrow> Inl (Http_exc 401 ''Invalid tenant id in token'')
                      | Some i \<Rightarrow> Inr i))
      else if \<not> opt_truthy (rq_x_tenant_id rq) then Inl (Http_exc 401 ''Missing X-Tenant-Id'')
      else (case parse_uuid (the (rq_x_tenant_id rq)) of
              None \<Rightarrow> Inl (Http_exc 401 ''Invalid X-Tenant-Id'')
            | Some i \<Rightarrow> Inr i))"

definition authenticate ::
  "app_settings \<Rightarrow> jwt_decode \<Rightarrow> request \<Rightarrow> api_exc + uuid \<times> uuid" where
  "authenticate cfg decode rq =
     res_bind (get_actor_id cfg decode rq) (\<lambda>(actor, payload).
     res_bind (get_tenant_id cfg rq payload) (\<lambda>tenant. Inr (actor, tenant)))"

section \<open>Rate limit and request id\<close>

definition identity :: "request \<Rightarrow> string" where
  "identity rq =
     opt_or (rq_x_tenant_id rq) (case rq_client_host rq of None \<Rightarrow> ''anon'' | Some h \<Rightarrow> h)"

text \<open>\<open>hit\<close> is the moving window: rate and identifier to whether the hit is allowed.\<close>

definition rate_limit ::
  "app_settings \<Rightarrow> ('l \<Rightarrow> string \<Rightarrow> string \<Rightarrow> bool \<times> 'l) \<Rightarrow> request \<Rightarrow> 'l \<Rightarrow> (api_exc + unit) \<times> 'l" where
  "rate_limit cfg hit rq window =
     (if RATE_LIMIT_RESEARCH cfg = [] \<or> RUN_ENV cfg = ''test'' then (Inr (), window)
      else (case hit window (RATE_LIMIT_RESEARCH cfg) (''research:'' @ identity rq) of
              (allowed, window') \<Rightarrow>
                (if allowed then Inr () else Inl (Http_exc 429 ''Rate limit exceeded''), window')))"

text \<open>The request id that is bound to the logs and sent back; \<open>fresh\<close> is a new \<open>uuid4\<close>.\<close>

definition dispatch_request_id :: "request \<Rightarrow> uuid \<Rightarrow> string" where
  "dispatch_request_id rq fresh = opt_or (rq_x_request_id rq) (uuid_str fresh)"

section \<open>Exception handlers\<close>

definition research_error_handler :: "engine_error \<Rightarrow> nat \<times> error_detail" where
  "research_error_handler e =
     (err_http_status e, \<lparr>ed_code = error_code_value (err_code e), ed_message = err_message_attr e\<rparr>)"

definition http_exception_handler :: "nat \<Rightarrow> string \<Rightarrow> nat \<times> error_detail" where
  "http_exception_handler status detail =
     (status, \<lparr>ed_code = (if status = 429 then ''RATE_LIMIT_EXCEEDED'' else ''HTTP_'' @ show_nat status),
               ed_message = detail\<rparr>)"

definition unhandled_exception_handler :: "string \<Rightarrow> nat \<times> error_detail" where
  "unhandled_exception_handler text =
     (500, \<lparr>ed_code = ''INTERNAL_ERROR'', ed_message = ''Internal server error''\<rparr>)"

fun handle_exc :: "api_exc \<Rightarrow> nat \<times> error_detail" where
  "handle_exc (Engine_exc e) = research_error_handler e"
| "handle_exc (Http_exc status detail) = http_exception_handler status detail"
| "handle_exc (Other_exc text) = unhandled_exception_handler text"

section \<open>Endpoints\<close>

datatype body = Body_job job_schema | Body_jobs "job_summary list" | Body_error error_detail

text \<open>An endpoint's value becomes a 200 response, an exception goes to its handler.\<close>

definition respond :: "'s \<Rightarrow> api_exc + body \<times> 's \<Rightarrow> (nat \<times> body) \<times> 's" where
  "respond st r =
     (case r of
        Inr (b, st') \<Rightarrow> ((200, b), st')
      | Inl e \<Rightarrow> (case handle_exc e of (status, detail) \<Rightarrow> ((status, Body_error detail), st)))"

definition engine_call :: "engine_error + 'a \<Rightarrow> api_exc + 'a" where
  "engine_call r = (case r of Inl e \<Rightarrow> Inl (Engine_exc e) | Inr a \<Rightarrow> Inr a)"

text \<open>What an endpoint runs in: settings, service, evidence, and the request.\<close>

record endpoint =
  ep_settings :: app_settings
  ep_decode :: jwt_decode
  ep_service :: service
  ep_evidence :: evidence
  ep_request :: request

definition with_auth :: "endpoint \<Rightarrow> (uuid \<Rightarrow> uuid \<Rightarrow> api_exc + 'a) \<Rightarrow> api_exc + 'a" where
  "with_auth ep f =
     res_bind (authenticate (ep_settings ep) (ep_decode ep) (ep_request ep)) (\<lambda>(actor, tenant). f actor tenant)"

definition create_research_job ::
  "endpoint \<Rightarrow> ('l \<Rightarrow> string \<Rightarrow> string \<Rightarrow> bool \<times> 'l) \<Rightarrow> create_request \<Rightarrow> uuid option \<Rightarrow>
     engine_state \<Rightarrow> 'l \<Rightarrow> (nat \<times> body) \<times> engine_state \<times> 'l" where
  "create_research_job ep hit payload x_idempotency_key st window =
     (case rate_limit (ep_settings ep) hit (ep_request ep) window of
        (Inl e, window') \<Rightarrow> (case respond st (Inl e) of (r, st') \<Rightarrow> (r, st', window'))
      | (Inr _, window') \<Rightarrow>
          (case respond st (with_auth ep (\<lambda>actor tenant.
                  res_bind (engine_call (create_job (ep_service ep) st tenant actor
                              (cr_order_id payload) (cr_document_types payload) x_idempotency_key
                              (if opt_truthy (cr_callback_url payload) then cr_callback_url payload else None)))
                    (\<lambda>(job, st'). Inr (Body_job (to_job_schema (ep_evidence ep) (es_db st') job True), st'))))
           of (r, st') \<Rightarrow> (r, st', window')))"

definition get_research_job :: "endpoint \<Rightarrow> uuid \<Rightarrow> engine_state \<Rightarrow> (nat \<times> body) \<times> engine_state" where
  "get_research_job ep job_id st =
     respond st (with_auth ep (\<lambda>actor tenant.
       res_bind (engine_call (get_job (es_db st) tenant job_id))
         (\<lambda>job. Inr (Body_job (to_job_schema (ep_evidence ep) (es_db st) job True), st))))"

definition retry_research_job ::
  "endpoint \<Rightarrow> uuid \<Rightarrow> retry_request option \<Rightarrow> engine_state \<Rightarrow> (nat \<times> body) \<times> engine_state" where
  "retry_research_job ep job_id rq st =
     respond st (with_auth ep (\<lambda>actor tenant.
       res_bind (engine_call (retry_job (ep_service ep) st tenant actor job_id
                   (case rq of None \<Rightarrow> None | Some r \<Rightarrow> rr_document_types r)))
         (\<lambda>(job, st'). Inr (Body_job (to_job_schema (ep_evidence ep) (es_db st') job True), st'))))"

definition cancel_research_job ::
  "endpoint \<Rightarrow> uuid \<Rightarrow> cancel_request option \<Rightarrow> engine_state \<Rightarrow> (nat \<times> body) \<times> engine_state" where
  "cancel_research_job ep job_id rq st =
     respond st (with_auth ep (\<lambda>actor tenant.
       res_bind (engine_call (cancel_job (es_db st) tenant job_id
                   (case rq of None \<Rightarrow> None | Some r \<Rightarrow> cq_reason r)))
         (\<lambda>(job, db'). Inr (Body_job (to_job_schema (ep_evidence ep) db' job True), st\<lparr>es_db := db'\<rparr>))))"

definition list_order_jobs_endpoint ::
  "endpoint \<Rightarrow> uuid \<Rightarrow> engine_state \<Rightarrow> (nat \<times> body) \<times> engine_state" where
  "list_order_jobs_endpoint ep order_id st =
     respond st (with_auth ep (\<lambda>actor tenant.
       Inr (Body_jobs (map to_job_summary_schema (list_order_jobs (es_db st) tenant order_id)), st)))"

section \<open>Health\<close>

record health_report =
  hr_env :: string
  hr_status :: string
  hr_postgres :: string
  hr_redis :: string

text \<open>The two probes are told whether the dependency answers.\<close>

definition health :: "app_settings \<Rightarrow> bool \<Rightarrow> bool \<Rightarrow> nat \<times> health_report" where
  "health cfg postgres_up redis_up =
     (let r = \<lparr>hr_env = RUN_ENV cfg, hr_status = ''ok'', hr_postgres = [], hr_redis = []\<rparr>;
          r = (if postgres_up then r\<lparr>hr_postgres := ''ok''\<rparr>
               else r\<lparr>hr_postgres := ''unreachable'', hr_status := ''degraded''\<rparr>);
          r = (if redis_up then r\<lparr>hr_redis := ''ok''\<rparr>
               else r\<lparr>hr_redis := ''unreachable'', hr_status := ''degraded''\<rparr>)
      in (if hr_status r = ''ok'' then 200 else 503, r))"

definition liveness :: "app_settings \<Rightarrow> string \<times> string" where
  "liveness cfg = (''ok'', RUN_ENV cfg)"

end
