(* ===== verification/ApiProps.thy ===== *)
theory ApiProps
  imports Api ServiceFacts "HOL-Library.Multiset"
begin

text \<open>The properties of the HTTP surface.\<close>

section \<open>Authentication\<close>

text \<open>
  C14: With a Cognito pool configured, who a request acts for depends on the verified token alone:
  the self-asserted \<open>X-Actor-Id\<close> and \<open>X-Tenant-Id\<close> headers have no influence, and an accepted
  request carries the actor and tenant that the decoded claims of its bearer token name.
\<close>

theorem jwt_mode_ignores_headers:
  assumes "jwt_auth_enabled cfg"
  shows "authenticate cfg decode (rq\<lparr>rq_x_actor_id := a, rq_x_tenant_id := t\<rparr>) = authenticate cfg decode rq \<and>
         (case authenticate cfg decode rq of
            Inl e \<Rightarrow> \<exists>detail. e = Http_exc 401 detail
          | Inr (actor, tenant) \<Rightarrow>
              \<exists>token payload. rq_bearer rq = Some token \<and>
                decode token (opt_or (COGNITO_CLIENT_ID cfg) []) (COGNITO_ISSUER cfg) (COGNITO_AUDIENCE cfg) =
                  Some payload \<and>
                parse_uuid (claim payload ''sub'') = Some actor \<and>
                parse_uuid (or_str (claim payload ''custom:tenant_id'') (claim payload ''tenant_id'')) =
                  Some tenant)"
proof
  show "authenticate cfg decode (rq\<lparr>rq_x_actor_id := a, rq_x_tenant_id := t\<rparr>) = authenticate cfg decode rq"
    using assms by (simp add: authenticate_def get_actor_id_def get_tenant_id_def)
  show "case authenticate cfg decode rq of
            Inl e \<Rightarrow> \<exists>detail. e = Http_exc 401 detail
          | Inr (actor, tenant) \<Rightarrow>
              \<exists>token payload. rq_bearer rq = Some token \<and>
                decode token (opt_or (COGNITO_CLIENT_ID cfg) []) (COGNITO_ISSUER cfg) (COGNITO_AUDIENCE cfg) =
                  Some payload \<and>
                parse_uuid (claim payload ''sub'') = Some actor \<and>
                parse_uuid (or_str (claim payload ''custom:tenant_id'') (claim payload ''tenant_id'')) =
                  Some tenant"
    using assms
    by (auto simp: authenticate_def get_actor_id_def get_tenant_id_def Let_def
        split: option.splits if_splits)
qed

definition demo_cognito :: app_settings where
  "demo_cognito = \<lparr>RUN_ENV = ''prod'', COGNITO_REGION = Some ''us-east-1'',
     COGNITO_USER_POOL_ID = Some ''pool'', COGNITO_CLIENT_ID = Some ''client'',
     COGNITO_ISSUER = Some ''https://issuer'', COGNITO_AUDIENCE = None, RATE_LIMIT_RESEARCH = ''20/minute'',
     CORS_ORIGINS = ''http://localhost:3000''\<rparr>"

definition demo_decode :: jwt_decode where
  "demo_decode token key issuer audience =
     (if token = ''good'' then Some [(''sub'', uuid_str 7), (''custom:tenant_id'', uuid_str 8)] else None)"

definition demo_request :: request where
  "demo_request = \<lparr>rq_bearer = Some ''good'', rq_x_actor_id = Some ''spoof'', rq_x_tenant_id = Some ''spoof'',
     rq_x_request_id = None, rq_client_host = None\<rparr>"

lemma or_str_uuid_str [simp]: "or_str (uuid_str n) y = uuid_str n"
proof -
  have "length (uuid_str n) = 36" by simp
  then have "uuid_str n \<noteq> []" by fastforce
  then show ?thesis by simp
qed

theorem jwt_mode_ignores_headers_witness:
  "authenticate demo_cognito demo_decode (demo_request\<lparr>rq_x_actor_id := None, rq_x_tenant_id := None\<rparr>) =
     Inr (7, 8)"
proof -
  have en: "jwt_auth_enabled demo_cognito" by (simp add: jwt_auth_enabled_def demo_cognito_def)
  have ne: "uuid_str n \<noteq> []" for n
  proof -
    have "length (uuid_str n) = 36" by simp
    then show ?thesis by fastforce
  qed
  have "authenticate demo_cognito demo_decode demo_request = Inr (7, 8)"
    using en ne by (simp add: authenticate_def get_actor_id_def get_tenant_id_def demo_decode_def
        demo_request_def claim_def parse_uuid_str)
  with jwt_mode_ignores_headers [OF en] show ?thesis by simp
qed

text \<open>
  Without a Cognito pool the headers are read back exactly: a request whose headers print an
  actor and a tenant identifier acts as that actor for that tenant.
\<close>

theorem dev_headers_roundtrip:
  assumes "\<not> jwt_auth_enabled cfg" and "a < 2 ^ 128" and "t < 2 ^ 128"
  shows "authenticate cfg decode
           (rq\<lparr>rq_x_actor_id := Some (uuid_str a), rq_x_tenant_id := Some (uuid_str t)\<rparr>) = Inr (a, t)"
proof -
  have ne: "uuid_str n \<noteq> []" for n
  proof -
    have "length (uuid_str n) = 36" by simp
    then show ?thesis by fastforce
  qed
  show ?thesis
    using assms ne by (simp add: authenticate_def get_actor_id_def get_tenant_id_def parse_uuid_str)
qed

theorem dev_headers_roundtrip_witness:
  "authenticate (demo_cognito\<lparr>COGNITO_REGION := None\<rparr>) demo_decode
     (demo_request\<lparr>rq_x_actor_id := Some (uuid_str 9), rq_x_tenant_id := Some (uuid_str 8)\<rparr>) = Inr (9, 8)"
  by (rule dev_headers_roundtrip) (simp_all add: jwt_auth_enabled_def demo_cognito_def)

section \<open>Responses\<close>

lemma auth_error: "authenticate cfg decode rq = Inl e \<Longrightarrow> \<exists>detail. e = Http_exc 401 detail"
  by (auto simp: authenticate_def get_actor_id_def get_tenant_id_def res_bind_eq_Inl Let_def
      split: option.splits if_splits)

lemma with_auth_cases:
  obtains (denied) detail where "with_auth ep f = Inl (Http_exc 401 detail)"
  | (granted) actor tenant where
      "authenticate (ep_settings ep) (ep_decode ep) (ep_request ep) = Inr (actor, tenant)"
      "with_auth ep f = f actor tenant"
proof (cases "authenticate (ep_settings ep) (ep_decode ep) (ep_request ep)")
  case (Inl e)
  with auth_error obtain detail where "e = Http_exc 401 detail" by blast
  with Inl denied show ?thesis by (simp add: with_auth_def)
next
  case (Inr p)
  with granted show ?thesis by (cases p) (simp add: with_auth_def)
qed

lemma resolve_order_error: "resolve_order svc t i = Inl e \<Longrightarrow> err_http_status e \<in> {404, 422}"
  by (auto simp: resolve_order_def split: option.splits if_splits)

lemma validate_error: "validate_doc_types ts = Inl e \<Longrightarrow> err_http_status e = 422"
  by (auto simp: validate_doc_types_def Let_def split: prod.splits if_splits)

lemma create_insert_error:
  "create_insert db t a order types k cb = Inl e \<Longrightarrow> err_http_status e = 409"
  by (auto simp: create_insert_def Let_def split: prod.splits sum.splits db_error.splits option.splits)

lemma create_job_error:
  assumes "create_job svc st t a i ts k cb = Inl e"
  shows "err_http_status e \<in> {404, 409, 422}"
  using assms resolve_order_error [of svc t i e] validate_error [of ts e]
    create_insert_error [of "es_db st" t a _ _ k cb e]
  by (auto simp: create_job_def create_job_race_def create_precheck_def res_bind_eq_Inl
      split: option.splits if_splits)

lemma get_job_error: "get_job db t i = Inl e \<Longrightarrow> err_http_status e = 404"
  by (auto simp: get_job_def split: option.splits)

lemma retry_job_error:
  "retry_job svc st t a i ts = Inl e \<Longrightarrow> err_http_status e \<in> {404, 409, 422}"
  using create_job_error get_job_error
  by (fastforce simp: retry_job_def res_bind_eq_Inl Let_def split: if_splits)

lemma cancel_job_error: "cancel_job db t i r = Inl e \<Longrightarrow> err_http_status e \<in> {404, 409}"
  using get_job_error by (fastforce simp: cancel_job_def res_bind_eq_Inl Let_def split: if_splits)

lemma respond_engine:
  "respond st (res_bind (engine_call r) g) =
     (case r of
        Inl e \<Rightarrow> ((err_http_status e,
                  Body_error \<lparr>ed_code = error_code_value (err_code e), ed_message = err_message_attr e\<rparr>), st)
      | Inr a \<Rightarrow> respond st (g a))"
  by (cases r) (simp_all add: respond_def engine_call_def research_error_handler_def)

lemma respond_http: "respond st (Inl (Http_exc s d)) = ((s, Body_error (snd (http_exception_handler s d))), st)"
  by (simp add: respond_def http_exception_handler_def)

lemma respond_ok: "respond st (Inr (b, st')) = ((200, b), st')"
  by (simp add: respond_def)


definition demo_endpoint :: endpoint where
  "demo_endpoint = \<lparr>ep_settings = demo_cognito, ep_decode = demo_decode,
     ep_service = \<lparr>sv_order_provider = None, sv_enqueue = True\<rparr>,
     ep_evidence = \<lparr>ev_files = [], ev_links = [], ev_fresh = 0\<rparr>, ep_request = demo_request\<rparr>"

definition empty_state :: engine_state where
  "empty_state = \<lparr>es_db = \<lparr>db_jobs = [], db_docs = [], db_clock = 0, db_fresh = 0\<rparr>, es_queue = []\<rparr>"

lemma demo_auth: "authenticate demo_cognito demo_decode demo_request = Inr (7, 8)"
  using jwt_mode_ignores_headers_witness
  by (simp add: authenticate_def get_actor_id_def get_tenant_id_def jwt_auth_enabled_def demo_cognito_def
      demo_request_def)


text \<open>
  The text an engine error was raised with never reaches the client: whatever goes wrong in a
  service operation, the error envelope carries the right code and HTTP status, but its message is
  always the class default \<open>Internal error\<close>.
\<close>

theorem service_error_text_is_lost:
  "(case get_job db t i of
      Inl e \<Rightarrow> research_error_handler e = (404, \<lparr>ed_code = ''JOB_NOT_FOUND'', ed_message = ''Internal error''\<rparr>) \<and>
               err_str e = ''Job '' @ uuid_str i @ '' not found''
    | Inr job \<Rightarrow> True) \<and>
   (case cancel_job db t i r of
      Inl e \<Rightarrow> ed_message (snd (research_error_handler e)) = ''Internal error'' | Inr x \<Rightarrow> True) \<and>
   (case create_job svc st t a ord types k cb of
      Inl e \<Rightarrow> ed_message (snd (research_error_handler e)) = ''Internal error'' | Inr x \<Rightarrow> True)"
proof (intro conjI)
  show "case get_job db t i of
      Inl e \<Rightarrow> research_error_handler e = (404, \<lparr>ed_code = ''JOB_NOT_FOUND'', ed_message = ''Internal error''\<rparr>) \<and>
               err_str e = ''Job '' @ uuid_str i @ '' not found''
    | Inr job \<Rightarrow> True"
    by (simp add: get_job_def research_error_handler_def split: option.splits)
  have default: "ed_message (snd (research_error_handler e)) = ''Internal error''"
    if "err_http_status e \<noteq> 200" for e
    using that by (cases e) (simp_all add: research_error_handler_def)
  show "case cancel_job db t i r of
      Inl e \<Rightarrow> ed_message (snd (research_error_handler e)) = ''Internal error'' | Inr x \<Rightarrow> True"
    using cancel_job_error [of db t i r] default by (fastforce split: sum.splits)
  show "case create_job svc st t a ord types k cb of
      Inl e \<Rightarrow> ed_message (snd (research_error_handler e)) = ''Internal error'' | Inr x \<Rightarrow> True"
    using create_job_error [of svc st t a ord types k cb] default by (fastforce split: sum.splits)
qed

text \<open>
  Reading a job shows what is stored: for the authenticated tenant the answer is 200 with the
  row's status and counters and one document entry per requested type, or 404 when the tenant has no
  live job of that id; nothing is ever shown of a job of another tenant.
\<close>

theorem get_shows_the_job:
  assumes "tables_ok (es_db st)"
    and "authenticate (ep_settings ep) (ep_decode ep) (ep_request ep) = Inr (actor, tenant)"
  shows "case get_research_job ep i st of
           ((status, b), st') \<Rightarrow>
             (case job_get (es_db st) i tenant of
                None \<Rightarrow> status = 404
              | Some job \<Rightarrow> j_tenant_id job = tenant \<and> status = 200 \<and>
                  (\<exists>s. b = Body_job s \<and> js_id s = i \<and> js_status s = j_status job \<and>
                       js_requested_doc_types s = j_requested_doc_types job \<and>
                       js_failed_documents s = j_failed_documents job \<and>
                       mset (map ds_doc_type (js_documents s)) = mset (j_requested_doc_types job)))"
proof (cases "job_get (es_db st) i tenant")
  case None
  with assms(2) show ?thesis
    by (simp add: get_research_job_def with_auth_def respond_engine get_job_def)
next
  case (Some job)
  note D = job_getD [OF Some]
  have "filter (\<lambda>d. d_job_id d = i \<and> d_deleted_at d = None) (db_docs (es_db st)) = docs_of (es_db st) i"
    unfolding docs_of_def by (rule filter_cong) (use assms(1) in \<open>auto simp: tables_ok_def docs_ok_def\<close>)
  then have "mset (map d_doc_type (doc_list_for_job (es_db st) i)) =
      mset (map d_doc_type (docs_of (es_db st) i))"
    by (simp add: doc_list_for_job_def)
  also have "map d_doc_type (docs_of (es_db st) i) = j_requested_doc_types job"
    using assms(1) D unfolding tables_ok_def jobs_ok_def by blast
  finally have "mset (map ds_doc_type (map (to_document_schema (ep_evidence ep)) (doc_list_for_job (es_db st) i))) =
      mset (j_requested_doc_types job)"
    by (simp add: to_document_schema_def comp_def)
  with Some D assms(2) show ?thesis
    by (simp add: get_research_job_def with_auth_def respond_engine respond_ok get_job_def
        to_job_schema_def multiset.map_comp)
qed

definition one_job_state :: engine_state where
  "one_job_state = \<lparr>es_db =
     \<lparr>db_jobs = [new_job_row 5 0 7 8 9 6 [''NGS_CONTROL''] None],
      db_docs = [new_doc_row 3 0 5 7 ''NGS_CONTROL''], db_clock = 0, db_fresh = 6\<rparr>, es_queue = []\<rparr>"

theorem get_shows_the_job_witness:
  "\<exists>s. fst (get_research_job demo_endpoint 5 one_job_state) = (200, Body_job s) \<and>
       mset (map ds_doc_type (js_documents s)) = {#''NGS_CONTROL''#}"
proof -
  have "tables_ok (es_db one_job_state)"
    by (simp add: one_job_state_def tables_ok_def ids_ok_def keys_ok_def jobs_ok_def docs_ok_def docs_of_def
        new_job_row_def new_doc_row_def doc_types_known_eq)
  moreover have "authenticate (ep_settings demo_endpoint) (ep_decode demo_endpoint)
      (ep_request demo_endpoint) = Inr (7, 8)"
    by (simp add: demo_endpoint_def demo_auth)
  moreover have "job_get (es_db one_job_state) 5 8 = Some (new_job_row 5 0 7 8 9 6 [''NGS_CONTROL''] None)"
    by (simp add: one_job_state_def job_get_def new_job_row_def)
  ultimately show ?thesis
    using get_shows_the_job [of one_job_state demo_endpoint 7 8 5]
    by (auto simp: new_job_row_def split: prod.splits)
qed

end
