(* ===== verification/Storage.thy ===== *)
theory Storage
  imports PyStr Uuid "HOL-Library.Sublist"
begin

text \<open>
  \<open>services/storage.py\<close>: the storage key of a document, the local backend over a file system (path
  resolution and containment written out), the S3 backend over a client, and the choice of a
  backend.  A file system is a table of files and a list of directories, both by absolute path (the
  list of components); there are no symbolic links.  The S3 client is a library: its operations are
  arguments.

  The locale \<^verbatim>\<open>blob_store\<close> is what the document upload relies on; it is interpreted for the local
  backend.
\<close>

section \<open>Paths\<close>

type_synonym path = "string list"

text \<open>The components of a path text: blanks between slashes and single dots disappear.\<close>

definition path_parts :: "string \<Rightarrow> path" where
  "path_parts s = filter (\<lambda>p. p \<noteq> [] \<and> p \<noteq> ''.'') (split_on (CHR ''/'') s)"

text \<open>\<open>Path.resolve\<close>: a double dot drops the component before it.\<close>

fun resolve_parts :: "path \<Rightarrow> path \<Rightarrow> path" where
  "resolve_parts acc [] = acc"
| "resolve_parts acc (p # ps) =
     (if p = ''..'' then resolve_parts (butlast acc) ps
      else if p = ''.'' \<or> p = [] then resolve_parts acc ps
      else resolve_parts (acc @ [p]) ps)"

text \<open>\<open>root / key\<close>: an absolute key replaces the root.\<close>

definition join_path :: "path \<Rightarrow> string \<Rightarrow> path" where
  "join_path root key = (if startswith key ''/'' then path_parts key else root @ path_parts key)"

text \<open>\<open>PurePath(s).suffix\<close>: from the last dot of the last component, unless that dot is its
  first or last character.\<close>

definition path_suffix :: "string \<Rightarrow> string" where
  "path_suffix s =
     (let name = (case path_parts s of [] \<Rightarrow> [] | ps \<Rightarrow> last ps);
          ext = takeWhile (\<lambda>c. c \<noteq> CHR ''.'') (rev name)
      in if CHR ''.'' \<in> set name \<and> ext \<noteq> [] \<and> length ext + 1 < length name
         then CHR ''.'' # rev ext else [])"

section \<open>Storage keys\<close>

definition build_key :: "string \<Rightarrow> string \<Rightarrow> string \<Rightarrow> string \<Rightarrow> string + string" where
  "build_key org_id order_id document_id filename =
     (if document_id = [] \<or> document_id = ''None''
      then Inl (''build_key needs a real document id (got '' @ [CHR 0x27] @ document_id @ [CHR 0x27] @ '')'')
      else
        let ext = take 12 (path_suffix (replace_char (CHR 0x5C) ''/'' filename));
            safe_ext = filter (\<lambda>c. is_alnum c \<or> c = CHR ''.'') ext
        in Inr (org_id @ ''/'' @ order_id @ ''/'' @ document_id @ safe_ext))"

section \<open>File system\<close>

record fs =
  fs_files :: "(path \<times> string) list"
  fs_dirs :: "path list"

definition is_file :: "fs \<Rightarrow> path \<Rightarrow> bool" where
  "is_file fs p \<longleftrightarrow> map_of (fs_files fs) p \<noteq> None"

definition read_bytes :: "fs \<Rightarrow> path \<Rightarrow> string + string" where
  "read_bytes fs p =
     (case map_of (fs_files fs) p of
        Some d \<Rightarrow> Inr d
      | None \<Rightarrow> Inl (if p \<in> set (fs_dirs fs) then ''IsADirectoryError'' else ''FileNotFoundError''))"

text \<open>A call that changes files returns its outcome and the files as it left them.\<close>

definition mkdir_parents :: "fs \<Rightarrow> path \<Rightarrow> (string + unit) \<times> fs" where
  "mkdir_parents fs p =
     (if \<exists>q \<in> set (prefixes p). is_file fs q then (Inl ''FileExistsError'', fs)
      else (Inr (), fs\<lparr>fs_dirs := fs_dirs fs @ filter (\<lambda>q. q \<notin> set (fs_dirs fs)) (prefixes p)\<rparr>))"

definition write_bytes :: "fs \<Rightarrow> path \<Rightarrow> string \<Rightarrow> (string + unit) \<times> fs" where
  "write_bytes fs p data =
     (if p \<in> set (fs_dirs fs) then (Inl ''IsADirectoryError'', fs)
      else if butlast p \<notin> set (fs_dirs fs) then (Inl ''FileNotFoundError'', fs)
      else (Inr (), fs\<lparr>fs_files := dict_put p data (fs_files fs)\<rparr>))"

text \<open>\<open>shutil.copy2\<close>: into a directory the copy keeps the source's name.\<close>

definition copy2 :: "fs \<Rightarrow> path \<Rightarrow> path \<Rightarrow> (string + unit) \<times> fs" where
  "copy2 fs src dst =
     (let target = (if dst \<in> set (fs_dirs fs) then dst @ (if src = [] then [] else [last src]) else dst)
      in if src = target \<and> is_file fs src then (Inl ''SameFileError'', fs)
         else case read_bytes fs src of
                Inl e \<Rightarrow> (Inl e, fs)
              | Inr data \<Rightarrow> write_bytes fs target data)"

section \<open>The local backend\<close>

definition local_p :: "path \<Rightarrow> string \<Rightarrow> string + path" where
  "local_p root key =
     (let p = resolve_parts [] (join_path root key)
      in if \<not> strict_prefix root p \<and> p \<noteq> root then Inl ''storage key escapes the storage root'' else Inr p)"

definition local_put :: "path \<Rightarrow> fs \<Rightarrow> string \<Rightarrow> string \<Rightarrow> (string + nat) \<times> fs" where
  "local_put root fs key data =
     (case local_p root key of
        Inl e \<Rightarrow> (Inl e, fs)
      | Inr p \<Rightarrow>
          (case mkdir_parents fs (butlast p) of
             (Inl e, fs1) \<Rightarrow> (Inl e, fs1)
           | (Inr _, fs1) \<Rightarrow>
               (case write_bytes fs1 p data of
                  (Inl e, fs2) \<Rightarrow> (Inl e, fs2)
                | (Inr _, fs2) \<Rightarrow> (Inr (length data), fs2))))"

definition local_get :: "path \<Rightarrow> fs \<Rightarrow> string \<Rightarrow> string + string" where
  "local_get root fs key = res_bind (local_p root key) (read_bytes fs)"

text \<open>\<open>open\<close> hands out the same bytes as a stream.\<close>

definition local_open :: "path \<Rightarrow> fs \<Rightarrow> string \<Rightarrow> string + string" where
  "local_open root fs key = res_bind (local_p root key) (read_bytes fs)"

definition local_delete :: "path \<Rightarrow> fs \<Rightarrow> string \<Rightarrow> fs" where
  "local_delete root fs key =
     (case local_p root key of
        Inl _ \<Rightarrow> fs
      | Inr p \<Rightarrow> if is_file fs p then fs\<lparr>fs_files := filter (\<lambda>(q, _). q \<noteq> p) (fs_files fs)\<rparr> else fs)"

definition local_exists :: "path \<Rightarrow> fs \<Rightarrow> string \<Rightarrow> bool" where
  "local_exists root fs key = (case local_p root key of Inl _ \<Rightarrow> False | Inr p \<Rightarrow> is_file fs p)"

definition local_local_path :: "path \<Rightarrow> fs \<Rightarrow> string \<Rightarrow> string + path option" where
  "local_local_path root fs key =
     res_bind (local_p root key) (\<lambda>p. Inr (if is_file fs p then Some p else None))"

text \<open>\<open>copy_in\<close> answers with the size of the file at the key; when the key names a directory, the
  size is what the operating system reports for it (\<open>None\<close> here).\<close>

definition local_copy_in :: "path \<Rightarrow> fs \<Rightarrow> string \<Rightarrow> path \<Rightarrow> (string + nat option) \<times> fs" where
  "local_copy_in root fs key src =
     (case local_p root key of
        Inl e \<Rightarrow> (Inl e, fs)
      | Inr p \<Rightarrow>
          (case mkdir_parents fs (butlast p) of
             (Inl e, fs1) \<Rightarrow> (Inl e, fs1)
           | (Inr _, fs1) \<Rightarrow>
               (case copy2 fs1 src p of
                  (Inl e, fs2) \<Rightarrow> (Inl e, fs2)
                | (Inr _, fs2) \<Rightarrow> (Inr (map_option length (map_of (fs_files fs2) p)), fs2))))"

section \<open>The S3 backend\<close>

text \<open>
  The client's operations on the objects of the bucket; \<open>s\<close> is the client's world.
\<close>

record 's s3_client =
  put_object :: "'s \<Rightarrow> string \<Rightarrow> string \<Rightarrow> 's"
  get_object :: "'s \<Rightarrow> string \<Rightarrow> string + string"
  delete_object :: "'s \<Rightarrow> string \<Rightarrow> 's"
  head_object :: "'s \<Rightarrow> string \<Rightarrow> bool"

text \<open>The prefix: \<open>os.environ.get('QP_S3_PREFIX', 'quickplot').strip('/')\<close>.\<close>

definition s3_prefix :: "string option \<Rightarrow> string" where
  "s3_prefix env = strip_chars ''/'' (case env of None \<Rightarrow> ''quickplot'' | Some s \<Rightarrow> s)"

definition s3_k :: "string \<Rightarrow> string \<Rightarrow> string" where
  "s3_k pre key = (if pre \<noteq> [] then pre @ ''/'' @ key else key)"

definition s3_put :: "'s s3_client \<Rightarrow> string \<Rightarrow> 's \<Rightarrow> string \<Rightarrow> string \<Rightarrow> nat \<times> 's" where
  "s3_put c pre s key data = (length data, put_object c s (s3_k pre key) data)"

definition s3_get :: "'s s3_client \<Rightarrow> string \<Rightarrow> 's \<Rightarrow> string \<Rightarrow> string + string" where
  "s3_get c pre s key = get_object c s (s3_k pre key)"

definition s3_open :: "'s s3_client \<Rightarrow> string \<Rightarrow> 's \<Rightarrow> string \<Rightarrow> string + string" where
  "s3_open c pre s key = get_object c s (s3_k pre key)"

definition s3_delete :: "'s s3_client \<Rightarrow> string \<Rightarrow> 's \<Rightarrow> string \<Rightarrow> 's" where
  "s3_delete c pre s key = delete_object c s (s3_k pre key)"

definition s3_exists :: "'s s3_client \<Rightarrow> string \<Rightarrow> 's \<Rightarrow> string \<Rightarrow> bool" where
  "s3_exists c pre s key = head_object c s (s3_k pre key)"

definition s3_local_path :: "string \<Rightarrow> path option" where
  "s3_local_path key = None"

definition s3_copy_in ::
  "'s s3_client \<Rightarrow> string \<Rightarrow> fs \<Rightarrow> 's \<Rightarrow> string \<Rightarrow> path \<Rightarrow> string + nat \<times> 's" where
  "s3_copy_in c pre fs s key src =
     res_bind (read_bytes fs src) (\<lambda>data. Inr (length data, snd (s3_put c pre s key data)))"

section \<open>Backend choice\<close>

datatype backend = Backend_local | Backend_s3

text \<open>\<open>s3_ok\<close>: whether the S3 constructor (bucket variable, client library) succeeds.\<close>

definition make_store :: "string option \<Rightarrow> bool \<Rightarrow> backend" where
  "make_store env s3_ok =
     (let b = lower (strip (case env of None \<Rightarrow> ''local'' | Some s \<Rightarrow> s))
      in if b = ''s3'' \<and> s3_ok then Backend_s3 else Backend_local)"

section \<open>The contract\<close>

locale blob_store =
  fixes loc :: "string \<Rightarrow> 'k option"
    and put :: "'s \<Rightarrow> string \<Rightarrow> string \<Rightarrow> (string + nat) \<times> 's"
    and get :: "'s \<Rightarrow> string \<Rightarrow> string + string"
    and has :: "'s \<Rightarrow> string \<Rightarrow> bool"
  assumes put_loc: "put s k d = (Inr n, s') \<Longrightarrow> loc k \<noteq> None \<and> n = length d"
    and get_same: "put s k d = (Inr n, s') \<Longrightarrow> loc k' = loc k \<Longrightarrow> get s' k' = Inr d"
    and get_other: "put s k d = (r, s') \<Longrightarrow> loc k' \<noteq> loc k \<Longrightarrow>
                      get s' k' = get s k' \<or> \<not> is_ok (get s' k') \<and> \<not> is_ok (get s k')"
    and has_get: "has s k = is_ok (get s k)"
begin

lemma put_get: "put s k d = (Inr n, s') \<Longrightarrow> get s' k = Inr d \<and> has s' k \<and> n = length d"
  using put_loc get_same has_get by fastforce

lemma put_frame:
  "put s k d = (r, s') \<Longrightarrow> loc k' \<noteq> loc k \<Longrightarrow> get s' k' = Inr d' \<longleftrightarrow> get s k' = Inr d'"
  using get_other by fastforce

lemma has_put:
  assumes "put s k d = (Inr n, s')"
  shows "has s' k' \<longleftrightarrow> loc k' = loc k \<or> has s k'"
  using get_same [OF assms, of k'] get_other [OF assms, of k']
  by (cases "loc k' = loc k") (auto simp: has_get)

end

section \<open>Facts\<close>

lemma is_ok_read [simp]: "is_ok (read_bytes fs p) = is_file fs p"
  by (simp add: read_bytes_def is_file_def split: option.split)

lemma local_p_within: "local_p root key = Inr p \<Longrightarrow> Sublist.prefix root p"
  by (auto simp: local_p_def Let_def strict_prefix_def split: if_splits)

lemma mkdir_files [simp]: "fs_files (snd (mkdir_parents fs p)) = fs_files fs"
  by (simp add: mkdir_parents_def)

lemma local_put_files:
  "fs_files (snd (local_put root fs key data)) =
     (case fst (local_put root fs key data) of
        Inl _ \<Rightarrow> fs_files fs
      | Inr _ \<Rightarrow> dict_put (projr (local_p root key)) data (fs_files fs))"
  by (auto simp: local_put_def mkdir_parents_def write_bytes_def split: sum.splits)

lemma local_put_ok:
  "local_put root fs key data = (Inr n, fs') \<Longrightarrow> n = length data \<and> (\<exists>p. local_p root key = Inr p)"
  by (auto simp: local_put_def split: sum.splits prod.splits)

text \<open>The local backend satisfies the contract; its locations are resolved paths.\<close>

definition local_loc :: "path \<Rightarrow> string \<Rightarrow> path option" where
  "local_loc root key = (case local_p root key of Inl _ \<Rightarrow> None | Inr p \<Rightarrow> Some p)"

interpretation local_store: blob_store "local_loc root" "local_put root" "local_get root"
    "local_exists root" for root
proof unfold_locales
  fix s s' :: fs and k k' d :: string and n :: nat and r
  show "local_loc root k \<noteq> None \<and> n = length d" if "local_put root s k d = (Inr n, s')"
    using local_put_ok [OF that] by (auto simp: local_loc_def)
  show "local_get root s' k' = Inr d"
    if "local_put root s k d = (Inr n, s')" "local_loc root k' = local_loc root k"
    using local_put_ok [OF that(1)] local_put_files [of root s k d] that
    by (auto simp: local_loc_def local_get_def read_bytes_def split: sum.splits)
  show "local_get root s' k' = local_get root s k' \<or>
      \<not> is_ok (local_get root s' k') \<and> \<not> is_ok (local_get root s k')"
    if "local_put root s k d = (r, s')" "local_loc root k' \<noteq> local_loc root k"
  proof (cases "local_p root k'")
    case (Inr p')
    have "map_of (fs_files s') p' = map_of (fs_files s) p'"
      using local_put_files [of root s k d] local_put_ok [of root s k d] that Inr
      by (cases r) (auto simp: local_loc_def split: sum.splits)
    then show ?thesis
      by (auto simp: local_get_def Inr read_bytes_def split: option.splits)
  qed (simp add: local_get_def)
  show "local_exists root s k = is_ok (local_get root s k)"
    by (simp add: local_exists_def local_get_def split: sum.split)
qed


subsection \<open>Containment\<close>

definition outside :: "path \<Rightarrow> fs \<Rightarrow> (path \<times> string) list" where
  "outside root fs = filter (\<lambda>(q, _). \<not> Sublist.prefix root q) (fs_files fs)"

lemma filter_dict_put: "\<not> P k \<Longrightarrow> filter (\<lambda>(q, _). P q) (dict_put k v d) = filter (\<lambda>(q, _). P q) d"
  by (induction k v d rule: dict_put.induct) auto

lemma outside_files: "fs_files fs' = fs_files fs \<Longrightarrow> outside root fs' = outside root fs"
  by (simp add: outside_def)

lemma outside_put:
  "Sublist.prefix root p \<Longrightarrow> fs_files fs' = dict_put p d (fs_files fs) \<Longrightarrow> outside root fs' = outside root fs"
  by (simp add: outside_def filter_dict_put)

lemma outside_local_put: "outside root (snd (local_put root fs key data)) = outside root fs"
proof (cases "fst (local_put root fs key data)")
  case (Inr n)
  then obtain p where p: "local_p root key = Inr p"
    using local_put_ok [of root fs key data n] by (metis prod.collapse)
  show ?thesis
    using Inr p outside_put [OF local_p_within [OF p]] by (auto simp: local_put_files)
qed (auto simp: local_put_files intro: outside_files)

lemma outside_write:
  "Sublist.prefix root p \<Longrightarrow> outside root (snd (write_bytes fs p d)) = outside root fs"
  by (auto simp: write_bytes_def intro: outside_put)

lemma outside_copy2:
  assumes "Sublist.prefix root dst"
  shows "outside root (snd (copy2 fs src dst)) = outside root fs"
proof -
  define t where
    "t = (if dst \<in> set (fs_dirs fs) then dst @ (if src = [] then [] else [last src]) else dst)"
  have "Sublist.prefix root (dst @ xs)" for xs using assms by (auto simp: prefix_def)
  then have "Sublist.prefix root t" using assms by (simp add: t_def)
  then have w: "outside root (snd (write_bytes fs t d)) = outside root fs" for d by (rule outside_write)
  show ?thesis unfolding copy2_def t_def [symmetric] Let_def
    by (cases "read_bytes fs src") (simp_all add: w)
qed

lemma outside_local_copy_in: "outside root (snd (local_copy_in root fs key src)) = outside root fs"
proof (cases "local_p root key")
  case (Inr p)
  obtain r fs1 where m: "mkdir_parents fs (butlast p) = (r, fs1)" by fastforce
  have 1: "outside root fs1 = outside root fs"
    using mkdir_files [of fs "butlast p"] by (intro outside_files) (simp add: m)
  obtain c fs2 where c: "copy2 fs1 src p = (c, fs2)" by fastforce
  have "outside root fs2 = outside root fs1"
    using outside_copy2 [OF local_p_within [OF Inr], of fs1 src] by (simp add: c)
  with 1 show ?thesis by (cases r; cases c) (simp_all add: local_copy_in_def Inr m c)
qed (simp add: local_copy_in_def)

lemma outside_local_delete: "outside root (local_delete root fs key) = outside root fs"
proof (cases "local_p root key")
  case (Inr p)
  then have "filter (\<lambda>(q, _). \<not> Sublist.prefix root q) (filter (\<lambda>(q, _). q \<noteq> p) xs) =
             filter (\<lambda>(q, _). \<not> Sublist.prefix root q) xs" for xs :: "(path \<times> string) list"
    using local_p_within by (induction xs) auto
  then show ?thesis by (simp add: local_delete_def Inr outside_def)
qed (simp add: local_delete_def)

subsection \<open>Keys\<close>

text \<open>A path component: no slash, not empty, not a dot or two.\<close>

definition plain_name :: "string \<Rightarrow> bool" where
  "plain_name s \<longleftrightarrow> s \<noteq> [] \<and> CHR ''/'' \<notin> set s \<and> s \<noteq> ''.'' \<and> s \<noteq> ''..''"

definition safe_ext :: "string \<Rightarrow> string" where
  "safe_ext filename =
     filter (\<lambda>c. is_alnum c \<or> c = CHR ''.'') (take 12 (path_suffix (replace_char (CHR 0x5C) ''/'' filename)))"

lemma build_key_eq:
  "doc \<noteq> [] \<Longrightarrow> doc \<noteq> ''None'' \<Longrightarrow>
     build_key org ord doc fn = Inr (org @ ''/'' @ ord @ ''/'' @ doc @ safe_ext fn)"
  by (simp add: build_key_def safe_ext_def Let_def)

lemma not_alnum [simp]: "\<not> is_alnum (CHR ''/'')" "\<not> is_alnum (CHR ''.'')"
  by code_simp+

lemma safe_ext_shape:
  "safe_ext fn = [] \<or> (\<exists>e. safe_ext fn = CHR ''.'' # e \<and> list_all is_alnum e \<and> length e < 12)"
proof -
  define s where "s = replace_char (CHR 0x5C) ''/'' fn"
  define nm where "nm = (case path_parts s of [] \<Rightarrow> [] | ps \<Rightarrow> last ps)"
  define x where "x = takeWhile (\<lambda>c. c \<noteq> CHR ''.'') (rev nm)"
  have "path_suffix s = [] \<or> path_suffix s = CHR ''.'' # rev x"
    by (simp add: path_suffix_def Let_def nm_def x_def)
  moreover have nd: "CHR ''.'' \<notin> set x"
    unfolding x_def using set_takeWhileD by fastforce
  have "\<exists>e. filter (\<lambda>c. is_alnum c \<or> c = CHR ''.'') (take 12 (CHR ''.'' # rev x)) = CHR ''.'' # e \<and>
            list_all is_alnum e \<and> length e < 12"
  proof (intro exI conjI)
    let ?e = "filter is_alnum (take 11 (rev x))"
    have "filter (\<lambda>c. is_alnum c \<or> c = CHR ''.'') (take 11 (rev x)) = ?e"
      using nd by (intro filter_cong refl) (metis in_set_takeD set_rev)
    then show "filter (\<lambda>c. is_alnum c \<or> c = CHR ''.'') (take 12 (CHR ''.'' # rev x)) = CHR ''.'' # ?e"
      by (simp add: take_Cons')
    show "list_all is_alnum ?e" by (simp add: list_all_iff)
    show "length ?e < 12" using length_filter_le [of is_alnum "take 11 (rev x)"] by simp
  qed
  ultimately show ?thesis
    by (auto simp: safe_ext_def s_def [symmetric])
qed

lemma safe_ext_chars: "c \<in> set (safe_ext fn) \<Longrightarrow> is_alnum c \<or> c = CHR ''.''"
  by (auto simp: safe_ext_def)

lemma resolve_parts_plain:
  "(\<And>p. p \<in> set ps \<Longrightarrow> p \<noteq> ''..'' \<and> p \<noteq> ''.'' \<and> p \<noteq> []) \<Longrightarrow> resolve_parts acc ps = acc @ ps"
  by (induction ps arbitrary: acc) auto

lemma split_key:
  assumes "plain_name org" "plain_name ord" "CHR ''/'' \<notin> set doc"
  shows "split_on (CHR ''/'') (org @ ''/'' @ ord @ ''/'' @ doc @ safe_ext fn) =
           [org, ord, doc @ safe_ext fn]"
proof -
  have "CHR ''/'' \<notin> set (doc @ safe_ext fn)"
    using assms(3) safe_ext_chars [of _ fn] not_alnum(1) by fastforce
  then show ?thesis
    using assms by (simp add: plain_name_def split_on_append split_on_single)
qed

text \<open>A document's key resolves to the file named after it, two levels below the root.\<close>

lemma local_p_key:
  assumes root: "\<And>p. p \<in> set root \<Longrightarrow> plain_name p"
    and names: "plain_name org" "plain_name ord" "doc \<noteq> []" "CHR ''/'' \<notin> set doc" "CHR ''.'' \<notin> set doc"
    and key: "build_key org ord doc fn = Inr key"
  shows "local_p root key = Inr (root @ [org, ord, doc @ safe_ext fn])"
proof -
  have key: "key = org @ ''/'' @ ord @ ''/'' @ doc @ safe_ext fn"
    using key names(3) by (auto simp: build_key_def safe_ext_def Let_def split: if_splits)
  obtain a as where org: "org = a # as" "a \<noteq> CHR ''/''"
    using names(1) by (cases org) (auto simp: plain_name_def)
  have ne: "doc @ safe_ext fn \<noteq> ''.''" "doc @ safe_ext fn \<noteq> ''..''" "doc @ safe_ext fn \<noteq> []"
    using names(3,5) by (cases doc; auto)+
  have "path_parts key = [org, ord, doc @ safe_ext fn]"
    using names(1,2) ne by (simp only: path_parts_def key split_key [OF names(1,2,4)])
      (simp add: plain_name_def)
  moreover have "\<not> startswith key ''/''" by (simp add: key org startswith_def)
  moreover have "resolve_parts [] (root @ [org, ord, doc @ safe_ext fn]) =
      root @ [org, ord, doc @ safe_ext fn]"
    using root names ne by (subst resolve_parts_plain) (auto simp: plain_name_def)
  ultimately show ?thesis by (simp add: local_p_def join_path_def strict_prefix_def)
qed

lemma takeWhile_ext: "CHR ''.'' \<notin> set d \<Longrightarrow> takeWhile (\<lambda>c. c \<noteq> CHR ''.'') (d @ safe_ext g) = d"
proof -
  assume d: "CHR ''.'' \<notin> set d"
  have "takeWhile (\<lambda>c. c \<noteq> CHR ''.'') (safe_ext g) = []"
    using safe_ext_shape [of g] by fastforce
  moreover have "\<And>x. x \<in> set d \<Longrightarrow> x \<noteq> CHR ''.''" using d by blast
  ultimately show ?thesis by (simp add: takeWhile_append2)
qed

lemma doc_ext_inj:
  assumes "CHR ''.'' \<notin> set doc" "CHR ''.'' \<notin> set doc'" "doc @ safe_ext f = doc' @ safe_ext f'"
  shows "doc = doc'"
  using takeWhile_ext [OF assms(1), of f] takeWhile_ext [OF assms(2), of f'] unfolding assms(3) by simp

lemma build_key_inj:
  assumes "plain_name org" "plain_name ord" "CHR ''/'' \<notin> set doc" "CHR ''.'' \<notin> set doc" "doc \<noteq> []"
    and "plain_name org'" "plain_name ord'" "CHR ''/'' \<notin> set doc'" "CHR ''.'' \<notin> set doc'" "doc' \<noteq> []"
    and "build_key org ord doc f = Inr key" "build_key org' ord' doc' f' = Inr key"
  shows "org = org' \<and> ord = ord' \<and> doc = doc'"
proof -
  have "key = org @ ''/'' @ ord @ ''/'' @ doc @ safe_ext f"
       "key = org' @ ''/'' @ ord' @ ''/'' @ doc' @ safe_ext f'"
    using assms by (auto simp: build_key_def safe_ext_def Let_def split: if_splits)
  then have "[org, ord, doc @ safe_ext f] = [org', ord', doc' @ safe_ext f']"
    using split_key [OF assms(1-3), of f] split_key [OF assms(6-8), of f'] by simp
  then show ?thesis using doc_ext_inj [OF assms(4,9)] by blast
qed

lemma plain_uuid [simp]: "plain_name (uuid_str i)"
proof -
  have "CHR ''/'' \<notin> set (uuid_str i)"
  proof
    assume "CHR ''/'' \<in> set (uuid_str i)"
    then have "is_hex_lower (CHR ''/'') \<or> CHR ''/'' = CHR ''-''" by (rule set_uuid_str)
    then show False by code_simp
  qed
  moreover have "uuid_str i \<noteq> []" "uuid_str i \<noteq> ''.''" "uuid_str i \<noteq> ''..''"
    using length_uuid_str [of i] by (auto dest: arg_cong [of _ _ length])
  ultimately show ?thesis by (simp add: plain_name_def)
qed

end
