(* ===== verification/StorageProps.thy ===== *)
theory StorageProps
  imports Storage Service
begin

text \<open>
  The promises of the storage keys and of the local backend: a document key resolves below the
  root, two levels down, and keeps tenants, orders and documents apart; nothing outside the root is
  ever touched, whatever the key; a stored blob is read back and no other key is disturbed; the S3
  backend gives the same under the documented behaviour of its client.
\<close>

text \<open>
  C16: A key built by build_key for a tenant, an order and a document name without slash or dot
  resolves, in the local backend, to the file of that document in the order's directory in the
  tenant's directory below the root; the extension kept from the file name is empty or a dot with
  at most eleven letters or digits.
\<close>

theorem build_key_path:
  assumes "\<And>p. p \<in> set base \<Longrightarrow> plain_name p"
    and "plain_name org" "plain_name ord"
    and "doc \<noteq> []" "doc \<noteq> ''None''" "CHR ''/'' \<notin> set doc" "CHR ''.'' \<notin> set doc"
  shows "\<exists>key ext. build_key org ord doc filename = Inr key \<and>
           local_p base key = Inr (base @ [org, ord, doc @ ext]) \<and>
           (ext = [] \<or> (\<exists>e. ext = CHR ''.'' # e \<and> list_all is_alnum e \<and> length e < 12))"
proof -
  obtain key where key: "build_key org ord doc filename = Inr key"
    using build_key_eq assms(4,5) by blast
  have "local_p base key = Inr (base @ [org, ord, doc @ safe_ext filename])"
    using local_p_key [OF assms(1-4,6,7) key] by blast
  with key safe_ext_shape [of filename] show ?thesis by blast
qed

theorem build_key_path_witness:
  "\<exists>key ext. build_key (uuid_str 1) (uuid_str 2) ''PARCEL_RECORD'' ''../../etc/x.pdf'' = Inr key \<and>
     local_p [''srv'', ''blobs''] key =
       Inr ([''srv'', ''blobs''] @ [uuid_str 1, uuid_str 2, ''PARCEL_RECORD'' @ ext]) \<and>
     (ext = [] \<or> (\<exists>e. ext = CHR ''.'' # e \<and> list_all is_alnum e \<and> length e < 12))"
proof (rule build_key_path)
  show "plain_name p" if "p \<in> set [''srv'', ''blobs'']" for p
    using that by (auto simp: plain_name_def)
qed simp_all



text \<open>
  C18: Whatever the key, no operation of the local backend changes a file outside the storage
  root: putting, copying in and deleting leave every other file of the file system as it was, and
  a key that would leave the root is refused without touching any file.
\<close>

theorem local_storage_contained:
  "outside base (snd (local_put base fs key data)) = outside base fs \<and>
   outside base (snd (local_copy_in base fs key src)) = outside base fs \<and>
   outside base (local_delete base fs key) = outside base fs \<and>
   (local_loc base key = None \<longleftrightarrow> \<not> Sublist.prefix base (resolve_parts [] (join_path base key)))"
  by (auto simp: outside_local_put outside_local_copy_in outside_local_delete local_loc_def
      local_p_def Let_def strict_prefix_def)

theorem local_storage_contained_witness:
  "local_loc [''srv''] ''../etc/passwd'' = None"
proof -
  have "\<not> Sublist.prefix [''srv''] (resolve_parts [] (join_path [''srv''] ''../etc/passwd''))"
    by code_simp
  then show ?thesis
    using local_storage_contained [of "[''srv'']" "\<lparr>fs_files = [], fs_dirs = []\<rparr>" "''../etc/passwd''" "[]" "[]"]
    by simp
qed

text \<open>
  C19: Round trip and frame of the local backend: after a successful put the key answers exists
  and get with the bytes given, put reports their number, and every key that resolves to another
  path reads exactly what it read before, also after a put that failed.
\<close>

theorem local_put_get:
  assumes "local_put base fs key data = (r, fs')"
  shows "(r = Inr n \<longrightarrow> local_get base fs' key = Inr data \<and> local_exists base fs' key \<and> n = length data) \<and>
         (local_loc base key' \<noteq> local_loc base key \<longrightarrow>
            (local_get base fs' key' = Inr data' \<longleftrightarrow> local_get base fs key' = Inr data'))"
  using local_store.put_get [of base fs key data n fs'] local_store.put_frame [OF assms, of key' data']
    assms by simp

theorem local_put_get_witness:
  "\<exists>fs'. local_put [''srv''] \<lparr>fs_files = [], fs_dirs = [[], [''srv'']]\<rparr> ''a/b'' ''xyz'' = (Inr 3, fs') \<and>
     local_get [''srv''] fs' ''a/b'' = Inr ''xyz'' \<and> local_exists [''srv''] fs' ''a/b''"
proof -
  let ?fs = "\<lparr>fs_files = [], fs_dirs = [[], [''srv'']]\<rparr>"
  let ?fs' = "\<lparr>fs_files = [([''srv'', ''a'', ''b''], ''xyz'')], fs_dirs = [[], [''srv''], [''srv'', ''a'']]\<rparr>"
  have "local_put [''srv''] ?fs ''a/b'' ''xyz'' = (Inr 3, ?fs')" by code_simp
  with local_put_get [OF this, of 3] show ?thesis by blast
qed

text \<open>
  What S3 documents of its operations on one bucket: an object put is read back, a deleted object
  is gone, other objects are left alone, and a HEAD answers when a GET does.
\<close>

definition s3_laws :: "'s s3_client \<Rightarrow> bool" where
  "s3_laws c \<longleftrightarrow>
     (\<forall>s k d k'. get_object c (put_object c s k d) k' = (if k' = k then Inr d else get_object c s k')) \<and>
     (\<forall>s k k'. k' \<noteq> k \<longrightarrow> get_object c (delete_object c s k) k' = get_object c s k') \<and>
     (\<forall>s k. \<not> is_ok (get_object c (delete_object c s k) k)) \<and>
     (\<forall>s k. head_object c s k = is_ok (get_object c s k))"

lemma s3_k_inj: "s3_k pre key = s3_k pre key' \<longleftrightarrow> key = key'"
  by (simp add: s3_k_def)

text \<open>
  Under the documented behaviour of the S3 operations, the S3 backend keeps keys apart under
  its prefix: a put is read back, copying a file in stores its bytes, a delete removes the blob,
  and no other key is affected by any of them.
\<close>

theorem s3_put_get:
  assumes "s3_laws c" "key' \<noteq> key"
  shows "s3_get c pre (snd (s3_put c pre s key data)) key = Inr data \<and>
         s3_exists c pre (snd (s3_put c pre s key data)) key \<and>
         s3_get c pre (snd (s3_put c pre s key data)) key' = s3_get c pre s key' \<and>
         \<not> s3_exists c pre (s3_delete c pre s key) key \<and>
         s3_get c pre (s3_delete c pre s key) key' = s3_get c pre s key' \<and>
         (s3_copy_in c pre fs s key src = Inr (n, s') \<longrightarrow>
            read_bytes fs src = s3_get c pre s' key \<and> s3_get c pre s' key' = s3_get c pre s key')"
  using assms
  by (auto simp: s3_laws_def s3_get_def s3_put_def s3_exists_def s3_delete_def s3_copy_in_def s3_k_inj
      res_bind_eq_Inr)

definition dict_client :: "(string \<rightharpoonup> string) s3_client" where
  "dict_client =
     \<lparr>put_object = (\<lambda>s k d. s(k \<mapsto> d)),
      get_object = (\<lambda>s k. case s k of None \<Rightarrow> Inl ''NoSuchKey'' | Some d \<Rightarrow> Inr d),
      delete_object = (\<lambda>s k. s(k := None)), head_object = (\<lambda>s k. s k \<noteq> None)\<rparr>"

theorem s3_put_get_witness:
  "s3_get dict_client ''quickplot'' (snd (s3_put dict_client ''quickplot'' Map.empty ''a'' ''xyz'')) ''a'' = Inr ''xyz''"
proof -
  have "s3_laws dict_client"
    by (auto simp: s3_laws_def dict_client_def split: option.splits)
  then show ?thesis
    using s3_put_get [of dict_client "''b''" "''a''" "''quickplot''" Map.empty "''xyz''"] by simp
qed

end
