(* ===== verification/PyVal.thy ===== *)
theory PyVal
  imports PyStr
begin

text \<open>
  The scalar values a source returns in JSON (ArcGIS attributes), with Python's \<open>str\<close>, truth and
  \<open>float\<close> on them.  A float is given by the shortest decimal that denotes it, \<open>SFloat m e\<close> for
  \<open>m / 10 ^ e\<close> with no trailing zero; that decimal is what \<open>str\<close> prints.  Arithmetic on floats is exact
  arithmetic on these decimals: the rounding of binary floats is not modelled.
\<close>

datatype scalar = SNone | SBool bool | SInt int | SFloat int nat | SStr string

type_synonym attrs = "(string \<times> scalar) list"

section \<open>Text of a number\<close>

definition zeros :: "nat \<Rightarrow> string" where
  "zeros n = replicate n (CHR ''0'')"

text \<open>A decimal with \<open>e\<close> fraction digits.\<close>

definition positional :: "string \<Rightarrow> nat \<Rightarrow> string" where
  "positional ds e =
     (if e = 0 then ds @ ''.0''
      else let ps = zeros (Suc e - length ds) @ ds
           in take (length ps - e) ps @ ''.'' @ drop (length ps - e) ps)"

definition scientific :: "string \<Rightarrow> int \<Rightarrow> string" where
  "scientific ds x =
     (let t = rstrip_if (\<lambda>c. c = CHR ''0'') ds;
          xs = show_nat (nat (abs x))
      in take 1 t @ (if length t \<le> 1 then [] else ''.'' @ drop 1 t) @ ''e'' @
         (if x < 0 then ''-'' else ''+'') @ zeros (2 - length xs) @ xs)"

definition show_float :: "int \<Rightarrow> nat \<Rightarrow> string" where
  "show_float m e =
     (let ds = show_nat (nat (abs m));
          x = int (length ds) - int e - 1
      in (if m < 0 then ''-'' else []) @
         (if m = 0 then ''0.0'' else if - 4 \<le> x \<and> x < 16 then positional ds e else scientific ds x))"

fun py_str :: "scalar \<Rightarrow> string" where
  "py_str SNone = ''None''"
| "py_str (SBool b) = (if b then ''True'' else ''False'')"
| "py_str (SInt i) = show_int i"
| "py_str (SFloat m e) = show_float m e"
| "py_str (SStr s) = s"

fun truthy :: "scalar \<Rightarrow> bool" where
  "truthy SNone = False"
| "truthy (SBool b) = b"
| "truthy (SInt i) = (i \<noteq> 0)"
| "truthy (SFloat m e) = (m \<noteq> 0)"
| "truthy (SStr s) = (s \<noteq> [])"

text \<open>\<open>v == 0\<close>: \<open>False\<close> and \<open>0.0\<close> are equal to it.\<close>

fun eq_zero :: "scalar \<Rightarrow> bool" where
  "eq_zero (SBool b) = (\<not> b)"
| "eq_zero (SInt i) = (i = 0)"
| "eq_zero (SFloat m e) = (m = 0)"
| "eq_zero _ = False"

text \<open>\<open>v in (None, '', ...)\<close> for a tuple of strings besides \<open>None\<close>.\<close>

definition in_blanks :: "string list \<Rightarrow> scalar \<Rightarrow> bool" where
  "in_blanks ss v = (case v of SNone \<Rightarrow> True | SStr s \<Rightarrow> s \<in> set ss | _ \<Rightarrow> False)"

section \<open>Decimals\<close>

text \<open>Trailing zeros of the fraction go.\<close>

fun norm_dec :: "int \<Rightarrow> nat \<Rightarrow> int \<times> nat" where
  "norm_dec m 0 = (m, 0)"
| "norm_dec m (Suc e) = (if m mod 10 = 0 then norm_dec (m div 10) e else (m, Suc e))"

definition SDec :: "int \<Rightarrow> nat \<Rightarrow> scalar" where
  "SDec m e = (case norm_dec m e of (m', e') \<Rightarrow> SFloat m' e')"

definition digits_value :: "string \<Rightarrow> int" where
  "digits_value s = foldl (\<lambda>n c. n * 10 + (of_char c - 48)) 0 s"

text \<open>A digit run, with single underscores between digits.\<close>

definition digit_run :: "string \<Rightarrow> string option" where
  "digit_run s =
     (let ps = split_on (CHR ''_'') s
      in if list_all (\<lambda>p. p \<noteq> [] \<and> list_all is_digit p) ps then Some (concat ps) else None)"

definition read_sign :: "string \<Rightarrow> int \<times> string" where
  "read_sign s = (case s of c # cs \<Rightarrow> if c = CHR ''-'' then (- 1, cs) else if c = CHR ''+'' then (1, cs) else (1, s)
                  | [] \<Rightarrow> (1, s))"

text \<open>\<open>float(s)\<close> for a text; \<open>None\<close> is \<open>ValueError\<close>.  (The words \<open>inf\<close> and \<open>nan\<close>, which Python also
  accepts, are not numbers here.)\<close>

definition parse_exponent :: "string \<Rightarrow> int option" where
  "parse_exponent s = (case read_sign s of (sg, t) \<Rightarrow> map_option (\<lambda>d. sg * digits_value d) (digit_run t))"

definition parse_mantissa :: "string \<Rightarrow> (string \<times> string) option" where
  "parse_mantissa s =
     (case split_on (CHR ''.'') s of
        [i] \<Rightarrow> map_option (\<lambda>d. (d, [])) (digit_run i)
      | [i, f] \<Rightarrow>
          if i = [] \<and> f = [] then None
          else if i = [] then map_option (\<lambda>d. ([], d)) (digit_run f)
          else if f = [] then map_option (\<lambda>d. (d, [])) (digit_run i)
          else (case (digit_run i, digit_run f) of (Some a, Some b) \<Rightarrow> Some (a, b) | _ \<Rightarrow> None)
      | _ \<Rightarrow> None)"

definition parse_float :: "string \<Rightarrow> (int \<times> nat) option" where
  "parse_float s =
     (case read_sign (strip s) of (sg, t) \<Rightarrow>
        (let is_e = (\<lambda>c. c = CHR ''e'' \<or> c = CHR ''E'');
             man = takeWhile (\<lambda>c. \<not> is_e c) t;
             ex = dropWhile (\<lambda>c. \<not> is_e c) t
         in case (parse_mantissa man, if ex = [] then Some 0 else parse_exponent (tl ex)) of
              (Some (i, f), Some x) \<Rightarrow>
                let m = sg * digits_value (i @ f); e = int (length f) - x
                in Some (if e \<le> 0 then (m * 10 ^ nat (- e), 0) else norm_dec m (nat e))
            | _ \<Rightarrow> None))"

text \<open>\<open>float(v)\<close>; \<open>None\<close> is \<open>TypeError\<close> or \<open>ValueError\<close>.\<close>

fun to_float :: "scalar \<Rightarrow> (int \<times> nat) option" where
  "to_float SNone = None"
| "to_float (SBool b) = Some (if b then 1 else 0, 0)"
| "to_float (SInt i) = Some (i, 0)"
| "to_float (SFloat m e) = Some (m, e)"
| "to_float (SStr s) = parse_float s"

text \<open>\<open>round(n / d)\<close> to an integer, ties to even.\<close>

definition round_div :: "int \<Rightarrow> int \<Rightarrow> int" where
  "round_div n d =
     (let q = n div d; r = n mod d in if 2 * r < d \<or> 2 * r = d \<and> even q then q else q + 1)"

text \<open>\<open>f'{n:,}'\<close>: groups of three digits.\<close>

function group3 :: "string \<Rightarrow> string" where
  "group3 ds = (if length ds \<le> 3 then ds
                else group3 (take (length ds - 3) ds) @ '','' @ drop (length ds - 3) ds)"
  by pat_completeness auto
termination by (relation "measure length") auto

declare group3.simps [simp del]

definition show_thousands :: "int \<Rightarrow> string" where
  "show_thousands i = (if i < 0 then ''-'' else []) @ group3 (show_nat (nat (abs i)))"

section \<open>Facts\<close>

lemma round_div_close:
  assumes "0 < d"
  shows "2 * abs (round_div n d * d - n) \<le> d"
proof -
  define q r where "q = n div d" and "r = n mod d"
  have n: "n = q * d + r" and r: "0 \<le> r" "r < d"
    using assms by (simp_all add: q_def r_def)
  show ?thesis
    using r assms unfolding round_div_def Let_def q_def [symmetric] r_def [symmetric]
    by (auto simp: n algebra_simps)
qed

lemma truthy_of_in_blanks: "in_blanks ss v \<Longrightarrow> [] \<in> set ss \<Longrightarrow> \<not> truthy v \<or> (\<exists>s. v = SStr s)"
  by (auto simp: in_blanks_def split: scalar.splits)

end
