(* ===== verification/Regex.thy ===== *)
theory Regex
  imports PyStr
begin

text \<open>
  The part of Python's \<open>re\<close> that the source uses, as a backtracking matcher: the list of all ways a
  pattern can match at a position, in the order the engine tries them, so that the first is the
  match Python reports.  Patterns are built from character classes, so \<open>re.I\<close> is a class that folds
  case.  Repetitions stop at an iteration that consumes nothing.
\<close>

section \<open>Patterns\<close>

datatype re =
    Eps
  | Cls "char \<Rightarrow> bool"
  | Seq re re
  | Alt re re
  | Star re
  | Grp nat re
  | Bound
  | Eos

text \<open>The matcher's state: the character before the position, the rest of the text, the groups
  captured so far (the latest first).\<close>

type_synonym groups = "(nat \<times> string) list"
type_synonym mstate = "char option \<times> string \<times> groups"

definition word_char :: "char \<Rightarrow> bool" where
  "word_char c = (is_alnum c \<or> c = CHR ''_'')"

definition at_bound :: "char option \<Rightarrow> string \<Rightarrow> bool" where
  "at_bound b r =
     ((case b of None \<Rightarrow> False | Some c \<Rightarrow> word_char c) \<noteq>
      (case r of [] \<Rightarrow> False | c # _ \<Rightarrow> word_char c))"

text \<open>Greedy repetition: first the longer continuations, then stopping here.\<close>

fun star_iter :: "nat \<Rightarrow> (mstate \<Rightarrow> mstate list) \<Rightarrow> mstate \<Rightarrow> mstate list" where
  "star_iter 0 f s = [s]"
| "star_iter (Suc n) f s =
     concat (map (star_iter n f) (filter (\<lambda>t. length (fst (snd t)) < length (fst (snd s))) (f s))) @ [s]"

primrec matches :: "re \<Rightarrow> mstate \<Rightarrow> mstate list" where
  "matches Eps s = [s]"
| "matches (Cls p) s =
     (case s of (b, r, g) \<Rightarrow> (case r of [] \<Rightarrow> [] | c # cs \<Rightarrow> if p c then [(Some c, cs, g)] else []))"
| "matches (Seq x y) s = concat (map (matches y) (matches x s))"
| "matches (Alt x y) s = matches x s @ matches y s"
| "matches (Star x) s = star_iter (length (fst (snd s))) (matches x) s"
| "matches (Grp n x) s =
     map (\<lambda>(b, r, g). (b, r, (n, take (length (fst (snd s)) - length r) (fst (snd s))) # g)) (matches x s)"
| "matches Bound s = (case s of (b, r, g) \<Rightarrow> if at_bound b r then [s] else [])"
| "matches Eos s = (case s of (b, r, g) \<Rightarrow> if r = [] \<or> r = [char_of (10::nat)] then [s] else [])"

section \<open>Derived patterns\<close>

definition Plus :: "re \<Rightarrow> re" where
  "Plus x = Seq x (Star x)"

definition Maybe :: "re \<Rightarrow> re" where
  "Maybe x = Alt x Eps"

fun seqs :: "re list \<Rightarrow> re" where
  "seqs [] = Eps"
| "seqs [x] = x"
| "seqs (x # y # xs) = Seq x (seqs (y # xs))"

fun alts :: "re list \<Rightarrow> re" where
  "alts [] = Cls (\<lambda>_. False)"
| "alts [x] = x"
| "alts (x # y # xs) = Alt x (alts (y # xs))"

text \<open>\<open>x{m,n}\<close>\<close>

fun upto :: "nat \<Rightarrow> re \<Rightarrow> re" where
  "upto 0 x = Eps"
| "upto (Suc n) x = Maybe (Seq x (upto n x))"

definition Rep :: "nat \<Rightarrow> nat \<Rightarrow> re \<Rightarrow> re" where
  "Rep m n x = seqs (replicate m x @ [upto (n - m) x])"

definition Lit :: "string \<Rightarrow> re" where
  "Lit s = seqs (map (\<lambda>c. Cls (\<lambda>x. x = c)) s)"

text \<open>A literal under \<open>re.I\<close>.\<close>

definition LitI :: "string \<Rightarrow> re" where
  "LitI s = seqs (map (\<lambda>c. Cls (\<lambda>x. lower_char x = lower_char c)) s)"

abbreviation digit :: re where "digit \<equiv> Cls is_digit"
abbreviation space :: re where "space \<equiv> Cls is_space"
abbreviation dot_opt :: re where "dot_opt \<equiv> Maybe (Cls (\<lambda>c. c = CHR ''.''))"

section \<open>The functions of the module\<close>

text \<open>\<open>re.match(p, s)\<close> at the start.\<close>

definition re_match :: "re \<Rightarrow> string \<Rightarrow> groups option" where
  "re_match p s = (case matches p (None, s, []) of [] \<Rightarrow> None | (b, r, g) # _ \<Rightarrow> Some g)"

text \<open>\<open>m.group(n)\<close>, empty for a group that did not take part.\<close>

definition group :: "groups \<Rightarrow> nat \<Rightarrow> string" where
  "group g n = (case map_of g n of None \<Rightarrow> [] | Some s \<Rightarrow> s)"

text \<open>\<open>re.search(p, s)\<close>: at the first position with a match; gives the text before it too.\<close>

fun search_from :: "re \<Rightarrow> char option \<Rightarrow> string \<Rightarrow> string \<Rightarrow> (string \<times> mstate) option" where
  "search_from p b pre [] =
     (case matches p (b, [], []) of m # _ \<Rightarrow> Some (rev pre, m) | [] \<Rightarrow> None)"
| "search_from p b pre (c # cs) =
     (case matches p (b, c # cs, []) of
        m # _ \<Rightarrow> Some (rev pre, m)
      | [] \<Rightarrow> search_from p (Some c) (c # pre) cs)"

definition re_search :: "re \<Rightarrow> string \<Rightarrow> groups option" where
  "re_search p s = (case search_from p None [] s of None \<Rightarrow> None | Some (_, _, _, g) \<Rightarrow> Some g)"

text \<open>\<open>re.split(p, s)[0]\<close>: the text before the first match.\<close>

definition re_split_head :: "re \<Rightarrow> string \<Rightarrow> string" where
  "re_split_head p s = (case search_from p None [] s of None \<Rightarrow> s | Some (pre, _) \<Rightarrow> pre)"

text \<open>\<open>re.sub(p, v, s)\<close> for a pattern that matches no empty text.\<close>

fun sub_iter :: "nat \<Rightarrow> re \<Rightarrow> string \<Rightarrow> char option \<Rightarrow> string \<Rightarrow> string" where
  "sub_iter 0 p v b s = s"
| "sub_iter (Suc n) p v b [] = []"
| "sub_iter (Suc n) p v b (c # cs) =
     (case matches p (b, c # cs, []) of
        (b', r, _) # _ \<Rightarrow> if length r < length (c # cs) then v @ sub_iter n p v b' r
                          else c # sub_iter n p v (Some c) cs
      | [] \<Rightarrow> c # sub_iter n p v (Some c) cs)"

definition re_sub :: "re \<Rightarrow> string \<Rightarrow> string \<Rightarrow> string" where
  "re_sub p v s = sub_iter (length s) p v None s"

section \<open>Facts\<close>

lemma matches_Cls [simp]:
  "matches (Cls p) (b, [], g) = []"
  "matches (Cls p) (b, c # cs, g) = (if p c then [(Some c, cs, g)] else [])"
  by simp_all

lemma in_matches_Seq:
  "t \<in> set (matches (Seq x y) s) \<longleftrightarrow> (\<exists>u \<in> set (matches x s). t \<in> set (matches y u))"
  by auto

text \<open>A match consumes a beginning of the text.\<close>

definition consumes :: "mstate \<Rightarrow> mstate \<Rightarrow> bool" where
  "consumes s t \<longleftrightarrow> (\<exists>w. fst (snd s) = w @ fst (snd t))"

lemma consumes_refl [simp]: "consumes s s"
  by (simp add: consumes_def)

lemma consumes_trans: "consumes s t \<Longrightarrow> consumes t u \<Longrightarrow> consumes s u"
  by (auto simp: consumes_def)

lemma star_iter_consumes:
  "(\<And>s t. t \<in> set (f s) \<Longrightarrow> consumes s t) \<Longrightarrow> t \<in> set (star_iter n f s) \<Longrightarrow> consumes s t"
proof (induction n arbitrary: s)
  case (Suc n)
  from Suc.prems(2) consider "t = s" | u where "u \<in> set (f s)" "t \<in> set (star_iter n f u)"
    by auto
  then show ?case
  proof cases
    case 2
    then show ?thesis
      using Suc.IH [OF Suc.prems(1), of u] Suc.prems(1) consumes_trans by blast
  qed simp
qed simp

lemma matches_consumes: "t \<in> set (matches p s) \<Longrightarrow> consumes s t"
proof (induction p arbitrary: s t)
  case (Cls p)
  then show ?case by (auto simp: consumes_def split: prod.splits list.splits if_splits)
next
  case (Seq x y)
  from Seq.prems obtain u where "u \<in> set (matches x s)" "t \<in> set (matches y u)" by auto
  with Seq.IH consumes_trans show ?case by blast
next
  case (Star x)
  from Star.prems have "t \<in> set (star_iter (length (fst (snd s))) (matches x) s)" by simp
  with Star.IH star_iter_consumes [of "matches x"] show ?case by blast
next
  case (Grp n x)
  from Grp.prems obtain b r g where "(b, r, g) \<in> set (matches x s)" "fst (snd t) = r" by auto
  with Grp.IH show ?case by (fastforce simp: consumes_def)
next
  case (Alt x y)
  from Alt.prems have "t \<in> set (matches x s) \<or> t \<in> set (matches y s)" by simp
  with Alt.IH show ?case by blast
qed (auto split: prod.splits if_splits)

text \<open>A greedy run of one class takes the longest run first.\<close>

lemma star_cls_hd:
  "length r \<le> n \<Longrightarrow> \<exists>b' ms. star_iter n (matches (Cls p)) (b, r, g) = (b', dropWhile p r, g) # ms"
proof (induction n arbitrary: b r)
  case 0
  then show ?case by simp
next
  case (Suc n)
  show ?case
  proof (cases r)
    case (Cons c cs)
    show ?thesis
    proof (cases "p c")
      case True
      obtain b' ms where "star_iter n (matches (Cls p)) (Some c, cs, g) = (b', dropWhile p cs, g) # ms"
        using Suc.IH [of cs "Some c"] Suc.prems unfolding Cons by (simp del: matches.simps) blast
      with True Cons show ?thesis by (simp del: matches.simps(2))
    qed (use Cons in simp)
  qed simp
qed

lemma plus_cls_hd:
  "r \<noteq> [] \<Longrightarrow> p (hd r) \<Longrightarrow> \<exists>b' ms. matches (Plus (Cls p)) (b, r, g) = (b', dropWhile p r, g) # ms"
  using star_cls_hd [of "tl r" "length (tl r)" p "Some (hd r)" g]
  by (cases r) (auto simp: Plus_def)

lemma plus_cls_none: "r = [] \<or> \<not> p (hd r) \<Longrightarrow> matches (Plus (Cls p)) (b, r, g) = []"
  by (cases r) (auto simp: Plus_def)

lemma take_dropWhile: "take (length r - length (dropWhile p r)) r = takeWhile p r"
proof -
  have "length r - length (dropWhile p r) = length (takeWhile p r)"
    by (metis add_diff_cancel_right' length_append takeWhile_dropWhile_id)
  then show ?thesis by (metis append_eq_conv_conj takeWhile_dropWhile_id)
qed

text \<open>So \<open>(p+)\<close> at the start captures the leading run.\<close>

lemma match_leading_run:
  "re_match (Grp k (Plus (Cls p))) s =
     (if s \<noteq> [] \<and> p (hd s) then Some [(k, takeWhile p s)] else None)"
proof (cases "s \<noteq> [] \<and> p (hd s)")
  case True
  then obtain b' ms where "matches (Plus (Cls p)) (None, s, []) = (b', dropWhile p s, []) # ms"
    using plus_cls_hd by blast
  with True show ?thesis by (simp add: re_match_def take_dropWhile)
next
  case False
  then have "matches (Plus (Cls p)) (None, s, []) = []" using plus_cls_none by blast
  with False show ?thesis by (simp add: re_match_def)
qed

end
