(* ===== verification/Registry.thy ===== *)
theory Registry
  imports PyVal Regex
begin

text \<open>
  The records registry: \<open>data/county_platforms.py\<close> (entries by county FIPS, the merge of the bulk
  links, directory links), the aggregation of the state modules in \<open>data/states/__init__.py\<close>, the
  state and county reference of \<open>data/geography.py\<close>, and the official-records references of
  \<open>services/clerk.py\<close>.  An entry is the dictionary of the source, with the values it can hold; the
  rows themselves (the state modules, \<open>records_links.json\<close>, \<open>_counties_raw.json\<close>) are arguments.
\<close>

section \<open>Entries\<close>

text \<open>A join with a related table: \<open>{url, key, where, quote}\<close>, absent keys \<open>None\<close>.\<close>

record related_cfg =
  rl_url :: "string option"
  rl_key :: "string option"
  rl_where :: "string option"
  rl_quote :: "bool option"

datatype rval =
    RNone
  | RStr string
  | RBool bool
  | RList "string list"
  | RRel "related_cfg list"

type_synonym entry = "(string \<times> rval) list"
type_synonym 'v table = "(string \<times> 'v) list"

fun rval_truthy :: "rval \<Rightarrow> bool" where
  "rval_truthy RNone = False"
| "rval_truthy (RStr s) = (s \<noteq> [])"
| "rval_truthy (RBool b) = b"
| "rval_truthy (RList xs) = (xs \<noteq> [])"
| "rval_truthy (RRel xs) = (xs \<noteq> [])"

text \<open>\<open>reg.get(k)\<close> where a text, a list of texts, a flag or joins are expected; a falsy value and a
  missing key read the same.\<close>

definition entry_str :: "entry \<Rightarrow> string \<Rightarrow> string" where
  "entry_str e k = (case map_of e k of Some (RStr s) \<Rightarrow> s | _ \<Rightarrow> [])"

text \<open>\<open>g if isinstance(g, list) else [g]\<close>, the empty list for a falsy value.\<close>

definition entry_list :: "entry \<Rightarrow> string \<Rightarrow> string list" where
  "entry_list e k =
     (case map_of e k of Some (RList xs) \<Rightarrow> xs | Some (RStr s) \<Rightarrow> if s = [] then [] else [s] | _ \<Rightarrow> [])"

definition entry_flag :: "entry \<Rightarrow> string \<Rightarrow> bool" where
  "entry_flag e k = (case map_of e k of Some v \<Rightarrow> rval_truthy v | None \<Rightarrow> False)"

definition entry_related :: "entry \<Rightarrow> related_cfg list" where
  "entry_related e = (case map_of e ''related'' of Some (RRel cs) \<Rightarrow> cs | _ \<Rightarrow> [])"

text \<open>\<open>reg.get(k, default)\<close>.\<close>

definition entry_get :: "entry \<Rightarrow> string \<Rightarrow> string \<Rightarrow> string" where
  "entry_get e k dflt = (case map_of e k of None \<Rightarrow> dflt | Some (RStr s) \<Rightarrow> s | Some _ \<Rightarrow> [])"

section \<open>Building the registry\<close>

text \<open>\<open>d.update(e)\<close>: the entries of \<open>e\<close> replace those of \<open>d\<close>.\<close>

definition dict_update :: "'v table \<Rightarrow> 'v table \<Rightarrow> 'v table" where
  "dict_update d e = foldl (\<lambda>d (k, v). dict_put k v d) d e"

definition bulk_fips :: "string \<Rightarrow> bool" where
  "bulk_fips fips = (length fips = 5 \<and> list_all is_digit fips)"

definition merge_entry :: "entry \<Rightarrow> entry \<Rightarrow> entry" where
  "merge_entry cur e = foldl (\<lambda>cur (k, v). if rval_truthy v then dict_setdefault k v cur else cur) cur e"

definition merge_bulk_links :: "entry table \<Rightarrow> entry table \<Rightarrow> entry table" where
  "merge_bulk_links reg bulk =
     foldl (\<lambda>reg (fips, e).
       if \<not> bulk_fips fips then reg
       else let cur = (case map_of reg fips of None \<Rightarrow> [] | Some c \<Rightarrow> c)
            in dict_put fips (merge_entry cur e) reg) reg bulk"

text \<open>A state module: its code, its statewide parcel service, its counties and statewide links.\<close>

record state_service =
  ss_url :: "string list"
  ss_kind :: string
  ss_label :: string
  ss_id_fields :: "string list"
  ss_related :: "related_cfg list"
  ss_id_only :: bool
  ss_counties_covered :: "nat option"

record state_module =
  sm_state :: string
  sm_parcel :: "state_service option"
  sm_counties :: "entry table"
  sm_deed_link :: string
  sm_plat_link :: string
  sm_appraiser_link :: string

record registry =
  rg_entries :: "entry table"
  rg_state_parcel :: "state_service table"
  rg_state_deed :: "string table"
  rg_state_plat :: "string table"
  rg_state_appraiser :: "string table"

definition put_link :: "string \<Rightarrow> string \<Rightarrow> string table \<Rightarrow> string table" where
  "put_link st link d = (if link \<noteq> [] \<and> st \<noteq> [] then dict_put st link d else d)"

text \<open>The loop over the state modules, then the two merges of \<open>county_platforms\<close>.\<close>

definition load_module :: "registry \<Rightarrow> state_module \<Rightarrow> registry" where
  "load_module r m =
     \<lparr>rg_entries = dict_update (rg_entries r) (sm_counties m),
      rg_state_parcel = (case sm_parcel m of
                           Some s \<Rightarrow> if sm_state m \<noteq> [] then dict_put (sm_state m) s (rg_state_parcel r)
                                     else rg_state_parcel r
                         | None \<Rightarrow> rg_state_parcel r),
      rg_state_deed = put_link (sm_state m) (sm_deed_link m) (rg_state_deed r),
      rg_state_plat = put_link (sm_state m) (sm_plat_link m) (rg_state_plat r),
      rg_state_appraiser = put_link (sm_state m) (sm_appraiser_link m) (rg_state_appraiser r)\<rparr>"

definition load_states :: "state_module list \<Rightarrow> registry" where
  "load_states ms = foldl load_module \<lparr>rg_entries = [], rg_state_parcel = [], rg_state_deed = [],
                                      rg_state_plat = [], rg_state_appraiser = []\<rparr> ms"

definition build_registry :: "entry table \<Rightarrow> state_module list \<Rightarrow> entry table \<Rightarrow> registry" where
  "build_registry base ms bulk =
     (let r = load_states ms
      in r\<lparr>rg_entries := merge_bulk_links (dict_update base (rg_entries r)) bulk\<rparr>)"

definition lookup :: "registry \<Rightarrow> string \<Rightarrow> entry option" where
  "lookup r county_fips = map_of (rg_entries r) county_fips"

text \<open>\<open>lookup(fips) or {}\<close>\<close>

definition lookup_or_empty :: "registry \<Rightarrow> string \<Rightarrow> entry" where
  "lookup_or_empty r county_fips = (case lookup r county_fips of None \<Rightarrow> [] | Some e \<Rightarrow> e)"

definition netronline :: "string \<Rightarrow> string \<Rightarrow> string" where
  "netronline state_abbr county_name =
     ''https://publicrecords.netronline.com/state/'' @ state_abbr @ ''/county/'' @
     replace_char (CHR '' '') ''-'' (lower (strip county_name))"

definition PLATFORM_LABEL :: "string table" where
  "PLATFORM_LABEL =
     [(''acclaim'', ''Acclaim (Harris Recording Solutions)''),
      (''landmark'', ''Landmark (Pioneer Technology Group)''),
      (''eagle'', ''Tyler Eagle''),
      (''publicsearch'', ''PublicSearch (Kofile)''),
      (''inhouse'', ''In-house / county-built''),
      (''unknown'', ''Unknown - use directory link'')]"

definition link_of :: "string table \<Rightarrow> string \<Rightarrow> string" where
  "link_of d k = (case map_of d k of None \<Rightarrow> [] | Some v \<Rightarrow> v)"

section \<open>Official-records references\<close>

record clerk_ref =
  ck_county :: string
  ck_platform :: string
  ck_platform_label :: string
  ck_official_records_search :: string
  ck_plat_search :: string
  ck_appraiser_url :: string
  ck_directory_url :: string
  ck_note :: string
  ck_search_hints :: attrs
  ck_targets :: "string list"
  ck_automation_status :: string

text \<open>\<open>has_adapter\<close>: whether the clerk scraper knows the county.  No platform adapter is registered.\<close>

definition references ::
  "(string \<Rightarrow> bool) \<Rightarrow> registry \<Rightarrow> string \<Rightarrow> string \<Rightarrow> string \<Rightarrow> attrs \<Rightarrow> clerk_ref" where
  "references has_adapter r county_fips state_abbr county_name parcel_hints =
     (let reg = lookup_or_empty r county_fips;
          platform = entry_get reg ''clerk_platform'' ''unknown'';
          clerk_url = or_str (entry_str reg ''clerk_url'')
                        (or_str (link_of (rg_state_deed r) state_abbr) (netronline state_abbr county_name));
          plat_url = or_str (entry_str reg ''plat_url'')
                       (or_str (link_of (rg_state_plat r) state_abbr) clerk_url)
      in \<lparr>ck_county = county_name, ck_platform = platform,
          ck_platform_label = (case map_of PLATFORM_LABEL platform of None \<Rightarrow> platform | Some l \<Rightarrow> l),
          ck_official_records_search = clerk_url, ck_plat_search = plat_url,
          ck_appraiser_url = entry_str reg ''appraiser_url'',
          ck_directory_url = netronline state_abbr county_name,
          ck_note = entry_get reg ''clerk_note'' [], ck_search_hints = parcel_hints,
          ck_targets = [''deed'', ''plat''],
          ck_automation_status =
            (if has_adapter county_fips then ''auto-download available (deed + plat)''
             else ''deep-link only (adapter not yet built for this platform)'')\<rparr>)"

definition clerk_summarize :: "clerk_ref \<Rightarrow> string" where
  "clerk_summarize r = ck_platform_label r @ '' - '' @ ck_automation_status r"

end
