(* ===== verification/Situs.thy ===== *)
theory Situs
  imports Registry
begin

text \<open>
  The address side of \<open>services/parcel.py\<close>: the site address of a parcel from its attributes, its lot
  area, and the comparison of two addresses by house number and street name.
\<close>

section \<open>Attributes\<close>

definition norm :: "string \<Rightarrow> string" where
  "norm k = filter (\<lambda>c. c \<notin> set '' -_'') (lower k)"

definition any_in :: "string list \<Rightarrow> string \<Rightarrow> bool" where
  "any_in ts s = list_ex (\<lambda>t. contains t s) ts"

text \<open>\<open>v not in (None, '', ' ', 0, '0')\<close>\<close>

definition usable :: "scalar \<Rightarrow> bool" where
  "usable v = (\<not> in_blanks [[], '' '', ''0''] v \<and> \<not> eq_zero v)"

definition attr :: "attrs \<Rightarrow> string list \<Rightarrow> scalar" where
  "attr attrs keys =
     (case List.find (\<lambda>(k, v). any_in keys (norm k) \<and> usable v) attrs of
        None \<Rightarrow> SNone | Some (_, v) \<Rightarrow> v)"

definition isblank :: "scalar \<Rightarrow> bool" where
  "isblank v = (v = SNone \<or> upper (strip (py_str v)) \<in> {[], ''NULL'', ''NONE'', ''N/A'', ''<NULL>''})"

section \<open>Site address\<close>

definition mail_key :: "string \<Rightarrow> bool" where
  "mail_key kl = (contains ''owner'' kl \<or> contains ''mail'' kl)"

text \<open>One component: the first attribute that qualifies and is not taken yet; its key is taken.\<close>

definition take_part ::
  "string list \<Rightarrow> (string \<Rightarrow> bool) \<Rightarrow> attrs \<Rightarrow> string list \<Rightarrow> string \<times> string list" where
  "take_part excl sel attrs taken =
     (case List.find (\<lambda>(k, v). norm k \<notin> set excl \<and> norm k \<notin> set taken \<and> \<not> mail_key (norm k) \<and>
                               sel (norm k) \<and> \<not> isblank v) attrs of
        None \<Rightarrow> ([], taken)
      | Some (k, v) \<Rightarrow> (strip (py_str v), norm k # taken))"

definition street_key :: "string \<Rightarrow> bool" where
  "street_key kl =
     ((any_in [''streetname'', ''strname'', ''stname'', ''streetnam'', ''locate'', ''location1'',
               ''situsstr'', ''road'', ''addr'', ''street''] kl \<or>
       (contains ''str'' kl \<and> contains ''name'' kl)) \<and>
      \<not> any_in [''type'', ''dir'', ''num'', ''city'', ''zip''] kl)"

definition compose_situs :: "attrs \<Rightarrow> string list \<Rightarrow> string" where
  "compose_situs attrs exclude =
     (let excl = map norm exclude;
          (num0, t1) = take_part excl (any_in
            [''housenumb'', ''houseno'', ''housenum'', ''stnumber'', ''stnum'', ''strnum'', ''addrnum'',
             ''addressnu'', ''situsnum'', ''addno'', ''propnum'', ''propertynum'', ''bldgnum'',
             ''locations'', ''streetnum'']) attrs [];
          num = (if endswith num0 ''.0'' then take (length num0 - 2) num0 else num0);
          (predir, t2) = take_part excl (any_in
            [''predir'', ''prefixdir'', ''streetdir'', ''stdir'', ''direction1'', ''situsdir'']) attrs t1;
          (name, t3) = take_part excl street_key attrs t2;
          (suftype, t4) = take_part excl (any_in
            [''suffixtype'', ''streettype'', ''sttype'', ''posttype'', ''strtype'', ''situstype'',
             ''rdtype'']) attrs t3;
          (sufdir, t5) = take_part excl (any_in [''suffixdir'', ''postdir'', ''direction2'']) attrs t4
      in if num \<noteq> [] \<and> name \<noteq> []
         then join '' '' (filter (\<lambda>p. p \<noteq> []) [num, predir, name, suftype, sufdir])
         else [])"

definition has_street :: "scalar \<Rightarrow> bool" where
  "has_street v = (usable v \<and> list_ex is_alpha (py_str v) \<and> list_ex is_digit (py_str v))"

definition situs_skip :: "string list" where
  "situs_skip =
     [''zip'', ''mail'', ''billing'', ''owner'', ''city'', ''state'', ''pstl'', ''postal'',
      ''taxpayer'', ''type'', ''desc'']"

definition situs_aliases :: "string list" where
  "situs_aliases =
     [''situsaddress'', ''situsaddr'', ''siteaddress'', ''siteaddr'', ''siteadd'',
      ''phyaddr'', ''physaddr'', ''physicala'', ''propaddr'', ''propadd'', ''propertya'',
      ''proploc'', ''locaddr'', ''e911'', ''fulladdr'', ''fuladd'', ''parceladd'',
      ''paradd'', ''boaaddr'', ''location'', ''address'', ''adress'', ''situs'', ''site'']"

definition squeeze :: "string \<Rightarrow> string" where
  "squeeze s = join '' '' (split_ws s)"

text \<open>The two passes over single fields: a complete address first, then the aliases in order.\<close>

definition full_key :: "string \<Rightarrow> bool" where
  "full_key kl = (contains ''addr'' kl \<and> (contains ''full'' kl \<or> contains ''complete'' kl \<or> contains ''situs'' kl))"

definition direct_field :: "string list \<Rightarrow> (string \<Rightarrow> bool) \<Rightarrow> attrs \<Rightarrow> scalar option" where
  "direct_field excl sel attrs =
     map_option snd (List.find (\<lambda>(k, v). norm k \<notin> set excl \<and> sel (norm k) \<and>
                                \<not> any_in situs_skip (norm k) \<and> has_street v) attrs)"

fun first_field :: "string list \<Rightarrow> (string \<Rightarrow> bool) list \<Rightarrow> attrs \<Rightarrow> scalar option" where
  "first_field excl [] attrs = None"
| "first_field excl (s # ss) attrs =
     (case direct_field excl s attrs of Some v \<Rightarrow> Some v | None \<Rightarrow> first_field excl ss attrs)"

definition situs_of :: "string list \<Rightarrow> bool \<Rightarrow> attrs \<Rightarrow> string" where
  "situs_of exclude compose attrs =
     (if compose then compose_situs attrs exclude
      else case first_field (map norm exclude) (full_key # map contains situs_aliases) attrs of
             Some v \<Rightarrow> squeeze (py_str v)
           | None \<Rightarrow> compose_situs attrs exclude)"

text \<open>A county's overrides.\<close>

definition situs_fn :: "entry \<Rightarrow> attrs \<Rightarrow> string" where
  "situs_fn reg = situs_of (entry_list reg ''situs_exclude'') (entry_flag reg ''compose_situs'')"

section \<open>Lot area\<close>

definition land_area_of :: "attrs \<Rightarrow> scalar \<times> scalar" where
  "land_area_of attrs =
     (let sqft = to_float (attr attrs [''lndsqfoot'', ''landsqft'', ''landsquare'', ''sqfoot'']);
          acres = to_float (attr attrs [''gisacres'', ''acres'', ''acreage'']);
          nonzero = (\<lambda>x. case x of None \<Rightarrow> False | Some (m, _) \<Rightarrow> m \<noteq> (0::int));
          out = (\<lambda>x. case x of None \<Rightarrow> SNone | Some (m, e) \<Rightarrow> SFloat m e)
      in if nonzero sqft \<and> \<not> nonzero acres
         then (case the sqft of (m, e) \<Rightarrow> (SFloat m e, SDec (round_div (m * 1000) (10 ^ e * 43560)) 3))
         else if nonzero acres \<and> \<not> nonzero sqft
         then (case the acres of (m, e) \<Rightarrow> (SInt (round_div (m * 43560) (10 ^ e)), SFloat m e))
         else (out sqft, out acres))"

section \<open>Comparing addresses\<close>

definition first_line :: "string \<Rightarrow> string" where
  "first_line addr = strip (hd (split_on (CHR '','') addr))"

definition house :: "string \<Rightarrow> string" where
  "house addr =
     (let a = first_line addr
      in case re_match (Seq (Star space) (Grp 1 (Plus digit))) a of
           Some g \<Rightarrow> group g 1
         | None \<Rightarrow>
             (case re_search (seqs [Grp 1 (Plus digit), Star space, Eos]) a of
                Some g \<Rightarrow> group g 1
              | None \<Rightarrow> []))"

definition SUFFIX :: "string list" where
  "SUFFIX =
     [''AVE'', ''AVENUE'', ''ST'', ''STREET'', ''RD'', ''ROAD'', ''DR'', ''DRIVE'', ''LN'',
      ''LANE'', ''BLVD'', ''BOULEVARD'', ''CT'', ''COURT'', ''CIR'', ''CIRCLE'', ''PL'',
      ''PLACE'', ''WAY'', ''TER'', ''TERRACE'', ''HWY'', ''HIGHWAY'', ''PKWY'',
      ''PARKWAY'', ''TRL'', ''TRAIL'', ''LOOP'', ''RUN'', ''PASS'', ''PT'', ''POINT'',
      ''SQ'', ''SQUARE'', ''PATH'', ''XING'', ''CV'', ''COVE'', ''BND'', ''BEND'', ''ROW'',
      ''WALK'', ''PLZ'', ''PLAZA'']"

definition DIR :: "string list" where
  "DIR =
     [''N'', ''S'', ''E'', ''W'', ''NE'', ''NW'', ''SE'', ''SW'', ''NORTH'', ''SOUTH'',
      ''EAST'', ''WEST'']"

definition street_tokens :: "string \<Rightarrow> string list" where
  "street_tokens addr =
     (let toks = split_ws (first_line addr);
          toks = (if toks \<noteq> [] \<and> re_match (seqs [Plus digit, Maybe (Cls is_alpha), Eos]) (hd toks) \<noteq> None
                  then tl toks else toks);
          toks = (if toks \<noteq> [] \<and> re_match (Seq (Plus digit) Eos) (last toks) \<noteq> None
                  then butlast toks else toks)
      in filter (\<lambda>t. t \<noteq> [] \<and> t \<notin> set SUFFIX \<and> t \<notin> set DIR)
           (map (\<lambda>t. upper (filter is_alnum t)) toks))"

definition addr_match :: "string \<Rightarrow> string \<Rightarrow> bool option" where
  "addr_match search situs =
     (let sh = house search; ch = house situs; st = street_tokens search; ct = street_tokens situs
      in if sh = [] \<or> ch = [] then None
         else if sh \<noteq> ch then Some False
         else if st \<noteq> [] \<and> ct \<noteq> [] then Some (list_ex (\<lambda>t. t \<in> set ct) st)
         else Some True)"

end
