(* ===== verification/SitusProps.thy ===== *)
theory SitusProps
  imports Situs
begin

text \<open>
  What the address comparison computes: the regular expressions of the house-number extraction agree
  with a direct definition on the characters, a positive match means the same house number and a
  shared street name, and the comparison does not depend on the order of its arguments.
\<close>

section \<open>The house-number patterns\<close>

lemma star_cls_set:
  "t \<in> set (star_iter n (matches (Cls p)) (b, r, g)) \<Longrightarrow>
     \<exists>w. r = w @ fst (snd t) \<and> list_all p w \<and> snd (snd t) = g"
proof (induction n arbitrary: b r)
  case (Suc n)
  show ?case
  proof (cases r)
    case (Cons c cs)
    with Suc.prems consider "t = (b, r, g)"
      | "p c" "t \<in> set (star_iter n (matches (Cls p)) (Some c, cs, g))"
      by (auto simp del: matches.simps(2) split: if_splits)
    then show ?thesis
    proof cases
      case 2
      with Suc.IH [of "Some c" cs] obtain w where "cs = w @ fst (snd t)" "list_all p w" "snd (snd t) = g"
        by blast
      with 2 Cons show ?thesis by (intro exI [of _ "c # w"]) simp
    qed simp
  qed (use Suc.prems in auto)
qed simp

lemma plus_cls_set:
  assumes "t \<in> set (matches (Plus (Cls p)) (b, r, g))"
  shows "\<exists>w. r = w @ fst (snd t) \<and> w \<noteq> [] \<and> list_all p w"
proof (cases r)
  case (Cons c cs)
  with assms have "p c" "t \<in> set (star_iter (length cs) (matches (Cls p)) (Some c, cs, g))"
    by (auto simp: Plus_def simp del: matches.simps(2) split: if_splits)
  with star_cls_set obtain w where "cs = w @ fst (snd t)" "list_all p w" by blast
  with \<open>p c\<close> Cons show ?thesis by (intro exI [of _ "c # w"]) simp
qed (use assms in \<open>simp add: Plus_def\<close>)

lemma star_cls_stop:
  "r = [] \<or> \<not> p (hd r) \<Longrightarrow> matches (Star (Cls p)) (b, r, g) = [(b, r, g)]"
  by (cases r) auto

lemma nl_space [simp]: "is_space (char_of (10::nat))"
  by code_simp

definition trail_pat :: re where
  "trail_pat = seqs [Grp 1 (Plus digit), Star space, Eos]"

text \<open>On a text that does not end in white space the trailing pattern matches exactly the digit runs
  that reach the end.\<close>

lemma trail_matches:
  assumes "s = [] \<or> \<not> is_space (last s)"
  shows "if s \<noteq> [] \<and> list_all is_digit s
         then \<exists>b' ms. matches trail_pat (b, s, []) = (b', [], [(1, s)]) # ms
         else matches trail_pat (b, s, []) = []"
proof (cases "s \<noteq> [] \<and> list_all is_digit s")
  case True
  then have "dropWhile is_digit s = []" by (simp add: list_all_iff)
  moreover obtain b' ms where "matches (Plus digit) (b, s, []) = (b', dropWhile is_digit s, []) # ms"
    using True plus_cls_hd [of s is_digit b "[]"] by (cases s) auto
  ultimately have m: "matches (Plus digit) (b, s, []) = (b', [], []) # ms" by simp
  show ?thesis using True by (simp add: trail_pat_def m)
next
  case False
  have "t \<notin> set (matches trail_pat (b, s, []))" for t
  proof
    assume "t \<in> set (matches trail_pat (b, s, []))"
    then obtain u v where u: "u \<in> set (matches (Grp 1 (Plus digit)) (b, s, []))"
      and v: "v \<in> set (matches (Star space) u)" and t: "t \<in> set (matches Eos v)"
      unfolding trail_pat_def seqs.simps in_matches_Seq by blast
    from u obtain u' where "u' \<in> set (matches (Plus digit) (b, s, []))" "fst (snd u) = fst (snd u')"
      by auto
    with plus_cls_set obtain w where w: "s = w @ fst (snd u)" "w \<noteq> []" "list_all is_digit w"
      by metis
    from v star_cls_set [of v _ is_space "fst u" "fst (snd u)" "snd (snd u)"]
    obtain x where x: "fst (snd u) = x @ fst (snd v)" "list_all is_space x" by auto
    have y: "fst (snd v) = [] \<or> fst (snd v) = [char_of (10::nat)]"
      using t by (auto split: prod.splits if_splits)
    have "fst (snd u) = []"
    proof (rule ccontr)
      assume ne: "fst (snd u) \<noteq> []"
      then have "is_space (last (fst (snd u)))"
        using x y by (cases "fst (snd v) = []") (auto simp: list_all_iff)
      with ne w assms show False by auto
    qed
    with w False show False by auto
  qed
  then have "matches trail_pat (b, s, []) = []" by (meson list.set_sel(1))
  with False show ?thesis by simp
qed

definition digit_suffix :: "string \<Rightarrow> string" where
  "digit_suffix s = rev (takeWhile is_digit (rev s))"

lemma takeWhile_snoc: "takeWhile P (xs @ [x]) = (if list_all P (xs @ [x]) then xs @ [x] else takeWhile P xs)"
  by (induction xs) auto

lemma digit_suffix_Cons:
  "digit_suffix (c # cs) = (if list_all is_digit (c # cs) then c # cs else digit_suffix cs)"
  by (auto simp: digit_suffix_def takeWhile_snoc list_all_iff)

lemma search_trail:
  "s = [] \<or> \<not> is_space (last s) \<Longrightarrow>
     (case search_from trail_pat b pre s of None \<Rightarrow> [] | Some (_, _, _, g) \<Rightarrow> group g 1) = digit_suffix s"
proof (induction s arbitrary: b pre)
  case Nil
  then show ?case using trail_matches [of "[]" b] by (simp add: digit_suffix_def)
next
  case (Cons c cs)
  have cs: "cs = [] \<or> \<not> is_space (last cs)" using Cons.prems by auto
  show ?case
  proof (cases "list_all is_digit (c # cs)")
    case True
    then obtain b' ms where "matches trail_pat (b, c # cs, []) = (b', [], [(1, c # cs)]) # ms"
      using trail_matches [OF Cons.prems, of b] by auto
    with True show ?thesis by (simp add: digit_suffix_Cons group_def)
  next
    case False
    then have "matches trail_pat (b, c # cs, []) = []"
      using trail_matches [OF Cons.prems, of b] by simp
    with False Cons.IH [OF cs, of "Some c" "c # pre"] show ?thesis
      by (auto simp: digit_suffix_Cons)
  qed
qed

lemma strip_no_hd: "strip s \<noteq> [] \<Longrightarrow> \<not> is_space (hd (strip s))"
  unfolding strip_def by (rule strip_if_no_hd)

lemma strip_no_last: "strip s \<noteq> [] \<Longrightarrow> \<not> is_space (last (strip s))"
  unfolding strip_def strip_if_def by (rule rstrip_if_no_last)

text \<open>The house number without regular expressions: the leading digits of the first line, else the
  trailing ones.\<close>

definition house_ref :: "string \<Rightarrow> string" where
  "house_ref addr =
     (let a = first_line addr
      in if a \<noteq> [] \<and> is_digit (hd a) then takeWhile is_digit a else digit_suffix a)"

text \<open>
  C20: The house number taken with the two regular expressions (leading digits, else trailing digits)
  is what the direct definition on the characters gives, on every address.
\<close>

theorem house_eq_ref: "house addr = house_ref addr"
proof -
  define a where "a = first_line addr"
  have hd: "a = [] \<or> \<not> is_space (hd a)" and last: "a = [] \<or> \<not> is_space (last a)"
    using strip_no_hd strip_no_last unfolding a_def first_line_def by blast+
  have m: "re_match (Seq (Star space) (Grp 1 (Plus digit))) a = re_match (Grp 1 (Plus digit)) a"
    using star_cls_stop [where r = a and p = is_space and b = None and g = "[]", OF hd] by (simp add: re_match_def)
  have s: "(case re_search trail_pat a of Some g \<Rightarrow> group g 1 | None \<Rightarrow> []) = digit_suffix a"
    using search_trail [OF last, of None "[]"] unfolding re_search_def
    by (auto split: option.splits)
  show ?thesis
    using s unfolding house_def house_ref_def Let_def a_def [symmetric] m match_leading_run
      trail_pat_def [symmetric]
    by (auto simp: group_def)
qed

lemma house_digits: "list_all is_digit (house addr)"
  unfolding house_eq_ref house_ref_def Let_def digit_suffix_def
  by (auto simp: list_all_iff dest: set_takeWhileD)

section \<open>Matching\<close>

text \<open>
  Two addresses are reported to match only when both carry the same, nonempty house number made
  of digits, and when both have street-name words (suffixes and directions dropped) they share one;
  they are reported different only when the house numbers differ or no word is shared; nothing is
  concluded when one has no house number.  The order of the two addresses does not matter.
\<close>

theorem addr_match_spec:
  "(addr_match a b = Some True \<longleftrightarrow>
      house a \<noteq> [] \<and> list_all is_digit (house a) \<and> house a = house b \<and>
      (street_tokens a = [] \<or> street_tokens b = [] \<or>
       list_ex (\<lambda>t. t \<in> set (street_tokens b)) (street_tokens a))) \<and>
   (addr_match a b = None \<longleftrightarrow> house a = [] \<or> house b = []) \<and>
   addr_match a b = addr_match b a"
  using house_digits [of a]
  by (auto simp: addr_match_def Let_def list_ex_iff)

end
