(* ===== verification/Parcel.thy ===== *)
theory Parcel
  imports Situs
begin

text \<open>
  The resolution half of \<open>services/parcel.py\<close>: the fields asked for, the widening search for candidate
  parcels at a point, the choice among them, the join with related tables, and the search by parcel
  ID.  The ArcGIS services are an argument, typed by what the code reads of a response; a request
  fails (\<open>Inl\<close>) or answers.
\<close>

section \<open>Services\<close>

record layer_field =
  lf_name :: string
  lf_type :: string

record layer_meta =
  lm_name :: "string option"
  lm_fields :: "layer_field list"
  lm_layers :: "(int \<times> string) list"

datatype geometry =
    G_point scalar scalar
  | G_centroid scalar scalar
  | G_rings "(scalar \<times> scalar) list list"

record feature =
  ft_attributes :: attrs
  ft_geometry :: "geometry option"

text \<open>
  \<open>arc_point url fields lat lon d\<close> intersects a layer with a point (\<open>d = 0\<close>) or the box of \<open>d\<close> metres
  around it; \<open>arc_where url fields w\<close> and \<open>arc_table url w\<close> query by a predicate.
\<close>

record arc =
  arc_meta :: "string \<Rightarrow> string + layer_meta"
  arc_point :: "string \<Rightarrow> string \<Rightarrow> scalar \<Rightarrow> scalar \<Rightarrow> nat \<Rightarrow> string + attrs list"
  arc_where :: "string \<Rightarrow> string \<Rightarrow> string \<Rightarrow> string + feature list"
  arc_table :: "string \<Rightarrow> string \<Rightarrow> string + attrs list"

section \<open>The fields asked for\<close>

definition KEEP_FIELDS :: "string list" where
  "KEEP_FIELDS =
     [''addr'', ''adress'', ''situs'', ''site'', ''location'', ''loc'', ''phy'', ''prop'',
      ''e911'', ''full'', ''street'', ''owner'', ''name'', ''parcel'', ''pin'', ''apn'',
      ''folio'', ''strap'', ''acct'', ''account'', ''assess'', ''prono'', ''legal'',
      ''book'', ''page'', ''plat'', ''instr'', ''deed'', ''subdiv'', ''lot'', ''block'',
      ''acre'', ''sqf'', ''geoid'', ''upc'', ''tms'', ''gpin'', ''gpn'', ''span'',
      ''altkey'', ''locator'', ''taxlot'', ''maptax'', ''ppin'', ''sbl'', ''id'', ''num'',
      ''hous'', ''taxpayer'', ''tmk'', ''link'', ''par_ad'', ''road'', ''dir'', ''type'']"

definition FIELD_PRIORITY :: "string list" where
  "FIELD_PRIORITY =
     [''situs'', ''site'', ''adress'', ''addr'', ''par_ad'', ''location'', ''e911'',
      ''phy'', ''prop'', ''full'', ''street'', ''road'', ''hous'', ''num'', ''dir'',
      ''type'', ''owner'', ''taxpayer'', ''name'', ''parcel'', ''pin'', ''apn'', ''folio'',
      ''strap'', ''acct'', ''account'', ''prono'', ''locator'', ''geoid'', ''gpin'',
      ''tmk'', ''span'', ''altkey'', ''legal'', ''book'', ''page'', ''plat'', ''instr'',
      ''deed'', ''subdiv'', ''lot'', ''block'', ''acre'', ''sqf'', ''assess'', ''link'']"

text \<open>The index of the first token contained, the number of tokens when there is none.\<close>

fun token_rank :: "string list \<Rightarrow> string \<Rightarrow> nat" where
  "token_rank [] s = 0"
| "token_rank (t # ts) s = (if contains t s then 0 else Suc (token_rank ts s))"

definition field_rank :: "string \<Rightarrow> nat" where
  "field_rank name = token_rank FIELD_PRIORITY (lower name)"

definition out_fields :: "arc \<Rightarrow> string \<Rightarrow> string" where
  "out_fields arc layer_url =
     (case arc_meta arc layer_url of
        Inl _ \<Rightarrow> ''*''
      | Inr meta \<Rightarrow>
          let names = map lf_name (filter (\<lambda>f. lf_type f \<noteq> ''esriFieldTypeGeometry'' \<and>
                        lower (lf_name f) \<notin> {''shape'', ''geometry''} \<and>
                        \<not> startswith (lower (lf_name f)) ''shape'' \<and>
                        \<not> contains ''(shape)'' (lower (lf_name f))) (lm_fields meta));
              kept = sort_key field_rank (filter (\<lambda>n. any_in KEEP_FIELDS (lower n)) names)
          in if names = [] then ''*''
             else if kept \<noteq> [] then join '','' (take 40 kept) else ''*'')"

section \<open>Candidates\<close>

text \<open>\<open>s.rsplit(sep, 1)[0]\<close>\<close>

definition rsplit_head :: "string \<Rightarrow> string \<Rightarrow> string" where
  "rsplit_head sep s =
     (case List.find (\<lambda>i. startswith (drop i s) sep) (rev [0..<Suc (length s)]) of
        None \<Rightarrow> s | Some i \<Rightarrow> take i s)"

definition point_query :: "arc \<Rightarrow> string \<Rightarrow> scalar \<Rightarrow> scalar \<Rightarrow> nat \<Rightarrow> string + attrs list" where
  "point_query arc url lat lon distance =
     res_bind (arc_point arc url (out_fields arc (rsplit_head ''/query'' url)) lat lon distance)
       (\<lambda>feats. Inr (take 400 feats))"

definition has_match :: "string \<Rightarrow> (attrs \<Rightarrow> string) \<Rightarrow> attrs list \<Rightarrow> bool" where
  "has_match address sfn feats =
     (address \<noteq> [] \<and> list_ex (\<lambda>c. addr_match address (sfn c) = Some True) feats)"

fun widen ::
  "arc \<Rightarrow> string \<Rightarrow> scalar \<Rightarrow> scalar \<Rightarrow> string \<Rightarrow> (attrs \<Rightarrow> string) \<Rightarrow> nat list \<Rightarrow> attrs list \<Rightarrow>
     string + attrs list \<times> bool" where
  "widen arc url lat lon address sfn [] widest = Inr (widest, widest \<noteq> [])"
| "widen arc url lat lon address sfn (d # ds) widest =
     res_bind (point_query arc url lat lon d) (\<lambda>feats.
       if feats \<noteq> [] \<and> has_match address sfn feats then Inr (feats, True)
       else widen arc url lat lon address sfn ds (if feats \<noteq> [] then feats else widest))"

definition candidates ::
  "arc \<Rightarrow> string \<Rightarrow> scalar \<Rightarrow> scalar \<Rightarrow> string \<Rightarrow> (attrs \<Rightarrow> string) \<Rightarrow> string + attrs list \<times> bool" where
  "candidates arc url lat lon address sfn =
     res_bind (point_query arc url lat lon 0) (\<lambda>direct.
       if direct \<noteq> [] \<and> (address = [] \<or> has_match address sfn direct) then Inr (direct, False)
       else widen arc url lat lon address sfn [75, 150, 300] direct)"

text \<open>The parcel layer of a map service.\<close>

definition layer_pat :: re where
  "layer_pat = seqs [Lit ''/'', Plus digit, Maybe (Lit ''/''), Eos]"

definition arcgis_layer_url :: "arc \<Rightarrow> string \<Rightarrow> string \<Rightarrow> string + (string \<times> string option) option" where
  "arcgis_layer_url arc service layer_hint =
     (if re_search layer_pat service \<noteq> None then
        let svc = rstrip_if (\<lambda>c. c = CHR ''/'') service;
            name = (case arc_meta arc svc of Inl _ \<Rightarrow> None | Inr m \<Rightarrow> lm_name m)
        in Inr (Some (svc @ ''/query'', name))
      else
        res_bind (arc_meta arc service) (\<lambda>meta.
          case filter (\<lambda>(_, name). contains layer_hint (lower name) \<or> contains ''parcel'' (lower name) \<or>
                                   contains ''property'' (lower name)) (lm_layers meta) of
            [] \<Rightarrow> Inr None
          | (i, name) # _ \<Rightarrow> Inr (Some (service @ ''/'' @ show_int i @ ''/query'', Some name))))"

section \<open>Choosing a parcel\<close>

text \<open>On a nonempty list: the first positive match, else the first with the same house number, else
  the first with a site address, else the first.\<close>

definition choose_parcel :: "attrs list \<Rightarrow> string \<Rightarrow> (attrs \<Rightarrow> string) \<Rightarrow> attrs \<times> bool" where
  "choose_parcel cands address sfn =
     (case List.find (\<lambda>c. addr_match address (sfn c) = Some True) cands of
        Some c \<Rightarrow> (c, True)
      | None \<Rightarrow>
          (case (if house address \<noteq> [] then List.find (\<lambda>c. house (sfn c) = house address) cands else None) of
             Some c \<Rightarrow> (c, False)
           | None \<Rightarrow>
               (case List.find (\<lambda>c. sfn c \<noteq> []) cands of
                  Some c \<Rightarrow> (c, False)
                | None \<Rightarrow> (hd cands, False))))"

definition extract_hints :: "attrs list \<Rightarrow> attrs" where
  "extract_hints parcels =
     foldl (\<lambda>hints (k, v).
       if in_blanks [[]] v \<or> eq_zero v then hints
       else if any_in [''book'', ''page'', ''plat'', ''instrument'', ''legal'', ''subdiv'', ''owner'',
                       ''taxpayer'', ''deed'', ''folio'', ''parcel''] (lower k)
       then dict_setdefault k v hints else hints) [] (concat parcels)"

text \<open>The result dictionary; \<open>None\<close> for a key that is not set (or holds \<open>None\<close>).\<close>

record parcel_info =
  pa_county_fips :: string
  pa_method :: string
  pa_source :: "string option"
  pa_layer_name :: "string option"
  pa_parcels :: "attrs list"
  pa_candidate_count :: nat
  pa_situs :: string
  pa_land_sqft :: scalar
  pa_land_acres :: scalar
  pa_buffered_match :: bool
  pa_address_match :: "bool option"
  pa_hints :: attrs
  pa_source_label :: "string option"
  pa_arcgis_error :: "string option"
  pa_statewide_error :: "string option"
  pa_appraiser_url :: "string option"
  pa_directory_url :: "string option"
  pa_note :: "string option"
  pa_error :: "string option"
  pa_parcel_id :: string

definition no_parcel :: parcel_info where
  "no_parcel =
     \<lparr>pa_county_fips = [], pa_method = [], pa_source = None, pa_layer_name = None, pa_parcels = [],
      pa_candidate_count = 0, pa_situs = [], pa_land_sqft = SNone, pa_land_acres = SNone,
      pa_buffered_match = False, pa_address_match = None, pa_hints = [], pa_source_label = None,
      pa_arcgis_error = None, pa_statewide_error = None, pa_appraiser_url = None,
      pa_directory_url = None, pa_note = None, pa_error = None, pa_parcel_id = []\<rparr>"

definition finish ::
  "parcel_info \<Rightarrow> attrs \<Rightarrow> attrs list \<Rightarrow> bool \<Rightarrow> bool \<Rightarrow> string \<Rightarrow> string \<Rightarrow> string option \<Rightarrow>
     (attrs \<Rightarrow> string) \<Rightarrow> parcel_info" where
  "finish result chosen cands buffered matched address src layer_name sfn =
     (let situs = sfn chosen; (sqft, acres) = land_area_of chosen
      in result\<lparr>pa_method := ''arcgis-rest'', pa_source := Some src, pa_layer_name := layer_name,
                pa_parcels := [chosen], pa_candidate_count := length cands, pa_situs := situs,
                pa_land_sqft := sqft, pa_land_acres := acres,
                pa_buffered_match := buffered \<and> \<not> matched,
                pa_address_match := addr_match address situs,
                pa_hints := extract_hints [chosen]\<rparr>)"

section \<open>Related tables\<close>

definition blank_attr :: "attrs \<Rightarrow> string \<Rightarrow> bool" where
  "blank_attr attrs k = (case map_of attrs k of None \<Rightarrow> True | Some v \<Rightarrow> in_blanks [[], '' ''] v)"

text \<open>Only fields the parcel does not have are filled.\<close>

definition fill_blanks :: "attrs \<Rightarrow> attrs \<Rightarrow> attrs" where
  "fill_blanks attrs extra = foldl (\<lambda>a (k, v). if blank_attr a k then dict_put k v a else a) attrs extra"

definition sql_quote :: "string \<Rightarrow> string" where
  "sql_quote v = replace_char (CHR 0x27) [CHR 0x27, CHR 0x27] v"

definition quoted :: "string \<Rightarrow> string" where
  "quoted v = [CHR 0x27] @ v @ [CHR 0x27]"

definition enrich_one :: "arc \<Rightarrow> attrs \<Rightarrow> related_cfg \<Rightarrow> attrs" where
  "enrich_one arc attrs cfg =
     (let key = opt_or (rl_key cfg) []; url = opt_or (rl_url cfg) [];
          val = (if key = [] then SNone else case map_of attrs key of None \<Rightarrow> SNone | Some v \<Rightarrow> v)
      in if url = [] \<or> in_blanks [[], '' ''] val then attrs
         else
           let where_field = (case rl_where cfg of None \<Rightarrow> key | Some w \<Rightarrow> w);
               v = sql_quote (strip (py_str val));
               w = where_field @ ''='' @ (if rl_quote cfg \<noteq> Some False then quoted v else v)
           in case arc_table arc (url @ ''/query'') w of
                Inr (f # _) \<Rightarrow> fill_blanks attrs f
              | _ \<Rightarrow> attrs)"

definition enrich_related :: "arc \<Rightarrow> attrs \<Rightarrow> related_cfg list \<Rightarrow> attrs" where
  "enrich_related arc attrs cfgs = foldl (enrich_one arc) attrs cfgs"

section \<open>Resolution at a point\<close>

text \<open>One layer: nothing there, or the finished result.\<close>

definition try_layer ::
  "arc \<Rightarrow> string \<Rightarrow> string \<Rightarrow> string option \<Rightarrow> related_cfg list \<Rightarrow> scalar \<Rightarrow> scalar \<Rightarrow> string \<Rightarrow>
     (attrs \<Rightarrow> string) \<Rightarrow> parcel_info \<Rightarrow> string + parcel_info option" where
  "try_layer arc url src layer_name related lat lon address sfn result =
     res_bind (candidates arc url lat lon address sfn) (\<lambda>(cands, buffered).
       if cands = [] then Inr None
       else
         let (chosen0, matched0) = choose_parcel cands address sfn;
             (chosen, matched) =
               (if related \<noteq> []
                then let c = enrich_related arc chosen0 related
                     in (c, addr_match address (sfn c) = Some True)
                else (chosen0, matched0))
         in Inr (Some (finish result chosen cands buffered matched address src layer_name sfn)))"

text \<open>The county's layers in turn; an error is noted and the next layer tried.  \<open>Inl\<close> is the result so
  far when no layer had a parcel.\<close>

fun county_layers ::
  "arc \<Rightarrow> entry \<Rightarrow> scalar \<Rightarrow> scalar \<Rightarrow> string \<Rightarrow> string list \<Rightarrow> parcel_info \<Rightarrow> parcel_info + parcel_info" where
  "county_layers arc reg lat lon address [] result = Inl result"
| "county_layers arc reg lat lon address (one # rest) result =
     (case res_bind (arcgis_layer_url arc one (entry_get reg ''parcel_layer_hint'' ''parcel''))
             (\<lambda>found. case found of
                None \<Rightarrow> Inr None
              | Some (url, layer_name) \<Rightarrow>
                  try_layer arc url (rsplit_head ''/query'' url) layer_name (entry_related reg) lat lon
                    address (situs_fn reg) result) of
        Inr (Some p) \<Rightarrow> Inr p
      | Inr None \<Rightarrow> county_layers arc reg lat lon address rest result
      | Inl e \<Rightarrow> county_layers arc reg lat lon address rest (result\<lparr>pa_arcgis_error := Some e\<rparr>))"

fun state_layers ::
  "arc \<Rightarrow> state_service \<Rightarrow> scalar \<Rightarrow> scalar \<Rightarrow> string \<Rightarrow> string list \<Rightarrow> parcel_info \<Rightarrow> parcel_info + parcel_info" where
  "state_layers arc svc lat lon address [] result = Inl result"
| "state_layers arc svc lat lon address (u # rest) result =
     (case try_layer arc (u @ ''/query'') u None (ss_related svc) lat lon address (situs_of [] False)
             (result\<lparr>pa_source_label := Some (ss_label svc)\<rparr>) of
        Inr (Some p) \<Rightarrow> Inr p
      | Inr None \<Rightarrow> state_layers arc svc lat lon address rest result
      | Inl e \<Rightarrow> state_layers arc svc lat lon address rest (result\<lparr>pa_statewide_error := Some e\<rparr>))"

definition resolve ::
  "arc \<Rightarrow> registry \<Rightarrow> string \<Rightarrow> string \<Rightarrow> string \<Rightarrow> scalar \<Rightarrow> scalar \<Rightarrow> string \<Rightarrow> parcel_info" where
  "resolve arc r county_fips state_abbr county_name lat lon address =
     (let reg = lookup_or_empty r county_fips;
          start = no_parcel\<lparr>pa_county_fips := county_fips\<rparr>
      in case county_layers arc reg lat lon address (entry_list reg ''gis_rest'') start of
           Inr p \<Rightarrow> p
         | Inl r1 \<Rightarrow>
             (case (case map_of (rg_state_parcel r) state_abbr of
                      None \<Rightarrow> Inl r1
                    | Some svc \<Rightarrow> state_layers arc svc lat lon address (ss_url svc) r1) of
                Inr p \<Rightarrow> p
              | Inl r2 \<Rightarrow>
                  r2\<lparr>pa_method := ''directory'',
                     pa_appraiser_url := (if entry_str reg ''appraiser_url'' = [] then None
                                          else Some (entry_str reg ''appraiser_url'')),
                     pa_directory_url := Some (netronline state_abbr county_name),
                     pa_note := Some (''No verified parcel API for this county yet '' @ emdash @
                       '' open the appraiser/directory link, or add an ArcGIS REST endpoint to the registry.'')\<rparr>))"

text \<open>What the caller trusts (\<open>engine/orchestration/context.py\<close>).\<close>

definition parcel_trusted :: "parcel_info \<Rightarrow> bool" where
  "parcel_trusted p =
     (pa_parcels p \<noteq> [] \<and> pa_address_match p \<noteq> Some False \<and> \<not> pa_buffered_match p)"

section \<open>Search by parcel ID\<close>

definition ID_CANDIDATES :: "string list" where
  "ID_CANDIDATES =
     [''parcelid'', ''propid'', ''apn'', ''folio'', ''pin'', ''strap'', ''parno'',
      ''parcelnumb'', ''parcelnum'', ''parcelno'', ''geoid'', ''altkey'', ''span'',
      ''acct'', ''parcel'', ''propertyid'']"

definition id_fields :: "arc \<Rightarrow> string \<Rightarrow> string list \<Rightarrow> string list" where
  "id_fields arc layer_url override =
     (if override \<noteq> [] then override
      else case arc_meta arc layer_url of
             Inl _ \<Rightarrow> []
           | Inr meta \<Rightarrow> sort_key (\<lambda>n. token_rank ID_CANDIDATES (norm n))
                           (filter (\<lambda>n. any_in ID_CANDIDATES (norm n)) (map lf_name (lm_fields meta))))"

text \<open>The mean of coordinates, to 15 fraction digits.\<close>

definition dec_mean :: "scalar list \<Rightarrow> scalar" where
  "dec_mean xs =
     (let ds = map (\<lambda>x. case to_float x of Some d \<Rightarrow> d | None \<Rightarrow> (0, 0)) xs;
          e = foldl max 0 (map snd ds);
          total = foldl (\<lambda>s (m, k). s + m * 10 ^ (e - k)) 0 ds
      in SDec (round_div (total * 10 ^ 15) (10 ^ e * int (length xs))) 15)"

definition centroid :: "geometry option \<Rightarrow> (scalar \<times> scalar) option" where
  "centroid g =
     (case g of
        None \<Rightarrow> None
      | Some (G_point x y) \<Rightarrow> Some (y, x)
      | Some (G_centroid x y) \<Rightarrow> Some (y, x)
      | Some (G_rings rings) \<Rightarrow>
          (case rings of
             [] \<Rightarrow> None
           | pts # _ \<Rightarrow> if pts = [] then None else Some (dec_mean (map snd pts), dec_mean (map fst pts))))"

definition id_variants :: "string \<Rightarrow> string list" where
  "id_variants parcel_id =
     (if list_ex (\<lambda>c. c = CHR ''-'' \<or> is_space c) parcel_id
      then [parcel_id, filter (\<lambda>c. \<not> (c = CHR ''-'' \<or> is_space c)) parcel_id] else [parcel_id])"

definition id_wheres :: "string \<Rightarrow> string \<Rightarrow> string list" where
  "id_wheres f val =
     (f @ ''='' @ quoted (sql_quote val)) #
     (if val \<noteq> [] \<and> list_all is_digit val then [f @ ''='' @ val] else [])"

fun first_feature :: "arc \<Rightarrow> string \<Rightarrow> string list \<Rightarrow> feature option" where
  "first_feature arc layer_url [] = None"
| "first_feature arc layer_url (w # ws) =
     (case arc_where arc (layer_url @ ''/query'') (out_fields arc layer_url) w of
        Inr (f # _) \<Rightarrow> Some f
      | _ \<Rightarrow> first_feature arc layer_url ws)"

definition query_by_id :: "arc \<Rightarrow> string \<Rightarrow> string \<Rightarrow> string list \<Rightarrow> feature option" where
  "query_by_id arc layer_url parcel_id override =
     first_feature arc layer_url
       (concat (map (\<lambda>f. concat (map (id_wheres f) (id_variants parcel_id)))
          (id_fields arc layer_url override)))"

record id_service =
  is_url :: string
  is_label :: string
  is_override :: "string list"
  is_situs :: "attrs \<Rightarrow> string"
  is_related :: "related_cfg list"

definition county_id_services :: "arc \<Rightarrow> entry \<Rightarrow> id_service list" where
  "county_id_services arc reg =
     concat (map (\<lambda>one.
       case arcgis_layer_url arc one (entry_get reg ''parcel_layer_hint'' ''parcel'') of
         Inr (Some (u, name)) \<Rightarrow>
           [\<lparr>is_url = rsplit_head ''/query'' u, is_label = opt_or name (entry_get reg ''county'' []),
             is_override = entry_list reg ''id_fields'', is_situs = situs_fn reg,
             is_related = entry_related reg\<rparr>]
       | _ \<Rightarrow> []) (entry_list reg ''gis_rest''))"

definition state_id_services :: "state_service option \<Rightarrow> id_service list" where
  "state_id_services svc =
     (case svc of
        None \<Rightarrow> []
      | Some s \<Rightarrow> map (\<lambda>u. \<lparr>is_url = u, is_label = ss_label s, is_override = ss_id_fields s,
                            is_situs = situs_of [] False, is_related = ss_related s\<rparr>) (ss_url s))"

record by_id =
  bi_parcel :: parcel_info
  bi_latlon :: "(scalar \<times> scalar) option"

fun resolve_services :: "arc \<Rightarrow> string \<Rightarrow> id_service list \<Rightarrow> by_id option" where
  "resolve_services arc pid [] = None"
| "resolve_services arc pid (s # rest) =
     (case query_by_id arc (is_url s) pid (is_override s) of
        None \<Rightarrow> resolve_services arc pid rest
      | Some feat \<Rightarrow>
          let attrs = (if is_related s \<noteq> [] then enrich_related arc (ft_attributes feat) (is_related s)
                       else ft_attributes feat);
              (sqft, acres) = land_area_of attrs
          in Some \<lparr>bi_parcel = no_parcel\<lparr>pa_method := ''arcgis-rest'', pa_source := Some (is_url s),
                     pa_layer_name := Some (is_label s), pa_parcels := [attrs],
                     pa_candidate_count := 1, pa_situs := is_situs s attrs, pa_land_sqft := sqft,
                     pa_land_acres := acres, pa_buffered_match := False,
                     pa_address_match := Some True, pa_hints := extract_hints [attrs],
                     pa_source_label := Some (is_label s)\<rparr>,
                   bi_latlon = centroid (ft_geometry feat)\<rparr>)"

definition resolve_by_id :: "arc \<Rightarrow> registry \<Rightarrow> string \<Rightarrow> string \<Rightarrow> string \<Rightarrow> by_id option" where
  "resolve_by_id arc r state_abbr parcel_id county_fips =
     (let pid = strip parcel_id
      in if pid = [] then None
         else resolve_services arc pid
                (county_id_services arc (if county_fips = [] then [] else lookup_or_empty r county_fips) @
                 state_id_services (map_of (rg_state_parcel r) state_abbr)))"

definition parcel_summarize :: "parcel_info \<Rightarrow> string" where
  "parcel_summarize p =
     (if pa_method p = ''arcgis-rest''
      then ''parcel record via '' @ opt_or (pa_layer_name p) ''ArcGIS''
      else ''No parcel API - directory link provided'')"

end
