(* ===== verification/ParcelProps.thy ===== *)
theory ParcelProps
  imports Parcel SitusProps
begin

text \<open>
  What the parcel resolution guarantees: the widening search stops at the first radius with a match,
  and a parcel the caller trusts carries the searched house number and street.
\<close>

section \<open>The candidate search\<close>

lemma widen_cases:
  assumes "widen arc url lat lon address sfn ds widest = Inr (cands, b)"
  shows "b = (cands \<noteq> []) \<and>
    (has_match address sfn cands \<longrightarrow> has_match address sfn widest \<or>
      (\<exists>ds1 d ds2. ds = ds1 @ d # ds2 \<and> point_query arc url lat lon d = Inr cands \<and>
         (\<forall>x \<in> set ds1. \<exists>fs. point_query arc url lat lon x = Inr fs \<and> \<not> has_match address sfn fs)))"
  using assms
proof (induction ds arbitrary: widest)
  case (Cons d ds)
  then obtain feats where q: "point_query arc url lat lon d = Inr feats"
    by (auto simp: res_bind_eq_Inr)
  show ?case
  proof (cases "feats \<noteq> [] \<and> has_match address sfn feats")
    case True
    with Cons.prems q have "cands = feats" "b" by auto
    with True q show ?thesis by (intro conjI impI disjI2 exI [of _ "[]"]) auto
  next
    case False
    define w where "w = (if feats \<noteq> [] then feats else widest)"
    have rec: "widen arc url lat lon address sfn ds w = Inr (cands, b)"
      using Cons.prems q False by (simp add: w_def)
    have nm: "\<not> has_match address sfn feats" using False by (auto simp: has_match_def)
    show ?thesis
    proof (intro conjI impI)
      assume m: "has_match address sfn cands"
      from Cons.IH [OF rec] m consider "has_match address sfn w"
        | ds1 x ds2 where "ds = ds1 @ x # ds2" "point_query arc url lat lon x = Inr cands"
            "\<forall>y \<in> set ds1. \<exists>fs. point_query arc url lat lon y = Inr fs \<and> \<not> has_match address sfn fs"
        by blast
      then show "has_match address sfn widest \<or>
        (\<exists>ds1 x ds2. d # ds = ds1 @ x # ds2 \<and> point_query arc url lat lon x = Inr cands \<and>
         (\<forall>y \<in> set ds1. \<exists>fs. point_query arc url lat lon y = Inr fs \<and> \<not> has_match address sfn fs))"
      proof cases
        case 1
        with nm show ?thesis by (auto simp: w_def split: if_splits)
      next
        case 2
        with q nm show ?thesis by (intro disjI2 exI [of _ "d # ds1"]) auto
      qed
    qed (use Cons.IH [OF rec] in simp)
  qed
qed auto

text \<open>
  When the search for an address ends with candidates that contain a match, either the exact
  point hit contains it and is answered as such, or the candidates are those of one of the boxes of
  75, 150 and 300 metres and neither the exact point nor any smaller box had a match; candidates
  without a match are never answered as an exact hit.
\<close>

theorem candidates_first_radius:
  assumes "candidates arc url lat lon address sfn = Inr (cands, buffered)" "address \<noteq> []"
  shows "(has_match address sfn cands \<and> \<not> buffered \<and> point_query arc url lat lon 0 = Inr cands) \<or>
         (has_match address sfn cands \<and> buffered \<and>
            (\<exists>ds1 d ds2. [75, 150, 300] = ds1 @ d # ds2 \<and> point_query arc url lat lon d = Inr cands \<and>
              (\<forall>x \<in> set (0 # ds1). \<exists>fs. point_query arc url lat lon x = Inr fs \<and> \<not> has_match address sfn fs))) \<or>
         (\<not> has_match address sfn cands \<and> (buffered \<longleftrightarrow> cands \<noteq> []))"
proof -
  from assms(1) obtain direct where q: "point_query arc url lat lon 0 = Inr direct"
    by (auto simp: candidates_def res_bind_eq_Inr)
  show ?thesis
  proof (cases "direct \<noteq> [] \<and> has_match address sfn direct")
    case True
    with assms q show ?thesis by (simp add: candidates_def)
  next
    case False
    then have nm: "\<not> has_match address sfn direct" by (auto simp: has_match_def)
    have w: "widen arc url lat lon address sfn [75, 150, 300] direct = Inr (cands, buffered)"
      using assms q False by (auto simp: candidates_def)
    show ?thesis
    proof (cases "has_match address sfn cands")
      case True
      then have ne: "cands \<noteq> []" by (auto simp: has_match_def)
      from widen_cases [OF w] True nm obtain ds1 d ds2 where
        "[75, 150, 300] = ds1 @ d # ds2" "point_query arc url lat lon d = Inr cands"
        "\<forall>x \<in> set ds1. \<exists>fs. point_query arc url lat lon x = Inr fs \<and> \<not> has_match address sfn fs"
        by blast
      with True ne nm q widen_cases [OF w] show ?thesis by auto
    qed (use widen_cases [OF w] in auto)
  qed
qed

text \<open>A layer with one parcel, 90 m away from the geocoded point.\<close>

definition demo_attrs :: attrs where
  "demo_attrs = [(''FULLADDR'', SStr ''526 OAK ST'')]"

definition neighbor_attrs :: attrs where
  "neighbor_attrs = [(''FULLADDR'', SStr ''530 OAK ST'')]"

definition demo_arc :: arc where
  "demo_arc =
     \<lparr>arc_meta = (\<lambda>_. Inl ''offline''),
      arc_point = (\<lambda>_ _ _ _ d. Inr (if d < 100 then [neighbor_attrs] else [neighbor_attrs, demo_attrs])),
      arc_where = (\<lambda>_ _ _. Inl ''offline''), arc_table = (\<lambda>_ _. Inl ''offline'')\<rparr>"

lemma demo_facts:
  "situs_of [] False demo_attrs = ''526 OAK ST''" "situs_of [] False neighbor_attrs = ''530 OAK ST''"
  "addr_match ''526 Oak'' ''526 OAK ST'' = Some True" "addr_match ''526 Oak'' ''530 OAK ST'' = Some False"
  "house ''526 Oak'' = ''526''"
  by code_simp+

lemma demo_query:
  "point_query demo_arc url lat lon d = Inr (if d < 100 then [neighbor_attrs] else [neighbor_attrs, demo_attrs])"
  by (simp add: point_query_def demo_arc_def)

lemma demo_match: "has_match ''526 Oak'' (situs_of [] False) [neighbor_attrs, demo_attrs]"
  "\<not> has_match ''526 Oak'' (situs_of [] False) [neighbor_attrs]"
  by (simp_all add: has_match_def demo_facts)

lemma demo_candidates:
  "candidates demo_arc url lat lon ''526 Oak'' (situs_of [] False) = Inr ([neighbor_attrs, demo_attrs], True)"
  by (simp add: candidates_def demo_query demo_match)

theorem candidates_first_radius_witness:
  "\<exists>ds1 d ds2. [75, 150, 300] = ds1 @ d # ds2 \<and>
     point_query demo_arc ''http://x/0/query'' SNone SNone d = Inr [neighbor_attrs, demo_attrs]"
  using candidates_first_radius [OF demo_candidates [of "''http://x/0/query''" SNone SNone]] demo_match
  by auto

section \<open>The choice\<close>

lemma choose_match:
  "has_match address sfn cands \<Longrightarrow>
     \<exists>c \<in> set cands. choose_parcel cands address sfn = (c, True) \<and> addr_match address (sfn c) = Some True"
  by (cases "List.find (\<lambda>c. addr_match address (sfn c) = Some True) cands")
    (auto simp: has_match_def choose_parcel_def list_ex_iff find_None_iff dest: find_SomeD)

lemma choose_True:
  "choose_parcel cands address sfn = (c, True) \<Longrightarrow> addr_match address (sfn c) = Some True"
  by (auto simp: choose_parcel_def dest: find_SomeD split: option.splits if_splits)

lemma finish_simps [simp]:
  "pa_parcels (finish result ch cands b m address src ln sfn) = [ch]"
  "pa_situs (finish result ch cands b m address src ln sfn) = sfn ch"
  "pa_buffered_match (finish result ch cands b m address src ln sfn) = (b \<and> \<not> m)"
  "pa_address_match (finish result ch cands b m address src ln sfn) = addr_match address (sfn ch)"
  by (simp_all add: finish_def Let_def split: prod.split)

lemma try_layer_trusted:
  assumes "try_layer arc url src ln [] lat lon address sfn result = Inr (Some p)"
    and "address \<noteq> []" "parcel_trusted p"
  shows "\<exists>c. pa_parcels p = [c] \<and> pa_situs p = sfn c \<and> pa_address_match p = Some True \<and>
             addr_match address (sfn c) = Some True"
proof -
  from assms(1) obtain cands b where c: "candidates arc url lat lon address sfn = Inr (cands, b)"
    "cands \<noteq> []"
    by (auto simp: try_layer_def res_bind_eq_Inr split: if_splits)
  obtain ch m where ch: "choose_parcel cands address sfn = (ch, m)" by fastforce
  have p: "p = finish result ch cands b m address src ln sfn"
    using assms(1) c ch by (simp add: try_layer_def)
  have "m"
  proof (cases "has_match address sfn cands")
    case True
    then show ?thesis using choose_match ch by fastforce
  next
    case False
    then have "b" using candidates_first_radius [OF c(1) assms(2)] c(2) by blast
    with assms(3) show ?thesis
      by (simp add: p parcel_trusted_def)
  qed
  then have "addr_match address (sfn ch) = Some True" using choose_True ch by simp
  then show ?thesis by (simp add: p)
qed

definition confirmed :: "string \<Rightarrow> (attrs \<Rightarrow> string) set \<Rightarrow> parcel_info \<Rightarrow> bool" where
  "confirmed address fs p \<longleftrightarrow>
     (\<exists>c. \<exists>sfn \<in> fs. pa_parcels p = [c] \<and> pa_situs p = sfn c \<and> pa_address_match p = Some True \<and>
        addr_match address (sfn c) = Some True)"

lemma county_layers_confirmed:
  assumes "entry_related reg = []" "address \<noteq> []"
  shows "case county_layers arc reg lat lon address urls result of
           Inr p \<Rightarrow> parcel_trusted p \<longrightarrow> confirmed address {situs_fn reg} p
         | Inl r \<Rightarrow> pa_parcels r = pa_parcels result"
proof (induction urls arbitrary: result)
  case (Cons u us)
  let ?step = "res_bind (arcgis_layer_url arc u (entry_get reg ''parcel_layer_hint'' ''parcel''))
     (\<lambda>found. case found of None \<Rightarrow> Inr None
      | Some (url, ln) \<Rightarrow> try_layer arc url (rsplit_head ''/query'' url) ln (entry_related reg) lat lon
                            address (situs_fn reg) result)"
  show ?case
  proof (cases ?step)
    case (Inl e)
    then show ?thesis using Cons.IH [of "result\<lparr>pa_arcgis_error := Some e\<rparr>"] by (simp split: sum.splits)
  next
    case (Inr x)
    show ?thesis
    proof (cases x)
      case None
      with Inr show ?thesis using Cons.IH [of result] by simp
    next
      case (Some p)
      with Inr obtain url ln where
        "try_layer arc url (rsplit_head ''/query'' url) ln [] lat lon address (situs_fn reg) result = Inr (Some p)"
        by (auto simp: res_bind_eq_Inr assms(1) split: option.splits prod.splits)
      from try_layer_trusted [OF this assms(2)] Inr Some show ?thesis
        by (auto simp: confirmed_def)
    qed
  qed
qed simp

lemma state_layers_confirmed:
  assumes "ss_related svc = []" "address \<noteq> []"
  shows "case state_layers arc svc lat lon address urls result of
           Inr p \<Rightarrow> parcel_trusted p \<longrightarrow> confirmed address {situs_of [] False} p
         | Inl r \<Rightarrow> pa_parcels r = pa_parcels result"
proof (induction urls arbitrary: result)
  case (Cons u us)
  let ?step = "try_layer arc (u @ ''/query'') u None (ss_related svc) lat lon address (situs_of [] False)
     (result\<lparr>pa_source_label := Some (ss_label svc)\<rparr>)"
  show ?case
  proof (cases ?step)
    case (Inl e)
    then show ?thesis using Cons.IH [of "result\<lparr>pa_statewide_error := Some e\<rparr>"] by (simp split: sum.splits)
  next
    case (Inr x)
    show ?thesis
    proof (cases x)
      case None
      with Inr show ?thesis using Cons.IH [of result] by simp
    next
      case (Some p)
      with Inr try_layer_trusted [of arc _ _ _ lat lon address _ _ p] assms show ?thesis
        by (fastforce simp: confirmed_def)
    qed
  qed
qed simp

lemma resolve_confirmed:
  assumes "address \<noteq> []" "entry_related (lookup_or_empty r fips) = []"
    and "\<And>svc. map_of (rg_state_parcel r) st = Some svc \<Longrightarrow> ss_related svc = []"
    and "parcel_trusted (resolve arc r fips st cname lat lon address)"
  shows "confirmed address {situs_fn (lookup_or_empty r fips), situs_of [] False}
           (resolve arc r fips st cname lat lon address)"
proof -
  define reg where "reg = lookup_or_empty r fips"
  define start where "start = no_parcel\<lparr>pa_county_fips := fips\<rparr>"
  have mono: "confirmed address {f} p \<Longrightarrow> f \<in> F \<Longrightarrow> confirmed address F p" for f F p
    by (auto simp: confirmed_def)
  show ?thesis
  proof (cases "county_layers arc reg lat lon address (entry_list reg ''gis_rest'') start")
    case (Inr p)
    then have res: "resolve arc r fips st cname lat lon address = p"
      by (simp add: resolve_def reg_def start_def Let_def)
    have "parcel_trusted p \<longrightarrow> confirmed address {situs_fn reg} p"
      using county_layers_confirmed [of reg address start arc lat lon "entry_list reg ''gis_rest''"] assms(1,2) Inr
      by (simp add: reg_def)
    with assms(4) res mono show ?thesis by (auto simp: reg_def)
  next
    case (Inl r1)
    have p1: "pa_parcels r1 = []"
      using county_layers_confirmed [of reg address start arc lat lon "entry_list reg ''gis_rest''"] assms(1,2) Inl
      by (simp add: reg_def start_def no_parcel_def)
    define sl where "sl = (case map_of (rg_state_parcel r) st of None \<Rightarrow> Inl r1
        | Some svc \<Rightarrow> state_layers arc svc lat lon address (ss_url svc) r1)"
    have sl: "case sl of Inr p \<Rightarrow> parcel_trusted p \<longrightarrow> confirmed address {situs_of [] False} p
                | Inl r2 \<Rightarrow> pa_parcels r2 = []"
    proof (cases "map_of (rg_state_parcel r) st")
      case (Some svc)
      with state_layers_confirmed [where svc = svc and address = address and arc = arc and lat = lat
          and lon = lon and urls = "ss_url svc" and result = r1, OF assms(3) [OF Some] assms(1)] p1
      show ?thesis by (simp add: sl_def split: sum.splits)
    qed (simp add: sl_def p1)
    have res: "resolve arc r fips st cname lat lon address =
        (case sl of Inr p \<Rightarrow> p
         | Inl r2 \<Rightarrow>
             r2\<lparr>pa_method := ''directory'',
                pa_appraiser_url := (if entry_str reg ''appraiser_url'' = [] then None
                                     else Some (entry_str reg ''appraiser_url'')),
                pa_directory_url := Some (netronline st cname),
                pa_note := Some (''No verified parcel API for this county yet '' @ emdash @
                  '' open the appraiser/directory link, or add an ArcGIS REST endpoint to the registry.'')\<rparr>)"
      unfolding resolve_def Let_def reg_def [symmetric] start_def [symmetric] Inl sl_def by simp
    show ?thesis
    proof (cases sl)
      case (Inr p)
      then show ?thesis using sl res assms(4) mono by (auto simp: reg_def)
    next
      case (Inl r2)
      then show ?thesis using sl res assms(4) by (simp add: parcel_trusted_def)
    qed
  qed
qed

text \<open>
  C21: For a search with an address in a county and state without related tables, a parcel that the
  research context trusts is exactly one record whose site address, taken with the county's or the
  default extractor, matches the searched address: same house number and, where both carry street
  words, a shared one.  A buffered or neighbouring guess, or a failed lookup, is never trusted.
\<close>

theorem trusted_parcel_matches:
  assumes "address \<noteq> []" "entry_related (lookup_or_empty r fips) = []"
    and "\<And>svc. map_of (rg_state_parcel r) st = Some svc \<Longrightarrow> ss_related svc = []"
    and "resolve arc r fips st cname lat lon address = p" "parcel_trusted p"
  shows "\<exists>c sfn. pa_parcels p = [c] \<and> sfn \<in> {situs_fn (lookup_or_empty r fips), situs_of [] False} \<and>
           pa_situs p = sfn c \<and> pa_address_match p = Some True \<and> addr_match address (pa_situs p) = Some True \<and>
           house address \<noteq> [] \<and> house (pa_situs p) = house address"
proof -
  have "confirmed address {situs_fn (lookup_or_empty r fips), situs_of [] False} p"
    using resolve_confirmed [OF assms(1,2), of st arc cname lat lon] assms(3-5) by simp
  then show ?thesis
    unfolding confirmed_def addr_match_def Let_def by (fastforce split: if_splits)
qed

definition demo_registry :: registry where
  "demo_registry =
     \<lparr>rg_entries = [], rg_state_parcel =
        [(''FL'', \<lparr>ss_url = [''http://fl''], ss_kind = ''featureserver'', ss_label = ''FL'', ss_id_fields = [], ss_related = [], ss_id_only = False, ss_counties_covered = None\<rparr>)],
      rg_state_deed = [], rg_state_plat = [], rg_state_appraiser = []\<rparr>"

lemma demo_resolve:
  "resolve demo_arc demo_registry ''12105'' ''FL'' ''Polk'' lat lon ''526 Oak'' =
     finish (no_parcel\<lparr>pa_county_fips := ''12105'', pa_source_label := Some ''FL''\<rparr>) demo_attrs
       [neighbor_attrs, demo_attrs] True True ''526 Oak'' ''http://fl'' None (situs_of [] False)"
  by (simp add: resolve_def demo_registry_def lookup_or_empty_def lookup_def entry_list_def try_layer_def
      demo_candidates choose_parcel_def demo_facts)

theorem trusted_parcel_matches_witness:
  "\<exists>c. pa_parcels (resolve demo_arc demo_registry ''12105'' ''FL'' ''Polk'' SNone SNone ''526 Oak'') = [c] \<and>
     house (pa_situs (resolve demo_arc demo_registry ''12105'' ''FL'' ''Polk'' SNone SNone ''526 Oak'')) = ''526''"
proof -
  have t: "parcel_trusted (resolve demo_arc demo_registry ''12105'' ''FL'' ''Polk'' SNone SNone ''526 Oak'')"
    by (simp add: parcel_trusted_def demo_resolve demo_facts)
  have rel: "entry_related (lookup_or_empty demo_registry ''12105'') = []"
    by (simp add: entry_related_def lookup_or_empty_def lookup_def demo_registry_def)
  have svc: "ss_related svc = []" if "map_of (rg_state_parcel demo_registry) ''FL'' = Some svc" for svc
    using that by (auto simp: demo_registry_def)
  show ?thesis
    using trusted_parcel_matches [OF _ rel svc refl t] demo_facts(5) by auto
qed

end
