(* ===== verification/FsIO.thy ===== *)
theory FsIO
  imports Storage
begin

text \<open>
  Code that changes a state and may raise: a function from a state to an outcome and the state it
  leaves, also when it raises.
\<close>

type_synonym ('e, 'a, 's) io = "'s \<Rightarrow> ('e + 'a) \<times> 's"

definition io_return :: "'a \<Rightarrow> ('e, 'a, 's) io" where
  "io_return a s = (Inr a, s)"

definition io_raise :: "'e \<Rightarrow> ('e, 'a, 's) io" where
  "io_raise e s = (Inl e, s)"

definition io_bind :: "('e, 'a, 's) io \<Rightarrow> ('a \<Rightarrow> ('e, 'b, 's) io) \<Rightarrow> ('e, 'b, 's) io" where
  "io_bind m f s = (case m s of (Inl e, t) \<Rightarrow> (Inl e, t) | (Inr a, t) \<Rightarrow> f a t)"

definition io_then :: "('e, 'a, 's) io \<Rightarrow> ('e, 'b, 's) io \<Rightarrow> ('e, 'b, 's) io" where
  "io_then m n = io_bind m (\<lambda>_. n)"

text \<open>\<open>try: m except Exception: h\<close>\<close>

definition io_catch :: "('e, 'a, 's) io \<Rightarrow> ('e \<Rightarrow> ('f, 'a, 's) io) \<Rightarrow> ('f, 'a, 's) io" where
  "io_catch m h s = (case m s of (Inl e, t) \<Rightarrow> h e t | (Inr a, t) \<Rightarrow> (Inr a, t))"

definition io_when :: "bool \<Rightarrow> ('e, unit, 's) io \<Rightarrow> ('e, unit, 's) io" where
  "io_when b m = (if b then m else io_return ())"

lemmas io_defs = io_return_def io_raise_def io_bind_def io_then_def io_catch_def io_when_def

lemma io_bind_Inr:
  "io_bind m f s = (Inr b, u) \<longleftrightarrow> (\<exists>a t. m s = (Inr a, t) \<and> f a t = (Inr b, u))"
  by (auto simp: io_bind_def split: prod.splits sum.splits)

lemma io_catch_Inr:
  "io_catch m h s = (Inr b, u) \<longleftrightarrow> m s = (Inr b, u) \<or> (\<exists>e t. m s = (Inl e, t) \<and> h e t = (Inr b, u))"
  by (auto simp: io_catch_def split: prod.splits sum.splits)

text \<open>Every step of a computation keeps a property of the state.\<close>

definition preserves :: "('s \<Rightarrow> bool) \<Rightarrow> ('e, 'a, 's) io \<Rightarrow> bool" where
  "preserves P m \<longleftrightarrow> (\<forall>s. P s \<longrightarrow> P (snd (m s)))"

lemma preserves_return [intro, simp]: "preserves P (io_return a)"
  by (simp add: preserves_def io_return_def)

lemma preserves_raise [intro, simp]: "preserves P (io_raise e)"
  by (simp add: preserves_def io_raise_def)

lemma preserves_bind [intro]:
  assumes "preserves P m" "\<And>a. preserves P (f a)"
  shows "preserves P (io_bind m f)"
  unfolding preserves_def
proof (intro allI impI)
  fix s assume "P s"
  then have "P (snd (m s))" using assms(1) by (simp add: preserves_def)
  with assms(2) show "P (snd (io_bind m f s))"
    by (cases "m s"; cases "fst (m s)") (auto simp: io_bind_def preserves_def)
qed

lemma preserves_then [intro]: "preserves P m \<Longrightarrow> preserves P n \<Longrightarrow> preserves P (io_then m n)"
  unfolding io_then_def by blast

lemma preserves_catch [intro]:
  assumes "preserves P m" "\<And>e. preserves P (h e)"
  shows "preserves P (io_catch m h)"
  unfolding preserves_def
proof (intro allI impI)
  fix s assume "P s"
  then have "P (snd (m s))" using assms(1) by (simp add: preserves_def)
  with assms(2) show "P (snd (io_catch m h s))"
    by (cases "m s"; cases "fst (m s)") (auto simp: io_catch_def preserves_def)
qed

lemma preserves_when [intro]: "preserves P m \<Longrightarrow> preserves P (io_when b m)"
  by (simp add: io_when_def)

text \<open>What a computation answers and what it raises, whatever the state.\<close>

definition gives :: "('a \<Rightarrow> bool) \<Rightarrow> ('e \<Rightarrow> bool) \<Rightarrow> ('e, 'a, 's) io \<Rightarrow> bool" where
  "gives P E m \<longleftrightarrow> (\<forall>s. case fst (m s) of Inl e \<Rightarrow> E e | Inr a \<Rightarrow> P a)"

abbreviation never_raises :: "('e, 'a, 's) io \<Rightarrow> bool" where
  "never_raises \<equiv> gives (\<lambda>_. True) (\<lambda>_. False)"

lemma gives_return: "P a \<Longrightarrow> gives P E (io_return a)"
  by (simp add: gives_def io_return_def)

lemma gives_bind:
  assumes "gives Q E m" "\<And>a. Q a \<Longrightarrow> gives P E (f a)"
  shows "gives P E (io_bind m f)"
  unfolding gives_def
proof
  fix s
  show "case fst (io_bind m f s) of Inl e \<Rightarrow> E e | Inr a \<Rightarrow> P a"
  proof (cases "m s")
    case (Pair r t)
    with assms(1) have "case r of Inl e \<Rightarrow> E e | Inr a \<Rightarrow> Q a"
      by (metis fst_conv gives_def)
    with assms(2) Pair show ?thesis
      by (cases r) (simp_all add: io_bind_def gives_def)
  qed
qed

lemma gives_then: "gives Q E m \<Longrightarrow> gives P E n \<Longrightarrow> gives P E (io_then m n)"
  unfolding io_then_def by (rule gives_bind)

lemma gives_catch:
  assumes "gives P E m" "\<And>e. E e \<Longrightarrow> gives P F (h e)"
  shows "gives P F (io_catch m h)"
  unfolding gives_def
proof
  fix s
  show "case fst (io_catch m h s) of Inl e \<Rightarrow> F e | Inr a \<Rightarrow> P a"
  proof (cases "m s")
    case (Pair r t)
    with assms(1) have "case r of Inl e \<Rightarrow> E e | Inr a \<Rightarrow> P a"
      by (metis fst_conv gives_def)
    with assms(2) Pair show ?thesis
      by (cases r) (simp_all add: io_catch_def gives_def)
  qed
qed

lemma gives_any: "gives (\<lambda>_. True) (\<lambda>_. True) m"
  by (simp add: gives_def split: sum.split)

lemma bind_any: "(\<And>a. gives P (\<lambda>_. True) (f a)) \<Longrightarrow> gives P (\<lambda>_. True) (io_bind m f)"
  by (rule gives_bind [OF gives_any])

lemma gives_mono: "gives P E m \<Longrightarrow> (\<And>a. P a \<Longrightarrow> Q a) \<Longrightarrow> (\<And>e. E e \<Longrightarrow> F e) \<Longrightarrow> gives Q F m"
  by (fastforce simp: gives_def split: sum.splits)

lemma gives_InrD: "gives P E m \<Longrightarrow> m s = (Inr a, t) \<Longrightarrow> P a"
  by (metis fst_conv gives_def sum.case(2))

lemma gives_InlD: "gives P E m \<Longrightarrow> m s = (Inl e, t) \<Longrightarrow> E e"
  by (metis fst_conv gives_def sum.case(1))

lemma never_raises_Inr: "never_raises m \<Longrightarrow> \<exists>a t. m s = (Inr a, t)"
  by (cases "m s"; cases "fst (m s)") (auto dest: gives_InlD)

end
