(* ===== verification/ClerkScraper.thy ===== *)
theory ClerkScraper
  imports FsIO Registry
begin

text \<open>
  \<open>services/clerk_scraper.py\<close>: which counties have an adapter, the choice of a deed or a plat page among
  search rows, the order of lookups of each portal family and what they save, and the retry around
  them.  The portals themselves (browser sessions, HTTP pages) are a driver: operations on its own
  state that answer or raise.
\<close>

section \<open>Portals\<close>

definition NEWVISION_PORTALS :: "string table" where
  "NEWVISION_PORTALS =
     [(''12105'', ''https://apps.polkcountyclerk.net/browserviewor/''),
      (''12083'', ''https://nvweb.marioncountyclerk.org/BrowserView/'')]"

definition TYLER_PORTALS :: "string table" where
  "TYLER_PORTALS = [(''12091'', ''https://okaloosacountyfl-web.tylerhost.net/web/'')]"

definition MANATEE_PORTALS :: "string table" where
  "MANATEE_PORTALS = [(''12081'', ''https://records.manateeclerk.com'')]"

definition VOLUSIA_PORTALS :: "string table" where
  "VOLUSIA_PORTALS = [(''12127'', ''https://app02.clerk.org/or_m/'')]"

text \<open>\<open>playwright\<close>: whether the browser library is installed.\<close>

definition has_adapter :: "bool \<Rightarrow> string \<Rightarrow> bool" where
  "has_adapter playwright county_fips =
     (map_of MANATEE_PORTALS county_fips \<noteq> None \<or>
      (map_of NEWVISION_PORTALS county_fips \<noteq> None \<or> map_of TYLER_PORTALS county_fips \<noteq> None \<or>
       map_of VOLUSIA_PORTALS county_fips \<noteq> None) \<and> playwright)"

section \<open>Choosing among search rows\<close>

record search_row =
  sr_doc_type :: string
  sr_legal_1 :: string
  sr_rec_date :: string
  sr_party_code :: string
  sr_book :: string
  sr_page :: "string option"

definition DEED_TYPES :: "string list" where
  "DEED_TYPES =
     [''DEED'', ''D'', ''WD'', ''WARRANTY DEED'', ''QCD'', ''QUIT CLAIM DEED'', ''SPECIAL WARRANTY DEED'',
      ''SWD'', ''TD'', ''PR DEED'', ''GD'']"

definition LEGAL_STOP :: "string list" where
  "LEGAL_STOP =
     [''HTS'', ''HEIGHTS'', ''UNIT'', ''NO'', ''PB'', ''PG'', ''BLK'', ''BLOCK'', ''LOT'', ''LT'',
      ''LTS'', ''PLAT'', ''SUB'', ''SUBD'', ''SUBDIV'', ''SUBDIVISION'', ''OF'', ''THE'',
      ''ADD'', ''ADDITION'', ''PH'', ''PHASE'', ''SEC'', ''REP'', ''REPLAT'']"

definition isdigit :: "string \<Rightarrow> bool" where
  "isdigit s = (s \<noteq> [] \<and> list_all is_digit s)"

text \<open>\<open>re.sub('[^A-Z0-9 ]', ' ', s.upper()).split()\<close>\<close>

definition legal_tokens :: "string \<Rightarrow> string list" where
  "legal_tokens s =
     split_ws (map (\<lambda>c. if is_upper c \<or> is_digit c \<or> c = CHR '' '' then c else CHR '' '') (upper s))"

definition subdiv_name :: "string \<Rightarrow> string list" where
  "subdiv_name s = take 2 (filter (\<lambda>t. t \<notin> set LEGAL_STOP \<and> \<not> isdigit t) (legal_tokens s))"

definition unit_pat :: re where
  "unit_pat = seqs [Lit ''UNIT'', Star space,
     Maybe (seqs [Lit ''NO'', dot_opt, Star space]), Grp 1 (Plus digit)]"

definition unit_of :: "string \<Rightarrow> string option" where
  "unit_of subdivision = map_option (\<lambda>g. group g 1) (re_search unit_pat (upper subdivision))"

definition legal_matches :: "string \<Rightarrow> search_row \<Rightarrow> bool" where
  "legal_matches subdivision r =
     (let toks = legal_tokens (sr_legal_1 r)
      in list_all (\<lambda>w. w \<in> set toks) (subdiv_name subdivision) \<and>
         (case unit_of subdivision of None \<Rightarrow> True | Some u \<Rightarrow> u \<in> set toks))"

text \<open>\<open>max(rs, key=rec_date)\<close>: the first row with the greatest date text.\<close>

fun recent :: "search_row \<Rightarrow> search_row list \<Rightarrow> search_row" where
  "recent best [] = best"
| "recent best (r # rs) = recent (if sr_rec_date best < sr_rec_date r then r else best) rs"

definition pick_deed :: "search_row list \<Rightarrow> string \<Rightarrow> search_row option" where
  "pick_deed rows subdivision =
     (let deeds = filter (\<lambda>r. upper (sr_doc_type r) \<in> set DEED_TYPES) rows
      in if deeds = [] \<or> subdiv_name subdivision = [] then None
         else let cand = filter (legal_matches subdivision) deeds;
                  grantee = filter (\<lambda>r. upper (sr_party_code r) = ''R'') cand
              in case (grantee, cand) of
                   (g # gs, _) \<Rightarrow> Some (recent g gs)
                 | ([], c # cs) \<Rightarrow> Some (recent c cs)
                 | ([], []) \<Rightarrow> None)"

definition pick_plat_page :: "search_row list \<Rightarrow> string \<Rightarrow> string option" where
  "pick_plat_page rows subdivision =
     (if subdiv_name subdivision = [] then None
      else map_option (\<lambda>r. case sr_page r of None \<Rightarrow> ''None'' | Some p \<Rightarrow> p)
             (List.find (legal_matches subdivision) rows))"

text \<open>The captured page images: by page number, the first of each.\<close>

definition order_pages :: "(int \<times> string) list \<Rightarrow> string list" where
  "order_pages captured =
     (let ps = sort_key fst captured
      in map (\<lambda>n. the (map_of ps n)) (dict_fromkeys (map fst ps)))"

section \<open>The portals' driver\<close>

record exn =
  ex_type :: string
  ex_msg :: string

record plat_arg =
  pl_book :: string
  pl_page :: string
  pl_subdivision :: string

record deed_arg =
  de_doc_number :: string
  de_book :: string
  de_page :: string
  de_owner :: string
  de_subdivision :: string

record scrape_result =
  sc_plat :: "string option"
  sc_deed :: "string option"
  sc_deed_ref :: string
  sc_error :: string

text \<open>The state of a scrape: the driver's world, the file system, the result so far.\<close>

type_synonym 'd scrape = "'d \<times> fs \<times> scrape_result"

text \<open>The imaging library: whether it is installed, an image opened and converted, images saved as one PDF.\<close>

record imaging =
  pil_installed :: bool
  pil_open :: "string \<Rightarrow> exn + string"
  pil_pdf :: "string list \<Rightarrow> exn + string"

record 'd driver =
  dv_launch :: "(exn, unit, 'd) io"
  dv_close :: "(exn, unit, 'd) io"
  ty_document :: "string \<Rightarrow> string \<Rightarrow> (exn, string option, 'd) io"
  ty_book_page :: "string \<Rightarrow> string \<Rightarrow> string \<Rightarrow> (exn, string option, 'd) io"
  vo_open :: "string \<Rightarrow> (exn, unit, 'd) io"
  vo_instrument :: "string \<Rightarrow> (exn, string option, 'd) io"
  vo_book_page :: "string \<Rightarrow> string \<Rightarrow> (exn, string option, 'd) io"
  nv_new :: "(exn, unit, 'd) io"
  nv_open :: "string \<Rightarrow> (exn, unit, 'd) io"
  nv_book_page :: "string \<Rightarrow> string \<Rightarrow> string \<Rightarrow> (exn, search_row list, 'd) io"
  nv_party :: "string \<Rightarrow> (exn, search_row list, 'd) io"
  nv_open_first :: "(exn, bool, 'd) io"
  nv_captured :: "(exn, (int \<times> string) list, 'd) io"
  ma_instrument :: "string \<Rightarrow> string \<Rightarrow> (exn, string list, 'd) io"
  ma_search :: "string \<Rightarrow> string \<Rightarrow> string \<Rightarrow> (exn, string list, 'd) io"
  ma_pages :: "string \<Rightarrow> string \<Rightarrow> (exn, string list, 'd) io"
  dv_pil :: imaging

definition drive :: "(exn, 'a, 'd) io \<Rightarrow> (exn, 'a, 'd scrape) io" where
  "drive m s = (case s of (d, fs, r) \<Rightarrow> (case m d of (x, d') \<Rightarrow> (x, (d', fs, r))))"

text \<open>\<open>try: m finally: c\<close>, and a session of the browser: launched before, closed after, whatever happens.\<close>

definition io_finally :: "('e, 'a, 's) io \<Rightarrow> ('e, unit, 's) io \<Rightarrow> ('e, 'a, 's) io" where
  "io_finally m c s = (case m s of (r, t) \<Rightarrow> (case c t of (Inl e, u) \<Rightarrow> (Inl e, u) | (Inr _, u) \<Rightarrow> (r, u)))"

definition with_browser :: "'d driver \<Rightarrow> (exn, unit, 'd scrape) io \<Rightarrow> (exn, unit, 'd scrape) io" where
  "with_browser dv m = io_then (drive (dv_launch dv)) (io_finally m (drive (dv_close dv)))"

definition set_result :: "(scrape_result \<Rightarrow> scrape_result) \<Rightarrow> (exn, unit, 'd scrape) io" where
  "set_result f s = (case s of (d, fs, r) \<Rightarrow> (Inr (), (d, fs, f r)))"

definition get_result :: "(exn, scrape_result, 'd scrape) io" where
  "get_result s = (case s of (d, fs, r) \<Rightarrow> (Inr r, s))"

definition os_error :: "string \<Rightarrow> exn" where
  "os_error e = \<lparr>ex_type = e, ex_msg = e\<rparr>"

definition mkdir :: "path \<Rightarrow> (exn, unit, 'd scrape) io" where
  "mkdir p s =
     (case s of (d, fs, r) \<Rightarrow>
        (case mkdir_parents fs p of
           (Inl e, fs') \<Rightarrow> (Inl (os_error e), (d, fs', r)) | (Inr u, fs') \<Rightarrow> (Inr u, (d, fs', r))))"

definition save_bytes :: "path \<Rightarrow> string \<Rightarrow> string \<Rightarrow> (exn, unit, 'd scrape) io" where
  "save_bytes out_dir name data s =
     (case s of (d, fs, r) \<Rightarrow>
        (case write_bytes fs (out_dir @ [name]) data of
           (Inl e, fs') \<Rightarrow> (Inl (os_error e), (d, fs', r)) | (Inr u, fs') \<Rightarrow> (Inr u, (d, fs', r))))"

definition set_deed :: "string option \<Rightarrow> (exn, unit, 'd scrape) io" where
  "set_deed name = set_result (\<lambda>r. r\<lparr>sc_deed := name\<rparr>)"

definition set_plat :: "string option \<Rightarrow> (exn, unit, 'd scrape) io" where
  "set_plat name = set_result (\<lambda>r. r\<lparr>sc_plat := name\<rparr>)"

definition set_ref :: "string \<Rightarrow> (exn, unit, 'd scrape) io" where
  "set_ref ref = set_result (\<lambda>r. r\<lparr>sc_deed_ref := ref\<rparr>)"

text \<open>Save a PDF that was found, and note its name.\<close>

definition keep_pdf ::
  "path \<Rightarrow> string \<Rightarrow> (string option \<Rightarrow> (exn, unit, 'd scrape) io) \<Rightarrow> string option \<Rightarrow> (exn, unit, 'd scrape) io" where
  "keep_pdf out_dir name note pdf =
     (case pdf of
        None \<Rightarrow> io_return ()
      | Some data \<Rightarrow> if data = [] then io_return ()
                     else io_then (save_bytes out_dir name data) (note (Some name)))"

section \<open>The deed and plat references\<close>

definition no_deed :: deed_arg where
  "no_deed = \<lparr>de_doc_number = [], de_book = [], de_page = [], de_owner = [], de_subdivision = []\<rparr>"

text \<open>An instrument number of zeros is none.\<close>

definition real_docno :: "deed_arg option \<Rightarrow> string" where
  "real_docno deed =
     (let docno = strip (de_doc_number (case deed of None \<Rightarrow> no_deed | Some d \<Rightarrow> d))
      in if strip_chars ''0'' docno = [] then [] else docno)"

definition deed_book :: "deed_arg option \<Rightarrow> string" where
  "deed_book deed = strip (de_book (case deed of None \<Rightarrow> no_deed | Some d \<Rightarrow> d))"

definition deed_page :: "deed_arg option \<Rightarrow> string" where
  "deed_page deed = strip (de_page (case deed of None \<Rightarrow> no_deed | Some d \<Rightarrow> d))"

definition or_label :: "string \<Rightarrow> string \<Rightarrow> string" where
  "or_label book page = ''OR '' @ book @ ''/'' @ page @ '' (county tax roll sale)''"

definition deed_file :: "string \<Rightarrow> string \<Rightarrow> string" where
  "deed_file book page = ''Deed_OR'' @ book @ ''_'' @ page @ ''.pdf''"

definition plat_file :: "string \<Rightarrow> string \<Rightarrow> string" where
  "plat_file book page = ''Plat_PB'' @ book @ ''_PG'' @ page @ ''.pdf''"

definition with_plat_ref ::
  "plat_arg option \<Rightarrow> (string \<Rightarrow> string \<Rightarrow> (exn, unit, 'd scrape) io) \<Rightarrow> (exn, unit, 'd scrape) io" where
  "with_plat_ref plat f =
     (case plat of
        None \<Rightarrow> io_return ()
      | Some p \<Rightarrow> if pl_book p \<noteq> [] \<and> pl_page p \<noteq> [] then f (pl_book p) (pl_page p) else io_return ())"

text \<open>Instrument number first, then book and page when there is no deed yet; both portals with a
  direct PDF work this way.\<close>

definition deed_by_reference ::
  "path \<Rightarrow> string \<Rightarrow> string \<Rightarrow> (string \<Rightarrow> (exn, string option, 'd) io) \<Rightarrow>
     (string \<Rightarrow> string \<Rightarrow> (exn, string option, 'd) io) \<Rightarrow> deed_arg option \<Rightarrow> (exn, unit, 'd scrape) io" where
  "deed_by_reference out_dir label file by_doc by_page deed =
     (let docno = real_docno deed; book = deed_book deed; page = deed_page deed
      in io_then
           (io_when (docno \<noteq> [])
             (io_then (set_ref (label @ docno @ '' (county tax roll sale)''))
               (io_bind (drive (by_doc docno)) (keep_pdf out_dir (file @ docno @ ''.pdf'') set_deed))))
           (io_bind get_result (\<lambda>r.
             io_when (sc_deed r = None \<and> book \<noteq> [] \<and> page \<noteq> [])
               (io_then (set_ref (or_label book page))
                 (io_bind (drive (by_page book page)) (keep_pdf out_dir (deed_file book page) set_deed))))))"

definition plat_by_reference ::
  "path \<Rightarrow> (string \<Rightarrow> string \<Rightarrow> (exn, string option, 'd) io) \<Rightarrow> plat_arg option \<Rightarrow> (exn, unit, 'd scrape) io" where
  "plat_by_reference out_dir by_page plat =
     with_plat_ref plat (\<lambda>book page.
       io_bind (drive (by_page book page)) (keep_pdf out_dir (plat_file book page) set_plat))"

definition fetch_tyler ::
  "'d driver \<Rightarrow> string \<Rightarrow> path \<Rightarrow> plat_arg option \<Rightarrow> deed_arg option \<Rightarrow> (exn, unit, 'd scrape) io" where
  "fetch_tyler dv url out_dir plat deed =
     io_then (mkdir out_dir) (with_browser dv
       (io_then (deed_by_reference out_dir ''Doc# '' ''Deed_DOC'' (ty_document dv url) (ty_book_page dv url) deed)
         (plat_by_reference out_dir (ty_book_page dv url) plat)))"

definition fetch_volusia ::
  "'d driver \<Rightarrow> string \<Rightarrow> path \<Rightarrow> plat_arg option \<Rightarrow> deed_arg option \<Rightarrow> (exn, unit, 'd scrape) io" where
  "fetch_volusia dv url out_dir plat deed =
     io_then (mkdir out_dir) (with_browser dv (io_then (drive (vo_open dv url))
       (io_then (deed_by_reference out_dir ''Instrument '' ''Deed_INSTR'' (vo_instrument dv) (vo_book_page dv) deed)
         (plat_by_reference out_dir (vo_book_page dv) plat))))"

text \<open>Manatee: the instrument's page images become one PDF; a book and page counts only when it names
  exactly one document.\<close>

definition pages_to_pdf ::
  "'d driver \<Rightarrow> string \<Rightarrow> path \<Rightarrow> string \<Rightarrow> string \<Rightarrow> (string option \<Rightarrow> (exn, unit, 'd scrape) io) \<Rightarrow>
     (exn, unit, 'd scrape) io" where
  "pages_to_pdf dv base out_dir iid name note =
     io_bind (drive (ma_pages dv base iid)) (\<lambda>imgs.
       if imgs = [] then io_return ()
       else case pil_pdf (dv_pil dv) imgs of Inl e \<Rightarrow> io_raise e | Inr pdf \<Rightarrow> keep_pdf out_dir name note (Some pdf))"

definition unique_id :: "string list \<Rightarrow> string option" where
  "unique_id ids = (case dict_fromkeys ids of [i] \<Rightarrow> Some i | _ \<Rightarrow> None)"

definition fetch_manatee ::
  "'d driver \<Rightarrow> string \<Rightarrow> path \<Rightarrow> plat_arg option \<Rightarrow> deed_arg option \<Rightarrow> (exn, unit, 'd scrape) io" where
  "fetch_manatee dv url out_dir plat deed =
     (let base = rstrip_if (\<lambda>c. c = CHR ''/'') url;
          docno = real_docno deed; book = deed_book deed; page = deed_page deed
      in io_then (io_when (\<not> pil_installed (dv_pil dv)) (io_raise \<lparr>ex_type = ''ModuleNotFoundError'', ex_msg = ''No module named '' @ [CHR 0x27] @ ''PIL'' @ [CHR 0x27]\<rparr>))
         (io_then (mkdir out_dir) (io_then
           (io_bind
             (if docno \<noteq> [] then
                io_then (set_ref (''Instrument '' @ docno @ '' (county tax roll sale)''))
                  (io_bind (drive (ma_instrument dv base docno))
                    (\<lambda>ids. io_return (case ids of [] \<Rightarrow> None | i # _ \<Rightarrow> Some i)))
              else io_return None) (\<lambda>iid1.
            io_bind
             (if iid1 = None \<and> book \<noteq> [] \<and> page \<noteq> [] then
                io_then (set_ref (or_label book page))
                  (io_bind (drive (ma_search dv base book page)) (\<lambda>ids. io_return (unique_id ids)))
              else io_return iid1) (\<lambda>iid.
            case iid of
              None \<Rightarrow> io_return ()
            | Some i \<Rightarrow>
                pages_to_pdf dv base out_dir i
                  (if docno \<noteq> [] then ''Deed_INSTR'' @ docno @ ''.pdf'' else deed_file book page) set_deed)))
           (with_plat_ref plat (\<lambda>pb pp.
              io_bind (drive (ma_search dv base pb pp)) (\<lambda>ids.
                case unique_id ids of
                  None \<Rightarrow> io_return ()
                | Some i \<Rightarrow> pages_to_pdf dv base out_dir i (plat_file pb pp) set_plat))))))"

text \<open>NewVision: the pages of the open document become one PDF; a page that does not open as an image is
  left out, and without a page (or without the imaging library) the entry is \<open>None\<close>.\<close>

definition save_pdf ::
  "'d driver \<Rightarrow> path \<Rightarrow> string \<Rightarrow> string list \<Rightarrow> (string option \<Rightarrow> (exn, unit, 'd scrape) io) \<Rightarrow>
     (exn, unit, 'd scrape) io" where
  "save_pdf dv out_dir name images note =
     (if \<not> pil_installed (dv_pil dv) then note None
      else let pages = List.map_filter (\<lambda>raw. case pil_open (dv_pil dv) raw of Inl _ \<Rightarrow> None | Inr p \<Rightarrow> Some p) images
           in if pages = [] then note None
              else io_then (mkdir out_dir)
                     (case pil_pdf (dv_pil dv) pages of
                        Inl e \<Rightarrow> io_raise e
                      | Inr data \<Rightarrow> io_then (save_bytes out_dir name data) (note (Some name))))"

definition save_open_document ::
  "'d driver \<Rightarrow> path \<Rightarrow> string \<Rightarrow> (string option \<Rightarrow> (exn, unit, 'd scrape) io) \<Rightarrow> (exn, unit, 'd scrape) io" where
  "save_open_document dv out_dir name note =
     io_bind (drive (nv_open_first dv)) (\<lambda>opened.
       if \<not> opened then io_return ()
       else io_bind (drive (nv_captured dv)) (\<lambda>caps.
         if order_pages caps = [] then io_return ()
         else save_pdf dv out_dir name (order_pages caps) note))"

definition once_plat :: "'d driver \<Rightarrow> string \<Rightarrow> path \<Rightarrow> plat_arg option \<Rightarrow> (exn, unit, 'd scrape) io" where
  "once_plat dv url out_dir plat =
     (case plat of
        None \<Rightarrow> io_return ()
      | Some p \<Rightarrow>
          if pl_book p = [] then io_return ()
          else
            io_then (io_then (drive (nv_new dv)) (drive (nv_open dv url)))
            (io_bind
              (if pl_page p = [] \<and> pl_subdivision p \<noteq> [] then
                 io_bind (drive (nv_book_page dv (pl_book p) [] ''P'')) (\<lambda>rows.
                   io_then (drive (nv_open dv url))
                     (io_return (case pick_plat_page rows (pl_subdivision p) of None \<Rightarrow> [] | Some q \<Rightarrow> q)))
               else io_return (pl_page p)) (\<lambda>page.
             if page = [] then io_return ()
             else io_then (drive (nv_book_page dv (pl_book p) page ''P''))
                    (save_open_document dv out_dir (plat_file (pl_book p) page) set_plat))))"

definition once_deed :: "'d driver \<Rightarrow> string \<Rightarrow> path \<Rightarrow> deed_arg option \<Rightarrow> (exn, unit, 'd scrape) io" where
  "once_deed dv url out_dir deed =
     (case deed of
        None \<Rightarrow> io_return ()
      | Some d \<Rightarrow>
          io_then (io_then (drive (nv_new dv)) (drive (nv_open dv url)))
          (io_bind
            (if deed_book deed \<noteq> [] \<and> deed_page deed \<noteq> [] then
               io_then (set_ref (or_label (deed_book deed) (deed_page deed)))
                 (io_return (deed_book deed, deed_page deed))
             else if de_owner d \<noteq> [] then
               io_bind (drive (nv_party dv (de_owner d))) (\<lambda>rows.
                 io_bind
                  (case pick_deed rows (de_subdivision d) of
                     Some row \<Rightarrow>
                       (if sr_book row \<noteq> [] \<and> opt_truthy (sr_page row) then
                          io_then (set_ref (strip (''OR '' @ sr_book row @ ''/'' @ the (sr_page row) @ '' '' @
                                                   take 10 (sr_rec_date row) @ '' '' @ sr_doc_type row)))
                            (io_return (sr_book row, the (sr_page row)))
                        else io_return (deed_book deed, deed_page deed))
                   | None \<Rightarrow> io_return (deed_book deed, deed_page deed))
                  (\<lambda>bp. io_then (drive (nv_open dv url)) (io_return bp)))
             else io_return (deed_book deed, deed_page deed)) (\<lambda>(book, page).
           io_when (book \<noteq> [] \<and> page \<noteq> [])
             (io_then (drive (nv_book_page dv book page ''O''))
               (save_open_document dv out_dir (deed_file book page) set_deed)))))"

definition fetch_once ::
  "'d driver \<Rightarrow> string \<Rightarrow> path \<Rightarrow> plat_arg option \<Rightarrow> deed_arg option \<Rightarrow> (exn, unit, 'd scrape) io" where
  "fetch_once dv url out_dir plat deed =
     with_browser dv (io_then (once_plat dv url out_dir plat) (once_deed dv url out_dir deed))"

section \<open>Fetching with one retry\<close>

definition error_text :: "exn \<Rightarrow> string" where
  "error_text e = take 200 (ex_type e @ '': '' @ ex_msg e)"

definition retryable_exn :: "exn \<Rightarrow> bool" where
  "retryable_exn e = (contains ''TargetClosed'' (ex_type e) \<or> contains ''closed'' (lower (ex_msg e)))"

definition set_error :: "string \<Rightarrow> (exn, unit, 'd scrape) io" where
  "set_error e = set_result (\<lambda>r. r\<lparr>sc_error := e\<rparr>)"

fun attempts :: "nat \<Rightarrow> (exn, unit, 'd scrape) io \<Rightarrow> string \<Rightarrow> (exn, unit, 'd scrape) io" where
  "attempts 0 m last_error = set_error last_error"
| "attempts (Suc n) m last_error =
     io_catch m (\<lambda>e. if retryable_exn e then attempts n m (error_text e) else set_error (error_text e))"

definition start_result :: scrape_result where
  "start_result = \<lparr>sc_plat = None, sc_deed = None, sc_deed_ref = [], sc_error = []\<rparr>"

definition fetch_documents ::
  "'d driver \<Rightarrow> bool \<Rightarrow> string \<Rightarrow> path \<Rightarrow> plat_arg option \<Rightarrow> deed_arg option \<Rightarrow> 'd \<times> fs \<Rightarrow>
     scrape_result \<times> 'd \<times> fs" where
  "fetch_documents dv playwright county_fips out_dir plat deed w =
     (let run = (\<lambda>m. case w of (d, fs) \<Rightarrow> (case m (d, fs, start_result) of (_, (d', fs', r)) \<Rightarrow> (r, d', fs')));
          unavailable = set_error ''no adapter / playwright unavailable''
      in run
         (case map_of MANATEE_PORTALS county_fips of
            Some url \<Rightarrow> io_catch (fetch_manatee dv url out_dir plat deed) (\<lambda>e. set_error (error_text e))
          | None \<Rightarrow>
              if \<not> playwright then unavailable
              else
                (case (map_of TYLER_PORTALS county_fips, map_of VOLUSIA_PORTALS county_fips,
                       map_of NEWVISION_PORTALS county_fips) of
                   (Some url, _, _) \<Rightarrow> attempts 2 (fetch_tyler dv url out_dir plat deed) []
                 | (None, Some url, _) \<Rightarrow> attempts 2 (fetch_volusia dv url out_dir plat deed) []
                 | (None, None, Some url) \<Rightarrow> attempts 2 (fetch_once dv url out_dir plat deed) []
                 | (None, None, None) \<Rightarrow> unavailable)))"

end
