(* ===== verification/ClerkProps.thy ===== *)
theory ClerkProps
  imports ClerkScraper
begin

text \<open>
  What the clerk scraper guarantees: a deed is only picked among the deed rows of the parcel's
  subdivision, the newest grantee deed first; and a document it reports is a file it saved.
\<close>

section \<open>The pick\<close>

lemma recent_in: "recent best rs \<in> insert best (set rs)"
proof (induction rs arbitrary: best)
  case (Cons r rs)
  show ?case using Cons.IH [of "if sr_rec_date best < sr_rec_date r then r else best"]
    by (cases "sr_rec_date best < sr_rec_date r") auto
qed simp

lemma recent_max: "r \<in> insert best (set rs) \<Longrightarrow> sr_rec_date r \<le> sr_rec_date (recent best rs)"
proof (induction rs arbitrary: best r)
  case (Cons a rs)
  let ?b = "if sr_rec_date best < sr_rec_date a then a else best"
  have "sr_rec_date r \<le> sr_rec_date (recent ?b rs)"
  proof (cases "r \<in> insert ?b (set rs)")
    case True
    then show ?thesis using Cons.IH by blast
  next
    case False
    with Cons.prems have "sr_rec_date r \<le> sr_rec_date ?b" by (auto split: if_splits)
    also have "\<dots> \<le> sr_rec_date (recent ?b rs)" using Cons.IH [of ?b ?b] by blast
    finally show ?thesis .
  qed
  then show ?case by simp
qed simp

definition deed_candidates :: "search_row list \<Rightarrow> string \<Rightarrow> search_row set" where
  "deed_candidates rows subdivision =
     {r \<in> set rows. upper (sr_doc_type r) \<in> set DEED_TYPES \<and> subdiv_name subdivision \<noteq> [] \<and>
        legal_matches subdivision r}"

text \<open>
  C23: An owner-name search yields a deed exactly when some row is of a deed type and its legal
  carries the words of the subdivision name and its unit number; the deed picked is such a row, a
  grantee row whenever there is one, and no row of its class is newer.
\<close>

theorem pick_deed_spec:
  "(pick_deed rows subdivision = None \<longleftrightarrow> deed_candidates rows subdivision = {}) \<and>
   (pick_deed rows subdivision = Some r \<longrightarrow>
      r \<in> deed_candidates rows subdivision \<and>
      ((\<exists>g \<in> deed_candidates rows subdivision. upper (sr_party_code g) = ''R'') \<longrightarrow>
         upper (sr_party_code r) = ''R'') \<and>
      (\<forall>x \<in> deed_candidates rows subdivision.
         upper (sr_party_code r) = ''R'' \<longrightarrow> upper (sr_party_code x) = ''R'' \<longrightarrow> sr_rec_date x \<le> sr_rec_date r) \<and>
      (upper (sr_party_code r) \<noteq> ''R'' \<longrightarrow>
         (\<forall>x \<in> deed_candidates rows subdivision. sr_rec_date x \<le> sr_rec_date r)))"
proof -
  define deeds where "deeds = filter (\<lambda>r. upper (sr_doc_type r) \<in> set DEED_TYPES) rows"
  define cand where "cand = filter (legal_matches subdivision) deeds"
  define grant where "grant = filter (\<lambda>r. upper (sr_party_code r) = ''R'') cand"
  show ?thesis
  proof (cases "subdiv_name subdivision = []")
    case True
    then show ?thesis by (simp add: pick_deed_def deed_candidates_def)
  next
    case False
    have c: "deed_candidates rows subdivision = set cand"
      using False by (auto simp: deed_candidates_def cand_def deeds_def)
    have g: "set grant = {x \<in> set cand. upper (sr_party_code x) = ''R''}" by (auto simp: grant_def)
    have p: "pick_deed rows subdivision =
        (case (grant, cand) of (x # xs, _) \<Rightarrow> Some (recent x xs)
         | ([], y # ys) \<Rightarrow> Some (recent y ys) | ([], []) \<Rightarrow> None)"
    proof (cases "deeds = []")
      case True
      then show ?thesis by (simp add: pick_deed_def deeds_def [symmetric] cand_def grant_def)
    next
      case ne: False
      show ?thesis
        unfolding pick_deed_def deeds_def [symmetric] cand_def [symmetric] grant_def [symmetric] Let_def
        using False ne by simp
    qed
    show ?thesis
    proof (cases grant)
      case (Cons x xs)
      have in_g: "recent x xs \<in> set grant" using recent_in [of x xs] Cons by simp
      have max: "\<And>y. y \<in> set grant \<Longrightarrow> sr_rec_date y \<le> sr_rec_date (recent x xs)"
        using recent_max [of _ x xs] Cons by simp
      have ne: "set cand \<noteq> {}" using in_g unfolding g by auto
      show ?thesis using in_g max g ne unfolding p Cons c by auto
    next
      case Nil
      then have none: "\<And>y. y \<in> set cand \<Longrightarrow> upper (sr_party_code y) \<noteq> ''R''" using g by auto
      show ?thesis
      proof (cases cand)
        case (Cons y ys)
        have in_c: "recent y ys \<in> set cand" using recent_in [of y ys] Cons by simp
        have max: "\<And>z. z \<in> set cand \<Longrightarrow> sr_rec_date z \<le> sr_rec_date (recent y ys)"
          using recent_max [of _ y ys] Cons by simp
        have "pick_deed rows subdivision = Some (recent y ys)" unfolding p Nil Cons by simp
        with in_c max none Cons show ?thesis unfolding c by auto
      next
        case Nil2: Nil
        then show ?thesis unfolding p Nil c by simp
      qed
    qed
  qed
qed

definition demo_row :: search_row where
  "demo_row = \<lparr>sr_doc_type = ''Deed'', sr_legal_1 = ''LOT 4 IDLEWILD UNIT NO 2'', sr_rec_date = ''1999-01-01'',
     sr_party_code = ''r'', sr_book = ''12'', sr_page = Some ''34''\<rparr>"

lemma demo_pick: "pick_deed [demo_row] ''IDLEWILD SUB UNIT 2'' = Some demo_row"
proof -
  have "upper (sr_doc_type demo_row) \<in> set DEED_TYPES" "upper (sr_party_code demo_row) = ''R''"
    by code_simp+
  moreover have "subdiv_name ''IDLEWILD SUB UNIT 2'' = [''IDLEWILD'']" by code_simp
  moreover have "legal_tokens (sr_legal_1 demo_row) = [''LOT'', ''4'', ''IDLEWILD'', ''UNIT'', ''NO'', ''2'']"
    by code_simp
  moreover have "unit_of ''IDLEWILD SUB UNIT 2'' = Some ''2''" by code_simp
  ultimately show ?thesis by (simp add: pick_deed_def legal_matches_def)
qed

theorem pick_deed_spec_witness:
  "demo_row \<in> deed_candidates [demo_row] ''IDLEWILD SUB UNIT 2''"
  using pick_deed_spec [of "[demo_row]" "''IDLEWILD SUB UNIT 2''" demo_row] demo_pick by blast

section \<open>What is reported was saved\<close>

definition reported_saved :: "path \<Rightarrow> 'd scrape \<Rightarrow> bool" where
  "reported_saved out_dir s =
     (case s of (d, fs, r) \<Rightarrow>
        (\<forall>name. sc_deed r = Some name \<or> sc_plat r = Some name \<longrightarrow> is_file fs (out_dir @ [name])))"

lemma keeps_drive [intro, simp]: "preserves (reported_saved p) (drive m)"
  by (auto simp: preserves_def drive_def reported_saved_def split: prod.splits)

lemma keeps_set_ref [intro, simp]: "preserves (reported_saved p) (set_ref t)"
  by (auto simp: preserves_def set_ref_def set_result_def reported_saved_def)

lemma keeps_set_error [intro, simp]: "preserves (reported_saved p) (set_error t)"
  by (auto simp: preserves_def set_error_def set_result_def reported_saved_def)

lemma keeps_get [intro, simp]: "preserves (reported_saved p) get_result"
  by (auto simp: preserves_def get_result_def)

lemma is_file_mkdir [simp]: "is_file (snd (mkdir_parents fs q)) p = is_file fs p"
  by (simp add: is_file_def)

lemma is_file_write: "is_file fs p \<Longrightarrow> is_file (snd (write_bytes fs q d)) p"
  by (simp add: is_file_def write_bytes_def)

lemma keeps_mkdir [intro, simp]: "preserves (reported_saved p) (mkdir q)"
  unfolding preserves_def
proof (intro allI impI)
  fix s :: "'a scrape" assume s: "reported_saved p s"
  obtain d fs r where [simp]: "s = (d, fs, r)" by (cases s)
  obtain x fs' where m: "mkdir_parents fs q = (x, fs')" by fastforce
  then have "is_file fs' n = is_file fs n" for n using is_file_mkdir [of fs q n] by simp
  with s show "reported_saved p (snd (mkdir q s))"
    by (cases x) (simp_all add: mkdir_def m reported_saved_def)
qed

lemma keeps_save_note:
  assumes "nt = set_deed \<or> nt = set_plat"
  shows "preserves (reported_saved p) (io_then (save_bytes p name data) (nt (Some name)))"
  unfolding preserves_def
proof (intro allI impI)
  fix s :: "'a scrape" assume s: "reported_saved p s"
  obtain d fs r where [simp]: "s = (d, fs, r)" by (cases s)
  obtain x fs' where w: "write_bytes fs (p @ [name]) data = (x, fs')" by fastforce
  have keep: "is_file fs n \<Longrightarrow> is_file fs' n" for n
    using is_file_write [of fs n "p @ [name]" data] w by simp
  have new: "is_file fs' (p @ [name])" if "x = Inr ()"
    using w that by (auto simp: write_bytes_def is_file_def split: if_splits)
  show "reported_saved p (snd (io_then (save_bytes p name data) (nt (Some name)) s))"
    using s keep new assms
    by (cases x) (auto simp: io_then_def io_bind_def save_bytes_def w set_deed_def set_plat_def
        set_result_def reported_saved_def)
qed

lemma keeps_note_none: "preserves (reported_saved p) (set_deed None)" "preserves (reported_saved p) (set_plat None)"
  by (auto simp: preserves_def set_deed_def set_plat_def set_result_def reported_saved_def)

lemma keeps_keep_pdf: "nt = set_deed \<or> nt = set_plat \<Longrightarrow> preserves (reported_saved p) (keep_pdf p name nt pdf)"
  using keeps_save_note [of nt p] by (auto simp: keep_pdf_def split: option.split)

lemma keeps_open_document:
  assumes "nt = set_deed \<or> nt = set_plat"
  shows "preserves (reported_saved p) (save_open_document dv p name nt)"
proof -
  have "preserves (reported_saved p) (io_then (mkdir p) (case x of Inl e \<Rightarrow> io_raise e
      | Inr d \<Rightarrow> io_then (save_bytes p name d) (nt (Some name))))" for x
    using keeps_save_note [OF assms] by (intro preserves_then keeps_mkdir) (simp split: sum.split)
  moreover have "preserves (reported_saved p) (nt None)" using assms keeps_note_none by auto
  ultimately show ?thesis
    unfolding save_open_document_def save_pdf_def Let_def
    by (intro preserves_bind keeps_drive) auto
qed

lemma preserves_finally: "preserves P m \<Longrightarrow> preserves P c \<Longrightarrow> preserves P (io_finally m c)"
  by (auto simp: preserves_def io_finally_def split: prod.splits sum.splits)

lemma keeps_browser: "preserves (reported_saved p) m \<Longrightarrow> preserves (reported_saved p) (with_browser dv m)"
  unfolding with_browser_def by (intro preserves_then preserves_finally keeps_drive)

lemmas keeps_steps =
  preserves_bind preserves_then preserves_when preserves_catch keeps_keep_pdf keeps_open_document keeps_browser
  keeps_drive keeps_set_ref keeps_get keeps_mkdir keeps_set_error

lemma keeps_reference:
  "preserves (reported_saved p) (deed_by_reference p l f a b deed)"
  "preserves (reported_saved p) (plat_by_reference p b plat)"
  unfolding deed_by_reference_def plat_by_reference_def with_plat_ref_def Let_def
  by (auto intro!: keeps_steps split: option.split)

lemma keeps_tyler: "preserves (reported_saved p) (fetch_tyler dv url p plat deed)"
  unfolding fetch_tyler_def by (intro keeps_steps keeps_reference)

lemma keeps_volusia: "preserves (reported_saved p) (fetch_volusia dv url p plat deed)"
  unfolding fetch_volusia_def by (intro keeps_steps keeps_reference)

lemma keeps_manatee: "preserves (reported_saved p) (fetch_manatee dv url p plat deed)"
  unfolding fetch_manatee_def pages_to_pdf_def with_plat_ref_def Let_def
  by (auto intro!: keeps_steps split: option.split sum.split)

lemma keeps_once: "preserves (reported_saved p) (fetch_once dv url p plat deed)"
  unfolding fetch_once_def once_plat_def once_deed_def
  by (auto intro!: keeps_steps split: option.split)

lemma keeps_attempts:
  "preserves (reported_saved p) m \<Longrightarrow> preserves (reported_saved p) (attempts n m e)"
  by (induction n arbitrary: e) (auto intro!: keeps_steps)


definition demo_driver :: "unit driver" where
  "demo_driver =
     \<lparr>dv_launch = io_return (), dv_close = io_return (), ty_document = (\<lambda>_ n. io_return (if n = ''77'' then Some ''%PDF-1'' else None)),
      ty_book_page = (\<lambda>_ _ _. io_return None), vo_open = (\<lambda>_. io_return ()),
      vo_instrument = (\<lambda>_. io_return None), vo_book_page = (\<lambda>_ _. io_return None),
      nv_new = io_return (), nv_open = (\<lambda>_. io_return ()), nv_book_page = (\<lambda>_ _ _. io_return []), nv_party = (\<lambda>_. io_return []),
      nv_open_first = io_return False, nv_captured = io_return [], ma_instrument = (\<lambda>_ _. io_return []),
      ma_search = (\<lambda>_ _ _. io_return []), ma_pages = (\<lambda>_ _. io_return []),
      dv_pil = \<lparr>pil_installed = True, pil_open = Inr, pil_pdf = (\<lambda>_. Inr [])\<rparr>\<rparr>"

definition demo_deed :: deed_arg where
  "demo_deed = \<lparr>de_doc_number = ''77'', de_book = [], de_page = [], de_owner = [], de_subdivision = []\<rparr>"


end
