(* ===== verification/Federal.thy ===== *)
theory Federal
  imports Registry
begin

text \<open>
  The nationwide sources: \<open>services/fema.py\<close> (flood zone and FIRM panel), \<open>services/ngs.py\<close> (survey
  monuments) and the reachability verdict of \<open>services/http.py\<close>.  Responses are arguments.
\<close>

section \<open>Dates\<close>

text \<open>The civil date of a day number (days since 1970-01-01), by the 400-year cycle.\<close>

definition civil :: "int \<Rightarrow> int \<times> int \<times> int" where
  "civil days =
     (let z = days + 719468;
          era = z div 146097;
          doe = z - era * 146097;
          yoe = (doe - doe div 1460 + doe div 36524 - doe div 146096) div 365;
          doy = doe - (365 * yoe + yoe div 4 - yoe div 100);
          mp = (5 * doy + 2) div 153;
          d = doy - (153 * mp + 2) div 5 + 1;
          m = (if mp < 10 then mp + 3 else mp - 9);
          y = yoe + era * 400 + (if m \<le> 2 then 1 else 0)
      in (y, m, d))"

definition pad2 :: "int \<Rightarrow> string" where
  "pad2 n = (if n < 10 then ''0'' else []) @ show_int n"

definition show_date :: "int \<times> int \<times> int \<Rightarrow> string" where
  "show_date ymd = (case ymd of (y, m, d) \<Rightarrow> show_int y @ ''-'' @ pad2 m @ ''-'' @ pad2 d)"

text \<open>\<open>int(v)\<close>; \<open>None\<close> is \<open>TypeError\<close> or \<open>ValueError\<close>.\<close>

fun to_int :: "scalar \<Rightarrow> int option" where
  "to_int SNone = None"
| "to_int (SBool b) = Some (if b then 1 else 0)"
| "to_int (SInt i) = Some i"
| "to_int (SFloat m e) = Some (if m < 0 then - ((- m) div 10 ^ e) else m div 10 ^ e)"
| "to_int (SStr s) =
     (case read_sign (strip s) of (sg, t) \<Rightarrow> map_option (\<lambda>d. sg * digits_value d) (digit_run t))"

text \<open>Milliseconds since the epoch as a date; years that \<open>datetime\<close> does not have are left as text.\<close>

definition fmt_date :: "scalar \<Rightarrow> string" where
  "fmt_date v =
     (if in_blanks [[]] v \<or> eq_zero v then []
      else case to_int v of
             None \<Rightarrow> py_str v
           | Some ms \<Rightarrow> (case civil (ms div 86400000) of (y, m, d) \<Rightarrow>
                          if 1 \<le> y \<and> y \<le> 9999 then show_date (y, m, d) else py_str v))"

section \<open>FEMA\<close>

definition MSC_HOME :: string where
  "MSC_HOME = ''https://msc.fema.gov/portal/home''"

definition NFHL :: string where
  "NFHL = ''https://hazards.fema.gov/arcgis/rest/services/public/NFHL/MapServer''"

definition field :: "attrs \<Rightarrow> string \<Rightarrow> scalar" where
  "field a k = (case map_of a k of None \<Rightarrow> SNone | Some v \<Rightarrow> v)"

text \<open>\<open>str(v or '')\<close>\<close>

definition str_or_empty :: "scalar \<Rightarrow> string" where
  "str_or_empty v = (if truthy v then py_str v else [])"

definition pick_by_prefix :: "attrs list \<Rightarrow> string \<Rightarrow> string \<Rightarrow> attrs" where
  "pick_by_prefix items key pre =
     (case (if pre \<noteq> [] then List.find (\<lambda>it. startswith (str_or_empty (field it key)) pre) items else None) of
        Some it \<Rightarrow> it
      | None \<Rightarrow> (case items of [] \<Rightarrow> [] | it # _ \<Rightarrow> it))"

record flood_info =
  fl_flood_zone :: scalar
  fl_zone_subtype :: scalar
  fl_in_sfha :: scalar
  fl_static_bfe :: string
  fl_firm_panel :: scalar
  fl_panel_suffix :: scalar
  fl_panel :: scalar
  fl_effective_date :: string
  fl_map_service_center :: string
  fl_raw_zones :: "attrs list"
  fl_raw_panels :: "attrs list"

text \<open>\<open>nfhl layer lat lon fields\<close>: the attributes of the features at the point.\<close>

definition flood ::
  "(nat \<Rightarrow> scalar \<Rightarrow> scalar \<Rightarrow> string \<Rightarrow> 'e + attrs list) \<Rightarrow> scalar \<Rightarrow> scalar \<Rightarrow> string \<Rightarrow>
     'e + flood_info" where
  "flood nfhl lat lon county_fips =
     res_bind (nfhl 28 lat lon ''FLD_ZONE,ZONE_SUBTY,STATIC_BFE,SFHA_TF,DFIRM_ID'') (\<lambda>zones.
     res_bind (nfhl 3 lat lon ''FIRM_PAN,PANEL,SUFFIX,EFF_DATE'') (\<lambda>panels.
       let first_zone = (case zones of [] \<Rightarrow> [] | z # _ \<Rightarrow> z);
           pre = or_str (take 5 county_fips) (take 5 (str_or_empty (field first_zone ''DFIRM_ID'')));
           z0 = pick_by_prefix zones ''DFIRM_ID'' pre;
           p0 = pick_by_prefix panels ''FIRM_PAN'' pre;
           bfe = field z0 ''STATIC_BFE''
       in Inr \<lparr>fl_flood_zone = field z0 ''FLD_ZONE'', fl_zone_subtype = field z0 ''ZONE_SUBTY'',
               fl_in_sfha = field z0 ''SFHA_TF'',
               fl_static_bfe = (if bfe = SNone \<or> bfe = SInt (- 9999) \<or> bfe = SFloat (- 9999) 0
                                then ''N/A'' else py_str bfe),
               fl_firm_panel = field p0 ''FIRM_PAN'', fl_panel_suffix = field p0 ''SUFFIX'',
               fl_panel = field p0 ''PANEL'', fl_effective_date = fmt_date (field p0 ''EFF_DATE''),
               fl_map_service_center = MSC_HOME, fl_raw_zones = zones, fl_raw_panels = panels\<rparr>))"

text \<open>\<open>f'{v or d}'\<close>\<close>

definition scalar_or :: "scalar \<Rightarrow> string \<Rightarrow> string" where
  "scalar_or v d = (if truthy v then py_str v else d)"

definition flood_summarize :: "flood_info \<Rightarrow> string" where
  "flood_summarize f =
     ''Zone '' @ scalar_or (fl_flood_zone f) ''unknown'' @ '' ('' @
     (if fl_in_sfha f = SStr ''T'' then ''SFHA'' else ''not in SFHA'') @ ''), FIRM panel '' @
     scalar_or (fl_firm_panel f) ''?'' @ '', BFE '' @ fl_static_bfe f"

section \<open>NGS\<close>

definition RADIAL :: string where
  "RADIAL = ''https://geodesy.noaa.gov/api/nde/radial''"

text \<open>A mark as the service sends it; a missing or null text is \<open>None\<close>.\<close>

record raw_mark =
  rm_pid :: string
  rm_name :: "string option"
  rm_lat :: scalar
  rm_lon :: scalar
  rm_pos_datum :: "string option"
  rm_ortho_ht :: "string option"
  rm_pos_source :: "string option"

record mark =
  mk_pid :: string
  mk_name :: string
  mk_lat :: scalar
  mk_lon :: scalar
  mk_datum :: string
  mk_vert_source :: string
  mk_datasheet :: string

text \<open>The response is a list, an object with or without \<open>marks\<close>, or something else.\<close>

datatype radial_response = Radial_list "raw_mark list" | Radial_object "raw_mark list option" | Radial_other

record benchmarks_info =
  bm_radius_m :: nat
  bm_count :: nat
  bm_marks :: "mark list"

fun radial_marks :: "radial_response \<Rightarrow> raw_mark list" where
  "radial_marks (Radial_list ms) = ms"
| "radial_marks (Radial_object (Some ms)) = ms"
| "radial_marks _ = []"

definition trim_mark :: "raw_mark \<Rightarrow> mark" where
  "trim_mark m =
     (let pid = strip (rm_pid m)
      in \<lparr>mk_pid = pid, mk_name = strip (opt_or (rm_name m) []), mk_lat = rm_lat m, mk_lon = rm_lon m,
          mk_datum = strip (opt_or (rm_pos_datum m) []),
          mk_vert_source = strip (opt_or (rm_ortho_ht m) (opt_or (rm_pos_source m) [])),
          mk_datasheet = (if pid \<noteq> []
                          then ''https://geodesy.noaa.gov/cgi-bin/ds_mark.prl?PidBox='' @ pid else [])\<rparr>)"

definition benchmarks ::
  "(scalar \<Rightarrow> scalar \<Rightarrow> nat \<Rightarrow> 'e + radial_response) \<Rightarrow> scalar \<Rightarrow> scalar \<Rightarrow> 'e + benchmarks_info" where
  "benchmarks radial lat lon =
     res_bind (radial lat lon 3000) (\<lambda>resp.
       let marks = radial_marks resp
       in Inr \<lparr>bm_radius_m = 3000, bm_count = length marks, bm_marks = map trim_mark (take 25 marks)\<rparr>)"

definition ngs_summarize :: "benchmarks_info \<Rightarrow> string" where
  "ngs_summarize b =
     show_nat (bm_count b) @ '' NGS control marks within '' @ show_nat (bm_radius_m b) @ '' m''"

section \<open>Reachability\<close>

datatype probe = Answered nat | Tls_error | Timed_out | Failed string

record url_check =
  uc_url :: string
  uc_status :: "nat option"
  uc_verdict :: string
  uc_error :: string

definition check_url :: "string \<Rightarrow> probe \<Rightarrow> url_check" where
  "check_url url p =
     (case p of
        Answered code \<Rightarrow>
          \<lparr>uc_url = url, uc_status = Some code,
           uc_verdict = (if code < 400 then ''ok''
                         else if code \<in> {401, 403, 406, 429} then ''blocked'' else ''broken''),
           uc_error = []\<rparr>
      | Tls_error \<Rightarrow> \<lparr>uc_url = url, uc_status = None, uc_verdict = ''offline'',
                      uc_error = ''TLS reset (often an antivirus/web-filter intercepting HTTPS)''\<rparr>
      | Timed_out \<Rightarrow> \<lparr>uc_url = url, uc_status = None, uc_verdict = ''offline'', uc_error = ''timed out''\<rparr>
      | Failed name \<Rightarrow> \<lparr>uc_url = url, uc_status = None, uc_verdict = ''offline'', uc_error = name\<rparr>)"

end
