(* ===== verification/ClerkDrivers.thy ===== *)
theory ClerkDrivers
  imports ClerkScraper Federal
begin

text \<open>
  The portal sessions of \<open>services/clerk_scraper.py\<close>: \<open>_NewVision\<close>, \<open>_Tyler\<close>, \<open>_Volusia\<close> and the HTML of
  Manatee, written over a browser.  The browser (Playwright) and the HTTP session are operations on
  their own state that answer or raise; what a page received while an operation ran is delivered to the
  session's listener right after it.
\<close>

section \<open>Text\<close>

text \<open>\<open>base64.b64decode\<close>: characters outside the alphabet are skipped, the text ends at its padding, and
  an incomplete group raises (\<open>None\<close>).\<close>

definition b64_value :: "char \<Rightarrow> nat option" where
  "b64_value c =
     (let n = code_of c
      in if is_upper c then Some (n - 65)
         else if is_lower c then Some (n - 71)
         else if is_digit c then Some (n + 4)
         else if c = CHR ''+'' then Some 62
         else if c = CHR ''/'' then Some 63
         else None)"

fun b64_iter :: "string \<Rightarrow> nat \<Rightarrow> nat \<Rightarrow> nat \<Rightarrow> string option" where
  "b64_iter [] quad left pads = (if quad = 0 then Some [] else None)"
| "b64_iter (c # cs) quad left pads =
     (if c = CHR ''='' then
        (if 2 \<le> quad \<and> 4 \<le> quad + Suc pads then Some []
         else b64_iter cs quad left (if 2 \<le> quad then Suc pads else pads))
      else case b64_value c of
             None \<Rightarrow> b64_iter cs quad left pads
           | Some v \<Rightarrow>
               (if quad = 0 then b64_iter cs 1 v 0
                else if quad = 1 then map_option (Cons (char_of (left * 4 + v div 16))) (b64_iter cs 2 (v mod 16) 0)
                else if quad = 2 then map_option (Cons (char_of (left * 16 + v div 4))) (b64_iter cs 3 (v mod 4) 0)
                else map_option (Cons (char_of (left * 64 + v))) (b64_iter cs 0 0 0)))"

definition b64decode :: "string \<Rightarrow> string option" where
  "b64decode s = (if list_all (\<lambda>c. code_of c < 128) s then b64_iter s 0 0 0 else None)"

text \<open>\<open>re.findall(p, s)\<close> for a pattern whose only group is \<open>1\<close>.\<close>

fun findall_iter :: "nat \<Rightarrow> re \<Rightarrow> char option \<Rightarrow> string \<Rightarrow> string list" where
  "findall_iter 0 p b s = []"
| "findall_iter (Suc n) p b [] = []"
| "findall_iter (Suc n) p b (c # cs) =
     (case matches p (b, c # cs, []) of
        (b', r, g) # _ \<Rightarrow> if length r < length (c # cs) then group g 1 # findall_iter n p b' r
                          else findall_iter n p (Some c) cs
      | [] \<Rightarrow> findall_iter n p (Some c) cs)"

definition re_findall :: "re \<Rightarrow> string \<Rightarrow> string list" where
  "re_findall p s = findall_iter (length s) p None s"

section \<open>The browser\<close>

text \<open>What a page receives: a response (address, method, body), or a paused download whose body could be
  read (whether it is in base64, and the body) or not.\<close>

record doc_body =
  db_doc_pages :: scalar
  db_hi_res :: scalar
  db_largeimage :: scalar
  db_pg_num :: scalar

datatype body = Rows "search_row list" | Object doc_body | Other_json | No_json

datatype event = Response string string body | Paused "(bool \<times> string) option"

record http_answer =
  ha_type :: string
  ha_body :: string

record ('a, 'b) browser =
  br_launch :: "(exn, unit, 'b) io"
  br_close :: "(exn, unit, 'b) io"
  br_new_page :: "(exn, unit, 'b) io"
  br_received :: "'b \<Rightarrow> event list \<times> 'b"
  br_goto :: "string \<Rightarrow> (exn, unit, 'b) io"
  br_wait :: "nat \<Rightarrow> (exn, unit, 'b) io"
  br_settled :: "(exn, unit, 'b) io"
  br_count :: "string \<Rightarrow> (exn, nat, 'b) io"
  br_visible :: "string \<Rightarrow> (exn, bool, 'b) io"
  br_click :: "string \<Rightarrow> (exn, unit, 'b) io"
  br_fill :: "string \<Rightarrow> string \<Rightarrow> (exn, unit, 'b) io"
  br_select :: "string \<Rightarrow> string \<Rightarrow> (exn, unit, 'b) io"
  br_await :: "string \<Rightarrow> (exn, unit, 'b) io"
  br_address :: "(exn, string, 'b) io"
  br_content :: "(exn, string, 'b) io"
  br_get :: "string \<Rightarrow> (exn, http_answer, 'b) io"
  br_anchor :: "string \<Rightarrow> (exn, 'a option, 'b) io"
  br_table :: "string \<Rightarrow> (exn, (string list \<times> 'a option) list, 'b) io"
  br_open_tab :: "'a \<Rightarrow> (exn, unit, 'b) io"
  br_tab_front :: "(exn, unit, 'b) io"
  br_tab_settled :: "(exn, unit, 'b) io"
  br_tab_wait :: "nat \<Rightarrow> (exn, unit, 'b) io"
  br_tab_close :: "(exn, unit, 'b) io"

text \<open>The attributes of the session objects: the page images, the last search rows and the page count of
  \<open>_NewVision\<close>; the base address and the captured download of \<open>_Volusia\<close>.\<close>

record session =
  ss_captured :: "(int \<times> string) list"
  ss_search_results :: "search_row list"
  ss_doc_pages :: int
  ss_base :: string
  ss_body :: "string option"

type_synonym 'b world = "'b \<times> session"

definition fresh_session :: session where
  "fresh_session =
     \<lparr>ss_captured = [], ss_search_results = [], ss_doc_pages = 0, ss_base = [], ss_body = None\<rparr>"

definition update_session :: "(session \<Rightarrow> session) \<Rightarrow> (exn, unit, 'b world) io" where
  "update_session f w = (case w of (b, s) \<Rightarrow> (Inr (), (b, f s)))"

definition the_session :: "(exn, session, 'b world) io" where
  "the_session w = (Inr (snd w), w)"

text \<open>An operation of the browser under a listener.\<close>

definition act ::
  "(event \<Rightarrow> session \<Rightarrow> session) \<Rightarrow> ('a, 'b) browser \<Rightarrow> (exn, 'c, 'b) io \<Rightarrow> (exn, 'c, 'b world) io" where
  "act listen br m w =
     (case w of (b, s) \<Rightarrow>
        (case m b of (r, b1) \<Rightarrow>
           (case br_received br b1 of (evs, b2) \<Rightarrow> (r, (b2, fold listen evs s)))))"

fun io_all :: "('e, unit, 's) io list \<Rightarrow> ('e, unit, 's) io" where
  "io_all [] = io_return ()"
| "io_all (m # ms) = io_then m (io_all ms)"

section \<open>NewVision\<close>

text \<open>\<open>_on_response\<close>: any failure inside leaves the session as it is up to there.\<close>

definition on_document :: "doc_body \<Rightarrow> session \<Rightarrow> session" where
  "on_document d s =
     (let s1 = (if truthy (db_doc_pages d)
                then (case to_int (db_doc_pages d) of None \<Rightarrow> s | Some n \<Rightarrow> s\<lparr>ss_doc_pages := n\<rparr>)
                else s);
          b64 = (if truthy (db_hi_res d) then db_hi_res d
                 else if truthy (db_largeimage d) then db_largeimage d else SStr [])
      in case b64 of
           SStr t \<Rightarrow>
             (if 1000 < length t then
                (case (to_int (if truthy (db_pg_num d) then db_pg_num d else SInt 0), b64decode t) of
                   (Some n, Some raw) \<Rightarrow> s1\<lparr>ss_captured := ss_captured s1 @ [(n, raw)]\<rparr>
                 | _ \<Rightarrow> s1)
              else s1)
         | _ \<Rightarrow> s1)"

fun on_response :: "event \<Rightarrow> session \<Rightarrow> session" where
  "on_response (Response url meth body) s =
     (let u = rstrip_if (\<lambda>c. c = CHR ''/'') url
      in if endswith u ''/api/search'' \<and> meth = ''POST''
         then (case body of Rows rows \<Rightarrow> s\<lparr>ss_search_results := rows\<rparr> | _ \<Rightarrow> s)
         else if endswith u ''/api/document'' \<and> meth = ''POST''
         then (case body of Object d \<Rightarrow> on_document d s | _ \<Rightarrow> s)
         else s)"
| "on_response (Paused _) s = s"

abbreviation nv_act :: "('a, 'b) browser \<Rightarrow> (exn, 'c, 'b) io \<Rightarrow> (exn, 'c, 'b world) io" where
  "nv_act \<equiv> act on_response"

definition attr_sel :: "string \<Rightarrow> string \<Rightarrow> string \<Rightarrow> string \<Rightarrow> string" where
  "attr_sel pre name v post = pre @ ''['' @ name @ ''='' @ [CHR 0x27] @ v @ [CHR 0x27] @ '']'' @ post"

definition text_sel :: "string \<Rightarrow> string \<Rightarrow> string \<Rightarrow> string" where
  "text_sel elem t post = elem @ '':has-text('' @ [CHR 0x27] @ t @ [CHR 0x27] @ '')'' @ post"

definition new_session :: "('a, 'b) browser \<Rightarrow> (exn, unit, 'b world) io" where
  "new_session br =
     io_then (update_session (\<lambda>_. fresh_session)) (nv_act br (br_new_page br))"

definition nv_open_page :: "('a, 'b) browser \<Rightarrow> string \<Rightarrow> (exn, unit, 'b world) io" where
  "nv_open_page br url = io_all [nv_act br (br_goto br url), nv_act br (br_wait br 2500)]"

definition search_book_page ::
  "('a, 'b) browser \<Rightarrow> string \<Rightarrow> string \<Rightarrow> string \<Rightarrow> (exn, unit, 'b world) io" where
  "search_book_page br book page book_type =
     io_all
       [nv_act br (br_click br ''role=link name=Book/Page''), nv_act br (br_wait br 900),
        nv_act br (br_select br ''select:visible'' book_type),
        nv_act br (br_fill br (attr_sel ''input'' ''placeholder'' ''Book'' '':visible'') book),
        nv_act br (br_fill br (attr_sel ''input'' ''placeholder'' ''Page'' '':visible'') page),
        nv_act br (br_click br (text_sel ''button'' ''Search'' '':visible'')), nv_act br (br_wait br 3000)]"

definition search_party :: "('a, 'b) browser \<Rightarrow> string \<Rightarrow> (exn, search_row list, 'b world) io" where
  "search_party br party_name =
     io_then (io_all
       [update_session (\<lambda>s. s\<lparr>ss_search_results := []\<rparr>),
        nv_act br (br_click br ''text=Party''), nv_act br (br_wait br 800),
        nv_act br (br_fill br (attr_sel ''input'' ''placeholder'' ''Party Name'' '':visible'') party_name),
        nv_act br (br_click br (text_sel ''button'' ''Search'' '':visible'')), nv_act br (br_wait br 3500)])
     (io_bind the_session (\<lambda>s. io_return (ss_search_results s)))"

definition view_sel :: string where
  "view_sel = text_sel ''a'' ''View'' '':visible, '' @ text_sel ''button'' ''View'' '':visible''"

definition open_first_result :: "('a, 'b) browser \<Rightarrow> (exn, bool, 'b world) io" where
  "open_first_result br =
     io_bind (nv_act br (br_count br view_sel)) (\<lambda>n.
       if n = 0 then io_return False
       else io_then (nv_act br (br_click br view_sel)) (io_then (nv_act br (br_wait br 3500)) (io_return True)))"

text \<open>Waiting for page 1: at most \<open>n\<close> half seconds.\<close>

fun await_first :: "('a, 'b) browser \<Rightarrow> nat \<Rightarrow> (exn, unit, 'b world) io" where
  "await_first br 0 = io_return ()"
| "await_first br (Suc n) =
     io_bind the_session (\<lambda>s.
       if ss_captured s = [] then io_then (nv_act br (br_wait br 500)) (await_first br n) else io_return ())"

text \<open>Waiting for another image: at most \<open>n\<close> times 400 milliseconds.\<close>

fun await_more :: "('a, 'b) browser \<Rightarrow> nat \<Rightarrow> nat \<Rightarrow> (exn, unit, 'b world) io" where
  "await_more br had 0 = io_return ()"
| "await_more br had (Suc n) =
     io_bind the_session (\<lambda>s.
       if length (ss_captured s) = had
       then io_then (nv_act br (br_wait br 400)) (await_more br had n) else io_return ())"

definition next_sel :: string where
  "next_sel = attr_sel [] ''ng-click'' ''changePage(true)'' []"

text \<open>Stepping through the viewer; the first argument is what is left of the guard.\<close>

fun step_pages :: "nat \<Rightarrow> ('a, 'b) browser \<Rightarrow> int \<Rightarrow> (exn, unit, 'b world) io" where
  "step_pages 0 br target = io_return ()"
| "step_pages (Suc guard) br target =
     io_bind the_session (\<lambda>s.
       if \<not> int (length (dict_fromkeys (map fst (ss_captured s)))) < target then io_return ()
       else io_bind (nv_act br (br_count br next_sel)) (\<lambda>n.
         if n = 0 then io_return ()
         else io_bind the_session (\<lambda>s1.
           let had = length (ss_captured s1)
           in io_bind (io_catch (io_then (nv_act br (br_click br next_sel)) (io_return True)) (\<lambda>_. io_return False))
              (\<lambda>clicked.
                if \<not> clicked then io_return ()
                else io_then (await_more br had 25)
                  (io_bind the_session (\<lambda>s2.
                     if length (ss_captured s2) = had then io_return ()
                     else step_pages guard br target))))))"

definition capture_pages :: "('a, 'b) browser \<Rightarrow> (exn, (int \<times> string) list, 'b world) io" where
  "capture_pages br =
     io_then (await_first br 40)
     (io_bind the_session (\<lambda>s.
        let target = (if ss_doc_pages s = 0 then 1 else ss_doc_pages s)
        in io_then (step_pages (nat (target + 3)) br target)
             (io_bind the_session (\<lambda>s. io_return (ss_captured s)))))"

section \<open>Tyler\<close>

definition silent :: "event \<Rightarrow> session \<Rightarrow> session" where
  "silent _ s = s"

abbreviation ty_act :: "('a, 'b) browser \<Rightarrow> (exn, 'c, 'b) io \<Rightarrow> (exn, 'c, 'b world) io" where
  "ty_act \<equiv> act silent"

definition click_if_shown :: "('a, 'b) browser \<Rightarrow> string \<Rightarrow> nat \<Rightarrow> (exn, unit, 'b world) io" where
  "click_if_shown br sel ms =
     io_bind (ty_act br (br_count br sel)) (\<lambda>n.
       if n = 0 then io_return ()
       else io_bind (ty_act br (br_visible br sel)) (\<lambda>shown.
         if shown then io_all [ty_act br (br_click br sel), ty_act br (br_wait br ms)] else io_return ()))"

definition accept_sel :: string where
  "accept_sel =
     text_sel ''a'' ''I accept'' [] @ '', '' @ text_sel ''button'' ''I accept'' [] @ '', '' @
     text_sel ''a'' ''Accept'' [] @ '', input[value*='' @ [CHR 0x27] @ ''ccept'' @ [CHR 0x27] @ '']''"

definition doc_search_sel :: string where
  "doc_search_sel =
     text_sel ''a'' ''Document Search and Copies'' [] @ '', '' @ text_sel ''a'' ''Document Search'' []"

definition search_pat :: re where
  "search_pat = Seq (Lit ''/web/search/'') (Grp 1 (Plus (Cls word_char)))"

definition open_search :: "('a, 'b) browser \<Rightarrow> string \<Rightarrow> (exn, string, 'b world) io" where
  "open_search br base =
     io_then (io_all [ty_act br (br_goto br base), ty_act br (br_wait br 3000),
                      click_if_shown br accept_sel 2500, click_if_shown br doc_search_sel 3500])
     (io_bind (ty_act br (br_address br)) (\<lambda>url.
        case re_search search_pat url of
          None \<Rightarrow> io_raise \<lparr>ex_type = ''RuntimeError'', ex_msg = ''tyler: search page not reached ('' @ url @ '')''\<rparr>
        | Some g \<Rightarrow> io_return (group g 1)))"

definition fill_field :: "('a, 'b) browser \<Rightarrow> string \<Rightarrow> string \<Rightarrow> (exn, unit, 'b world) io" where
  "fill_field br field_id v =
     io_bind (ty_act br (br_count br (''#'' @ field_id))) (\<lambda>n.
       io_when (n \<noteq> 0) (ty_act br (br_fill br (''#'' @ field_id) v)))"

definition run_search :: "('a, 'b) browser \<Rightarrow> (exn, unit, 'b world) io" where
  "run_search br =
     io_all [ty_act br (br_await br ''#searchButton''), ty_act br (br_click br ''#searchButton''),
             ty_act br (br_wait br 6500)]"

definition search_document_number :: "('a, 'b) browser \<Rightarrow> string \<Rightarrow> (exn, unit, 'b world) io" where
  "search_document_number br doc_number =
     io_all [fill_field br ''field_DocumentNumberID'' doc_number, run_search br]"

definition search_reference :: "('a, 'b) browser \<Rightarrow> string \<Rightarrow> string \<Rightarrow> (exn, unit, 'b world) io" where
  "search_reference br book page =
     io_all [fill_field br ''field_BookPageID_DOT_Book'' book, fill_field br ''field_BookPageID_DOT_Page'' page,
             run_search br]"

text \<open>A search by subdivision, which no lookup uses.\<close>

definition search_subdivision ::
  "('a, 'b) browser \<Rightarrow> string \<Rightarrow> string \<Rightarrow> string \<Rightarrow> (exn, unit, 'b world) io" where
  "search_subdivision br subdivision lot block =
     io_all [fill_field br ''field_PlattedLegalID_DOT_Subdivision'' subdivision,
             io_when (lot \<noteq> []) (fill_field br ''field_PlattedLegalID_DOT_Lot'' lot),
             io_when (block \<noteq> []) (fill_field br ''field_PlattedLegalID_DOT_Block'' block), run_search br]"

text \<open>\<open>urlsplit\<close> on an absolute address: scheme and host.\<close>

definition host_pat :: re where
  "host_pat =
     seqs [Grp 1 (Plus (Cls (\<lambda>c. c \<noteq> CHR '':''))), Lit ''://'',
           Grp 2 (Star (Cls (\<lambda>c. c \<noteq> CHR ''/'' \<and> c \<noteq> CHR ''?'' \<and> c \<noteq> CHR ''#'')))]"

definition host_of :: "string \<Rightarrow> string" where
  "host_of base =
     (case re_match host_pat base of None \<Rightarrow> ''://'' | Some g \<Rightarrow> group g 1 @ ''://'' @ group g 2)"

definition with_slash :: "string \<Rightarrow> string" where
  "with_slash url = rstrip_if (\<lambda>c. c = CHR ''/'') url @ ''/''"

definition docid_pat :: "string \<Rightarrow> re" where
  "docid_pat sid =
     seqs [Lit ''/web/document/'', Grp 1 (Seq (Lit ''DOC'') (Plus (Cls word_char))), Lit ''?search='', Lit sid]"

definition url_char :: "char list \<Rightarrow> char \<Rightarrow> bool" where
  "url_char stops c = (c \<notin> set stops \<and> \<not> is_space c)"

definition image_pdf_pat :: re where
  "image_pdf_pat =
     Grp 1 (seqs [Lit ''/web/document-image-pdf/'', Plus (Cls (url_char [CHR 0x22, CHR 0x27, CHR ''?''])),
                  Lit ''.pdf?'', Star (Cls (url_char [CHR 0x22, CHR 0x27]))])"

definition servepdf_pat :: re where
  "servepdf_pat =
     Grp 1 (Seq (Lit ''/web/document/servepdf/'') (Plus (Cls (url_char [CHR 0x22, CHR 0x27, CHR ''?'']))))"

definition is_pdf :: "string \<Rightarrow> bool" where
  "is_pdf body = (take 4 body = ''%PDF'')"

definition first_pdf :: "('a, 'b) browser \<Rightarrow> string \<Rightarrow> string \<Rightarrow> (exn, string option, 'b world) io" where
  "first_pdf br host sid =
     io_bind (ty_act br (br_content br)) (\<lambda>page.
       case re_search (docid_pat sid) page of
         None \<Rightarrow> io_return None
       | Some g \<Rightarrow>
           io_then (io_all [ty_act br (br_goto br (host @ ''/web/document/'' @ group g 1 @ ''?search='' @ sid)),
                            ty_act br (br_wait br 3000)])
           (io_bind (ty_act br (br_content br)) (\<lambda>html.
              case (case re_search image_pdf_pat html of Some m \<Rightarrow> Some m | None \<Rightarrow> re_search servepdf_pat html) of
                None \<Rightarrow> io_return None
              | Some m \<Rightarrow>
                  io_bind (ty_act br (br_get br (host @ re_sub (Lit ''&amp;'') ''&'' (group m 1)))) (\<lambda>r.
                    io_return (if is_pdf (ha_body r) then Some (ha_body r) else None)))))"

text \<open>One page of the session: opened, searched, its first document fetched.\<close>

definition tyler_find ::
  "('a, 'b) browser \<Rightarrow> string \<Rightarrow> (exn, unit, 'b world) io \<Rightarrow> (exn, string option, 'b world) io" where
  "tyler_find br url search =
     io_then (ty_act br (br_new_page br))
       (io_bind (open_search br (with_slash url)) (\<lambda>sid.
          io_then search (first_pdf br (host_of (with_slash url)) sid)))"

section \<open>Volusia\<close>

text \<open>The paused download of the viewer: its body is kept when it is a PDF.\<close>

fun on_paused :: "event \<Rightarrow> session \<Rightarrow> session" where
  "on_paused (Paused (Some (base64, raw))) s =
     (case (if base64 then b64decode raw else Some raw) of
        None \<Rightarrow> s
      | Some body \<Rightarrow> if is_pdf body then s\<lparr>ss_body := Some body\<rparr> else s)"
| "on_paused _ s = s"

abbreviation vo_act :: "('a, 'b) browser \<Rightarrow> (exn, 'c, 'b) io \<Rightarrow> (exn, 'c, 'b world) io" where
  "vo_act \<equiv> act on_paused"

definition vo_accept_sel :: string where
  "vo_accept_sel = ''#accept, input[value*='' @ [CHR 0x27] @ ''ccept'' @ [CHR 0x27] @ '']''"

definition volusia_open :: "('a, 'b) browser \<Rightarrow> string \<Rightarrow> (exn, unit, 'b world) io" where
  "volusia_open br url =
     io_all
       [update_session (\<lambda>_. fresh_session\<lparr>ss_base := with_slash url\<rparr>),
        vo_act br (br_new_page br), vo_act br (br_goto br (with_slash url)), vo_act br (br_wait br 2000),
        io_bind (vo_act br (br_count br vo_accept_sel)) (\<lambda>n.
          if n = 0 then io_return ()
          else io_bind (vo_act br (br_visible br vo_accept_sel)) (\<lambda>shown.
            io_when shown (vo_act br (br_click br vo_accept_sel)))),
        vo_act br (br_settled br), vo_act br (br_wait br 1500)]"

definition reset_form :: "('a, 'b) browser \<Rightarrow> (exn, unit, 'b world) io" where
  "reset_form br =
     io_bind the_session (\<lambda>s.
       io_all [vo_act br (br_goto br (ss_base s @ ''inquiry.aspx'')), vo_act br (br_wait br 1200)])"

definition submit_form :: "('a, 'b) browser \<Rightarrow> (exn, unit, 'b world) io" where
  "submit_form br =
     io_all [vo_act br (br_click br ''#search''), vo_act br (br_settled br), vo_act br (br_wait br 2500)]"

text \<open>Polling for the download: at most \<open>n\<close> seconds.\<close>

fun await_body :: "('a, 'b) browser \<Rightarrow> nat \<Rightarrow> (exn, unit, 'b world) io" where
  "await_body br 0 = io_return ()"
| "await_body br (Suc n) =
     io_bind the_session (\<lambda>s.
       if ss_body s = None then io_then (vo_act br (br_tab_wait br 1000)) (await_body br n) else io_return ())"

definition suppressed :: "(exn, unit, 's) io \<Rightarrow> (exn, unit, 's) io" where
  "suppressed m = io_catch m (\<lambda>_. io_return ())"

definition capture :: "('a, 'b) browser \<Rightarrow> 'a \<Rightarrow> (exn, string option, 'b world) io" where
  "capture br anchor =
     io_then (io_all
       [update_session (\<lambda>s. s\<lparr>ss_body := None\<rparr>),
        vo_act br (br_open_tab br anchor),
        suppressed (io_then (vo_act br (br_tab_front br)) (vo_act br (br_tab_settled br))),
        await_body br 20,
        suppressed (vo_act br (br_tab_close br))])
     (io_bind the_session (\<lambda>s. io_return (ss_body s)))"

definition icon_sel :: string where
  "icon_sel = ''a:has(img[src*='' @ [CHR 0x27] @ ''pdficon'' @ [CHR 0x27] @ ''])''"

definition by_instrument :: "('a, 'b) browser \<Rightarrow> string \<Rightarrow> (exn, string option, 'b world) io" where
  "by_instrument br instrument =
     io_then (io_all [reset_form br, vo_act br (br_fill br ''#instrument'' instrument), submit_form br])
     (io_bind (vo_act br (br_anchor br icon_sel)) (\<lambda>a.
        case a of None \<Rightarrow> io_return None | Some anchor \<Rightarrow> capture br anchor))"

text \<open>The first row whose Book/Page column is the one searched for and that has an icon.\<close>

definition no_blanks :: "string \<Rightarrow> string" where
  "no_blanks s = replace_char (CHR '' '') [] s"

definition exact_row :: "string \<Rightarrow> string list \<times> 'a option \<Rightarrow> bool" where
  "exact_row want tr =
     (case tr of (cells, icon) \<Rightarrow> 4 \<le> length cells \<and> no_blanks (strip (cells ! 3)) = want \<and> icon \<noteq> None)"

definition by_book_page :: "('a, 'b) browser \<Rightarrow> string \<Rightarrow> string \<Rightarrow> (exn, string option, 'b world) io" where
  "by_book_page br book page =
     io_then (io_all [reset_form br, vo_act br (br_fill br ''#book'' book),
                      vo_act br (br_fill br ''#tb_page'' page), submit_form br])
     (io_bind (vo_act br (br_table br icon_sel)) (\<lambda>rows.
        case List.find (exact_row (no_blanks (book @ ''/'' @ page))) rows of
          Some (_, Some anchor) \<Rightarrow> capture br anchor
        | _ \<Rightarrow> io_return None))"

section \<open>Manatee\<close>

abbreviation ma_act :: "('a, 'b) browser \<Rightarrow> (exn, 'c, 'b) io \<Rightarrow> (exn, 'c, 'b world) io" where
  "ma_act \<equiv> act silent"

definition page_pat :: "string \<Rightarrow> re" where
  "page_pat iid =
     seqs [Lit ''InstrumentResultJpgAsync?instrumentId='', Lit iid, Lit ''&'', Maybe (Lit ''amp;''),
           Lit ''page='', Grp 1 (Plus digit)]"

definition instrument_pat :: re where
  "instrument_pat = Seq (Lit ''/OfficialRecords/DisplayInstrument/'') (Grp 1 (Plus digit))"

fun page_images ::
  "('a, 'b) browser \<Rightarrow> imaging \<Rightarrow> string \<Rightarrow> string \<Rightarrow> nat list \<Rightarrow> (exn, string list, 'b world) io" where
  "page_images br pil base iid [] = io_return []"
| "page_images br pil base iid (n # ns) =
     io_bind (ma_act br (br_get br (base @ ''/OfficialRecords/DisplayInstrument/InstrumentResultJpgAsync'' @
                                    ''?instrumentId='' @ iid @ ''&page='' @ show_nat n))) (\<lambda>r.
       if startswith (lower (ha_type r)) ''image'' \<and> take 2 (ha_body r) = [CHR 0xFF, CHR 0xD8] then
         (case pil_open pil (ha_body r) of
            Inl e \<Rightarrow> io_raise e
          | Inr img \<Rightarrow> io_bind (page_images br pil base iid ns) (\<lambda>imgs. io_return (img # imgs)))
       else page_images br pil base iid ns)"

definition instrument_pages ::
  "('a, 'b) browser \<Rightarrow> imaging \<Rightarrow> string \<Rightarrow> string \<Rightarrow> (exn, string list, 'b world) io" where
  "instrument_pages br pil base iid =
     io_bind (ma_act br (br_get br (base @ ''/OfficialRecords/DisplayInstrument/'' @ iid))) (\<lambda>dh.
       page_images br pil base iid
         (sort (remdups (map (\<lambda>d. nat (digits_value d)) (re_findall (page_pat iid) (ha_body dh))))))"

definition instrument_ids :: "('a, 'b) browser \<Rightarrow> string \<Rightarrow> string \<Rightarrow> (exn, string list, 'b world) io" where
  "instrument_ids br base num =
     io_bind (ma_act br (br_get br (base @ ''/OfficialRecords/Search/InstrumentNumber'' @
                                    ''?instrumentNumber='' @ num @ ''&page=1&pageSize=50''))) (\<lambda>h.
       io_return (re_findall instrument_pat (ha_body h)))"

definition book_page_ids ::
  "('a, 'b) browser \<Rightarrow> string \<Rightarrow> string \<Rightarrow> string \<Rightarrow> (exn, string list, 'b world) io" where
  "book_page_ids br base book page =
     io_bind (ma_act br (br_get br (base @ ''/OfficialRecords/Search/InstrumentBookPage/'' @ book @ ''/'' @ page @
                                    ''/1/50''))) (\<lambda>h.
       io_return (re_findall instrument_pat (ha_body h)))"

section \<open>The portals\<close>

definition portal_driver :: "('a, 'b) browser \<Rightarrow> imaging \<Rightarrow> 'b world driver" where
  "portal_driver br pil =
     \<lparr>dv_launch = ty_act br (br_launch br), dv_close = ty_act br (br_close br),
      ty_document = (\<lambda>url n. tyler_find br url (search_document_number br n)),
      ty_book_page = (\<lambda>url book page. tyler_find br url (search_reference br book page)),
      vo_open = volusia_open br, vo_instrument = by_instrument br, vo_book_page = by_book_page br,
      nv_new = new_session br, nv_open = nv_open_page br,
      nv_book_page = (\<lambda>book page book_type.
        io_then (search_book_page br book page book_type)
          (io_bind the_session (\<lambda>s. io_return (ss_search_results s)))),
      nv_party = search_party br, nv_open_first = open_first_result br, nv_captured = capture_pages br,
      ma_instrument = instrument_ids br, ma_search = book_page_ids br,
      ma_pages = instrument_pages br pil, dv_pil = pil\<rparr>"

end
