(* ===== verification/PortalProps.thy ===== *)
theory PortalProps
  imports ClerkDrivers ClerkProps
begin

text \<open>
  What the portal sessions guarantee to the scrape: the pages of a document come once each and in order,
  and the portals that serve a finished document only ever yield PDF files.
\<close>

section \<open>The pages of a document\<close>

lemma map_of_sort_key: "map_of (sort_key fst xs) k = map_of xs k"
proof -
  have find: "map_of ys k = (case filter (\<lambda>p. fst p = k) ys of [] \<Rightarrow> None | p # _ \<Rightarrow> Some (snd p))"
    for ys by (induction ys) auto
  show ?thesis unfolding find sort_key_stable ..
qed

lemma sorted_dict_fromkeys: "sorted xs \<Longrightarrow> sorted (dict_fromkeys xs)"
proof -
  have "sorted xs \<Longrightarrow> sorted (dedup_from seen xs)" for seen
    by (induction seen xs rule: dedup_from.induct) (auto simp: set_dedup_from)
  then show "sorted xs \<Longrightarrow> sorted (dict_fromkeys xs)" by (simp add: dict_fromkeys_def)
qed

text \<open>The pages of a captured document are its page numbers in increasing order, once each, every page
  with the first image that was received for it, in whatever order and however often the viewer delivered
  them.\<close>

theorem order_pages_eq:
  "order_pages caps = map (\<lambda>n. the (map_of caps n)) (sorted_list_of_set (fst ` set caps))"
proof -
  let ?ns = "dict_fromkeys (map fst (sort_key fst caps))"
  have "sorted ?ns" by (rule sorted_dict_fromkeys) simp
  moreover have "distinct ?ns" "set ?ns = fst ` set caps" by simp_all
  ultimately have "?ns = sorted_list_of_set (fst ` set caps)"
    by (metis sorted_list_of_set.idem_if_sorted_distinct)
  then show ?thesis by (simp add: order_pages_def Let_def map_of_sort_key)
qed

section \<open>Finished documents\<close>

definition pdf_or_none :: "string option \<Rightarrow> bool" where
  "pdf_or_none r = (case r of None \<Rightarrow> True | Some body \<Rightarrow> is_pdf body)"

lemma pdf_or_none_simps [simp]: "pdf_or_none None" "pdf_or_none (Some body) \<longleftrightarrow> is_pdf body"
  by (simp_all add: pdf_or_none_def)

abbreviation yields_pdf :: "(exn, string option, 's) io \<Rightarrow> bool" where
  "yields_pdf \<equiv> gives pdf_or_none (\<lambda>_. True)"

lemma then_any: "gives P (\<lambda>_. True) n \<Longrightarrow> gives P (\<lambda>_. True) (io_then m n)"
  unfolding io_then_def by (rule bind_any)

lemma first_pdf_pdf: "yields_pdf (first_pdf br host sid)"
  unfolding first_pdf_def
  by (intro bind_any) (auto intro!: bind_any then_any gives_return split: option.split)

lemma tyler_find_pdf: "yields_pdf (tyler_find br url search)"
  unfolding tyler_find_def by (intro then_any bind_any first_pdf_pdf)

text \<open>The listener of Volusia keeps only PDFs.\<close>

definition body_ok :: "'b world \<Rightarrow> bool" where
  "body_ok w = pdf_or_none (ss_body (snd w))"

lemma on_paused_ok: "pdf_or_none (ss_body s) \<Longrightarrow> pdf_or_none (ss_body (on_paused ev s))"
  by (cases "(ev, s)" rule: on_paused.cases) (auto split: option.split)

lemma fold_on_paused_ok: "pdf_or_none (ss_body s) \<Longrightarrow> pdf_or_none (ss_body (fold on_paused evs s))"
  by (induction evs arbitrary: s) (simp_all add: on_paused_ok)

lemma keeps_vo_act [intro, simp]: "preserves body_ok (vo_act br m)"
  by (auto simp: preserves_def act_def body_ok_def fold_on_paused_ok split: prod.splits)

lemma keeps_session [intro, simp]: "preserves P the_session"
  by (simp add: preserves_def the_session_def)

lemma keeps_suppressed [intro]: "preserves P m \<Longrightarrow> preserves P (suppressed m)"
  unfolding suppressed_def by (intro preserves_catch) auto

lemma keeps_await_body: "preserves body_ok (await_body br n)"
  by (induction n) (auto intro!: preserves_bind preserves_then)

lemma capture_pdf:
  fixes br :: "('a, 'b) browser"
  shows "yields_pdf (capture br anchor)"
proof -
  let ?rest = "io_all [vo_act br (br_open_tab br anchor),
        suppressed (io_then (vo_act br (br_tab_front br)) (vo_act br (br_tab_settled br))),
        await_body br 20, suppressed (vo_act br (br_tab_close br))]"
  have keep: "preserves body_ok ?rest"
    using keeps_await_body by (auto intro!: preserves_then keeps_suppressed)
  show ?thesis
    unfolding gives_def
  proof
    fix w :: "'b world"
    obtain b s where w: "w = (b, s)" by (cases w)
    let ?w0 = "(b, s\<lparr>ss_body := None\<rparr>)"
    have run: "capture br anchor w =
        (case ?rest ?w0 of (Inl e, w1) \<Rightarrow> (Inl e, w1) | (Inr _, w1) \<Rightarrow> (Inr (ss_body (snd w1)), w1))"
      by (simp add: capture_def io_then_def io_bind_def update_session_def the_session_def io_return_def w
          split: prod.splits sum.splits)
    have "body_ok (snd (?rest ?w0))" using keep by (simp add: preserves_def body_ok_def)
    then show "case fst (capture br anchor w) of Inl e \<Rightarrow> True | Inr a \<Rightarrow> pdf_or_none a"
      unfolding run by (auto simp: body_ok_def split: prod.splits sum.splits)
  qed
qed

lemma by_instrument_pdf: "yields_pdf (by_instrument br n)"
  unfolding by_instrument_def
  by (intro then_any bind_any) (auto intro!: gives_return capture_pdf split: option.split)

lemma by_book_page_pdf: "yields_pdf (by_book_page br book page)"
  unfolding by_book_page_def
  by (intro then_any bind_any) (auto intro!: gives_return capture_pdf split: option.split prod.split)

section \<open>The files of a scrape\<close>

definition reported_pdf :: "path \<Rightarrow> 'd scrape \<Rightarrow> bool" where
  "reported_pdf out_dir s =
     (case s of (d, fs, r) \<Rightarrow>
        (\<forall>name. sc_deed r = Some name \<or> sc_plat r = Some name \<longrightarrow>
           (\<exists>data. read_bytes fs (out_dir @ [name]) = Inr data \<and> is_pdf data)))"

lemma pdf_drive [intro, simp]: "preserves (reported_pdf p) (drive m)"
  by (auto simp: preserves_def drive_def reported_pdf_def split: prod.splits)

lemma pdf_result [intro, simp]:
  "preserves (reported_pdf p) (set_ref t)" "preserves (reported_pdf p) (set_error t)"
  "preserves (reported_pdf p) get_result"
  by (auto simp: preserves_def set_ref_def set_error_def set_result_def get_result_def reported_pdf_def)

lemma read_after_mkdir: "read_bytes fs p = Inr d \<Longrightarrow> read_bytes (snd (mkdir_parents fs q)) p = Inr d"
  by (auto simp: read_bytes_def mkdir_parents_def split: option.splits if_splits)

lemma pdf_mkdir [intro, simp]: "preserves (reported_pdf p) (mkdir q)"
  unfolding preserves_def
proof (intro allI impI)
  fix s :: "'a scrape" assume s: "reported_pdf p s"
  obtain d fs r where [simp]: "s = (d, fs, r)" by (cases s)
  obtain x fs' where m: "mkdir_parents fs q = (x, fs')" by fastforce
  then have "read_bytes fs n = Inr b \<Longrightarrow> read_bytes fs' n = Inr b" for n b
    using read_after_mkdir [of fs n b q] by simp
  with s show "reported_pdf p (snd (mkdir q s))"
    by (cases x) (fastforce simp: mkdir_def m reported_pdf_def)+
qed

lemma pdf_keep:
  assumes "nt = set_deed \<or> nt = set_plat" "pdf_or_none pdf"
  shows "preserves (reported_pdf p) (keep_pdf p name nt pdf)"
  unfolding preserves_def
proof (intro allI impI)
  fix s :: "'a scrape" assume s: "reported_pdf p s"
  obtain d fs r where [simp]: "s = (d, fs, r)" by (cases s)
  show "reported_pdf p (snd (keep_pdf p name nt pdf s))"
  proof (cases pdf)
    case None
    then show ?thesis using s by (simp add: keep_pdf_def io_return_def)
  next
    case (Some data)
    then have pdf: "is_pdf data" "data \<noteq> []" using assms(2) by (auto simp: is_pdf_def)
    obtain x fs' where w: "write_bytes fs (p @ [name]) data = (x, fs')" by fastforce
    have keep: "\<exists>d. read_bytes fs' n = Inr d \<and> is_pdf d" if "read_bytes fs n = Inr d" "is_pdf d" for n d
      using w that pdf by (auto simp: write_bytes_def read_bytes_def split: if_splits option.splits)
    have new: "read_bytes fs' (p @ [name]) = Inr data" if "x = Inr ()"
      using w that by (auto simp: write_bytes_def read_bytes_def split: if_splits)
    show ?thesis
    proof (cases x)
      case (Inl e)
      then have "keep_pdf p name nt pdf s = (Inl (os_error e), (d, fs', r))"
        by (simp add: keep_pdf_def Some pdf io_then_def io_bind_def save_bytes_def w)
      then show ?thesis using s keep by (fastforce simp: reported_pdf_def)
    next
      case (Inr u)
      then have run: "keep_pdf p name nt pdf s = nt (Some name) (d, fs', r)"
        by (simp add: keep_pdf_def Some pdf io_then_def io_bind_def save_bytes_def w)
      show ?thesis
        unfolding run using s keep new pdf(1) Inr assms(1)
        by (fastforce simp: reported_pdf_def set_deed_def set_plat_def set_result_def)
    qed
  qed
qed

lemma pdf_bind:
  assumes "yields_pdf m" "\<And>pdf. pdf_or_none pdf \<Longrightarrow> preserves P (f pdf)"
    and "preserves P (drive m)"
  shows "preserves P (io_bind (drive m) f)"
  unfolding preserves_def
proof (intro allI impI)
  fix s assume "P s"
  then have Ps: "P (snd (drive m s))" using assms(3) unfolding preserves_def by blast
  obtain d fs r where s: "s = (d, fs, r)" by (cases s)
  show "P (snd (io_bind (drive m) f s))"
  proof (cases "m d")
    case (Pair x d')
    then show ?thesis
      using Ps assms(1,2) by (cases x) (auto simp: io_bind_def drive_def s preserves_def dest: gives_InrD)
  qed
qed

lemma pdf_browser: "preserves (reported_pdf p) m \<Longrightarrow> preserves (reported_pdf p) (with_browser dv m)"
  unfolding with_browser_def by (intro preserves_then preserves_finally pdf_drive)

lemma pdf_deed:
  assumes "\<And>n. yields_pdf (by_doc n)" "\<And>b q. yields_pdf (by_page b q)"
  shows "preserves (reported_pdf p) (deed_by_reference p l f by_doc by_page deed)"
proof -
  have "preserves (reported_pdf p) (io_bind (drive (by_doc n)) (keep_pdf p name set_deed))"
    "preserves (reported_pdf p) (io_bind (drive (by_page b q)) (keep_pdf p name set_deed))" for n b q name
    by (intro pdf_bind assms pdf_drive pdf_keep; simp)+
  then show ?thesis
    unfolding deed_by_reference_def Let_def
    by (intro preserves_then preserves_when preserves_bind [OF pdf_result(3)] pdf_result) auto
qed

lemma pdf_plat:
  assumes "\<And>b q. yields_pdf (by_page b q)"
  shows "preserves (reported_pdf p) (plat_by_reference p by_page plat)"
proof -
  have "preserves (reported_pdf p) (io_bind (drive (by_page b q)) (keep_pdf p name set_plat))" for b q name
    by (intro pdf_bind assms pdf_drive pdf_keep; simp)
  then show ?thesis
    unfolding plat_by_reference_def with_plat_ref_def by (auto split: option.split)
qed

lemma portal_finders:
  "yields_pdf (ty_document (portal_driver br pil) url n)"
  "yields_pdf (ty_book_page (portal_driver br pil) url book page)"
  "yields_pdf (vo_instrument (portal_driver br pil) n)"
  "yields_pdf (vo_book_page (portal_driver br pil) book page)"
  by (simp_all add: portal_driver_def tyler_find_pdf by_instrument_pdf by_book_page_pdf)

lemma pdf_attempts:
  "preserves (reported_pdf p) m \<Longrightarrow> preserves (reported_pdf p) (attempts n m e)"
  by (induction n arbitrary: e) (auto intro!: preserves_catch)

lemma pdf_tyler: "preserves (reported_pdf p) (fetch_tyler (portal_driver br pil) url p plat deed)"
  unfolding fetch_tyler_def
  by (intro preserves_then pdf_mkdir pdf_browser pdf_deed pdf_plat portal_finders)

lemma pdf_volusia: "preserves (reported_pdf p) (fetch_volusia (portal_driver br pil) url p plat deed)"
  unfolding fetch_volusia_def
  by (intro preserves_then pdf_mkdir pdf_browser pdf_deed pdf_plat pdf_drive portal_finders)

text \<open>C22: In the counties whose portal serves finished documents, every deed or plat the scrape reports is a
  file in the documents directory that begins as a PDF, whatever pages, rows, downloads and error pages
  the portal answered, also after a crash and a retry: an error page is never filed as a deed.\<close>

theorem portal_files_are_pdfs:
  fixes br :: "('a, 'b) browser"
  assumes "map_of TYLER_PORTALS county_fips \<noteq> None \<or> map_of VOLUSIA_PORTALS county_fips \<noteq> None"
    and "fetch_documents (portal_driver br pil) playwright county_fips out_dir plat deed (w, fs) = (r, w', fs')"
    and "sc_deed r = Some name \<or> sc_plat r = Some name"
  shows "\<exists>data. read_bytes fs' (out_dir @ [name]) = Inr data \<and> is_pdf data"
proof -
  let ?dv = "portal_driver br pil"
  have none: "map_of MANATEE_PORTALS county_fips = None"
    using assms(1) by (auto simp: MANATEE_PORTALS_def TYLER_PORTALS_def VOLUSIA_PORTALS_def split: if_splits)
  let ?m = "if \<not> playwright then set_error ''no adapter / playwright unavailable''
        else (case (map_of TYLER_PORTALS county_fips, map_of VOLUSIA_PORTALS county_fips,
                    map_of NEWVISION_PORTALS county_fips) of
                (Some url, _, _) \<Rightarrow> attempts 2 (fetch_tyler ?dv url out_dir plat deed) []
              | (None, Some url, _) \<Rightarrow> attempts 2 (fetch_volusia ?dv url out_dir plat deed) []
              | (None, None, Some url) \<Rightarrow> attempts 2 (fetch_once ?dv url out_dir plat deed) []
              | (None, None, None) \<Rightarrow> set_error ''no adapter / playwright unavailable'')"
  have "preserves (reported_pdf out_dir) ?m"
    using assms(1) by (auto intro!: pdf_attempts pdf_tyler pdf_volusia split: option.split)
  moreover have "reported_pdf out_dir (w, fs, start_result)"
    by (simp add: reported_pdf_def start_result_def)
  ultimately have "reported_pdf out_dir (snd (?m (w, fs, start_result)))"
    unfolding preserves_def by blast
  moreover have "snd (?m (w, fs, start_result)) = (w', fs', r)"
    using assms(2) unfolding fetch_documents_def Let_def none by (auto split: prod.splits)
  ultimately show ?thesis using assms(3) by (auto simp: reported_pdf_def)
qed

text \<open>A portal that finds the document and answers with a PDF.\<close>

definition demo_browser :: "(unit, unit) browser" where
  "demo_browser =
     \<lparr>br_launch = io_return (), br_close = io_return (), br_new_page = io_return (),
      br_received = (\<lambda>b. ([], b)), br_goto = (\<lambda>_. io_return ()), br_wait = (\<lambda>_. io_return ()),
      br_settled = io_return (), br_count = (\<lambda>_. io_return 0), br_visible = (\<lambda>_. io_return False),
      br_click = (\<lambda>_. io_return ()), br_fill = (\<lambda>_ _. io_return ()), br_select = (\<lambda>_ _. io_return ()),
      br_await = (\<lambda>_. io_return ()), br_address = io_return ''https://x/web/search/S1'',
      br_content = io_return ''/web/document/DOC7?search=S1 /web/document/servepdf/DOC7'',
      br_get = (\<lambda>_. io_return \<lparr>ha_type = ''application/pdf'', ha_body = ''%PDF-1''\<rparr>),
      br_anchor = (\<lambda>_. io_return None), br_table = (\<lambda>_. io_return []),
      br_open_tab = (\<lambda>_. io_return ()), br_tab_front = io_return (), br_tab_settled = io_return (),
      br_tab_wait = (\<lambda>_. io_return ()), br_tab_close = io_return ()\<rparr>"

definition demo_imaging :: imaging where
  "demo_imaging = \<lparr>pil_installed = True, pil_open = Inr, pil_pdf = (\<lambda>ps. Inr (concat ps))\<rparr>"

theorem portal_files_are_pdfs_witness:
  "case fetch_documents (portal_driver demo_browser demo_imaging) True ''12091'' [''docs''] None (Some demo_deed)
      (((), fresh_session), \<lparr>fs_files = [], fs_dirs = []\<rparr>) of
     (r, _, fs') \<Rightarrow> sc_deed r = Some ''Deed_DOC77.pdf'' \<and>
       (\<exists>data. read_bytes fs' [''docs'', ''Deed_DOC77.pdf''] = Inr data \<and> is_pdf data)"
proof -
  let ?run = "fetch_documents (portal_driver demo_browser demo_imaging) True ''12091'' [''docs''] None (Some demo_deed)
      (((), fresh_session), \<lparr>fs_files = [], fs_dirs = []\<rparr>)"
  obtain r w' fs' where f: "?run = (r, w', fs')" by (rule prod_cases3)
  have "sc_deed (fst ?run) = Some ''Deed_DOC77.pdf''" by code_simp
  then have n: "sc_deed r = Some ''Deed_DOC77.pdf''" by (simp add: f)
  have "map_of TYLER_PORTALS ''12091'' \<noteq> None \<or> map_of VOLUSIA_PORTALS ''12091'' \<noteq> None"
    by (simp add: TYLER_PORTALS_def)
  from portal_files_are_pdfs [OF this f, of "''Deed_DOC77.pdf''"] show ?thesis
    by (simp add: f n)
qed

end
