(* ===== verification/Reports.thy ===== *)
theory Reports
  imports FsIO Parcel Federal
begin

text \<open>
  \<open>services/downloader.py\<close>: the HTML documents rendered from what the sources returned, and the files a
  run saves in its \<open>documents\<close> directory.  The clock's stamp, the composed flood-map image and the NGS
  server are arguments.
\<close>

section \<open>HTML\<close>

definition NL :: string where
  "NL = [CHR 0x0A]"

definition CSS :: string where
  "CSS = join NL
     [''<style>'',
      '':root{--ink:#1e293b;--muted:#64748b;--line:#e2e8f0;--brand:#33409E;--band:#f4f6fc}'',
      ''*{box-sizing:border-box}'',
      ''body{font-family:'Segoe UI',Arial,sans-serif;color:var(--ink);margin:0;background:#f1f5f9;'',
      ''     line-height:1.5;-webkit-print-color-adjust:exact;print-color-adjust:exact}'',
      ''.doc{max-width:820px;margin:24px auto;background:#fff;border:1px solid var(--line);'',
      ''     border-radius:12px;overflow:hidden;box-shadow:0 1px 3px rgba(15,23,42,.06)}'',
      ''.head{padding:22px 30px;border-bottom:3px solid var(--brand);'',
      ''      display:flex;justify-content:space-between;align-items:flex-start;gap:16px}'',
      ''.eyebrow{font-size:11px;font-weight:700;letter-spacing:.12em;text-transform:uppercase;color:var(--brand)}'',
      ''.head h1{font-size:22px;margin:4px 0 2px;letter-spacing:-.01em}'',
      ''.sub{color:var(--muted);font-size:13px}'',
      ''.stamp{text-align:right;font-size:11px;color:var(--muted);line-height:1.7;white-space:nowrap}'',
      ''.body{padding:8px 30px 26px}'',
      ''.banner{margin:18px 0 6px;padding:12px 16px;border-radius:9px;font-weight:700;font-size:15px;'',
      ''        display:flex;align-items:center;gap:10px}'',
      ''.banner .lbl{font-weight:600;font-size:12px;text-transform:uppercase;letter-spacing:.06em;opacity:.8}'',
      ''.banner.ok{background:#ecfdf5;color:#047857;border:1px solid #a7f3d0}'',
      ''.banner.hi{background:#fef2f2;color:#b91c1c;border:1px solid #fecaca}'',
      ''.banner.mid{background:#fffbeb;color:#b45309;border:1px solid #fde68a}'',
      ''.sec{font-size:11px;font-weight:700;letter-spacing:.1em;text-transform:uppercase;color:var(--muted);'',
      ''     margin:22px 0 8px;padding-bottom:6px;border-bottom:1px solid var(--line)}'',
      ''dl.grid{display:grid;grid-template-columns:1fr 1fr;gap:0;margin:0;border:1px solid var(--line);border-radius:9px;overflow:hidden}'',
      ''dl.grid>div{display:flex;flex-direction:column;gap:2px;padding:11px 15px;border-bottom:1px solid var(--line)}'',
      ''dl.grid>div:nth-child(odd){border-right:1px solid var(--line)}'',
      ''dl.grid>div.full{grid-column:1/-1}'',
      ''dl.grid dt{font-size:10.5px;font-weight:700;letter-spacing:.05em;text-transform:uppercase;color:var(--muted)}'',
      ''dl.grid dd{margin:0;font-size:14px;font-weight:500;color:var(--ink);word-break:break-word}'',
      ''.exhibit{margin-top:14px}'',
      ''.exhibit img{width:100%;border:1px solid var(--line);border-radius:9px;display:block}'',
      ''.cap{font-size:11px;color:var(--muted);margin-top:6px}'',
      ''.note{margin-top:18px;padding:12px 15px;background:var(--band);border-radius:9px;font-size:12px;color:#475569}'',
      ''.note b{color:var(--ink)}'',
      ''a{color:var(--brand)}'',
      ''@media print{body{background:#fff}.doc{border:0;box-shadow:none;margin:0;max-width:none}}'',
      ''</style>'']"

text \<open>\<open>html.escape(s)\<close>, quotes included.\<close>

definition escape_char :: "char \<Rightarrow> string" where
  "escape_char c =
     (if c = CHR ''&'' then ''&amp;'' else if c = CHR ''<'' then ''&lt;''
      else if c = CHR ''>'' then ''&gt;'' else if c = CHR 0x22 then ''&quot;''
      else if c = CHR 0x27 then ''&#x27;'' else [c])"

definition html_escape :: "string \<Rightarrow> string" where
  "html_escape s = concat (map escape_char s)"

definition e_text :: "scalar \<Rightarrow> string" where
  "e_text v = html_escape (case v of SNone \<Rightarrow> [] | _ \<Rightarrow> py_str v)"

definition row_cell :: "bool \<Rightarrow> string \<Rightarrow> scalar \<Rightarrow> string" where
  "row_cell full label value =
     (if in_blanks [[]] value then []
      else ''<div class=''@ [CHR 0x27] @ (if full then ''full'' else []) @ [CHR 0x27] @ ''><dt>'' @
           html_escape label @ ''</dt><dd>'' @ e_text value @ ''</dd></div>'')"

definition row :: "string \<Rightarrow> scalar \<Rightarrow> string" where
  "row = row_cell False"

definition row_full :: "string \<Rightarrow> scalar \<Rightarrow> string" where
  "row_full = row_cell True"

definition shell :: "string \<Rightarrow> string \<Rightarrow> string \<Rightarrow> string \<Rightarrow> string \<Rightarrow> string \<Rightarrow> string" where
  "shell stamp eyebrow title subtitle source inner =
     ''<div class=doc><div class=head><div><div class=eyebrow>'' @ html_escape eyebrow @
     ''</div><h1>'' @ html_escape title @ ''</h1><div class=sub>'' @ subtitle @
     ''</div></div><div class=stamp>Generated '' @ stamp @ ''<br>'' @ source @
     ''</div></div><div class=body>'' @ inner @ ''</div></div>''"

text \<open>The directory of a run's documents, and a page written there.\<close>

definition docs_dir :: "path \<Rightarrow> (string, path, fs) io" where
  "docs_dir folder fs =
     (case mkdir_parents fs (folder @ [''documents'']) of
        (Inl e, fs') \<Rightarrow> (Inl e, fs') | (Inr _, fs') \<Rightarrow> (Inr (folder @ [''documents'']), fs'))"

definition save_doc :: "path \<Rightarrow> string \<Rightarrow> string \<Rightarrow> (string, unit, fs) io" where
  "save_doc folder filename data =
     io_bind (docs_dir folder) (\<lambda>d fs. write_bytes fs (resolve_parts [] (join_path d filename)) data)"

definition write_html :: "path \<Rightarrow> string \<Rightarrow> string \<Rightarrow> (string, string, fs) io" where
  "write_html folder filename body =
     io_then (save_doc folder filename
                (''<!doctype html><meta charset='' @ [CHR 0x27] @ ''utf-8'' @ [CHR 0x27] @ ''>'' @ CSS @ body))
       (io_return filename)"

record doc_meta =
  dm_parcel_id :: string
  dm_matched_address :: string
  dm_county :: string
  dm_state :: string
  dm_situs :: string
  dm_land_sqft :: scalar
  dm_land_acres :: scalar

text \<open>\<open>f'{int(sqft):,} sq ft' + (f' ({acres} ac)' if acres else '')\<close>\<close>

definition lot_text :: "scalar \<Rightarrow> scalar \<Rightarrow> string" where
  "lot_text sqft acres =
     show_thousands (case to_int sqft of None \<Rightarrow> 0 | Some i \<Rightarrow> i) @ '' sq ft'' @
     (if truthy acres then '' ('' @ py_str acres @ '' ac)'' else [])"

definition county_line :: "doc_meta \<Rightarrow> string" where
  "county_line meta = dm_county meta @ '' County, '' @ dm_state meta"

definition anchor :: "string \<Rightarrow> string \<Rightarrow> string" where
  "anchor url text =
     ''<a href='' @ [CHR 0x27] @ html_escape url @ [CHR 0x27] @ ''>'' @ text @ ''</a>''"

definition subtitle_of :: "string \<Rightarrow> doc_meta \<Rightarrow> string" where
  "subtitle_of head meta =
     html_escape head @ '' &middot; '' @ html_escape (dm_county meta) @ '' County, '' @
     html_escape (dm_state meta)"

section \<open>The parcel record\<close>

definition PARCEL_KEYS :: "(string \<times> string list) list" where
  "PARCEL_KEYS =
     [(''Owner'', [''own_name'', ''owner'', ''ownname'', ''owner_name'']),
      (''Owner mailing'', [''own_addr1'', ''owner_addr'', ''mailing'']),
      (''Subdivision / legal'', [''s_legal'', ''legal'', ''legal_desc'', ''slegal'']),
      (''Land use'', [''dor_uc'', ''use_code'', ''landuse'', ''pa_uc'']),
      (''Year built'', [''act_yr_blt'', ''yr_blt'', ''year_built'']),
      (''Living area'', [''tot_lvg_ar'', ''living_area'', ''heated_area''])]"

definition shown :: "scalar \<Rightarrow> bool" where
  "shown v = (\<not> in_blanks [[]] v \<and> \<not> eq_zero v)"

fun alias_attr :: "attrs \<Rightarrow> string list \<Rightarrow> scalar" where
  "alias_attr attrs [] = SStr []"
| "alias_attr attrs (a # as) =
     (case List.find (\<lambda>(k, v). lower k = a \<and> shown v) attrs of
        Some (_, v) \<Rightarrow> v | None \<Rightarrow> alias_attr attrs as)"

definition dump_cells :: "attrs \<Rightarrow> string" where
  "dump_cells attrs =
     concat (map (\<lambda>(k, v). ''<div><dt>'' @ html_escape k @ ''</dt><dd>'' @ e_text v @ ''</dd></div>'')
       (filter (\<lambda>(k, v). shown v \<and> \<not> startswith (lower k) ''shape'') attrs))"

definition parcel_body :: "string \<Rightarrow> parcel_info \<Rightarrow> attrs \<Rightarrow> doc_meta \<Rightarrow> string" where
  "parcel_body stamp parcel attrs meta =
     (let src = opt_or (pa_source parcel) [];
          label = opt_or (pa_source_label parcel) ''county parcel service'';
          lot = (if truthy (dm_land_sqft meta) then lot_text (dm_land_sqft meta) (dm_land_acres meta) else []);
          summary = [row ''Parcel ID'' (SStr (dm_parcel_id meta)), row ''Situs address'' (SStr (dm_situs meta)),
                     row ''Land area'' (SStr lot), row ''County'' (SStr (county_line meta))] @
                    map (\<lambda>(lbl, aliases). row lbl (alias_attr attrs aliases)) PARCEL_KEYS;
          grid = ''<dl class=grid>'' @ concat summary @ ''</dl>'';
          src_html = (if src \<noteq> [] then anchor src (html_escape label) else html_escape label);
          inner = ''<div class=sec>Parcel summary</div>'' @ grid @
                  ''<div class=sec>All recorded attributes</div><dl class=grid>'' @ dump_cells attrs @
                  ''</dl><div class=note><b>Verify the situs address matches the subject property.</b> '' @
                  ''Values are the county parcel-service figures at fetch time.</div>''
      in shell stamp ''Survey Research'' ''Parcel Record'' (subtitle_of (dm_matched_address meta) meta)
           src_html inner)"

definition save_parcel_record ::
  "string \<Rightarrow> path \<Rightarrow> parcel_info \<Rightarrow> doc_meta \<Rightarrow> (string, string option, fs) io" where
  "save_parcel_record stamp folder parcel meta =
     (case pa_parcels parcel of
        [] \<Rightarrow> io_return None
      | attrs # _ \<Rightarrow>
          io_bind (write_html folder ''Parcel_Record.html'' (parcel_body stamp parcel attrs meta))
            (\<lambda>fn. io_return (Some fn)))"

section \<open>The appraiser record\<close>

fun needle_attr :: "attrs \<Rightarrow> string list \<Rightarrow> scalar" where
  "needle_attr attrs [] = SNone"
| "needle_attr attrs (n # ns) =
     (case List.find (\<lambda>(k, v). contains n (norm k) \<and> usable v) attrs of
        Some (_, v) \<Rightarrow> v | None \<Rightarrow> needle_attr attrs ns)"

text \<open>\<open>int(float(v))\<close>\<close>

definition int_float :: "scalar \<Rightarrow> int option" where
  "int_float v = (case to_float v of None \<Rightarrow> None | Some (m, e) \<Rightarrow> to_int (SFloat m e))"

definition money :: "scalar \<Rightarrow> scalar" where
  "money v = (case int_float v of None \<Rightarrow> SNone | Some i \<Rightarrow> SStr (''$'' @ show_thousands i))"

definition appraiser_rows :: "attrs \<Rightarrow> doc_meta \<Rightarrow> scalar \<Rightarrow> string" where
  "appraiser_rows attrs meta living =
     (let g = needle_attr attrs;
          situs = (if dm_situs meta \<noteq> [] then SStr (dm_situs meta)
                   else g [''situsaddr'', ''siteaddr'', ''phyaddr'', ''parceladdr'', ''propaddr'', ''locaddr'', ''situs'']);
          land = (if truthy (dm_land_sqft meta)
                  then SStr (lot_text (dm_land_sqft meta) (dm_land_acres meta)) else SNone)
      in concat
        [row ''Parcel ID'' (SStr (dm_parcel_id meta)),
         row ''Owner'' (g [''ownname'', ''ownername'', ''ownernm'', ''primaryowner'', ''owner1'', ''owner'', ''owner'']),
         row ''Owner mailing'' (g [''mailaddr'', ''ownaddr'', ''owneraddr'', ''mailing'', ''addmail'']),
         row_full ''Situs address'' situs,
         row ''County'' (SStr (county_line meta)),
         row_full ''Subdivision / legal'' (g [''slegal'', ''legaldesc'', ''legal'', ''subdiv'']),
         row ''Land use'' (g [''doruc'', ''usecode'', ''landuse'', ''propuse'', ''classcode'', ''propertyclass'', ''luc'']),
         row ''Land area'' land,
         row ''Living area'' living,
         row ''Year built'' (g [''actyrblt'', ''yrblt'', ''yearbuilt'', ''effyr'']),
         row ''Market value'' (money (g [''just'', ''jv'', ''market'', ''mktval'', ''apprval'', ''totalappr'', ''totalvalue''])),
         row ''Assessed value'' (money (g [''assess'', ''avsd'', ''assdtot'', ''assd''])),
         row ''Taxable value'' (money (g [''taxable'', ''tvsd'', ''txbl''])),
         row ''Last sale price'' (money (g [''saleprc'', ''saleprice'', ''saleamt'', ''lastsale'']))])"

definition appraiser_body :: "string \<Rightarrow> attrs \<Rightarrow> doc_meta \<Rightarrow> string \<Rightarrow> scalar \<Rightarrow> string" where
  "appraiser_body stamp attrs meta appraiser_url living =
     (let src_label = (if dm_state meta = ''FL'' then ''Florida DOR statewide tax roll (NAL/cadastral)''
                       else dm_county meta @ '' County parcel / assessor data'');
          src = src_label @ (if appraiser_url \<noteq> []
                             then '' &middot; '' @ anchor appraiser_url ''open county Property Appraiser'' else []);
          inner = ''<div class=sec>Property &amp; tax</div><dl class=grid>'' @ appraiser_rows attrs meta living @
                  ''</dl><div class=note>Values (where shown) are the county roll figures. Verify current-year '' @
                  ''assessment, exemptions, and tax due on the county Property Appraiser / Assessor site.</div>''
      in shell stamp ''Survey Research'' ''Property Appraiser / Tax Record''
           (subtitle_of (or_str (dm_situs meta) (dm_matched_address meta)) meta) src inner)"

text \<open>A living area that is not a number raises.\<close>

definition save_appraiser_record ::
  "string \<Rightarrow> path \<Rightarrow> attrs \<Rightarrow> doc_meta \<Rightarrow> string \<Rightarrow> (string, string option, fs) io" where
  "save_appraiser_record stamp folder attrs meta appraiser_url =
     (if attrs = [] then io_return None
      else
        let lvg = needle_attr attrs [''totlvgar'', ''living'', ''heated'', ''finsqft'', ''bldgarea''];
            page = (\<lambda>living. io_bind
              (write_html folder ''Property_Appraiser.html'' (appraiser_body stamp attrs meta appraiser_url living))
              (\<lambda>fn. io_return (Some fn)))
        in if \<not> truthy lvg then page SNone
           else case int_float lvg of
                  None \<Rightarrow> io_raise ''ValueError''
                | Some i \<Rightarrow> page (SStr (show_thousands i @ '' sq ft'')))"

section \<open>The flood report\<close>

text \<open>The text columns of the flood service.\<close>

definition text_of :: "scalar \<Rightarrow> string" where
  "text_of v = (case v of SStr s \<Rightarrow> s | _ \<Rightarrow> [])"

definition ZONE_DESC :: "string table" where
  "ZONE_DESC =
     [(''A'', ''1% annual-chance (100-year) floodplain '' @ emdash @ '' no base flood elevation determined''),
      (''AE'', ''1% annual-chance (100-year) floodplain with base flood elevations''),
      (''AH'', ''Shallow flooding, 1-3 ft ponding (1% annual-chance)''),
      (''AO'', ''Shallow flooding, 1-3 ft sheet flow (1% annual-chance)''),
      (''AR'', ''Temporarily increased risk while a flood-control system is restored''),
      (''A99'', ''Area protected by a flood-control system under construction''),
      (''V'', ''Coastal high-hazard area with wave action (1% annual-chance)''),
      (''VE'', ''Coastal high-hazard area with wave action and base flood elevations''),
      (''X'', ''Outside the mapped floodplain''),
      (''D'', ''Undetermined '' @ emdash @ '' no flood-hazard analysis conducted'')]"

definition zone_code :: "flood_info \<Rightarrow> string" where
  "zone_code f = strip (upper (text_of (fl_flood_zone f)))"

definition in_sfha :: "flood_info \<Rightarrow> bool" where
  "in_sfha f = (fl_in_sfha f = SStr ''T'')"

definition flood_risk :: "flood_info \<Rightarrow> string \<times> string" where
  "flood_risk f =
     (let subty = upper (text_of (fl_zone_subtype f))
      in if in_sfha f then (''HIGH RISK '' @ emdash @ '' SPECIAL FLOOD HAZARD AREA'', ''hi'')
         else if contains ''0.2'' subty \<or> contains ''500'' subty
         then (''MODERATE RISK '' @ emdash @ '' 0.2% ANNUAL-CHANCE (500-YEAR) FLOODPLAIN'', ''mid'')
         else if startswith (zone_code f) ''X'' then (''MODERATE TO LOW RISK'', ''ok'')
         else if zone_code f = ''D'' then (''UNDETERMINED RISK'', ''mid'')
         else (''SEE FIRM'', ''mid''))"

text \<open>\<open>str.title()\<close>\<close>

fun title_from :: "bool \<Rightarrow> string \<Rightarrow> string" where
  "title_from inside [] = []"
| "title_from inside (c # cs) =
     (if is_alpha c then (if inside then lower_char c else upper_char c) # title_from True cs
      else c # title_from False cs)"

definition title_case :: "string \<Rightarrow> string" where
  "title_case s = title_from False s"

text \<open>\<open>base64.b64encode\<close>\<close>

definition b64_digit :: "nat \<Rightarrow> char" where
  "b64_digit n =
     (if n < 26 then char_of (65 + n) else if n < 52 then char_of (71 + n)
      else if n < 62 then char_of (n - 4) else if n = 62 then CHR ''+'' else CHR ''/'')"

fun b64 :: "string \<Rightarrow> string" where
  "b64 [] = []"
| "b64 [a] = (let n = of_char a * 16 in [b64_digit (n div 64), b64_digit (n mod 64)] @ ''=='')"
| "b64 [a, b] =
     (let n = (of_char a * 256 + of_char b) * 4
      in [b64_digit (n div 4096), b64_digit (n div 64 mod 64), b64_digit (n mod 64)] @ ''='')"
| "b64 (a # b # c # cs) =
     (let n = of_char a * 65536 + of_char b * 256 + of_char c
      in [b64_digit (n div 262144), b64_digit (n div 4096 mod 64), b64_digit (n div 64 mod 64),
          b64_digit (n mod 64)] @ b64 cs)"

definition img_data_uri :: "fs \<Rightarrow> path \<Rightarrow> string" where
  "img_data_uri fs p =
     (case read_bytes fs p of Inl _ \<Rightarrow> [] | Inr d \<Rightarrow> ''data:image/png;base64,'' @ b64 d)"

definition flood_rows :: "flood_info \<Rightarrow> doc_meta \<Rightarrow> string" where
  "flood_rows f meta =
     (let desc = (case map_of ZONE_DESC (zone_code f) of
                    Some d \<Rightarrow> d | None \<Rightarrow> text_of (fl_zone_subtype f));
          panel = (if truthy (fl_firm_panel f)
                   then SStr (py_str (fl_firm_panel f) @
                              (if truthy (fl_panel_suffix f) then '' '' @ py_str (fl_panel_suffix f) else []))
                   else SStr []);
          bfe = fl_static_bfe f
      in concat
        [row_full ''Property address'' (SStr (dm_matched_address meta)),
         row ''FEMA data source'' (SStr (''NFHL '' @ emdash @ '' National Flood Hazard Layer (Digital FIRM)'')),
         row ''Flood zone'' (SStr (zone_code f)),
         row_full ''Zone description'' (SStr desc),
         row ''Risk level'' (SStr (title_case (fst (flood_risk f)))),
         row ''Base flood elevation'' (SStr (if bfe = [] \<or> bfe = ''-9999'' then ''N/A'' else bfe @ '' ft'')),
         row ''FIRM panel number'' panel,
         row ''Community panel'' (fl_panel f),
         row ''Map panel effective date'' (SStr (fl_effective_date f)),
         row ''County'' (SStr (dm_county meta @ '' County'')),
         row ''State'' (SStr (dm_state meta)),
         row ''Parcel ID'' (SStr (dm_parcel_id meta))])"

definition flood_exhibit :: "string \<Rightarrow> string" where
  "flood_exhibit uri =
     ''<div class=sec>Flood map exhibit</div><div class=exhibit><img src='' @ [CHR 0x27] @ uri @
     [CHR 0x27] @ '' alt='' @ [CHR 0x27] @ ''FEMA flood map'' @ [CHR 0x27] @ ''>'' @
     ''<div class=cap>FEMA NFHL flood zones over topographic basemap; red crosshair marks the parcel.</div></div>''"

definition flood_body :: "string \<Rightarrow> flood_info \<Rightarrow> doc_meta \<Rightarrow> string \<Rightarrow> string" where
  "flood_body stamp f meta exhibit =
     (let sfha_txt = (if in_sfha f then ''INSIDE SPECIAL FLOOD HAZARD AREA'' else ''OUTSIDE SPECIAL FLOOD HAZARD AREA'');
          banner = ''<div class='' @ [CHR 0x27] @ ''banner '' @ snd (flood_risk f) @ [CHR 0x27] @
                   ''><span class=lbl>Inside SFHA?</span>'' @ html_escape sfha_txt @ ''</div>'';
          inner = banner @ ''<div class=sec>Flood determination</div><dl class=grid>'' @ flood_rows f meta @
                  ''</dl>'' @ exhibit @
                  ''<div class=note><b>Determination is from the effective FEMA NFHL</b> at the '' @
                  ''parcel location. Confirm the panel and any LOMA/LOMR on the FEMA Map Service Center before certifying.</div>''
      in shell stamp (''FEMA '' @ middot @ '' NFHL'') ''FEMA Flood Report''
           (subtitle_of (dm_matched_address meta) meta)
           (anchor (fl_map_service_center f) ''FEMA Map Service Center'') inner)"

definition save_flood_report ::
  "string \<Rightarrow> path \<Rightarrow> flood_info \<Rightarrow> doc_meta \<Rightarrow> string option \<Rightarrow> (string, string option, fs) io" where
  "save_flood_report stamp folder f meta map_file =
     (if \<not> truthy (fl_flood_zone f) then io_return None
      else
        io_bind
          (if opt_truthy map_file then
             io_bind (docs_dir folder) (\<lambda>d fs.
               (Inr (let uri = img_data_uri fs (join_path d (the map_file))
                     in if uri \<noteq> [] then flood_exhibit uri else []), fs))
           else io_return [])
          (\<lambda>exhibit. io_bind (write_html folder ''FEMA_Flood_Report.html'' (flood_body stamp f meta exhibit))
            (\<lambda>fn. io_return (Some fn))))"

section \<open>The flood map\<close>

text \<open>Drawing over an image: lines and an outlined ellipse in a colour and width, a filled rectangle, a text
  at a position.\<close>

type_synonym colour = "nat \<times> nat \<times> nat \<times> nat"

datatype drawing =
    Line "(nat \<times> nat) list" colour nat
  | Ellipse "nat \<times> nat" "nat \<times> nat" colour nat
  | Rectangle "nat \<times> nat" "nat \<times> nat" colour
  | Caption "nat \<times> nat" string colour

text \<open>What the map needs from libraries: \<open>_merc\<close> on floats, printed as the four edges of the box; the map
  servers, which answer with a status and content or fail; and the imaging operations, on images that
  are opaque texts.\<close>

record map_lib =
  ml_installed :: bool
  ml_bbox :: "scalar \<Rightarrow> scalar \<Rightarrow> nat \<Rightarrow> string + string"
  ml_export :: "string \<Rightarrow> (string \<times> string) list \<Rightarrow> string + (nat \<times> string)"
  ml_open :: "string \<Rightarrow> string + string"
  ml_composite :: "string \<Rightarrow> string \<Rightarrow> string + string"
  ml_draw :: "string \<Rightarrow> drawing list \<Rightarrow> string + string"
  ml_png :: "string \<Rightarrow> string + string"

definition NFHL_EXPORT :: string where
  "NFHL_EXPORT = ''https://hazards.fema.gov/arcgis/rest/services/public/NFHL/MapServer/export''"

definition BASEMAP_EXPORT :: string where
  "BASEMAP_EXPORT = ''https://server.arcgisonline.com/ArcGIS/rest/services/World_Topo_Map/MapServer/export''"

definition export_params :: "string \<Rightarrow> nat \<Rightarrow> string \<Rightarrow> (string \<times> string) list" where
  "export_params bbox px transparent =
     [(''bbox'', bbox), (''bboxSR'', ''3857''), (''imageSR'', ''3857''),
      (''size'', show_nat px @ '','' @ show_nat px), (''dpi'', ''96''), (''format'', ''png32''),
      (''f'', ''image''), (''transparent'', transparent)]"

definition raise_for_status :: "nat \<times> string \<Rightarrow> string + string" where
  "raise_for_status r = (if 400 \<le> fst r \<and> fst r < 600 then Inl ''HTTPError'' else Inr (snd r))"

definition map_caption :: "flood_info \<Rightarrow> doc_meta \<Rightarrow> string" where
  "map_caption f meta =
     (let zone = (if truthy (fl_flood_zone f) then py_str (fl_flood_zone f) else ''X (not in mapped SFHA)'');
          panel = (if truthy (fl_firm_panel f) then py_str (fl_firm_panel f) else emdash)
      in dm_matched_address meta @ ''   |   Zone '' @ zone @ ''   |   FIRM panel '' @ panel @
         ''   |   red crosshair = parcel   |   FEMA NFHL / Esri topo'')"

definition map_drawing :: "nat \<Rightarrow> string \<Rightarrow> drawing list" where
  "map_drawing px cap =
     (let c = px div 2; red = (200, 0, 0, 255)
      in [Line [(c - 16, c), (c + 16, c)] red 3, Line [(c, c - 16), (c, c + 16)] red 3,
          Ellipse (c - 7, c - 7) (c + 7, c + 7) red 3,
          Rectangle (0, px - 30) (px, px) (255, 255, 255, 235),
          Caption (10, px - 23) cap (20, 20, 20, 255)])"

text \<open>The composed image; both maps are fetched before either status is looked at.\<close>

definition compose_map ::
  "map_lib \<Rightarrow> scalar \<Rightarrow> scalar \<Rightarrow> flood_info \<Rightarrow> doc_meta \<Rightarrow> nat \<Rightarrow> nat \<Rightarrow> string + string" where
  "compose_map ml lat lon f meta half_m px =
     res_bind (ml_bbox ml lon lat half_m) (\<lambda>bbox.
     res_bind (ml_export ml BASEMAP_EXPORT (export_params bbox px ''false'')) (\<lambda>base.
     res_bind (ml_export ml NFHL_EXPORT (export_params bbox px ''true'')) (\<lambda>nfhl.
     res_bind (raise_for_status base) (\<lambda>base_png.
     res_bind (raise_for_status nfhl) (\<lambda>nfhl_png.
     res_bind (ml_open ml base_png) (\<lambda>img.
     res_bind (ml_open ml nfhl_png) (\<lambda>zones.
     res_bind (ml_composite ml img zones) (\<lambda>both.
     ml_draw ml both (map_drawing px (map_caption f meta))))))))))"

definition save_flood_map ::
  "map_lib \<Rightarrow> path \<Rightarrow> scalar \<Rightarrow> scalar \<Rightarrow> flood_info \<Rightarrow> doc_meta \<Rightarrow> (string, string option, fs) io" where
  "save_flood_map ml folder lat lon f meta =
     (if \<not> ml_installed ml then io_return None
      else io_catch
        (case compose_map ml lat lon f meta 700 1000 of
           Inl e \<Rightarrow> io_raise e
         | Inr img \<Rightarrow>
             io_bind (docs_dir folder) (\<lambda>d.
               case ml_png ml img of
                 Inl e \<Rightarrow> io_raise e
               | Inr png \<Rightarrow>
                   io_then (\<lambda>fs. write_bytes fs (resolve_parts [] (join_path d ''Flood_Map.png'')) png)
                     (io_return (Some ''Flood_Map.png''))))
        (\<lambda>_. io_return None))"

section \<open>NGS datasheets\<close>

fun save_sheets ::
  "(string \<Rightarrow> string + string) \<Rightarrow> path \<Rightarrow> mark list \<Rightarrow> (string, string list, fs) io" where
  "save_sheets sheet dd [] = io_return []"
| "save_sheets sheet dd (m # ms) =
     (if mk_pid m = [] then save_sheets sheet dd ms
      else
        let fn = ''NGS_datasheet_'' @ mk_pid m @ ''.html'' in
        io_bind
          (case sheet (mk_pid m) of
             Inl _ \<Rightarrow> io_return []
           | Inr content \<Rightarrow>
               io_catch (io_then (\<lambda>fs. write_bytes fs (resolve_parts [] (join_path dd fn)) content) (io_return [fn]))
                 (\<lambda>_. io_return []))
          (\<lambda>saved. io_bind (save_sheets sheet dd ms) (\<lambda>rest. io_return (saved @ rest))))"

definition download_ngs_datasheets ::
  "(string \<Rightarrow> string + string) \<Rightarrow> path \<Rightarrow> mark list \<Rightarrow> nat \<Rightarrow> (string, string list, fs) io" where
  "download_ngs_datasheets sheet folder marks limit =
     io_bind (docs_dir folder) (\<lambda>dd. save_sheets sheet dd (take limit marks))"

end
