(* ===== verification/ReportProps.thy ===== *)
theory ReportProps
  imports Reports ClerkDrivers
begin

text \<open>
  What the saved reports guarantee: the exhibit of the flood report carries the map file itself.
\<close>

section \<open>Base64\<close>

lemma digit_code:
  "n < 64 \<Longrightarrow> code_of (b64_digit n) =
     (if n < 26 then 65 + n else if n < 52 then 71 + n else if n < 62 then n - 4 else if n = 62 then 43 else 47)"
  by (simp add: b64_digit_def)

lemma digit_value: "n < 64 \<Longrightarrow> b64_value (b64_digit n) = Some n"
proof -
  assume n: "n < 64"
  have "b64_digit 62 = CHR ''+''" "b64_digit 63 = CHR ''/''" by (simp_all add: b64_digit_def)
  moreover have "n = 62 \<or> n = 63 \<or> n < 62" using n by linarith
  ultimately show "b64_value (b64_digit n) = Some n"
    using digit_code [OF n]
    by (elim disjE) (simp_all add: b64_value_def is_upper_def is_lower_def is_digit_def Let_def split: if_splits, arith)
qed

lemma digit_ascii: "n < 64 \<Longrightarrow> code_of (b64_digit n) < 128"
  using digit_code [of n] by (simp split: if_splits)

lemma digit_no_pad: "n < 64 \<Longrightarrow> b64_digit n \<noteq> CHR ''=''"
  using digit_value [of n] by (auto simp: b64_value_def is_upper_def is_lower_def is_digit_def Let_def)

lemma b64_iter_digit:
  "n < 64 \<Longrightarrow> b64_iter (b64_digit n # cs) quad left pads =
     (if quad = 0 then b64_iter cs 1 n 0
      else if quad = 1 then map_option (Cons (char_of (left * 4 + n div 16))) (b64_iter cs 2 (n mod 16) 0)
      else if quad = 2 then map_option (Cons (char_of (left * 16 + n div 4))) (b64_iter cs 3 (n mod 4) 0)
      else map_option (Cons (char_of (left * 64 + n))) (b64_iter cs 0 0 0))"
  by (simp add: digit_value digit_no_pad)

lemma code_bound: "code_of c < 256"
  by (cases c) (simp add: of_char_def)

text \<open>The four digits of three bytes.\<close>

lemma div_digit: "r < d \<Longrightarrow> (q * d + r) div d = q" "r < d \<Longrightarrow> (q * d + r) mod d = r" for q r d :: nat
  by simp_all

lemma digits_of_bytes:
  fixes a b c :: nat
  assumes "a < 256" "b < 256" "c < 256"
  defines "n \<equiv> a * 65536 + b * 256 + c"
  shows "n div 262144 = a div 4" "n div 4096 mod 64 = a mod 4 * 16 + b div 16"
    "n div 64 mod 64 = b mod 16 * 4 + c div 64" "n mod 64 = c mod 64"
proof -
  define a1 a0 b1 b0 c1 c0 where "a1 = a div 4" and "a0 = a mod 4" and "b1 = b div 16" and "b0 = b mod 16"
    and "c1 = c div 64" and "c0 = c mod 64"
  have a: "a = a1 * 4 + a0" "a0 < 4" by (simp_all add: a1_def a0_def)
  have b: "b = b1 * 16 + b0" "b0 < 16" by (simp_all add: b1_def b0_def)
  have c: "c = c1 * 64 + c0" "c0 < 64" by (simp_all add: c1_def c0_def)
  have small: "b1 < 16" "c1 < 4"
    using assms(2,3) by (auto simp: b1_def c1_def intro: less_mult_imp_div_less)
  have "n = a1 * 262144 + (a0 * 65536 + b * 256 + c)" using a(1) by (simp add: n_def)
  then show "n div 262144 = a div 4"
    using div_digit(1) [of "a0 * 65536 + b * 256 + c" 262144 a1] a(2) assms(2,3) by (simp add: a1_def)
  have "n = (a * 16 + b1) * 4096 + (b0 * 256 + c)" using b(1) by (simp add: n_def)
  then have "n div 4096 = a * 16 + b1"
    using div_digit(1) [of "b0 * 256 + c" 4096 "a * 16 + b1"] b(2) assms(3) by simp
  also have "\<dots> = a1 * 64 + (a0 * 16 + b1)" using a(1) by simp
  finally show "n div 4096 mod 64 = a mod 4 * 16 + b div 16"
    using div_digit(2) [of "a0 * 16 + b1" 64 a1] a(2) small by (simp add: a0_def b1_def)
  have "n = (a * 1024 + b * 4 + c1) * 64 + c0" using c(1) by (simp add: n_def)
  then have "n div 64 = a * 1024 + b * 4 + c1" and "n mod 64 = c0"
    using div_digit [of c0 64 "a * 1024 + b * 4 + c1"] c(2) by simp_all
  then show "n mod 64 = c mod 64" by (simp add: c0_def)
  have "n div 64 = (a * 16 + b1) * 64 + (b0 * 4 + c1)"
    using \<open>n div 64 = a * 1024 + b * 4 + c1\<close> b(1) by simp
  moreover have "b0 * 4 + c1 < 64" using b(2) small by linarith
  ultimately have "n div 64 mod 64 = b0 * 4 + c1" by (simp only: div_digit(2))
  then show "n div 64 mod 64 = b mod 16 * 4 + c div 64" by (simp add: b0_def c1_def)
qed

lemma digits_of_two:
  fixes a b :: nat
  assumes "a < 256" "b < 256"
  defines "n \<equiv> (a * 256 + b) * 4"
  shows "n div 4096 = a div 4" "n div 64 mod 64 = a mod 4 * 16 + b div 16" "n mod 64 = b mod 16 * 4"
proof -
  define a1 a0 b1 b0 where "a1 = a div 4" and "a0 = a mod 4" and "b1 = b div 16" and "b0 = b mod 16"
  have a: "a = a1 * 4 + a0" "a0 < 4" by (simp_all add: a1_def a0_def)
  have b: "b = b1 * 16 + b0" "b0 < 16" by (simp_all add: b1_def b0_def)
  have small: "b1 < 16" using assms(2) by (auto simp: b1_def intro: less_mult_imp_div_less)
  have "n = a1 * 4096 + (a0 * 1024 + b * 4)" using a(1) by (simp add: n_def)
  moreover have "a0 * 1024 + b * 4 < 4096" using a(2) assms(2) by linarith
  ultimately have "n div 4096 = a1" by (simp only: div_digit(1))
  then show "n div 4096 = a div 4" by (simp add: a1_def)
  have "n = (a * 16 + b1) * 64 + b0 * 4" using b(1) by (simp add: n_def)
  moreover have "b0 * 4 < 64" using b(2) by linarith
  ultimately have "n div 64 = a * 16 + b1" "n mod 64 = b0 * 4" by (simp_all only: div_digit)
  then show "n mod 64 = b mod 16 * 4" by (simp add: b0_def)
  have "n div 64 = a1 * 64 + (a0 * 16 + b1)" using \<open>n div 64 = a * 16 + b1\<close> a(1) by simp
  moreover have "a0 * 16 + b1 < 64" using a(2) small by linarith
  ultimately have "n div 64 mod 64 = a0 * 16 + b1" by (simp only: div_digit(2))
  then show "n div 64 mod 64 = a mod 4 * 16 + b div 16" by (simp add: a0_def b1_def)
qed

text \<open>Reading the digits back, a group at a time.\<close>

lemma read_group:
  assumes "a1 < 64" "a0 < 4" "b1 < 16" "b0 < 16" "c1 < 4" "c0 < 64"
  shows "b64_iter (b64_digit a1 # b64_digit (a0 * 16 + b1) # b64_digit (b0 * 4 + c1) # b64_digit c0 # cs) 0 0 0 =
     map_option (\<lambda>s. char_of (a1 * 4 + a0) # char_of (b1 * 16 + b0) # char_of (c1 * 64 + c0) # s)
       (b64_iter cs 0 0 0)"
proof -
  have digits: "a0 * 16 + b1 < 64" "b0 * 4 + c1 < 64" using assms by linarith+
  have parts: "(a0 * 16 + b1) div 16 = a0" "(a0 * 16 + b1) mod 16 = b1"
    "(b0 * 4 + c1) div 4 = b0" "(b0 * 4 + c1) mod 4 = c1"
    using assms by (simp_all only: div_digit)
  show ?thesis
    by (simp add: b64_iter_digit assms digits parts option.map_comp comp_def del: b64_iter.simps)
qed

lemma b64_pads: "b64_iter ''=='' 2 l 0 = Some []" "b64_iter ''='' 3 l 0 = Some []"
  by simp_all

lemma read_one:
  assumes "a1 < 64" "a0 < 4"
  shows "b64_iter (b64_digit a1 # b64_digit (a0 * 16) # ''=='') 0 0 0 = Some [char_of (a1 * 4 + a0)]"
proof -
  have "a0 * 16 < 64" using assms(2) by linarith
  then show ?thesis by (simp add: b64_iter_digit assms b64_pads del: b64_iter.simps)
qed

lemma read_two:
  assumes "a1 < 64" "a0 < 4" "b1 < 16" "b0 < 16"
  shows "b64_iter (b64_digit a1 # b64_digit (a0 * 16 + b1) # b64_digit (b0 * 4) # ''='') 0 0 0 =
     Some [char_of (a1 * 4 + a0), char_of (b1 * 16 + b0)]"
proof -
  have digits: "a0 * 16 + b1 < 64" "b0 * 4 < 64" using assms by linarith+
  have parts: "(a0 * 16 + b1) div 16 = a0" "(a0 * 16 + b1) mod 16 = b1" using assms by (simp_all only: div_digit)
  show ?thesis by (simp add: b64_iter_digit assms digits parts b64_pads del: b64_iter.simps)
qed

lemma code_parts:
  "code_of c div 4 < 64" "code_of c div 16 < 16" "code_of c div 64 < 4"
  using code_bound [of c] by (auto intro: less_mult_imp_div_less)

lemma code_whole:
  "char_of (code_of c div 4 * 4 + code_of c mod 4) = c"
  "char_of (code_of c div 16 * 16 + code_of c mod 16) = c"
  "char_of (code_of c div 64 * 64 + code_of c mod 64) = c"
  by (simp_all only: div_mult_mod_eq char_of_char)

lemma b64_roundtrip: "b64_iter (b64 s) 0 0 0 = Some s"
proof (induction s rule: b64.induct)
  case 1
  then show ?case by simp
next
  case (2 a)
  have "code_of a * 16 div 64 = code_of a div 4" "code_of a * 16 mod 64 = code_of a mod 4 * 16"
    using mult_mod_left [of "code_of a" 4 16] by simp_all
  then show ?case
    using read_one [of "code_of a div 4" "code_of a mod 4"] code_parts [of a]
    by (simp add: Let_def code_whole del: b64_iter.simps)
next
  case (3 a b)
  show ?case
    using read_two [of "code_of a div 4" "code_of a mod 4" "code_of b div 16" "code_of b mod 16"]
      code_parts [of a] code_parts [of b]
    by (simp only: b64.simps Let_def digits_of_two code_bound code_whole append.simps)
next
  case (4 a b c cs)
  show ?case
    using read_group [of "code_of a div 4" "code_of a mod 4" "code_of b div 16" "code_of b mod 16"
        "code_of c div 64" "code_of c mod 64" "b64 cs"] 4 code_parts [of a] code_parts [of b] code_parts [of c]
    by (simp only: b64.simps Let_def digits_of_bytes code_bound code_whole append.simps) simp
qed

lemma b64_ascii: "list_all (\<lambda>c. code_of c < 128) (b64 s)"
proof (induction s rule: b64.induct)
  case (4 a b c cs)
  then show ?case
    using code_parts [of a] digits_of_bytes(1) [of "code_of a" "code_of b" "code_of c"] code_bound
    by (simp add: Let_def digit_ascii)
next
  case (2 a)
  have "code_of a * 16 div 64 < 64" using code_bound [of a] by (simp add: less_mult_imp_div_less)
  then show ?case by (simp add: Let_def digit_ascii)
next
  case (3 a b)
  have "(code_of a * 256 + code_of b) * 4 div 4096 < 64"
    using code_parts [of a] digits_of_two(1) [of "code_of a" "code_of b"] code_bound by metis
  then show ?case by (simp add: Let_def digit_ascii)
qed simp

text \<open>The map a flood report shows is the map file: when the file can be read, the picture in the page is
  a data address whose base64 text decodes to exactly the bytes of the file; when it cannot, there is no
  picture.\<close>

theorem exhibit_roundtrip:
  "case read_bytes fs p of
     Inl _ \<Rightarrow> img_data_uri fs p = []
   | Inr data \<Rightarrow> \<exists>t. img_data_uri fs p = ''data:image/png;base64,'' @ t \<and> b64decode t = Some data"
  by (simp add: img_data_uri_def b64decode_def b64_roundtrip b64_ascii split: sum.split)

end
