(* ===== verification/Geocode.thy ===== *)
theory Geocode
  imports Registry
begin

text \<open>
  \<open>services/geocode.py\<close>: the chain of geocoders.  The HTTP responses are arguments, typed by what the
  code reads of them: a request fails (\<open>Inl\<close>) or answers.  A coordinate is a scalar of the response;
  Nominatim sends texts, which are converted.
\<close>

section \<open>Responses\<close>

record county_geo =
  cg_basename :: string
  cg_geoid :: string
  cg_state :: string

record census_match =
  cm_matched :: "string option"
  cm_x :: scalar
  cm_y :: scalar
  cm_counties :: "county_geo list"

record arcgis_cand =
  ag_score :: "int \<times> nat"
  ag_location :: "(scalar \<times> scalar) option"
  ag_address :: "string option"

record nominatim_hit =
  nm_lat :: scalar
  nm_lon :: scalar
  nm_display :: "string option"

record geo_services =
  gs_census :: "string \<Rightarrow> string + census_match list"
  gs_coords :: "scalar \<Rightarrow> scalar \<Rightarrow> string + county_geo list"
  gs_arcgis :: "string \<Rightarrow> string + arcgis_cand list"
  gs_nominatim :: "string \<Rightarrow> string + nominatim_hit list"

record geo =
  g_matched_address :: string
  g_lat :: scalar
  g_lon :: scalar
  g_county_name :: string
  g_county_fips :: string
  g_state_fips :: string
  g_provider :: string

section \<open>The geocoders\<close>

definition or_default :: "string option \<Rightarrow> string \<Rightarrow> string" where
  "or_default x d = (case x of None \<Rightarrow> d | Some s \<Rightarrow> s)"

definition no_county :: county_geo where
  "no_county = \<lparr>cg_basename = [], cg_geoid = [], cg_state = []\<rparr>"

definition first_county :: "county_geo list \<Rightarrow> county_geo" where
  "first_county cs = (case cs of [] \<Rightarrow> no_county | c # _ \<Rightarrow> c)"

definition census_address :: "geo_services \<Rightarrow> string \<Rightarrow> string + geo option" where
  "census_address gs address =
     res_bind (gs_census gs address) (\<lambda>ms.
       case ms of
         [] \<Rightarrow> Inr None
       | m # _ \<Rightarrow>
           let county = first_county (cm_counties m)
           in Inr (Some \<lparr>g_matched_address = or_default (cm_matched m) address, g_lat = cm_y m,
                         g_lon = cm_x m, g_county_name = cg_basename county,
                         g_county_fips = cg_geoid county, g_state_fips = cg_state county,
                         g_provider = ''census''\<rparr>))"

definition county_from_coords :: "geo_services \<Rightarrow> scalar \<Rightarrow> scalar \<Rightarrow> string \<times> string \<times> string" where
  "county_from_coords gs lat lon =
     (case gs_coords gs lat lon of
        Inr (c # _) \<Rightarrow> (cg_basename c, cg_geoid c, cg_state c)
      | _ \<Rightarrow> ([], [], []))"

definition arcgis :: "geo_services \<Rightarrow> string \<Rightarrow> (scalar \<times> scalar \<times> string) option" where
  "arcgis gs address =
     (case gs_arcgis gs address of
        Inr (c # _) \<Rightarrow>
          (case ag_score c of (m, e) \<Rightarrow>
             if 80 * 10 ^ e \<le> m then
               (case ag_location c of
                  Some (y, x) \<Rightarrow> Some (y, x, or_default (ag_address c) address)
                | None \<Rightarrow> None)
             else None)
      | _ \<Rightarrow> None)"

definition nominatim :: "geo_services \<Rightarrow> string \<Rightarrow> (scalar \<times> scalar \<times> string) option" where
  "nominatim gs address =
     (case gs_nominatim gs address of
        Inr (h # _) \<Rightarrow>
          (case (to_float (nm_lat h), to_float (nm_lon h)) of
             (Some (m, e), Some (m', e')) \<Rightarrow> Some (SFloat m e, SFloat m' e', or_default (nm_display h) address)
           | _ \<Rightarrow> None)
      | _ \<Rightarrow> None)"

text \<open>The loop over the fallback geocoders.\<close>

fun fallback_geo ::
  "geo_services \<Rightarrow> string \<Rightarrow> (string \<times> (string \<Rightarrow> (scalar \<times> scalar \<times> string) option)) list \<Rightarrow> string + geo" where
  "fallback_geo gs address [] = Inl (''No geocoder match for: '' @ address)"
| "fallback_geo gs address ((name, fn) # rest) =
     (case fn address of
        None \<Rightarrow> fallback_geo gs address rest
      | Some (lat, lon, matched) \<Rightarrow>
          (case county_from_coords gs lat lon of
             (cname, cfips, sfips) \<Rightarrow>
               Inr \<lparr>g_matched_address = matched, g_lat = lat, g_lon = lon, g_county_name = cname,
                    g_county_fips = cfips, g_state_fips = sfips, g_provider = name\<rparr>))"

definition geocode :: "geo_services \<Rightarrow> string \<Rightarrow> string + geo" where
  "geocode gs address =
     res_bind (census_address gs address) (\<lambda>hit.
       case hit of
         Some g \<Rightarrow> Inr g
       | None \<Rightarrow> fallback_geo gs address [(''arcgis'', arcgis gs), (''nominatim'', nominatim gs)])"

definition STATE_FIPS :: "string table" where
  "STATE_FIPS =
     [(''01'', ''AL''), (''02'', ''AK''), (''04'', ''AZ''), (''05'', ''AR''), (''06'', ''CA''),
      (''08'', ''CO''), (''09'', ''CT''), (''10'', ''DE''), (''11'', ''DC''), (''12'', ''FL''),
      (''13'', ''GA''), (''15'', ''HI''), (''16'', ''ID''), (''17'', ''IL''), (''18'', ''IN''),
      (''19'', ''IA''), (''20'', ''KS''), (''21'', ''KY''), (''22'', ''LA''), (''23'', ''ME''),
      (''24'', ''MD''), (''25'', ''MA''), (''26'', ''MI''), (''27'', ''MN''), (''28'', ''MS''),
      (''29'', ''MO''), (''30'', ''MT''), (''31'', ''NE''), (''32'', ''NV''), (''33'', ''NH''),
      (''34'', ''NJ''), (''35'', ''NM''), (''36'', ''NY''), (''37'', ''NC''), (''38'', ''ND''),
      (''39'', ''OH''), (''40'', ''OK''), (''41'', ''OR''), (''42'', ''PA''), (''44'', ''RI''),
      (''45'', ''SC''), (''46'', ''SD''), (''47'', ''TN''), (''48'', ''TX''), (''49'', ''UT''),
      (''50'', ''VT''), (''51'', ''VA''), (''53'', ''WA''), (''54'', ''WV''), (''55'', ''WI''),
      (''56'', ''WY'')]"

section \<open>Facts\<close>

lemma census_provider: "census_address gs address = Inr (Some g) \<Longrightarrow> g_provider g = ''census''"
  by (cases "gs_census gs address") (auto simp: census_address_def Let_def split: list.split_asm)

lemma fallback_provider:
  "fallback_geo gs address fns = Inr g \<Longrightarrow> g_provider g \<in> fst ` set fns"
proof (induction fns)
  case (Cons a fns)
  then show ?case by (cases a) (auto split: option.split_asm prod.split_asm)
qed simp

lemma geocode_provider:
  assumes "geocode gs address = Inr g"
  shows "g_provider g \<in> {''census'', ''arcgis'', ''nominatim''}"
proof -
  from assms obtain hit where h: "census_address gs address = Inr hit"
    and r: "(case hit of Some g \<Rightarrow> Inr g
             | None \<Rightarrow> fallback_geo gs address [(''arcgis'', arcgis gs), (''nominatim'', nominatim gs)]) = Inr g"
    unfolding geocode_def res_bind_eq_Inr by blast
  show ?thesis
  proof (cases hit)
    case None
    with r fallback_provider [of gs address "[(''arcgis'', arcgis gs), (''nominatim'', nominatim gs)]" g]
    show ?thesis by simp
  next
    case (Some g')
    with r h census_provider show ?thesis by auto
  qed
qed

end
