(* ===== verification/Geography.thy ===== *)
theory Geography
  imports Registry
begin

text \<open>
  \<open>data/geography.py\<close>: states, counties and cities for the guided form.  The county list (the bundled
  JSON snapshot) is an argument, by state FIPS; the TIGERweb queries are arguments that answer with
  the part of the response the code reads, or fail.
\<close>

section \<open>States\<close>

definition STATES :: "(string \<times> string) table" where
  "STATES =
     [(''01'', (''AL'', ''Alabama'')), (''02'', (''AK'', ''Alaska'')),
      (''04'', (''AZ'', ''Arizona'')), (''05'', (''AR'', ''Arkansas'')),
      (''06'', (''CA'', ''California'')), (''08'', (''CO'', ''Colorado'')),
      (''09'', (''CT'', ''Connecticut'')), (''10'', (''DE'', ''Delaware'')),
      (''11'', (''DC'', ''District of Columbia'')), (''12'', (''FL'', ''Florida'')),
      (''13'', (''GA'', ''Georgia'')), (''15'', (''HI'', ''Hawaii'')),
      (''16'', (''ID'', ''Idaho'')), (''17'', (''IL'', ''Illinois'')),
      (''18'', (''IN'', ''Indiana'')), (''19'', (''IA'', ''Iowa'')),
      (''20'', (''KS'', ''Kansas'')), (''21'', (''KY'', ''Kentucky'')),
      (''22'', (''LA'', ''Louisiana'')), (''23'', (''ME'', ''Maine'')),
      (''24'', (''MD'', ''Maryland'')), (''25'', (''MA'', ''Massachusetts'')),
      (''26'', (''MI'', ''Michigan'')), (''27'', (''MN'', ''Minnesota'')),
      (''28'', (''MS'', ''Mississippi'')), (''29'', (''MO'', ''Missouri'')),
      (''30'', (''MT'', ''Montana'')), (''31'', (''NE'', ''Nebraska'')),
      (''32'', (''NV'', ''Nevada'')), (''33'', (''NH'', ''New Hampshire'')),
      (''34'', (''NJ'', ''New Jersey'')), (''35'', (''NM'', ''New Mexico'')),
      (''36'', (''NY'', ''New York'')), (''37'', (''NC'', ''North Carolina'')),
      (''38'', (''ND'', ''North Dakota'')), (''39'', (''OH'', ''Ohio'')),
      (''40'', (''OK'', ''Oklahoma'')), (''41'', (''OR'', ''Oregon'')),
      (''42'', (''PA'', ''Pennsylvania'')), (''44'', (''RI'', ''Rhode Island'')),
      (''45'', (''SC'', ''South Carolina'')), (''46'', (''SD'', ''South Dakota'')),
      (''47'', (''TN'', ''Tennessee'')), (''48'', (''TX'', ''Texas'')),
      (''49'', (''UT'', ''Utah'')), (''50'', (''VT'', ''Vermont'')),
      (''51'', (''VA'', ''Virginia'')), (''53'', (''WA'', ''Washington'')),
      (''54'', (''WV'', ''West Virginia'')), (''55'', (''WI'', ''Wisconsin'')),
      (''56'', (''WY'', ''Wyoming'')), (''60'', (''AS'', ''American Samoa'')),
      (''66'', (''GU'', ''Guam'')), (''69'', (''MP'', ''Northern Mariana Islands'')),
      (''72'', (''PR'', ''Puerto Rico'')), (''78'', (''VI'', ''U.S. Virgin Islands''))]"

definition ABBR_TO_FIPS :: "string table" where
  "ABBR_TO_FIPS = foldl (\<lambda>d (fips, (abbr, _)). dict_put abbr fips d) [] STATES"

definition state_fips :: "string \<Rightarrow> string" where
  "state_fips state =
     (let s = upper (strip state)
      in if map_of STATES s \<noteq> None then s else link_of ABBR_TO_FIPS s)"

record state_row =
  st_fips :: string
  st_abbr :: string
  st_name :: string

record county_row =
  cw_fips :: string
  cw_name :: string
  cw_basename :: string

definition states :: "county_row list table \<Rightarrow> state_row list" where
  "states raw =
     sort_key st_name
       (map (\<lambda>(f, (a, n)). \<lparr>st_fips = f, st_abbr = a, st_name = n\<rparr>)
          (filter (\<lambda>(f, _). map_of raw f \<noteq> None) STATES))"

section \<open>Counties\<close>

record county_info =
  ci_fips :: string
  ci_name :: string
  ci_basename :: string
  ci_has_parcel_api :: bool
  ci_clerk_platform :: "string option"
  ci_clerk_url :: string
  ci_clerk_platform_label :: string
  ci_appraiser_url :: string
  ci_in_registry :: bool

definition annotate :: "registry \<Rightarrow> string \<Rightarrow> string \<Rightarrow> string \<Rightarrow> string \<Rightarrow> county_info" where
  "annotate r fips abbr name basename =
     (let reg = lookup_or_empty r fips
      in \<lparr>ci_fips = fips, ci_name = name, ci_basename = basename,
          ci_has_parcel_api =
            (entry_flag reg ''gis_rest'' \<or>
             (case map_of (rg_state_parcel r) abbr of None \<Rightarrow> False | Some s \<Rightarrow> \<not> ss_id_only s)),
          ci_clerk_platform =
            (case map_of reg ''clerk_platform'' of Some (RStr s) \<Rightarrow> Some s | _ \<Rightarrow> None),
          ci_clerk_url = or_str (entry_str reg ''clerk_url'')
                           (or_str (link_of (rg_state_deed r) abbr) (netronline abbr basename)),
          ci_clerk_platform_label =
            (case map_of PLATFORM_LABEL (entry_get reg ''clerk_platform'' ''unknown'') of
               None \<Rightarrow> ''Directory link'' | Some l \<Rightarrow> l),
          ci_appraiser_url = entry_str reg ''appraiser_url'',
          ci_in_registry = (reg \<noteq> [])\<rparr>)"

definition county_rows :: "county_row list table \<Rightarrow> string \<Rightarrow> county_row list" where
  "county_rows raw st = (case map_of raw st of None \<Rightarrow> [] | Some cs \<Rightarrow> cs)"

definition counties :: "county_row list table \<Rightarrow> registry \<Rightarrow> string \<Rightarrow> county_info list" where
  "counties raw r state =
     (let fips = state_fips state
      in if fips = [] then []
         else let abbr = (case map_of STATES fips of None \<Rightarrow> [] | Some (a, _) \<Rightarrow> a)
              in map (\<lambda>c. annotate r (cw_fips c) abbr (cw_name c) (cw_basename c)) (county_rows raw fips))"

definition county_name :: "county_row list table \<Rightarrow> string \<Rightarrow> string" where
  "county_name raw county_fips =
     (case List.find (\<lambda>c. cw_fips c = county_fips) (county_rows raw (take 2 county_fips)) of
        None \<Rightarrow> [] | Some c \<Rightarrow> cw_basename c)"

section \<open>Cities\<close>

definition PLACE_LAYERS :: "nat list" where
  "PLACE_LAYERS = [4, 5]"

text \<open>
  \<open>tiger_county\<close> answers the rings of the county's features, \<open>tiger_places\<close> the \<open>BASENAME\<close>s of the places
  of a layer that intersect a geometry.
\<close>

fun collect_places ::
  "(nat \<Rightarrow> 'g \<Rightarrow> string + string option list) \<Rightarrow> 'g \<Rightarrow> nat list \<Rightarrow> string list \<Rightarrow> string + string list" where
  "collect_places tiger_places geom [] names = Inr names"
| "collect_places tiger_places geom (l # ls) names =
     res_bind (tiger_places l geom) (\<lambda>nms.
       collect_places tiger_places geom ls
         (foldl (\<lambda>ns nm. if opt_truthy nm then List.insert (the nm) ns else ns) names nms))"

definition cities ::
  "(string \<Rightarrow> string + 'g list) \<Rightarrow> (nat \<Rightarrow> 'g \<Rightarrow> string + string option list) \<Rightarrow> string \<Rightarrow> string list" where
  "cities tiger_county tiger_places county_fips =
     (let fips = strip county_fips
      in if length fips \<noteq> 5 then []
         else case tiger_county fips of
                Inl _ \<Rightarrow> []
              | Inr [] \<Rightarrow> []
              | Inr (rings # _) \<Rightarrow>
                  (case collect_places tiger_places rings PLACE_LAYERS [] of
                     Inl _ \<Rightarrow> []
                   | Inr names \<Rightarrow> sort names))"

section \<open>Facts\<close>

lemma collect_places_set:
  "collect_places q g ls ns = Inr ms \<Longrightarrow> distinct ns \<Longrightarrow>
     distinct ms \<and> set ms = set ns \<union> {n. n \<noteq> [] \<and> (\<exists>l \<in> set ls. \<exists>xs. q l g = Inr xs \<and> Some n \<in> set xs)}"
proof (induction ls arbitrary: ns)
  case (Cons l ls)
  define add where "add = (\<lambda>ns nm. if opt_truthy nm then List.insert (the nm) ns else ns)"
  from Cons.prems obtain xs where q: "q l g = Inr xs"
    and rec: "collect_places q g ls (foldl add ns xs) = Inr ms"
    by (auto simp: res_bind_eq_Inr add_def)
  have f: "distinct ns \<Longrightarrow> distinct (foldl add ns ys) \<and>
      set (foldl add ns ys) = set ns \<union> {n. n \<noteq> [] \<and> Some n \<in> set ys}" for ns ys
    by (induction ys arbitrary: ns) (auto simp: add_def opt_truthy_def split: option.splits)
  show ?case
    using Cons.IH [OF rec] f [OF Cons.prems(2), of xs] q by auto
qed simp

end
