(* ===== verification/Appraiser.thy ===== *)
theory Appraiser
  imports FsIO Regex
begin

text \<open>
  \<open>services/appraiser.py\<close>: the county appraiser's record card, its mapping worksheet and the plat
  reference read off its page.  The site's answers and the browser's download are arguments.
\<close>

record appr_info =
  ap_doc :: string
  ap_docs :: "string list"
  ap_plat_book :: string
  ap_plat_page :: string

definition no_appr :: appr_info where
  "no_appr = \<lparr>ap_doc = [], ap_docs = [], ap_plat_book = [], ap_plat_page = []\<rparr>"

definition APPRAISER_SITES :: "(string \<times> string) list" where
  "APPRAISER_SITES = [(''12105'', ''https://www.polkflpa.gov'')]"

definition available :: "string \<Rightarrow> bool" where
  "available county_fips = (map_of APPRAISER_SITES county_fips \<noteq> None)"

definition cama_url :: "string \<Rightarrow> string \<Rightarrow> string" where
  "cama_url base strap =
     base @ ''/CamaDisplay.aspx?OutputMode=Display&SearchType=RealEstate&ParcelID='' @ strap"

definition prc_pdf_url :: "string \<Rightarrow> string \<Rightarrow> string" where
  "prc_pdf_url base strap = base @ ''/PRCReport/viewPRC.aspx?strap='' @ strap @ ''&pdf=true''"

definition worksheet_pdf_url :: "string \<Rightarrow> string \<Rightarrow> string" where
  "worksheet_pdf_url base strap = base @ ''/MappingWorksheetPDF.aspx?strap='' @ strap"

text \<open>The plat book and page in the appraiser's legal text; a reference that is not there is empty.\<close>

definition html_plat_pat :: re where
  "html_plat_pat =
     seqs [Bound, LitI ''P'', dot_opt, Maybe space, LitI ''B'', dot_opt, Star space, Grp 1 (Plus digit),
           Star space, Maybe (Cls (\<lambda>c. c = CHR '','' \<or> c = CHR ''/'')), Star space,
           LitI ''P'', Maybe (Alt (LitI ''G'') (LitI ''AGE'')), dot_opt, Star space, Grp 2 (Plus digit)]"

definition plat_ref_from_html :: "string \<Rightarrow> string \<times> string" where
  "plat_ref_from_html html =
     (case re_search html_plat_pat html of None \<Rightarrow> ([], []) | Some g \<Rightarrow> (group g 1, group g 2))"

text \<open>What a PDF must look like to be kept.\<close>

definition is_pdf :: "string \<Rightarrow> bool" where
  "is_pdf data = (take 4 data = ''%PDF'' \<and> 2000 < length data)"

text \<open>\<open>web\<close>: a page's OK flag and content, or a failure; \<open>download\<close>: the file a browser saves.\<close>

definition fetch_worksheet ::
  "(string \<Rightarrow> string + bool \<times> string) \<Rightarrow> string \<Rightarrow> string \<Rightarrow> path \<Rightarrow> appr_info \<Rightarrow>
     (string, appr_info, fs) io" where
  "fetch_worksheet web base strap out_dir result =
     (case web (worksheet_pdf_url base strap) of
        Inl _ \<Rightarrow> io_return result
      | Inr (ok, content) \<Rightarrow>
          if ok \<and> is_pdf content then
            io_catch
              (io_then (\<lambda>fs. write_bytes fs (out_dir @ [''Property_MappingWorksheet.pdf'']) content)
                 (io_return (result\<lparr>ap_docs := ap_docs result @ [''Property_MappingWorksheet.pdf'']\<rparr>)))
              (\<lambda>_. io_return result)
          else io_return result)"

definition fetch_card ::
  "(string \<Rightarrow> string + string) \<Rightarrow> string \<Rightarrow> string \<Rightarrow> path \<Rightarrow> appr_info \<Rightarrow> (string, appr_info, fs) io" where
  "fetch_card download base strap out_dir result =
     (case download (prc_pdf_url base strap) of
        Inl _ \<Rightarrow> io_return result
      | Inr content \<Rightarrow>
          io_catch
            (io_then (\<lambda>fs. write_bytes fs (out_dir @ [''Property_Appraiser.pdf'']) content)
               (io_return (if is_pdf content then result\<lparr>ap_doc := ''Property_Appraiser.pdf''\<rparr> else result)))
            (\<lambda>_. io_return result))"

definition fetch_appraiser ::
  "(string \<Rightarrow> string + bool \<times> string) \<Rightarrow> bool \<Rightarrow> (string \<Rightarrow> string + string) \<Rightarrow> string \<Rightarrow> string \<Rightarrow> path \<Rightarrow>
     (string, appr_info, fs) io" where
  "fetch_appraiser web playwright download county_fips strap out_dir =
     (case map_of APPRAISER_SITES county_fips of
        None \<Rightarrow> io_return no_appr
      | Some base \<Rightarrow>
          if strap = [] then io_return no_appr
          else case (web (base @ ''/''), web (cama_url base strap)) of
            (Inr _, Inr (_, html)) \<Rightarrow>
              (case plat_ref_from_html html of (book, page) \<Rightarrow>
                 io_bind (fetch_worksheet web base strap out_dir
                            (no_appr\<lparr>ap_plat_book := book, ap_plat_page := page\<rparr>)) (\<lambda>r.
                   if playwright then fetch_card download base strap out_dir r else io_return r))
          | _ \<Rightarrow> io_return no_appr)"

lemma fetch_appraiser_total: "\<exists>r fs'. fetch_appraiser web pw download fips strap out_dir fs = (Inr r, fs')"
  by (auto simp: fetch_appraiser_def fetch_worksheet_def fetch_card_def io_defs
      split: option.split sum.split prod.split)

end
