(* ===== verification/Research.thy ===== *)
theory Research
  imports Reports Geocode Geography ClerkScraper Appraiser Contracts
begin

text \<open>
  The data of a research run: the step and result records of \<open>engine/contracts.py\<close>, the warning bag and
  property context of \<open>engine/orchestration/context.py\<close> and the staging folder of
  \<open>engine/orchestration/folders.py\<close>, with the resolution of the context (geocode, parcel,
  references).  What a run uses of the outside (services, registry rows, directories, JSON text,
  digest, clock) is one record of arguments.
\<close>

section \<open>Payloads\<close>

datatype payload =
    Data_none
  | Data_geo geo
  | Data_parcel parcel_info
  | Data_attrs attrs
  | Data_clerk clerk_ref
  | Data_flood flood_info
  | Data_marks benchmarks_info

text \<open>A manifest entry: only a generated JSON file has size, digest and time.\<close>

record manifest_entry =
  me_file :: string
  me_bytes :: "nat option"
  me_sha256 :: "string option"
  me_fetched_utc :: string
  me_source :: string

record step_result =
  sp_key :: string
  sp_label :: string
  sp_requirement :: string
  sp_condition :: string
  sp_description :: string
  sp_summary :: string
  sp_status :: step_status
  sp_link :: string
  sp_link_label :: string
  sp_source_url :: string
  sp_saved_file :: "string option"
  sp_data :: payload
  sp_downloaded :: "string list"
  sp_situs :: "string option"
  sp_land_sqft :: scalar
  sp_land_acres :: scalar
  sp_address_match :: "bool option"
  sp_source_outcome :: source_outcome
  sp_confidence :: confidence
  sp_provenance :: "provenance_record list"
  sp_warnings :: "string list"
  sp_error :: "error_info option"

record research_result =
  rs_job_number :: string
  rs_order :: string
  rs_parcel_id :: string
  rs_address :: string
  rs_matched_address :: string
  rs_county :: string
  rs_county_fips :: string
  rs_state :: string
  rs_lat :: scalar
  rs_lon :: scalar
  rs_name :: string
  rs_geocoder :: string
  rs_map_links :: "(string \<times> string) list"
  rs_folder :: path
  rs_steps :: "step_result list"
  rs_warnings :: "string list"
  rs_completed_utc :: string
  rs_job_state :: run_state
  rs_docs_dir :: path
  rs_survey_type :: string

section \<open>Warnings\<close>

definition bag_add :: "string list \<Rightarrow> string \<Rightarrow> string list" where
  "bag_add items message = (if message \<noteq> [] \<and> message \<notin> set items then items @ [message] else items)"

lemma bag_add_distinct: "distinct items \<Longrightarrow> distinct (bag_add items m)"
  by (simp add: bag_add_def)

lemma bag_add_set: "set (bag_add items m) = (if m = [] then set items else insert m (set items))"
  by (auto simp: bag_add_def)

section \<open>The staging folder\<close>

definition slug :: "string \<Rightarrow> string" where
  "slug s =
     re_sub (Plus space) '' '' (strip (filter (\<lambda>c. c \<notin> set (''<>:/|?*'' @ [CHR 0x22, CHR 0x5C])) s))"

definition folder_name :: "string \<Rightarrow> string \<Rightarrow> string" where
  "folder_name job_number address =
     (let street = strip (hd (split_on (CHR '','') address))
      in or_str (strip_chars '' -'' (slug job_number @ '' - '' @ slug street)) ''job'')"

text \<open>Directories made relative to \<open>JOBS_DIR\<close>; a name of dots is resolved by the system.\<close>

definition job_folder :: "path \<Rightarrow> string \<Rightarrow> string \<Rightarrow> (string, path, fs) io" where
  "job_folder jobs_dir job_number address fs =
     (let folder = jobs_dir @ [folder_name job_number address, ''research'']
      in case mkdir_parents fs folder of (Inl e, fs') \<Rightarrow> (Inl e, fs') | (Inr _, fs') \<Rightarrow> (Inr folder, fs'))"

section \<open>The environment of a run\<close>

text \<open>What a source's request can raise: a \<open>SourceError\<close>, an HTTP error with the response's code, a
  timeout or lost connection, anything else with its text.\<close>

datatype fault =
    Source_error source_outcome string string bool
  | Http_error "nat option"
  | Connection_error
  | Other_error string

record 'd env =
  en_geo :: geo_services
  en_arc :: arc
  en_registry :: registry
  en_counties :: "county_row list table"
  en_jobs_dir :: path
  en_playwright :: bool
  en_driver :: "'d driver"
  en_web :: "string \<Rightarrow> string + bool \<times> string"
  en_download :: "string \<Rightarrow> string + string"
  en_nfhl :: "nat \<Rightarrow> scalar \<Rightarrow> scalar \<Rightarrow> string \<Rightarrow> fault + attrs list"
  en_radial :: "scalar \<Rightarrow> scalar \<Rightarrow> nat \<Rightarrow> fault + radial_response"
  en_sheet :: "string \<Rightarrow> string + string"
  en_maps :: map_lib
  en_dumps :: "payload \<Rightarrow> string"
  en_sha256 :: "string \<Rightarrow> string"
  en_now_utc :: string
  en_stamp :: string

definition save_json :: "'d env \<Rightarrow> path \<Rightarrow> string \<Rightarrow> payload \<Rightarrow> string \<Rightarrow> (string, manifest_entry, fs) io" where
  "save_json en folder filename data source =
     (let text = en_dumps en data
      in io_then (\<lambda>fs. write_bytes fs (folder @ [filename]) text)
           (io_return \<lparr>me_file = filename, me_bytes = Some (length text),
                       me_sha256 = Some (en_sha256 en text), me_fetched_utc = en_now_utc en,
                       me_source = source\<rparr>))"

definition file_entry :: "string \<Rightarrow> string \<Rightarrow> manifest_entry" where
  "file_entry filename source =
     \<lparr>me_file = ''documents/'' @ filename, me_bytes = None, me_sha256 = None, me_fetched_utc = [],
      me_source = source\<rparr>"

section \<open>The property context\<close>

record property_context =
  cx_address :: string
  cx_matched_address :: string
  cx_lat :: scalar
  cx_lon :: scalar
  cx_state :: string
  cx_state_fips :: string
  cx_county :: string
  cx_county_fips :: string
  cx_geocoder :: string
  cx_parcel :: parcel_info
  cx_parcel_ok :: bool
  cx_parcel_id :: string
  cx_parcel_hints :: attrs
  cx_appraiser_url :: string
  cx_clerk_ref :: clerk_ref
  cx_job_number :: string
  cx_order :: string
  cx_name :: string
  cx_folder :: path
  cx_survey_type :: string
  cx_appr :: "appr_info option"
  cx_clerk_docs :: "scrape_result option"
  cx_warnings :: "string list"
  cx_manifest :: "manifest_entry list"

definition cx_doc_meta :: "property_context \<Rightarrow> doc_meta" where
  "cx_doc_meta ctx =
     \<lparr>dm_parcel_id = cx_parcel_id ctx, dm_matched_address = cx_matched_address ctx,
      dm_county = cx_county ctx, dm_state = cx_state ctx,
      dm_situs = (if cx_parcel_ok ctx then pa_situs (cx_parcel ctx) else []),
      dm_land_sqft = (if cx_parcel_ok ctx then pa_land_sqft (cx_parcel ctx) else SNone),
      dm_land_acres = (if cx_parcel_ok ctx then pa_land_acres (cx_parcel ctx) else SNone)\<rparr>"

definition cx_log :: "property_context \<Rightarrow> manifest_entry \<Rightarrow> property_context" where
  "cx_log ctx entry = ctx\<lparr>cx_manifest := cx_manifest ctx @ [entry]\<rparr>"

text \<open>The parcel identifier among the attributes.\<close>

definition PARCEL_ID_KEYS :: "string list" where
  "PARCEL_ID_KEYS =
     [''folio'', ''parcelid'', ''parcel_id'', ''parcelno'', ''parcel_no'', ''parno'',
      ''parcelnum'', ''pin'', ''strap'', ''apn'', ''altkey'', ''gid'', ''span'', ''acct'', ''parcel'',
      ''prop_id'', ''propid'', ''property_id'', ''sbl'', ''locid'', ''ssl'']"

definition id_key :: "string \<Rightarrow> bool" where
  "id_key k =
     (let kl = filter (\<lambda>c. c \<notin> set '' -'') (lower k)
      in \<not> any_in [''addr'', ''street'', ''situs'', ''owner'', ''city'', ''zip'', ''mail''] kl \<and>
         any_in PARCEL_ID_KEYS kl)"

definition find_parcel_id :: "attrs list \<Rightarrow> string" where
  "find_parcel_id parcels =
     (case List.find (\<lambda>(k, v). \<not> in_blanks [[]] v \<and> \<not> eq_zero v \<and> id_key k) (concat parcels) of
        None \<Rightarrow> [] | Some (_, v) \<Rightarrow> py_str v)"

section \<open>Resolution\<close>

definition two_letters :: "string \<Rightarrow> bool" where
  "two_letters st = (length st = 2 \<and> list_all is_alpha st)"

text \<open>Phase 1a: by parcel ID, without geocoding.  Answers the location and the parcel.\<close>

definition locate_by_id ::
  "'d env \<Rightarrow> string \<Rightarrow> string \<Rightarrow> string \<Rightarrow> string + string \<times> geo \<times> parcel_info" where
  "locate_by_id en selected_state selected_county_fips search_parcel_id =
     (let st0 = upper (strip selected_state);
          st = (if two_letters st0 then st0 else link_of STATE_FIPS (strip selected_state));
          missing = Inl (''Parcel ID '' @ [CHR 0x27] @ strip search_parcel_id @ [CHR 0x27] @ '' not found'' @
                         (if st \<noteq> [] then '' in '' @ st @ ''.''
                          else '' '' @ emdash @ '' pick the state and try again.''))
      in case resolve_by_id (en_arc en) (en_registry en) st (strip search_parcel_id) (strip selected_county_fips) of
           None \<Rightarrow> missing
         | Some pr \<Rightarrow>
             (case bi_latlon pr of
                None \<Rightarrow> missing
              | Some (lat, lon) \<Rightarrow>
                  if lat = SNone then missing
                  else
                    (case county_from_coords (en_geo en) lat lon of
                       (cn, cf, sf) \<Rightarrow>
                         Inr (st, \<lparr>g_matched_address = or_str (pa_situs (bi_parcel pr))
                                                        (''Parcel '' @ strip search_parcel_id),
                                   g_lat = lat, g_lon = lon, g_county_name = cn, g_county_fips = cf,
                                   g_state_fips = sf, g_provider = ''parcel-id''\<rparr>, bi_parcel pr))))"

definition locate ::
  "'d env \<Rightarrow> string \<Rightarrow> string \<Rightarrow> string \<Rightarrow> string \<Rightarrow> string + string \<times> string \<times> geo \<times> parcel_info option" where
  "locate en address selected_state selected_county_fips search_parcel_id =
     (if strip search_parcel_id \<noteq> [] \<and> strip address = [] then
        res_bind (locate_by_id en selected_state selected_county_fips search_parcel_id)
          (\<lambda>(st, g, p). Inr (g_matched_address g, st, g, Some p))
      else res_bind (geocode (en_geo en) address) (\<lambda>g. Inr (address, [], g, None)))"

text \<open>The parcel as the run keeps it: only a trusted one gives an identifier and hints.\<close>

definition settle_parcel :: "parcel_info \<Rightarrow> bool \<times> string \<times> attrs \<times> parcel_info" where
  "settle_parcel p =
     (let ok = parcel_trusted p;
          pid = (if ok then find_parcel_id (pa_parcels p) else []);
          hints = (if ok then pa_hints p else [])
      in (ok, pid, hints, p\<lparr>pa_parcel_id := pid\<rparr>))"

definition unconfirmed_warning :: string where
  "unconfirmed_warning =
     ''Couldn'' @ [CHR 0x27] @ ''t confirm a parcel matching this address '' @ emdash @
     '' showing reference links only. Parcel ID, lot area, and deed/plat auto-fetch are skipped to avoid wrong data; '' @
     ''use the County Property Appraiser link to look up the parcel.''"

definition fallback_warning :: "string \<Rightarrow> string" where
  "fallback_warning provider =
     ''Address not in the US Census file '' @ emdash @ '' matched via '' @ upper provider @
     '' instead. Please confirm the pinned location on the map is the correct property.''"

definition coordinates_error :: "string \<Rightarrow> geo \<Rightarrow> string \<Rightarrow> string" where
  "coordinates_error what g address =
     ''Geocoder '' @ [CHR 0x27] @ g_provider g @ [CHR 0x27] @ '' returned '' @ what @ '' coordinates for '' @
     [CHR 0x27] @ address @ [CHR 0x27] @ ''.''"

definition CENSUS :: string where
  "CENSUS = ''https://geocoding.geo.census.gov/geocoder/geographies/onelineaddress''"

text \<open>Both coordinates as floats, or the error.\<close>

definition float_coords :: "geo \<Rightarrow> string \<Rightarrow> string + scalar \<times> scalar" where
  "float_coords g address =
     (if g_lat g = SNone \<or> g_lon g = SNone then Inl (coordinates_error ''no usable'' g address)
      else case (to_float (g_lat g), to_float (g_lon g)) of
             (Some (m, e), Some (m', e')) \<Rightarrow> Inr (SFloat m e, SFloat m' e')
           | _ \<Rightarrow> Inl (coordinates_error ''invalid'' g address))"

definition appraiser_link :: "registry \<Rightarrow> string \<Rightarrow> string \<Rightarrow> string \<Rightarrow> string" where
  "appraiser_link r fips state_abbr cname =
     or_str (entry_str (lookup_or_empty r fips) ''appraiser_url'')
       (or_str (link_of (rg_state_appraiser r) state_abbr) (netronline state_abbr cname))"

record run_args =
  ra_job_number :: string
  ra_address :: string
  ra_survey_type :: string
  ra_selected_state :: string
  ra_selected_county_fips :: string
  ra_order_number :: string
  ra_search_parcel_id :: string

definition resolve_property_context :: "'d env \<Rightarrow> run_args \<Rightarrow> (string, property_context, fs) io" where
  "resolve_property_context en ra =
     io_bind (\<lambda>fs. (res_bind (locate en (ra_address ra) (ra_selected_state ra) (ra_selected_county_fips ra)
                        (ra_search_parcel_id ra)) Inr, fs)) (\<lambda>(address, st, g, preresolved).
       let r = en_registry en;
           state_abbr = or_str (link_of STATE_FIPS (g_state_fips g)) st;
           fips = g_county_fips g;
           cname = or_str (county_name (en_counties en) fips) (g_county_name g)
       in io_bind (\<lambda>fs. (float_coords g address, fs)) (\<lambda>(lat, lon).
         let appraiser_url = appraiser_link r fips state_abbr cname;
             w1 = (if g_provider g \<noteq> ''census'' then bag_add [] (fallback_warning (g_provider g)) else []);
             p = (case preresolved of
                    Some p \<Rightarrow> p
                  | None \<Rightarrow> resolve (en_arc en) r fips state_abbr cname lat lon (g_matched_address g));
             (parcel_ok, pid, hints, p') = settle_parcel p;
             w2 = (if parcel_ok then w1 else bag_add w1 unconfirmed_warning);
             job_id = or_str pid (strip (ra_job_number ra))
         in io_bind (job_folder (en_jobs_dir en) job_id address) (\<lambda>folder.
           let job_name = folder_name job_id address;
               ck = references (has_adapter (en_playwright en)) r fips state_abbr cname hints
           in io_bind (save_json en folder ''geocode.json'' (Data_geo g) CENSUS) (\<lambda>e1.
              io_bind (save_json en folder ''parcel.json'' (Data_parcel p')
                         (case pa_source p' of None \<Rightarrow> appraiser_url | Some s \<Rightarrow> s)) (\<lambda>e2.
              io_bind (save_json en folder ''clerk_search_refs.json'' (Data_clerk ck)
                         (ck_official_records_search ck)) (\<lambda>e3.
              io_return
                \<lparr>cx_address = address, cx_matched_address = g_matched_address g, cx_lat = lat,
                 cx_lon = lon, cx_state = state_abbr, cx_state_fips = g_state_fips g, cx_county = cname,
                 cx_county_fips = fips, cx_geocoder = g_provider g, cx_parcel = p',
                 cx_parcel_ok = parcel_ok, cx_parcel_id = pid, cx_parcel_hints = hints,
                 cx_appraiser_url = appraiser_url, cx_clerk_ref = ck, cx_job_number = job_id,
                 cx_order = or_str (strip (ra_order_number ra)) (or_str pid (or_str job_id job_name)),
                 cx_name = job_name, cx_folder = folder, cx_survey_type = ra_survey_type ra,
                 cx_appr = Some no_appr,
                 cx_clerk_docs = None, cx_warnings = w2, cx_manifest = [e1, e2, e3]\<rparr>))))))"

end
