(* ===== verification/Sources.thy ===== *)
theory Sources
  imports Research
begin

text \<open>
  \<open>engine/orchestration/sources.py\<close>: one adapter per document step, with its fetch and its fallback,
  the shared clerk scrape of deed and plat, and the classification of what a fetch raises.  An adapter
  works on the run's context, the portals' driver and the file system.
\<close>

section \<open>The world of an adapter\<close>

type_synonym 'd world = "property_context \<times> 'd \<times> fs"

definition get_ctx :: "('e, property_context, 'd world) io" where
  "get_ctx w = (Inr (fst w), w)"

definition set_ctx :: "(property_context \<Rightarrow> property_context) \<Rightarrow> ('e, unit, 'd world) io" where
  "set_ctx f w = (Inr (), (f (fst w), snd w))"

definition on_fs :: "(string, 'a, fs) io \<Rightarrow> (fault, 'a, 'd world) io" where
  "on_fs m w =
     (case w of (ctx, d, fs) \<Rightarrow>
        (case m fs of
           (Inl e, fs') \<Rightarrow> (Inl (Other_error e), (ctx, d, fs'))
         | (Inr a, fs') \<Rightarrow> (Inr a, (ctx, d, fs'))))"

definition io_lift :: "'e + 'a \<Rightarrow> ('e, 'a, 's) io" where
  "io_lift r s = (r, s)"

text \<open>\<open>try: fn = ... except Exception: fn = None\<close>\<close>

definition best_effort :: "(string, string option, fs) io \<Rightarrow> (fault, string option, 'd world) io" where
  "best_effort m = io_catch (on_fs m) (\<lambda>_. io_return None)"

section \<open>Fetched sources\<close>

text \<open>An entry of \<open>records\<close>: a file under \<open>documents\<close> and the source it came from.\<close>

definition GLO :: string where
  "GLO = ''https://glorecords.blm.gov/''"

record fetched_source =
  fs_status :: step_status
  fs_data :: payload
  fs_summary :: string
  fs_link :: string
  fs_link_label :: string
  fs_source_url :: string
  fs_downloaded :: "string list"
  fs_saved_file :: "string option"
  fs_records :: "manifest_entry list"
  fs_warnings :: "string list"
  fs_confidence :: "confidence option"
  fs_manual_review :: bool
  fs_situs :: "string option"
  fs_land_sqft :: scalar
  fs_land_acres :: scalar
  fs_address_match :: "bool option"

definition source_default :: fetched_source where
  "source_default =
     \<lparr>fs_status = Step_link, fs_data = Data_none, fs_summary = [], fs_link = [], fs_link_label = [],
      fs_source_url = [], fs_downloaded = [], fs_saved_file = None, fs_records = [], fs_warnings = [],
      fs_confidence = None, fs_manual_review = False, fs_situs = None, fs_land_sqft = SNone,
      fs_land_acres = SNone, fs_address_match = None\<rparr>"

record 'd source_adapter =
  ad_fetch :: "path \<Rightarrow> (fault, fetched_source, 'd world) io"
  ad_fallback :: "(fault, fetched_source, 'd world) io"

section \<open>Classification of failures\<close>

definition classify_exception :: "fault \<Rightarrow> source_outcome \<times> string \<times> string \<times> bool" where
  "classify_exception e =
     (case e of
        Source_error outcome code message retryable \<Rightarrow> (outcome, code, message, retryable)
      | Http_error status \<Rightarrow>
          (case status of
             None \<Rightarrow> (Out_broken, ''HTTP_?'', ''Source returned HTTP None '' @ emdash @ '' server error.'', True)
           | Some code \<Rightarrow>
               if code \<in> {401, 403, 406, 429} then
                 (Out_blocked, ''HTTP_'' @ show_nat code,
                  ''Source returned HTTP '' @ show_nat code @ '' (WAF/bot/geo block '' @ emdash @
                  '' opens in a browser).'', False)
               else if code \<in> {404, 410} then
                 (Out_broken, ''HTTP_'' @ show_nat code,
                  ''Source returned HTTP '' @ show_nat code @ '' '' @ emdash @
                  '' the URL is wrong or moved.'', False)
               else
                 (Out_broken, ''HTTP_'' @ (if code = 0 then ''?'' else show_nat code),
                  ''Source returned HTTP '' @ show_nat code @ '' '' @ emdash @ '' server error.'', True))
      | Connection_error \<Rightarrow>
          (Out_retryable, ''CONNECTION_FAILED'',
           ''Source timed out or connection was reset (network/firewall?).'', True)
      | Other_error s \<Rightarrow> (Out_retryable, ''ADAPTER_ERROR'', take 300 s, True))"

section \<open>Parcel\<close>

definition open_appraiser :: string where
  "open_appraiser = ''Open County Property Appraiser''"

definition parcel_fallback :: "property_context \<Rightarrow> fetched_source" where
  "parcel_fallback ctx =
     source_default\<lparr>
       fs_summary := ''Parcel record not found for this address '' @ emdash @ '' open the County '' @
                     ''Property Appraiser to look it up.'',
       fs_link := cx_appraiser_url ctx, fs_link_label := open_appraiser,
       fs_source_url := cx_appraiser_url ctx, fs_saved_file := Some ''parcel.json''\<rparr>"

definition source_or :: "string option \<Rightarrow> string \<Rightarrow> string" where
  "source_or s url = (if opt_truthy s then the s else url)"

text \<open>The text of the lot area; the area is a number, so \<open>int\<close> of it is one too.\<close>

definition area_text :: "scalar \<Rightarrow> scalar \<Rightarrow> string" where
  "area_text sqft acres =
     (if truthy sqft
      then '' '' @ middot @ '' Lot '' @ show_thousands (case to_int sqft of Some i \<Rightarrow> i | None \<Rightarrow> 0) @
           '' sq ft'' @ (if truthy acres then '' ('' @ py_str acres @ '' ac)'' else [])
      else [])"

definition parcel_fetch :: "'d env \<Rightarrow> (fault, fetched_source, 'd world) io" where
  "parcel_fetch en =
     io_bind get_ctx (\<lambda>ctx.
       let p = cx_parcel ctx
       in if \<not> (cx_parcel_ok ctx \<and> pa_method p = ''arcgis-rest'' \<and> pa_parcels p \<noteq> []) then
            io_return
              (if pa_parcels p \<noteq> [] \<and> pa_buffered_match p then
                 (parcel_fallback ctx)\<lparr>
                   fs_manual_review := True,
                   fs_summary := ''Parcel found via a buffered match '' @ emdash @
                                 '' review the boundary and ID before using.'',
                   fs_source_url := source_or (pa_source p) (cx_appraiser_url ctx),
                   fs_warnings := [''Parcel matched with a 40 m buffer and no address confirmation '' @ emdash @
                                   '' verify the parcel boundary and ID before relying on this data.'']\<rparr>
               else parcel_fallback ctx)
          else
            io_bind (best_effort (save_parcel_record (en_stamp en) (cx_folder ctx) p (cx_doc_meta ctx))) (\<lambda>fn.
            io_return
              (source_default\<lparr>
                 fs_status := Step_ok, fs_data := Data_parcel p,
                 fs_summary := (if cx_parcel_id ctx \<noteq> [] then ''Parcel ID: '' @ cx_parcel_id ctx
                                else parcel_summarize p) @
                               area_text (pa_land_sqft p) (pa_land_acres p),
                 fs_link := cx_appraiser_url ctx, fs_link_label := open_appraiser,
                 fs_source_url := source_or (pa_source p) (cx_appraiser_url ctx),
                 fs_saved_file := Some ''parcel.json'',
                 fs_downloaded := (if opt_truthy fn then [the fn] else []),
                 fs_records := (if opt_truthy fn
                                then [file_entry (the fn)
                                        (case pa_source p of None \<Rightarrow> cx_appraiser_url ctx | Some s \<Rightarrow> s)]
                                else []),
                 fs_situs := Some (pa_situs p), fs_land_sqft := pa_land_sqft p,
                 fs_land_acres := pa_land_acres p, fs_address_match := Some True\<rparr>)))"

section \<open>Appraiser\<close>

definition appraiser_fallback :: "property_context \<Rightarrow> fetched_source" where
  "appraiser_fallback ctx =
     source_default\<lparr>
       fs_summary := ''Open the County Property Appraiser'', fs_link := cx_appraiser_url ctx,
       fs_link_label := open_appraiser, fs_source_url := cx_appraiser_url ctx\<rparr>"

definition appr_of :: "property_context \<Rightarrow> appr_info" where
  "appr_of ctx = (case cx_appr ctx of None \<Rightarrow> no_appr | Some a \<Rightarrow> a)"

text \<open>The record card, then the other files not listed yet.\<close>

definition appr_files :: "appr_info \<Rightarrow> string list" where
  "appr_files a =
     foldl (\<lambda>files f. if f \<in> set files then files else files @ [f])
           (if ap_doc a \<noteq> [] then [ap_doc a] else []) (ap_docs a)"

definition appraiser_fetch :: "'d env \<Rightarrow> (fault, fetched_source, 'd world) io" where
  "appraiser_fetch en =
     io_bind get_ctx (\<lambda>ctx.
       let got = (cx_parcel_ok ctx \<and> pa_parcels (cx_parcel ctx) \<noteq> []);
           appr = appr_of ctx;
           url = cx_appraiser_url ctx
       in io_bind
            (if got then
               best_effort (save_appraiser_record (en_stamp en) (cx_folder ctx)
                              (hd (pa_parcels (cx_parcel ctx))) (cx_doc_meta ctx) url)
             else io_return None) (\<lambda>fn.
          let files = appr_files appr @ (if opt_truthy fn then [the fn] else [])
          in io_return
               (source_default\<lparr>
                  fs_status := (if got then Step_ok else Step_link),
                  fs_data := (if got then Data_attrs (hd (pa_parcels (cx_parcel ctx))) else Data_none),
                  fs_summary := (if got \<and> ap_doc appr \<noteq> [] then ''Official Property Record Card (county appraiser)''
                                 else if got then ''Owner, values & last sale from the county tax roll''
                                 else ''Open the County Property Appraiser''),
                  fs_link := url, fs_link_label := open_appraiser, fs_source_url := url,
                  fs_downloaded := files,
                  fs_saved_file := (if got \<and> files \<noteq> [] then Some ''parcel.json'' else None),
                  fs_records := map (\<lambda>f. file_entry f url) files\<rparr>)))"

section \<open>References in the parcel's attributes\<close>

definition attr_text :: "attrs \<Rightarrow> string list \<Rightarrow> string" where
  "attr_text a needles =
     (case List.find (\<lambda>(k, v). any_in needles (filter (\<lambda>c. c \<noteq> CHR ''_'') (lower k)) \<and>
                               \<not> in_blanks [[], '' ''] v \<and> \<not> eq_zero v) a of
        None \<Rightarrow> [] | Some (_, v) \<Rightarrow> strip (py_str v))"

definition field_text :: "attrs \<Rightarrow> string \<Rightarrow> string" where
  "field_text a name =
     (case List.find (\<lambda>(k, v). upper k = name \<and> \<not> in_blanks [[], '' ''] v) a of
        None \<Rightarrow> [] | Some (_, v) \<Rightarrow> strip (py_str v))"

definition numref :: "string \<Rightarrow> string" where
  "numref s =
     (let v = strip s in if list_ex is_digit v \<and> strip_chars ''0 '' v \<noteq> [] then v else [])"

text \<open>A reference that is not there is empty.\<close>

definition plat_pb_pat :: re where
  "plat_pb_pat =
     seqs [Bound, LitI ''P'', dot_opt, Maybe space, LitI ''B'', dot_opt, Star space, Grp 1 (Plus digit)]"

definition plat_book_pat :: re where
  "plat_book_pat = seqs [LitI ''PLAT'', Star space, LitI ''BOOK'', Star space, Grp 1 (Plus digit)]"

definition plat_page_pat :: re where
  "plat_page_pat =
     seqs [Bound, LitI ''P'', Alt (LitI ''G'') (LitI ''AGE''), dot_opt, Star space, Grp 1 (Plus digit)]"

definition plat_ref :: "string \<Rightarrow> string \<times> string" where
  "plat_ref legal =
     (let mb = (case re_search plat_pb_pat legal of None \<Rightarrow> re_search plat_book_pat legal | Some g \<Rightarrow> Some g);
          text = (\<lambda>m. case m of None \<Rightarrow> [] | Some g \<Rightarrow> group g 1)
      in (text mb, text (re_search plat_page_pat legal)))"

definition or_pat :: re where
  "or_pat =
     seqs [Bound, LitI ''O'', dot_opt, Maybe space, LitI ''R'', dot_opt, Star space,
           Maybe (Seq (LitI ''BOOK'') (Star space)), Grp 1 (Rep 2 6 digit), Star space,
           Alt (seqs [Lit ''/'', Star space, Grp 2 (Rep 1 6 digit)])
               (seqs [alts [LitI ''PG'', LitI ''PAGE'', LitI ''P''], dot_opt, Star space,
                      Grp 3 (Rep 1 6 digit)])]"

definition or_ref :: "string \<Rightarrow> string \<times> string" where
  "or_ref legal =
     (case re_search or_pat legal of
        None \<Rightarrow> ([], []) | Some g \<Rightarrow> (group g 1, or_str (group g 2) (group g 3)))"

definition legal_pat :: re where
  "legal_pat =
     seqs [Bound, alts [Lit ''BLK'', Lit ''BLOCK'', Lit ''LOT'', Lit ''LT'', Lit ''PB'',
                        seqs [Lit ''P'', Maybe space, Lit ''B''], Lit ''PLAT'', Lit ''SEC'', Lit ''BEG''], Bound]"

definition subdivision :: "string \<Rightarrow> string" where
  "subdivision legal = strip (join '' '' (take 6 (split_ws (re_split_head legal_pat (upper legal)))))"

definition hint_str :: "property_context \<Rightarrow> string" where
  "hint_str ctx = join '', '' (take 4 (map fst (cx_parcel_hints ctx)))"

definition clerk_url_for :: "property_context \<Rightarrow> string \<Rightarrow> string" where
  "clerk_url_for ctx doc_key =
     (if doc_key = ''plat'' then ck_plat_search (cx_clerk_ref ctx)
      else ck_official_records_search (cx_clerk_ref ctx))"

section \<open>The shared clerk scrape\<close>

definition plat_arg_of :: "attrs \<Rightarrow> appr_info \<Rightarrow> plat_arg option" where
  "plat_arg_of a appr =
     (let legal = attr_text a [''slegal'', ''legal''];
          (pb, pg) = (if fst (plat_ref legal) = [] \<and> ap_plat_book appr \<noteq> []
                      then (ap_plat_book appr, ap_plat_page appr) else plat_ref legal)
      in if pb \<noteq> [] then Some \<lparr>pl_book = pb, pl_page = pg, pl_subdivision = subdivision legal\<rparr> else None)"

definition deed_arg_of :: "attrs \<Rightarrow> deed_arg option" where
  "deed_arg_of a =
     (let legal = attr_text a [''slegal'', ''legal''];
          owner = attr_text a [''ownname'', ''owner''];
          ob = numref (field_text a ''OR_BOOK1''); pg = numref (field_text a ''OR_PAGE1'');
          cn = numref (field_text a ''CLERK_NO1'');
          (lb, lp) = or_ref legal;
          (ob, pg) = (if \<not> (ob \<noteq> [] \<and> pg \<noteq> []) \<and> lb \<noteq> [] \<and> lp \<noteq> [] then (lb, lp) else (ob, pg))
      in if cn \<noteq> [] \<or> ob \<noteq> [] \<and> pg \<noteq> [] then
           Some \<lparr>de_doc_number = cn, de_book = ob, de_page = pg, de_owner = [], de_subdivision = []\<rparr>
         else if owner \<noteq> [] then
           Some \<lparr>de_doc_number = [], de_book = [], de_page = [], de_owner = owner,
                 de_subdivision = subdivision legal\<rparr>
         else None)"

definition clerk_scrape ::
  "'d env \<Rightarrow> string \<Rightarrow> path \<Rightarrow> plat_arg option \<Rightarrow> deed_arg option \<Rightarrow> ('e, scrape_result, 'd world) io" where
  "clerk_scrape en county_fips out_dir plat deed w =
     (case w of (ctx, d, fs) \<Rightarrow>
        (case fetch_documents (en_driver en) (en_playwright en) county_fips out_dir plat deed (d, fs) of
           (r, d', fs') \<Rightarrow> (Inr r, (ctx, d', fs'))))"

text \<open>Once per context; the result is kept.\<close>

definition scrape_documents :: "'d env \<Rightarrow> path \<Rightarrow> (fault, scrape_result, 'd world) io" where
  "scrape_documents en out_dir =
     io_bind get_ctx (\<lambda>ctx0.
       case cx_clerk_docs ctx0 of
         Some docs \<Rightarrow> io_return docs
       | None \<Rightarrow>
           let fips = cx_county_fips ctx0
           in io_then
                (if available fips \<and> cx_parcel_id ctx0 \<noteq> [] \<and> cx_appr ctx0 = None then
                   io_bind
                     (io_catch (on_fs (fetch_appraiser (en_web en) (en_playwright en) (en_download en) fips
                                         (cx_parcel_id ctx0) out_dir))
                        (\<lambda>_. io_return no_appr))
                     (\<lambda>a. set_ctx (\<lambda>c. c\<lparr>cx_appr := Some a\<rparr>))
                 else io_return ())
              (io_bind get_ctx (\<lambda>ctx.
               io_bind
                 (if cx_parcel_ok ctx \<and> has_adapter (en_playwright en) fips \<and>
                     pa_parcels (cx_parcel ctx) \<noteq> [] then
                    let a = hd (pa_parcels (cx_parcel ctx));
                        plat = plat_arg_of a (appr_of ctx);
                        deed = deed_arg_of a
                    in if plat \<noteq> None \<or> deed \<noteq> None then clerk_scrape en fips out_dir plat deed
                       else io_return start_result
                  else io_return start_result) (\<lambda>docs.
               io_then (set_ctx (\<lambda>c. c\<lparr>cx_clerk_docs := Some docs\<rparr>)) (io_return docs)))))"

section \<open>Deed, plat and the other clerk documents\<close>

definition clerk_source :: "property_context \<Rightarrow> string \<Rightarrow> string \<Rightarrow> string \<Rightarrow> fetched_source" where
  "clerk_source ctx doc_key label summary =
     source_default\<lparr>
       fs_data := Data_clerk (cx_clerk_ref ctx), fs_summary := summary,
       fs_link := clerk_url_for ctx doc_key,
       fs_link_label := ''Open Clerk Official Records '' @ emdash @ '' '' @ label,
       fs_source_url := clerk_url_for ctx doc_key, fs_saved_file := Some ''clerk_search_refs.json''\<rparr>"

definition clerk_label :: "string \<Rightarrow> string" where
  "clerk_label label = ''Open Clerk Official Records '' @ emdash @ '' '' @ label"

definition deed_label :: string where
  "deed_label = ''Deed '' @ emdash @ '' subject parcel''"

definition plat_label :: string where
  "plat_label = ''Recorded plat / subdivision map''"

definition hinted :: "property_context \<Rightarrow> string \<Rightarrow> string" where
  "hinted ctx s =
     (if cx_parcel_hints ctx \<noteq> [] then s @ ''  '' @ middot @ ''  hints: '' @ hint_str ctx else s)"

text \<open>The clerk's step with the file the scrape gave, if it gave one.\<close>

definition clerk_fetched ::
  "property_context \<Rightarrow> string \<Rightarrow> string \<Rightarrow> string \<Rightarrow> string option \<Rightarrow> fetched_source" where
  "clerk_fetched ctx doc_key label summary fetched =
     (clerk_source ctx doc_key label summary)\<lparr>
       fs_status := Step_ok,
       fs_downloaded := (if opt_truthy fetched then [the fetched] else []),
       fs_records := (if opt_truthy fetched then [file_entry (the fetched) (clerk_url_for ctx doc_key)] else []),
       fs_confidence := (if opt_truthy fetched then Some Conf_medium else None)\<rparr>"

definition deed_fetch :: "'d env \<Rightarrow> path \<Rightarrow> (fault, fetched_source, 'd world) io" where
  "deed_fetch en out_dir =
     io_bind get_ctx (\<lambda>ctx.
     io_bind (scrape_documents en out_dir) (\<lambda>docs.
       let summary = (if opt_truthy (sc_deed docs)
                      then strip (''Auto-fetched deed '' @ sc_deed_ref docs @ '' '' @ emdash @
                                  '' verify grantee & legal match the subject parcel'')
                      else hinted ctx (clerk_label deed_label))
       in io_return (clerk_fetched ctx ''deed'' deed_label summary (sc_deed docs))))"

definition deed_fallback :: "property_context \<Rightarrow> fetched_source" where
  "deed_fallback ctx = clerk_source ctx ''deed'' deed_label (hinted ctx (clerk_label deed_label))"

definition plat_fetch :: "'d env \<Rightarrow> path \<Rightarrow> (fault, fetched_source, 'd world) io" where
  "plat_fetch en out_dir =
     io_bind get_ctx (\<lambda>ctx.
     io_bind (scrape_documents en out_dir) (\<lambda>docs.
       io_return
         (clerk_fetched ctx ''plat'' plat_label
            (if opt_truthy (sc_plat docs) then ''Auto-fetched the recorded plat / subdivision map''
             else clerk_label plat_label) (sc_plat docs))))"

definition plat_fallback :: "property_context \<Rightarrow> fetched_source" where
  "plat_fallback ctx = clerk_source ctx ''plat'' plat_label (clerk_label plat_label)"

text \<open>The other families: \<open>source_key\<close> is the shared scrape's entry; no file is listed.  Their fallback is
  the fetch again, with the scrape kept by then.\<close>

definition attempt_clerk_fetch ::
  "'d env \<Rightarrow> string \<Rightarrow> string \<Rightarrow> string \<Rightarrow> path \<Rightarrow> (fault, fetched_source, 'd world) io" where
  "attempt_clerk_fetch en step_key label source_key out_dir =
     io_bind get_ctx (\<lambda>ctx.
     io_bind (scrape_documents en out_dir) (\<lambda>docs.
       let fetched = (if source_key = ''deed'' then sc_deed docs
                      else if source_key = ''plat'' then sc_plat docs else None)
       in io_return
            ((clerk_source ctx step_key label
                (if opt_truthy fetched
                 then ''Auto-fetched '' @ label @ '' '' @ emdash @ '' verify the match''
                 else clerk_label label))\<lparr>fs_status := Step_ok\<rparr>)))"

section \<open>Flood, benchmarks, land office, zoning\<close>

definition firmette_label :: string where
  "firmette_label = ''Open FEMA Map Service Center (FIRMette)''"

definition flood_fetch :: "'d env \<Rightarrow> (fault, fetched_source, 'd world) io" where
  "flood_fetch en =
     io_bind get_ctx (\<lambda>ctx.
     io_bind (io_lift (flood (en_nfhl en) (cx_lat ctx) (cx_lon ctx) (cx_county_fips ctx))) (\<lambda>f.
     let has = truthy (fl_flood_zone f)
     in io_bind (best_effort (save_flood_map (en_maps en) (cx_folder ctx) (cx_lat ctx) (cx_lon ctx)
                                f (cx_doc_meta ctx))) (\<lambda>mp.
     io_bind (if has then best_effort (save_flood_report (en_stamp en) (cx_folder ctx) f (cx_doc_meta ctx) mp)
              else io_return None) (\<lambda>fn.
     let listed = (\<lambda>x. if opt_truthy x then [the x] else [])
     in io_return
          (source_default\<lparr>
             fs_status := (if has \<or> opt_truthy mp then Step_ok else Step_link),
             fs_data := Data_flood f,
             fs_summary :=
               (if has then flood_summarize f
                else if opt_truthy mp then
                  ''Not in a mapped SFHA polygon (Zone X) '' @ emdash @ '' see flood map excerpt, parcel at center''
                else ''No NFHL polygon here '' @ emdash @ '' open the FIRM directly''),
             fs_link := MSC_HOME, fs_link_label := firmette_label, fs_source_url := NFHL,
             fs_saved_file := Some ''flood_zone.json'',
             fs_downloaded := (if listed fn = [] then listed mp else listed fn),
             fs_records := map (\<lambda>x. file_entry x NFHL) (listed mp @ listed fn)\<rparr>)))))"

definition flood_fallback :: fetched_source where
  "flood_fallback =
     source_default\<lparr>
       fs_summary := ''Couldn'' @ [CHR 0x27] @ ''t reach FEMA NFHL from this network '' @ emdash @
                     '' open the FIRM directly'',
       fs_link := MSC_HOME, fs_link_label := firmette_label, fs_source_url := NFHL,
       fs_saved_file := Some ''flood_zone.json''\<rparr>"

definition NGS_HOME :: string where
  "NGS_HOME = ''https://geodesy.noaa.gov/''"

definition ngs_fetch :: "'d env \<Rightarrow> (fault, fetched_source, 'd world) io" where
  "ngs_fetch en =
     io_bind get_ctx (\<lambda>ctx.
     io_bind (io_lift (benchmarks (en_radial en) (cx_lat ctx) (cx_lon ctx))) (\<lambda>b.
     io_bind (io_catch (on_fs (download_ngs_datasheets (en_sheet en) (cx_folder ctx) (bm_marks b) 3))
                (\<lambda>_. io_return [])) (\<lambda>dls.
       io_return
         (source_default\<lparr>
            fs_status := (if bm_count b \<noteq> 0 then Step_ok else Step_empty), fs_data := Data_marks b,
            fs_summary := ngs_summarize b @
              (if dls \<noteq> [] then ''  '' @ middot @ ''  downloaded '' @ show_nat (length dls) @ '' datasheet(s)''
               else []),
            fs_link := NGS_HOME, fs_link_label := ''Open NGS datasheets'', fs_source_url := RADIAL,
            fs_saved_file := Some ''benchmarks.json'', fs_downloaded := dls,
            fs_records := map (\<lambda>x. file_entry x RADIAL) dls\<rparr>))))"

definition ngs_fallback :: fetched_source where
  "ngs_fallback =
     source_default\<lparr>
       fs_summary := ''Couldn'' @ [CHR 0x27] @ ''t reach NGS '' @ emdash @ '' open the datasheets directly'',
       fs_link := NGS_HOME, fs_link_label := ''Open NGS datasheets'',
       fs_source_url := ''https://geodesy.noaa.gov/api/nde/radial'', fs_saved_file := Some ''benchmarks.json''\<rparr>"

definition glo_source :: fetched_source where
  "glo_source =
     source_default\<lparr>fs_link := GLO, fs_link_label := ''Open BLM GLO Records'', fs_source_url := GLO\<rparr>"

definition zoning_source :: "property_context \<Rightarrow> fetched_source" where
  "zoning_source ctx =
     (let doc_url = or_str (cx_appraiser_url ctx)
                      (or_str (ck_appraiser_url (cx_clerk_ref ctx)) (ck_directory_url (cx_clerk_ref ctx)))
      in source_default\<lparr>
           fs_summary := ''Zoning / setback ordinance '' @ emdash @ '' search the county zoning/GIS portal'',
           fs_link := doc_url, fs_link_label := ''Open County Zoning / GIS Portal'',
           fs_source_url := or_str doc_url ''County zoning / GIS portal''\<rparr>)"

section \<open>The registry of adapters\<close>

definition from_ctx :: "(property_context \<Rightarrow> 'a) \<Rightarrow> ('e, 'a, 'd world) io" where
  "from_ctx f = io_bind get_ctx (\<lambda>ctx. io_return (f ctx))"

definition attempt_clerk_adapter ::
  "'d env \<Rightarrow> string \<Rightarrow> string \<Rightarrow> string \<Rightarrow> 'd source_adapter" where
  "attempt_clerk_adapter en step_key label source_key =
     \<lparr>ad_fetch = attempt_clerk_fetch en step_key label source_key,
      ad_fallback = attempt_clerk_fetch en step_key label source_key []\<rparr>"

definition ADAPTERS :: "'d env \<Rightarrow> (string \<times> 'd source_adapter) list" where
  "ADAPTERS en =
     [(''parcel'', \<lparr>ad_fetch = \<lambda>_. parcel_fetch en, ad_fallback = from_ctx parcel_fallback\<rparr>),
      (''appraiser'', \<lparr>ad_fetch = \<lambda>_. appraiser_fetch en, ad_fallback = from_ctx appraiser_fallback\<rparr>),
      (''deed'', \<lparr>ad_fetch = deed_fetch en, ad_fallback = from_ctx deed_fallback\<rparr>),
      (''plat'', \<lparr>ad_fetch = plat_fetch en, ad_fallback = from_ctx plat_fallback\<rparr>),
      (''adjoiners'', attempt_clerk_adapter en ''adjoiners'' (''Deeds '' @ emdash @ '' adjoining parcels'') ''deed''),
      (''easements'', attempt_clerk_adapter en ''easements'' ''Easements / ROW / covenants (CC&Rs)'' ''deed''),
      (''prior_survey'', attempt_clerk_adapter en ''prior_survey'' ''Prior recorded surveys'' ''deed''),
      (''condo'', attempt_clerk_adapter en ''condo'' ''Condominium declaration & exhibits'' ''plat''),
      (''flood'', \<lparr>ad_fetch = \<lambda>_. flood_fetch en, ad_fallback = io_return flood_fallback\<rparr>),
      (''benchmarks'', \<lparr>ad_fetch = \<lambda>_. ngs_fetch en, ad_fallback = io_return ngs_fallback\<rparr>),
      (''glo'', \<lparr>ad_fetch = \<lambda>_. io_return glo_source, ad_fallback = io_return glo_source\<rparr>),
      (''zoning'', \<lparr>ad_fetch = \<lambda>_. from_ctx zoning_source, ad_fallback = from_ctx zoning_source\<rparr>)]"

definition register_source ::
  "string \<Rightarrow> 'd source_adapter \<Rightarrow> (string \<times> 'd source_adapter) list \<Rightarrow> (string \<times> 'd source_adapter) list" where
  "register_source key adapter = dict_put key adapter"

end
