(* ===== verification/Steps.thy ===== *)
theory Steps
  imports Sources
begin

text \<open>
  \<open>engine/orchestration/steps.py\<close> and \<open>runner.py\<close>: the reference set of documents
  (\<open>data/reference.py\<close>), the assembly of one step per wanted document with its failure handling, and
  the research run that resolves the context, assembles the steps and writes the audit files.
\<close>

section \<open>The reference set\<close>

record reference_doc =
  rd_key :: string
  rd_label :: string
  rd_requirement :: string
  rd_source :: string
  rd_condition :: string
  rd_description :: string
  rd_guidance :: string

definition RESIDENTIAL_DOCS :: "reference_doc list" where
  "RESIDENTIAL_DOCS =
    [\<lparr>rd_key = ''parcel'', rd_label = ''Parcel record & Parcel ID'', rd_requirement = ''mandatory'',
      rd_source = ''parcel'', rd_condition = [],
      rd_description =
       ''The Property Appraiser'' @
       [CHR 0x27] @
       ''s record for the parcel '' @
       emdash @
       '' its unique Parcel ID, '' @
       ''owner, legal description, subdivision and (often) the deed & plat '' @
       ''book/page. It'' @
       [CHR 0x27] @
       ''s the anchor that identifies the property and seeds '' @
       ''every other lookup.'',
      rd_guidance =
       ''County appraiser parcel: legal description, owner, OR book/page, '' @
       ''subdivision, section-township-range.''\<rparr>,
     \<lparr>rd_key = ''appraiser'', rd_label = ''Property Appraiser / Tax record'', rd_requirement = ''mandatory'',
      rd_source = ''appraiser'', rd_condition = [],
      rd_description =
       ''The county tax-roll record '' @
       emdash @
       '' owner, situs, use code, land & living '' @
       ''area, just/assessed/taxable values and the last recorded sale (OR '' @
       ''book/page). Used to confirm identity, size and the authoritative deed '' @
       ''reference.'',
      rd_guidance =
       ''County Property Appraiser / DOR tax roll: owner, values, area, last '' @
       ''sale OR book/page.''\<rparr>,
     \<lparr>rd_key = ''deed'', rd_label = ''Deed '' @
       emdash @
       '' subject parcel'', rd_requirement = ''mandatory'',
      rd_source = ''clerk'', rd_condition = [],
      rd_description =
       ''The recorded instrument that conveys ownership. It carries the record '' @
       ''legal description the survey must retrace, plus the OR book/page '' @
       ''reference.'',
      rd_guidance =
       ''Current vesting deed '' @
       emdash @
       '' search Official Records by OR book/page or '' @
       ''owner name.''\<rparr>,
     \<lparr>rd_key = ''plat'', rd_label = ''Recorded plat / subdivision map'', rd_requirement = ''mandatory'',
      rd_source = ''clerk'', rd_condition = ''if the parcel is in a recorded subdivision'',
      rd_description =
       ''The recorded map that created the subdivision'' @
       [CHR 0x27] @
       ''s lots, blocks, streets '' @
       ''and easements '' @
       emdash @
       '' giving platted lot dimensions, bearings and dedicated '' @
       ''easements.'',
      rd_guidance =
       ''Search the Plat Book / subdivision name for the recorded plat.''\<rparr>,
     \<lparr>rd_key = ''adjoiners'', rd_label = ''Deeds '' @
       emdash @
       '' adjoining parcels'', rd_requirement = ''mandatory'',
      rd_source = ''clerk'', rd_condition = [],
      rd_description =
       ''The deeds of the neighboring parcels '' @
       emdash @
       '' used to resolve gaps, overlaps '' @
       ''and boundary conflicts with adjoiners (required by FL Rule 5J-17.052).'',
      rd_guidance =
       ''Retrieve deeds for the abutting parcels to resolve boundary calls.''\<rparr>,
     \<lparr>rd_key = ''easements'', rd_label = ''Easements / ROW / covenants (CC&Rs)'', rd_requirement = ''mandatory'',
      rd_source = ''clerk'', rd_condition = [],
      rd_description =
       ''Recorded rights that affect the land '' @
       emdash @
       '' utility/access easements, '' @
       ''rights-of-way and restrictive covenants '' @
       emdash @
       '' which must be located and '' @
       ''shown on the survey.'',
      rd_guidance =
       ''Search Official Records for recorded easements, rights-of-way and '' @
       ''restrictive covenants.''\<rparr>,
     \<lparr>rd_key = ''prior_survey'', rd_label = ''Prior recorded surveys'', rd_requirement = ''recommended'',
      rd_source = ''clerk'', rd_condition = [],
      rd_description =
       ''Earlier recorded surveys of the parcel or subdivision '' @
       emdash @
       '' prior '' @
       ''monumentation and measurements to compare against and reconcile.'',
      rd_guidance =
       ''Search Official Records for previously recorded surveys of the parcel '' @
       ''or subdivision.''\<rparr>,
     \<lparr>rd_key = ''flood'', rd_label = ''FEMA flood zone / FIRM'', rd_requirement = ''conditional'',
      rd_source = ''fema'', rd_condition = ''lender-required; if near a Special Flood Hazard Area'',
      rd_description =
       ''The FEMA flood-hazard designation for the parcel '' @
       emdash @
       '' flood zone (e.g. X, '' @
       ''AE, VE), FIRM panel and Base Flood Elevation '' @
       emdash @
       '' i.e. whether it sits in '' @
       ''a Special Flood Hazard Area. Lenders and insurers require this '' @
       ''determination.'',
      rd_guidance =
       ''NFHL flood zone, FIRM panel and Base Flood Elevation.''\<rparr>,
     \<lparr>rd_key = ''benchmarks'', rd_label = ''NGS geodetic control (benchmarks)'', rd_requirement = ''recommended'',
      rd_source = ''ngs'', rd_condition = [],
      rd_description =
       ''Nearby NGS survey monuments with published coordinates and elevations '' @
       emdash @
       '' used to tie the survey to the correct datum (e.g. NAVD88) and '' @
       ''horizontal control.'',
      rd_guidance =
       ''Nearby NGS control marks for datum / horizontal & vertical control.''\<rparr>,
     \<lparr>rd_key = ''glo'', rd_label = ''GLO / PLSS plats & field notes'', rd_requirement = ''conditional'',
      rd_source = ''glo'', rd_condition = ''if the legal is section-township-range (PLSS) / metes-and-bounds'',
      rd_description =
       ''The original U.S. General Land Office township plats and field notes '' @
       ''that established the PLSS section corners '' @
       emdash @
       '' the basis for section / '' @
       ''metes-and-bounds descriptions.'',
      rd_guidance =
       ''BLM GLO original township plats & field notes for the section.''\<rparr>,
     \<lparr>rd_key = ''condo'', rd_label = ''Condominium declaration & exhibits'', rd_requirement = ''conditional'',
      rd_source = ''clerk'', rd_condition = ''if the property is a condominium unit'',
      rd_description =
       ''The recorded declaration (with its survey / plot-plan exhibits) that '' @
       ''legally creates the condominium and defines the units and common '' @
       ''elements (FL s.718.104).'',
      rd_guidance =
       ''Search Official Records for the recorded condo declaration and survey '' @
       ''exhibits.''\<rparr>,
     \<lparr>rd_key = ''zoning'', rd_label = ''Zoning / setback ordinance'', rd_requirement = ''conditional'',
      rd_source = ''gis'', rd_condition = ''if setbacks / permitted use affect the survey (most boundary work)'',
      rd_description =
       ''The zoning classification and applicable setback / land-use ordinances '' @
       ''for the parcel '' @
       emdash @
       '' used to check conforming use, buildable area and '' @
       ''setback lines shown on the survey.'',
      rd_guidance =
       ''Search the county/municipal zoning GIS or permitting portal for the '' @
       ''parcel'' @
       [CHR 0x27] @
       ''s zoning classification and setback ordinance.''\<rparr>]"

section \<open>Assembly of a step\<close>

fun outcome_for :: "fetched_source \<Rightarrow> source_outcome" where
  "outcome_for src =
     (if fs_manual_review src then Out_manual_review
      else if fs_status src = Step_ok then Out_auto
      else if fs_status src = Step_empty then Out_auto
      else Out_link_only)"

fun default_confidence :: "step_status \<Rightarrow> bool \<Rightarrow> confidence" where
  "default_confidence status manual_review =
     (if manual_review then Conf_low
      else if status = Step_ok then Conf_high
      else if status = Step_empty then Conf_medium
      else Conf_low)"

fun code_for :: "source_outcome \<Rightarrow> string" where
  "code_for Out_blocked = ''SOURCE_BLOCKED''"
| "code_for Out_broken = ''SOURCE_BROKEN''"
| "code_for Out_retryable = ''SOURCE_UNREACHABLE''"
| "code_for Out_link_only = ''LINK_ONLY''"
| "code_for Out_auto = ''AUTO''"
| "code_for Out_manual_review = ''MANUAL_REVIEW''"

definition provenance_from :: "manifest_entry \<Rightarrow> provenance_record" where
  "provenance_from entry =
     \<lparr>pr_source_id = me_source entry, pr_provider = me_source entry, pr_url = me_source entry,
      pr_retrieved_utc = me_fetched_utc entry, pr_attempt = 1, pr_fallback_chain = [],
      pr_file = Some (me_file entry), pr_sha256 = me_sha256 entry\<rparr>"

definition step_of ::
  "reference_doc \<Rightarrow> fetched_source \<Rightarrow> source_outcome \<Rightarrow> error_info option \<Rightarrow> confidence \<Rightarrow> step_result" where
  "step_of d src outcome error conf =
     \<lparr>sp_key = rd_key d, sp_label = rd_label d, sp_requirement = rd_requirement d,
      sp_condition = rd_condition d, sp_description = rd_description d, sp_summary = fs_summary src,
      sp_status = fs_status src, sp_link = fs_link src, sp_link_label = fs_link_label src,
      sp_source_url = fs_source_url src, sp_saved_file = fs_saved_file src, sp_data = fs_data src,
      sp_downloaded = fs_downloaded src, sp_situs = fs_situs src, sp_land_sqft = fs_land_sqft src,
      sp_land_acres = fs_land_acres src, sp_address_match = fs_address_match src,
      sp_source_outcome = outcome, sp_confidence = conf,
      sp_provenance = map provenance_from (fs_records src), sp_warnings = fs_warnings src,
      sp_error = error\<rparr>"

text \<open>The step, with its records appended to the run's manifest.\<close>

definition assemble ::
  "reference_doc \<Rightarrow> fetched_source \<Rightarrow> source_outcome \<Rightarrow> error_info option \<Rightarrow> confidence \<Rightarrow>
     (fault, step_result, 'd world) io" where
  "assemble d src outcome error conf =
     io_then (set_ctx (\<lambda>ctx. foldl cx_log ctx (fs_records src)))
       (io_return (step_of d src outcome error conf))"

definition unreachable_source :: fetched_source where
  "unreachable_source =
     source_default\<lparr>fs_summary := ''Couldn'' @ [CHR 0x27] @ ''t reach this source.''\<rparr>"

text \<open>A \<open>SourceError\<close> falls back without a guard; anything else falls back to the adapter's link, or to
  a plain one when the fallback fails as well.\<close>

definition run_one ::
  "reference_doc \<Rightarrow> 'd source_adapter \<Rightarrow> path \<Rightarrow> (fault, step_result, 'd world) io" where
  "run_one d adapter dd =
     io_catch
       (io_bind (ad_fetch adapter dd) (\<lambda>src.
          assemble d src (outcome_for src) None
            (case fs_confidence src of
               Some c \<Rightarrow> c | None \<Rightarrow> default_confidence (fs_status src) (fs_manual_review src))))
       (\<lambda>e. case e of
          Source_error outcome code message retryable \<Rightarrow>
            io_bind (ad_fallback adapter) (\<lambda>src.
              assemble d src outcome
                (Some \<lparr>ei_code = or_str code (code_for outcome), ei_message = message,
                       ei_retryable = retryable\<rparr>) Conf_none)
        | _ \<Rightarrow>
            (case classify_exception e of (outcome, code, message, retryable) \<Rightarrow>
               io_bind (io_catch (ad_fallback adapter) (\<lambda>_. io_return unreachable_source)) (\<lambda>src.
                 assemble d src outcome
                   (Some \<lparr>ei_code = code, ei_message = message, ei_retryable = retryable\<rparr>) Conf_none)))"

definition is_wanted :: "string list option \<Rightarrow> reference_doc \<Rightarrow> bool" where
  "is_wanted inc d = (case inc of None \<Rightarrow> True | Some keys \<Rightarrow> rd_key d \<in> set keys)"

definition one_step ::
  "(string \<times> 'd source_adapter) list \<Rightarrow> path \<Rightarrow> reference_doc \<Rightarrow> (fault, step_result, 'd world) io" where
  "one_step adapters dd d =
     (case map_of adapters (rd_key d) of
        None \<Rightarrow> assemble d source_default Out_link_only None Conf_low
      | Some adapter \<Rightarrow> run_one d adapter dd)"

fun steps_for ::
  "(string \<times> 'd source_adapter) list \<Rightarrow> string list option \<Rightarrow> path \<Rightarrow> reference_doc list \<Rightarrow>
     (fault, step_result list, 'd world) io" where
  "steps_for adapters inc dd [] = io_return []"
| "steps_for adapters inc dd (d # ds) =
     (if is_wanted inc d then
        io_bind (one_step adapters dd d) (\<lambda>s.
          io_bind (steps_for adapters inc dd ds) (\<lambda>ss. io_return (s # ss)))
      else steps_for adapters inc dd ds)"

definition build_steps ::
  "(string \<times> 'd source_adapter) list \<Rightarrow> string list option \<Rightarrow> (fault, step_result list, 'd world) io" where
  "build_steps adapters inc =
     io_bind get_ctx (\<lambda>ctx.
     io_bind (on_fs (docs_dir (cx_folder ctx))) (\<lambda>dd. steps_for adapters inc dd RESIDENTIAL_DOCS))"

section \<open>The run\<close>

text \<open>\<open>quote_plus\<close>: bytes that are not unreserved become percent escapes, a space a plus.\<close>

definition pct_digit :: "nat \<Rightarrow> char" where
  "pct_digit n = (if n < 10 then char_of (48 + n) else char_of (55 + n))"

definition quote_plus :: "string \<Rightarrow> string" where
  "quote_plus s =
     concat (map (\<lambda>c. if is_alnum c \<or> c \<in> set ''_.-~'' then [c]
                      else if c = CHR '' '' then ''+''
                      else [CHR ''%'', pct_digit (of_char c div 16), pct_digit (of_char c mod 16)]) s)"

definition map_links :: "string \<Rightarrow> property_context \<Rightarrow> (string \<times> string) list" where
  "map_links address ctx =
     (let q = quote_plus (or_str (cx_matched_address ctx) address);
          lat = py_str (cx_lat ctx); lon = py_str (cx_lon ctx)
      in [(''Google Maps'', ''https://www.google.com/maps/search/?api=1&query='' @ lat @ '','' @ lon),
          (''Google Street View'',
           ''https://www.google.com/maps/@?api=1&map_action=pano&viewpoint='' @ lat @ '','' @ lon),
          (''Bing Maps (aerial)'',
           ''https://www.bing.com/maps?cp='' @ lat @ ''~'' @ lon @ ''&lvl=19&style=a''),
          (''County Property Appraiser'', cx_appraiser_url ctx),
          (''Search address on Google'', ''https://www.google.com/search?q='' @ q)])"

definition result_of :: "string \<Rightarrow> property_context \<Rightarrow> step_result list \<Rightarrow> string \<Rightarrow> research_result" where
  "result_of address ctx steps now =
     \<lparr>rs_job_number = cx_job_number ctx, rs_order = cx_order ctx, rs_parcel_id = cx_parcel_id ctx,
      rs_address = cx_address ctx, rs_matched_address = cx_matched_address ctx,
      rs_county = cx_county ctx, rs_county_fips = cx_county_fips ctx, rs_state = cx_state ctx,
      rs_lat = cx_lat ctx, rs_lon = cx_lon ctx, rs_name = cx_name ctx, rs_geocoder = cx_geocoder ctx,
      rs_map_links = map_links address ctx, rs_folder = butlast (cx_folder ctx), rs_steps = steps,
      rs_warnings = cx_warnings ctx, rs_completed_utc = now, rs_job_state = Run_completed,
      rs_docs_dir = cx_folder ctx, rs_survey_type = cx_survey_type ctx\<rparr>"

text \<open>The texts of the two audit files are arguments: \<open>json.dumps\<close> of the manifest with the run's
  identity, and of the result.\<close>

record audit_text =
  au_manifest :: "property_context \<Rightarrow> string"
  au_result :: "research_result \<Rightarrow> string"

definition write_audit ::
  "audit_text \<Rightarrow> property_context \<Rightarrow> research_result \<Rightarrow> (string, unit, fs) io" where
  "write_audit au ctx result =
     io_then (\<lambda>fs. write_bytes fs (cx_folder ctx @ [''manifest.json'']) (au_manifest au ctx))
       (\<lambda>fs. write_bytes fs (cx_folder ctx @ [''result.json'']) (au_result au result))"

text \<open>The whole run over the driver's state and the files.\<close>

definition run_research ::
  "'d env \<Rightarrow> audit_text \<Rightarrow> (string \<times> 'd source_adapter) list \<Rightarrow> run_args \<Rightarrow> string list option \<Rightarrow>
     (fault, research_result, 'd \<times> fs) io" where
  "run_research en au adapters ra inc w =
     (case w of (d, fs) \<Rightarrow>
        (case resolve_property_context en ra fs of
           (Inl e, fs1) \<Rightarrow> (Inl (Other_error e), (d, fs1))
         | (Inr ctx, fs1) \<Rightarrow>
             (case build_steps adapters inc (ctx, d, fs1) of
                (Inl e, (_, d2, fs2)) \<Rightarrow> (Inl e, (d2, fs2))
              | (Inr steps, (ctx2, d2, fs2)) \<Rightarrow>
                  let result = result_of (ra_address ra) ctx2 steps (en_now_utc en)
                  in (case write_audit au ctx2 result fs2 of
                        (Inl e, fs3) \<Rightarrow> (Inl (Other_error e), (d2, fs3))
                      | (Inr _, fs3) \<Rightarrow> (Inr result, (d2, fs3))))))"

end
