(* ===== verification/Adapters.thy ===== *)
theory Adapters
  imports Steps Evidence Worker
begin

text \<open>
  \<open>engine/adapters.py\<close>: the document fetcher the worker calls, which runs the research for the requested
  types and copies what it staged into the blob store, here the local one, with the evidence rows of
  each copy.

  The locale \<^verbatim>\<open>document_fetcher\<close> is the contract the worker relies on; it is interpreted for this fetcher.
\<close>

section \<open>Vocabulary\<close>

text \<open>The maps between step keys and document types are those of the service's theory.\<close>

fun map_step_status :: "step_status \<Rightarrow> doc_status" where
  "map_step_status Step_ok = Doc_uploaded"
| "map_step_status Step_link = Doc_fetched"
| "map_step_status Step_empty = Doc_skipped"
| "map_step_status Step_error = Doc_failed"

definition error_code_for :: "source_outcome \<Rightarrow> string \<Rightarrow> error_code" where
  "error_code_for outcome code =
     (if outcome = Out_blocked then SOURCE_UNAVAILABLE
      else if outcome = Out_broken then SOURCE_UNAVAILABLE
      else if outcome = Out_retryable then TIMEOUT
      else if code = ''PARCEL_NOT_FOUND'' then PARCEL_NOT_FOUND
      else if code = ''LINK_ONLY'' then SOURCE_UNAVAILABLE
      else INTERNAL_ERROR)"

definition guess_mime :: "string \<Rightarrow> string" where
  "guess_mime filename =
     (let ext = lower (path_suffix filename)
      in if ext = ''.pdf'' then ''application/pdf''
         else if ext \<in> {''.png''} then ''image/png''
         else if ext \<in> {''.jpg'', ''.jpeg''} then ''image/jpeg''
         else if ext = ''.txt'' then ''text/plain''
         else ''application/octet-stream'')"

section \<open>Upload\<close>

type_synonym stores = "fs \<times> evidence"

text \<open>\<open>st_root\<close>: the root of the local store; \<open>st_sha256\<close>: the digest.\<close>

record stores_env =
  st_root :: path
  st_sha256 :: "string \<Rightarrow> string"

text \<open>The rows and the document's file, from the staged file \<open>src\<close> as it is on disk.\<close>

definition record_upload ::
  "stores_env \<Rightarrow> uuid \<Rightarrow> string \<Rightarrow> string \<Rightarrow> path \<Rightarrow> fetched_document \<Rightarrow>
     (string, fetched_document, stores) io" where
  "record_upload st order_id key filename src doc s =
     (case s of (fs, ev) \<Rightarrow>
        (case read_bytes fs src of
           Inl e \<Rightarrow> (Inl e, (fs, ev))
         | Inr data \<Rightarrow>
             (case create_evidence ev order_id key filename (length data) (st_sha256 st data)
                     (Some (guess_mime filename)) of
                ((file_id, order_file_id), ev') \<Rightarrow>
                  (Inr (doc\<lparr>fd_file_key := Some key, fd_file_name := Some filename,
                            fd_file_size := Some (length data), fd_sha256 := st_sha256 st data,
                            fd_file_id := Some file_id, fd_order_file_id := Some order_file_id,
                            fd_status := Doc_uploaded\<rparr>), (fs, ev')))))"

text \<open>One file: an existing key is not overwritten.\<close>

definition upload_file ::
  "stores_env \<Rightarrow> uuid \<Rightarrow> string \<Rightarrow> uuid option \<Rightarrow> string \<Rightarrow> path \<Rightarrow> fetched_document \<Rightarrow>
     (string, fetched_document, stores) io" where
  "upload_file st order_id doc_type tenant_id filename src doc =
     io_bind
       (io_lift (build_key (case tenant_id of Some t \<Rightarrow> uuid_str t | None \<Rightarrow> ''research'') (uuid_str order_id)
                   doc_type filename)) (\<lambda>key.
       io_then
         (\<lambda>(fs, ev). if local_exists (st_root st) fs key then (Inr (), (fs, ev))
                     else case local_copy_in (st_root st) fs key src of
                            (Inl e, fs') \<Rightarrow> (Inl e, (fs', ev)) | (Inr _, fs') \<Rightarrow> (Inr (), (fs', ev)))
         (record_upload st order_id key filename src doc))"

text \<open>The first file that is on disk decides.\<close>

fun upload_artifact ::
  "stores_env \<Rightarrow> string list \<Rightarrow> path \<Rightarrow> uuid \<Rightarrow> string \<Rightarrow> uuid option \<Rightarrow> fetched_document \<Rightarrow> stores \<Rightarrow>
     fetched_document \<times> stores" where
  "upload_artifact st [] dir order_id doc_type tenant_id doc s = (doc, s)"
| "upload_artifact st (f # fs) dir order_id doc_type tenant_id doc s =
     (let src = resolve_parts [] (join_path (dir @ [''documents'']) f)
      in if \<not> is_file (fst s) src then upload_artifact st fs dir order_id doc_type tenant_id doc s
         else case upload_file st order_id doc_type tenant_id f src doc s of
                (Inr doc', s') \<Rightarrow> (doc', s')
              | (Inl e, s') \<Rightarrow>
                  (doc\<lparr>fd_status := Doc_failed, fd_error_code := Some S3_UPLOAD_FAILED,
                       fd_error_message := Some e\<rparr>, s'))"

section \<open>Fetch\<close>

definition doc_of_step :: "string \<Rightarrow> step_result \<Rightarrow> fetched_document" where
  "doc_of_step doc_type step =
     (let doc = \<lparr>fd_doc_type = doc_type, fd_status = map_step_status (sp_status step),
                 fd_summary = sp_summary step, fd_link = sp_link step, fd_link_label = sp_link_label step,
                 fd_file_key = None, fd_file_name = None, fd_file_size = None, fd_sha256 = [],
                 fd_mime_type = None, fd_file_id = None, fd_order_file_id = None,
                 fd_provenance = sp_provenance step, fd_warnings = sp_warnings step,
                 fd_error_code = None, fd_error_message = None, fd_retryable = False\<rparr>
      in case sp_error step of
           None \<Rightarrow> doc
         | Some e \<Rightarrow>
             doc\<lparr>fd_error_code := Some (error_code_for (sp_source_outcome step) (ei_code e)),
                 fd_error_message := Some (or_str (ei_message e) (ei_code e)),
                 fd_retryable := ei_retryable e\<rparr>)"

fun collect ::
  "stores_env \<Rightarrow> string list \<Rightarrow> path \<Rightarrow> uuid \<Rightarrow> uuid option \<Rightarrow> step_result list \<Rightarrow>
     (string \<times> fetched_document) list \<Rightarrow> stores \<Rightarrow> (string \<times> fetched_document) list \<times> stores" where
  "collect st doc_types dir order_id tenant_id [] out s = (out, s)"
| "collect st doc_types dir order_id tenant_id (step # steps) out s =
     (case map_of STEP_TO_DOC_TYPE (sp_key step) of
        None \<Rightarrow> collect st doc_types dir order_id tenant_id steps out s
      | Some doc_type \<Rightarrow>
          if doc_type \<notin> set doc_types then collect st doc_types dir order_id tenant_id steps out s
          else
            let doc = doc_of_step doc_type step;
                (doc', s') = (if fd_status doc = Doc_uploaded
                              then upload_artifact st (sp_downloaded step) dir order_id doc_type tenant_id doc s
                              else (doc, s))
            in collect st doc_types dir order_id tenant_id steps (dict_put doc_type doc' out) s')"

text \<open>\<open>order.address_line_1\<close> of no order is an \<open>AttributeError\<close>.\<close>

definition no_order :: fault where
  "no_order = Other_error ([CHR 0x27] @ ''NoneType'' @ [CHR 0x27] @ '' object has no attribute '' @
                           [CHR 0x27] @ ''address_line_1'' @ [CHR 0x27])"

definition args_of_order :: "order_data \<Rightarrow> run_args" where
  "args_of_order order =
     \<lparr>ra_job_number = [], ra_address = od_address_line_1 order,
      ra_survey_type = opt_or (od_survey_type order) ''Residential Land Survey'',
      ra_selected_state = opt_or (od_state order) [], ra_selected_county_fips = opt_or (od_county order) [],
      ra_order_number = uuid_str (od_id order), ra_search_parcel_id = opt_or (od_parcel_id order) []\<rparr>"

definition include_steps :: "string list \<Rightarrow> string list" where
  "include_steps doc_types = map (\<lambda>d. the (map_of DOC_TYPE_TO_STEP d))
                                 (filter (\<lambda>d. map_of DOC_TYPE_TO_STEP d \<noteq> None) doc_types)"

definition fetch_documents_for ::
  "'d env \<Rightarrow> audit_text \<Rightarrow> (string \<times> 'd source_adapter) list \<Rightarrow> stores_env \<Rightarrow> order_data option \<Rightarrow>
     string list \<Rightarrow> uuid option \<Rightarrow> (fault, (string \<times> fetched_document) list, 'd \<times> stores) io" where
  "fetch_documents_for en au adapters st order doc_types tenant_id w =
     (let inc = include_steps doc_types
      in if inc = [] then (Inr [], w)
         else case order of
           None \<Rightarrow> (Inl no_order, w)
         | Some o1 \<Rightarrow>
             (case w of (d, fs, ev) \<Rightarrow>
               (case run_research en au adapters (args_of_order o1) (Some inc) (d, fs) of
                  (Inl e, (d', fs')) \<Rightarrow> (Inl e, (d', fs', ev))
                | (Inr result, (d', fs')) \<Rightarrow>
                    (case collect st doc_types (rs_docs_dir result) (od_id o1) tenant_id
                            (rs_steps result) [] (fs', ev) of
                       (out, s) \<Rightarrow> (Inr out, (d', s))))))"

text \<open>The worker's fetcher: an exception is the text it prints.\<close>

definition build_document_fetcher ::
  "'d env \<Rightarrow> audit_text \<Rightarrow> (string \<times> 'd source_adapter) list \<Rightarrow> stores_env \<Rightarrow> (fault \<Rightarrow> string) \<Rightarrow>
     ('d \<times> stores) fetcher" where
  "build_document_fetcher en au adapters st fault_str w order doc_types tenant_id =
     (case fetch_documents_for en au adapters st order doc_types (Some tenant_id) w of
        (Inl e, w') \<Rightarrow> (Inl (fault_str e), w') | (Inr out, w') \<Rightarrow> (Inr out, w'))"

section \<open>The contract of a document fetcher\<close>

definition settled_fetch :: "fetched_document \<Rightarrow> bool" where
  "settled_fetch f \<longleftrightarrow>
     fd_status f \<in> {Doc_uploaded, Doc_fetched, Doc_skipped, Doc_failed} \<and>
     (fd_file_id f \<noteq> None \<longrightarrow> fd_status f = Doc_uploaded \<and> fd_file_key f \<noteq> None \<and> fd_order_file_id f \<noteq> None)"

locale document_fetcher =
  fixes fetch :: "'w \<Rightarrow> 'o option \<Rightarrow> string list \<Rightarrow> uuid \<Rightarrow> ('e + (string \<times> fetched_document) list) \<times> 'w"
  assumes only_requested:
      "fetch w order doc_types tenant = (Inr out, w') \<Longrightarrow> (t, f) \<in> set out \<Longrightarrow> t \<in> set doc_types \<and> fd_doc_type f = t"
    and settled:
      "fetch w order doc_types tenant = (Inr out, w') \<Longrightarrow> (t, f) \<in> set out \<Longrightarrow> settled_fetch f"
begin

lemma lookup_settled:
  "fetch w order doc_types tenant = (Inr out, w') \<Longrightarrow> map_of out t = Some f \<Longrightarrow>
     settled_fetch f \<and> fd_doc_type f = t \<and> t \<in> set doc_types"
  using only_requested settled by (meson map_of_SomeD)

lemma nothing_requested: "fetch w order [] tenant = (Inr out, w') \<Longrightarrow> out = []"
  using only_requested by (cases out) fastforce+

end

end
