(* ===== verification/StepFacts.thy ===== *)
theory StepFacts
  imports Steps
begin

text \<open>
  What the adapters can raise and answer: lemmas on each fetch, on the registry, and on the assembly
  of steps from it.
\<close>

named_theorems quiet \<open>computations that never raise\<close>

lemma quiet_return [quiet]: "never_raises (io_return a)"
  by (simp add: gives_return)

lemma quiet_bind: "never_raises m \<Longrightarrow> (\<And>a. never_raises (f a)) \<Longrightarrow> never_raises (io_bind m f)"
  by (rule gives_bind)

lemma quiet_then: "never_raises m \<Longrightarrow> never_raises n \<Longrightarrow> never_raises (io_then m n)"
  by (rule gives_then)

lemma quiet_catch: "(\<And>e. never_raises (h e)) \<Longrightarrow> never_raises (io_catch m h)"
  by (rule gives_catch [OF gives_any])

lemma quiet_get_ctx [quiet]: "never_raises get_ctx"
  by (simp add: gives_def get_ctx_def)

lemma quiet_set_ctx [quiet]: "never_raises (set_ctx f)"
  by (simp add: gives_def set_ctx_def)

lemma quiet_best_effort [quiet]: "never_raises (best_effort m)"
  unfolding best_effort_def by (rule quiet_catch) (rule quiet_return)

lemma quiet_clerk_scrape [quiet]: "never_raises (clerk_scrape en fips dd plat deed)"
  by (simp add: gives_def clerk_scrape_def split: prod.split)

lemma quiet_from_ctx [quiet]: "never_raises (from_ctx f)"
  unfolding from_ctx_def by (intro quiet_bind quiet)

section \<open>Adapters\<close>

lemma quiet_parcel [quiet]: "never_raises (parcel_fetch en)"
  unfolding parcel_fetch_def Let_def by (intro quiet_bind quiet) (auto intro!: quiet_bind quiet)

lemma quiet_appraiser [quiet]: "never_raises (appraiser_fetch en)"
  unfolding appraiser_fetch_def Let_def by (intro quiet_bind quiet) (auto intro!: quiet_bind quiet)

lemma quiet_scrape [quiet]: "never_raises (scrape_documents en dd)"
  unfolding scrape_documents_def Let_def
  by (intro quiet_bind quiet)
    (auto intro!: quiet_bind quiet_then quiet_catch quiet split: option.split)

lemma quiet_deed [quiet]: "never_raises (deed_fetch en dd)"
  unfolding deed_fetch_def Let_def by (intro quiet_bind quiet)

lemma quiet_plat [quiet]: "never_raises (plat_fetch en dd)"
  unfolding plat_fetch_def by (intro quiet_bind quiet)

lemma quiet_attempt [quiet]: "never_raises (attempt_clerk_fetch en key label src dd)"
  unfolding attempt_clerk_fetch_def Let_def by (intro quiet_bind quiet)

text \<open>A fallback that is only a link.\<close>

definition link_fallback :: "fetched_source \<Rightarrow> bool" where
  "link_fallback src \<longleftrightarrow> fs_status src = Step_link \<and> fs_downloaded src = [] \<and> fs_records src = [] \<and> fs_link src \<noteq> []"

text \<open>An adapter that either never raises or falls back to a link.\<close>

definition safe_adapter :: "string \<Rightarrow> 'd source_adapter \<Rightarrow> bool" where
  "safe_adapter key ad \<longleftrightarrow>
     (\<forall>dd. never_raises (ad_fetch ad dd)) \<or>
     key \<in> {''flood'', ''benchmarks''} \<and> gives link_fallback (\<lambda>_. False) (ad_fallback ad)"

lemma safe_quiet: "(\<And>dd. never_raises (ad_fetch ad dd)) \<Longrightarrow> safe_adapter key ad"
  by (simp add: safe_adapter_def)

lemma safe_flood: "safe_adapter ''flood'' \<lparr>ad_fetch = f, ad_fallback = io_return flood_fallback\<rparr>"
  by (simp add: safe_adapter_def gives_return link_fallback_def flood_fallback_def source_default_def
      MSC_HOME_def)

lemma safe_ngs: "safe_adapter ''benchmarks'' \<lparr>ad_fetch = f, ad_fallback = io_return ngs_fallback\<rparr>"
  by (simp add: safe_adapter_def gives_return link_fallback_def ngs_fallback_def source_default_def
      NGS_HOME_def)

lemma ADAPTERS_all_safe: "list_all (\<lambda>(key, ad). safe_adapter key ad) (ADAPTERS en)"
  unfolding ADAPTERS_def attempt_clerk_adapter_def list.pred_inject prod.case
  by (intro conjI list.pred_inject(1) safe_flood safe_ngs; rule safe_quiet; simp only: source_adapter.simps; rule quiet)

lemma ADAPTERS_safe: "map_of (ADAPTERS en) key = Some ad \<Longrightarrow> safe_adapter key ad"
  using ADAPTERS_all_safe [of en] by (auto simp: list_all_iff dest: map_of_SomeD)

lemma ADAPTERS_keys: "map fst (ADAPTERS en) =
    [''parcel'', ''appraiser'', ''deed'', ''plat'', ''adjoiners'', ''easements'', ''prior_survey'',
     ''condo'', ''flood'', ''benchmarks'', ''glo'', ''zoning'']"
  by (simp add: ADAPTERS_def)

section \<open>Steps\<close>

text \<open>A step of its document that reports an error only as a link to the source.\<close>

definition good_step :: "reference_doc \<Rightarrow> step_result \<Rightarrow> bool" where
  "good_step d s \<longleftrightarrow> sp_key s = rd_key d \<and>
     (sp_error s \<noteq> None \<longrightarrow>
        rd_key d \<in> {''flood'', ''benchmarks''} \<and> sp_status s = Step_link \<and> sp_downloaded s = [] \<and>
        sp_provenance s = [] \<and> sp_link s \<noteq> [] \<and> sp_confidence s = Conf_none)"

lemma gives_assemble: "P (step_of d src outcome err conf) \<Longrightarrow> gives P E (assemble d src outcome err conf)"
  by (simp add: gives_def assemble_def io_then_def io_bind_def set_ctx_def io_return_def)

lemma good_ok: "good_step d (step_of d src outcome None conf)"
  by (simp add: good_step_def step_of_def)

lemma good_failed:
  "link_fallback src \<Longrightarrow> rd_key d \<in> {''flood'', ''benchmarks''} \<Longrightarrow>
     good_step d (step_of d src outcome err Conf_none)"
  by (simp add: good_step_def step_of_def link_fallback_def)

lemma run_one_good:
  assumes "safe_adapter (rd_key d) ad"
  shows "gives (good_step d) (\<lambda>_. False) (run_one d ad dd)"
proof (cases "never_raises (ad_fetch ad dd)")
  case True
  show ?thesis
    unfolding run_one_def
    by (rule gives_catch [where E = "\<lambda>_. False"])
      (auto intro!: gives_bind [OF True] gives_assemble good_ok)
next
  case False
  then have key: "rd_key d \<in> {''flood'', ''benchmarks''}"
    and fb: "gives link_fallback (\<lambda>_. False) (ad_fallback ad)"
    using assms by (auto simp: safe_adapter_def)
  have fb': "gives link_fallback (\<lambda>_. False) (io_catch (ad_fallback ad) (\<lambda>_. io_return unreachable_source))"
    by (rule gives_catch [OF fb]) simp
  show ?thesis
    unfolding run_one_def
  proof (rule gives_catch [where E = "\<lambda>_. True"])
    show "gives (good_step d) (\<lambda>_. True)
        (io_bind (ad_fetch ad dd) (\<lambda>src. assemble d src (outcome_for src) None
            (case fs_confidence src of Some c \<Rightarrow> c
             | None \<Rightarrow> default_confidence (fs_status src) (fs_manual_review src))))"
      by (rule gives_bind [OF gives_any]) (rule gives_assemble, rule good_ok)
  qed (auto split: fault.split prod.split intro!: gives_bind [OF fb] gives_bind [OF fb']
        gives_assemble good_failed key)
qed

lemma one_step_good: "gives (good_step d) (\<lambda>_. False) (one_step (ADAPTERS en) dd d)"
proof (cases "map_of (ADAPTERS en) (rd_key d)")
  case None
  then show ?thesis by (simp add: one_step_def gives_assemble good_ok)
next
  case (Some ad)
  then show ?thesis by (simp add: one_step_def run_one_good ADAPTERS_safe)
qed

lemma steps_for_good:
  "gives (\<lambda>ss. list_all2 good_step (filter (is_wanted inc) ds) ss) (\<lambda>_. False)
     (steps_for (ADAPTERS en) inc dd ds)"
proof (induction ds)
  case Nil
  then show ?case by (simp add: gives_return)
next
  case (Cons d ds)
  show ?case
  proof (cases "is_wanted inc d")
    case True
    have "gives (\<lambda>ss. list_all2 good_step (d # filter (is_wanted inc) ds) ss) (\<lambda>_. False)
        (io_bind (one_step (ADAPTERS en) dd d) (\<lambda>s.
          io_bind (steps_for (ADAPTERS en) inc dd ds) (\<lambda>ss. io_return (s # ss))))"
      by (rule gives_bind [OF one_step_good], rule gives_bind [OF Cons.IH]) (simp add: gives_return)
    with True show ?thesis by simp
  next
    case False
    with Cons.IH show ?thesis by simp
  qed
qed

lemma build_steps_good:
  "gives (\<lambda>ss. list_all2 good_step (filter (is_wanted inc) RESIDENTIAL_DOCS) ss) (\<lambda>_. True)
     (build_steps (ADAPTERS en) inc)"
  unfolding build_steps_def
  by (rule gives_bind [OF gives_any], rule gives_bind [OF gives_any])
    (rule gives_mono [OF steps_for_good], auto)

lemma build_steps_fails:
  assumes "build_steps (ADAPTERS en) inc (ctx, d, fs) = (Inl e, w)"
  shows "\<not> is_ok (fst (docs_dir (cx_folder ctx) fs))"
proof (cases "docs_dir (cx_folder ctx) fs")
  case (Pair r fs')
  show ?thesis
  proof (cases r)
    case (Inr dd)
    have nr: "gives (\<lambda>ss. list_all2 good_step (filter (is_wanted inc) RESIDENTIAL_DOCS) ss) (\<lambda>_. False)
        (steps_for (ADAPTERS en) inc dd RESIDENTIAL_DOCS)" by (rule steps_for_good)
    have "steps_for (ADAPTERS en) inc dd RESIDENTIAL_DOCS (ctx, d, fs') = (Inl e, w)"
      using assms Pair Inr by (simp add: build_steps_def io_bind_def get_ctx_def on_fs_def)
    from gives_InlD [OF nr this] show ?thesis ..
  qed (simp add: Pair)
qed

lemma steps_keys:
  "list_all2 good_step ds ss \<Longrightarrow> map sp_key ss = map rd_key ds"
  by (induction rule: list_all2_induct) (auto simp: good_step_def)

section \<open>The shared scrape\<close>

lemma scrape_kept:
  "scrape_documents en dd w = (Inr docs, w') \<Longrightarrow> cx_clerk_docs (fst w') = Some docs"
  by (auto simp: scrape_documents_def io_bind_Inr get_ctx_def io_then_def set_ctx_def io_return_def
      Let_def split: option.splits)

lemma scrape_cached:
  "cx_clerk_docs (fst w) = Some docs \<Longrightarrow> scrape_documents en dd w = (Inr docs, w)"
  by (simp add: scrape_documents_def io_bind_def get_ctx_def io_return_def)

section \<open>The run\<close>

lemma result_of_simps [simp]:
  "rs_steps (result_of addr ctx ss now) = ss" "rs_docs_dir (result_of addr ctx ss now) = cx_folder ctx"
  "rs_warnings (result_of addr ctx ss now) = cx_warnings ctx"
  by (simp_all add: result_of_def)

lemma run_research_InrD:
  assumes "run_research en au adapters ra inc (d, fs) = (Inr result, (d', fs'))"
  obtains ctx fs1 ctx2 fs2 where
    "resolve_property_context en ra fs = (Inr ctx, fs1)"
    "build_steps adapters inc (ctx, d, fs1) = (Inr (rs_steps result), (ctx2, d', fs2))"
    "result = result_of (ra_address ra) ctx2 (rs_steps result) (en_now_utc en)"
    "write_audit au ctx2 result fs2 = (Inr (), fs')"
proof -
  obtain r fs1 where res: "resolve_property_context en ra fs = (r, fs1)" by fastforce
  with assms obtain ctx where r: "r = Inr ctx" by (cases r) (auto simp: run_research_def)
  obtain b ctx2 d2 fs2 where bs: "build_steps adapters inc (ctx, d, fs1) = (b, (ctx2, d2, fs2))"
    by (metis prod.exhaust_sel)
  with assms res r obtain steps where b: "b = Inr steps" by (cases b) (auto simp: run_research_def)
  obtain a fs3 where w: "write_audit au ctx2 (result_of (ra_address ra) ctx2 steps (en_now_utc en)) fs2 = (a, fs3)"
    by fastforce
  with assms res r bs b obtain u where a: "a = Inr u" by (cases a) (auto simp: run_research_def Let_def)
  from assms res r bs b w a have
    "result = result_of (ra_address ra) ctx2 steps (en_now_utc en)" "d' = d2" "fs' = fs3"
    by (auto simp: run_research_def Let_def)
  with res r bs b w a show ?thesis by (intro that) auto
qed

end
