(* ===== verification/AdapterFacts.thy ===== *)
theory AdapterFacts
  imports Adapters StepFacts WorkerFacts
begin

text \<open>
  Lemmas on the document fetcher: no adapter answers with the status \<open>error\<close>, a document fails only
  in its upload, results are of requested types; and what an upload leaves in the store.  The locale
  \<^verbatim>\<open>document_fetcher\<close> is interpreted here for the production fetcher.
\<close>

section \<open>Statuses of fetched sources\<close>

definition no_error :: "fetched_source \<Rightarrow> bool" where
  "no_error src \<longleftrightarrow> fs_status src \<noteq> Step_error"

lemma source_default_no_error [simp]: "fs_status source_default = Step_link"
  by (simp add: source_default_def)

abbreviation no_error_fetch :: "(fault, fetched_source, 'd world) io \<Rightarrow> bool" where
  "no_error_fetch \<equiv> gives no_error (\<lambda>_. True)"

named_theorems status_intros \<open>fetches without the status error\<close>

lemma clerk_source_no_error [simp]: "fs_status (clerk_source ctx k l s) = Step_link"
  by (simp add: clerk_source_def)

lemma parcel_status [status_intros]: "no_error_fetch (parcel_fetch en)"
  unfolding parcel_fetch_def Let_def
  by (rule bind_any) (auto intro!: bind_any gives_return simp: no_error_def parcel_fallback_def)

lemma appraiser_status [status_intros]: "no_error_fetch (appraiser_fetch en)"
  unfolding appraiser_fetch_def Let_def
  by (rule bind_any, rule bind_any, rule gives_return) (simp add: no_error_def)

lemma deed_status [status_intros]: "no_error_fetch (deed_fetch en dd)"
  unfolding deed_fetch_def Let_def
  by (rule bind_any, rule bind_any, rule gives_return) (simp add: no_error_def clerk_fetched_def)

lemma plat_status [status_intros]: "no_error_fetch (plat_fetch en dd)"
  unfolding plat_fetch_def
  by (rule bind_any, rule bind_any, rule gives_return) (simp add: no_error_def clerk_fetched_def)

lemma attempt_status [status_intros]: "no_error_fetch (attempt_clerk_fetch en key label src dd)"
  unfolding attempt_clerk_fetch_def Let_def
  by (rule bind_any, rule bind_any, rule gives_return) (simp add: no_error_def)

lemma flood_status [status_intros]: "no_error_fetch (flood_fetch en)"
  unfolding flood_fetch_def Let_def
  by (rule bind_any, rule bind_any, rule bind_any, rule bind_any, rule gives_return) (simp add: no_error_def)

lemma ngs_status [status_intros]: "no_error_fetch (ngs_fetch en)"
  unfolding ngs_fetch_def
  by (rule bind_any, rule bind_any, rule bind_any, rule gives_return) (simp add: no_error_def)

lemma glo_status [status_intros]: "no_error_fetch (io_return glo_source)"
  by (rule gives_return) (simp add: no_error_def glo_source_def)

lemma zoning_status [status_intros]: "no_error_fetch (from_ctx zoning_source)"
  unfolding from_ctx_def
  by (rule bind_any, rule gives_return) (simp add: no_error_def zoning_source_def Let_def)

lemma fallback_status [status_intros]:
  "no_error_fetch (from_ctx parcel_fallback)" "no_error_fetch (from_ctx appraiser_fallback)"
  "no_error_fetch (from_ctx deed_fallback)" "no_error_fetch (from_ctx plat_fallback)"
  "no_error_fetch (io_return flood_fallback)" "no_error_fetch (io_return ngs_fallback)"
  unfolding from_ctx_def
  by (rule bind_any gives_return; (rule gives_return)?; simp add: no_error_def parcel_fallback_def
      appraiser_fallback_def deed_fallback_def plat_fallback_def flood_fallback_def ngs_fallback_def)+

definition status_adapter :: "'d source_adapter \<Rightarrow> bool" where
  "status_adapter ad \<longleftrightarrow> (\<forall>dd. no_error_fetch (ad_fetch ad dd)) \<and> no_error_fetch (ad_fallback ad)"

lemma status_adapterI:
  "(\<And>dd. no_error_fetch (f dd)) \<Longrightarrow> no_error_fetch g \<Longrightarrow>
     status_adapter \<lparr>ad_fetch = f, ad_fallback = g\<rparr>"
  by (simp add: status_adapter_def)

lemma ADAPTERS_status: "map_of (ADAPTERS en) key = Some ad \<Longrightarrow> status_adapter ad"
proof -
  have "list_all (\<lambda>(key, ad). status_adapter ad) (ADAPTERS en)"
    unfolding ADAPTERS_def attempt_clerk_adapter_def list.pred_inject prod.case
    by (intro conjI list.pred_inject(1) status_adapterI status_intros)
  then show "map_of (ADAPTERS en) key = Some ad \<Longrightarrow> status_adapter ad"
    by (auto simp: list_all_iff dest: map_of_SomeD)
qed

definition quiet_step :: "step_result \<Rightarrow> bool" where
  "quiet_step s \<longleftrightarrow> sp_status s \<noteq> Step_error"

lemma quiet_assemble: "no_error src \<Longrightarrow> gives quiet_step E (assemble d src outcome err conf)"
  by (rule gives_assemble) (simp add: quiet_step_def step_of_def no_error_def)

lemma unreachable_no_error: "no_error unreachable_source"
  by (simp add: no_error_def unreachable_source_def)

lemma run_one_status:
  assumes "status_adapter ad"
  shows "gives quiet_step (\<lambda>_. True) (run_one d ad dd)"
proof -
  have f: "no_error_fetch (ad_fetch ad dd)" and g: "no_error_fetch (ad_fallback ad)"
    using assms by (auto simp: status_adapter_def)
  have g': "no_error_fetch (io_catch (ad_fallback ad) (\<lambda>_. io_return unreachable_source))"
    by (rule gives_catch [OF g]) (rule gives_return, rule unreachable_no_error)
  show ?thesis
    unfolding run_one_def
    by (rule gives_catch [where E = "\<lambda>_. True"], rule gives_bind [OF f], erule quiet_assemble)
      (auto split: fault.split prod.split intro!: gives_bind [OF g] gives_bind [OF g'] quiet_assemble)
qed

lemma steps_for_status:
  "gives (list_all quiet_step) (\<lambda>_. True) (steps_for (ADAPTERS en) inc dd ds)"
proof (induction ds)
  case (Cons d ds)
  have one: "gives quiet_step (\<lambda>_. True) (one_step (ADAPTERS en) dd d)"
    unfolding one_step_def
    by (auto split: option.split intro!: run_one_status quiet_assemble dest: ADAPTERS_status
        simp: no_error_def)
  have "gives (list_all quiet_step) (\<lambda>_. True)
      (io_bind (one_step (ADAPTERS en) dd d) (\<lambda>s.
        io_bind (steps_for (ADAPTERS en) inc dd ds) (\<lambda>ss. io_return (s # ss))))"
    by (rule gives_bind [OF one], rule gives_bind [OF Cons.IH]) (simp add: gives_return)
  with Cons.IH show ?case by simp
qed (simp add: gives_return)

lemma build_steps_status: "gives (list_all quiet_step) (\<lambda>_. True) (build_steps (ADAPTERS en) inc)"
  unfolding build_steps_def by (rule bind_any, rule bind_any, rule steps_for_status)

section \<open>Results of the fetcher\<close>

definition upload_only :: "fetched_document \<Rightarrow> bool" where
  "upload_only f \<longleftrightarrow> (fd_status f = Doc_failed \<longrightarrow> fd_error_code f = Some S3_UPLOAD_FAILED)"

lemma doc_of_step_facts:
  "fd_doc_type (doc_of_step t s) = t" "fd_file_id (doc_of_step t s) = None"
  "fd_status (doc_of_step t s) = map_step_status (sp_status s)"
  by (auto simp: doc_of_step_def Let_def split: option.split)

lemma map_step_status_settled:
  "map_step_status x \<in> {Doc_uploaded, Doc_fetched, Doc_skipped, Doc_failed}"
  by (cases x) simp_all

lemma record_upload_doc:
  assumes "record_upload st oid key fn src doc s = (Inr doc', s')"
  shows "fd_doc_type doc' = fd_doc_type doc \<and> settled_fetch doc' \<and> upload_only doc'"
  using assms by (auto simp: record_upload_def settled_fetch_def upload_only_def split: prod.splits sum.splits)

lemma upload_file_doc:
  assumes "upload_file st oid t tenant fn src doc s = (Inr doc', s')"
  shows "fd_doc_type doc' = fd_doc_type doc \<and> settled_fetch doc' \<and> upload_only doc'"
  using assms unfolding upload_file_def io_then_def io_bind_Inr by (auto dest: record_upload_doc)

lemma upload_artifact_doc:
  "upload_artifact st files dir oid t tenant doc s = (doc', s') \<Longrightarrow> settled_fetch doc \<Longrightarrow>
     upload_only doc \<Longrightarrow> fd_file_id doc = None \<Longrightarrow>
     fd_doc_type doc' = fd_doc_type doc \<and> settled_fetch doc' \<and> upload_only doc'"
proof (induction files)
  case (Cons f files)
  show ?case
  proof (cases "is_file (fst s) (resolve_parts [] (join_path (dir @ [''documents'']) f))")
    case True
    with Cons.prems show ?thesis
      by (auto simp: Let_def settled_fetch_def upload_only_def split: prod.splits sum.splits
          dest!: upload_file_doc)
  next
    case False
    with Cons show ?thesis by (simp add: Let_def)
  qed
qed simp

definition result_ok :: "string list \<Rightarrow> (string \<times> fetched_document) list \<Rightarrow> bool" where
  "result_ok doc_types out \<longleftrightarrow>
     (\<forall>(t, f) \<in> set out. t \<in> set doc_types \<and> fd_doc_type f = t \<and> settled_fetch f)"

lemma set_dict_put: "set (dict_put k v d) \<subseteq> insert (k, v) (set d)"
  by (induction k v d rule: dict_put.induct) auto

lemma result_ok_put:
  "result_ok doc_types out \<Longrightarrow> t \<in> set doc_types \<Longrightarrow> fd_doc_type f = t \<Longrightarrow> settled_fetch f \<Longrightarrow>
     result_ok doc_types (dict_put t f out)"
  using set_dict_put [of t f out] by (fastforce simp: result_ok_def)

lemma doc_of_step_settled: "settled_fetch (doc_of_step t s)"
  using map_step_status_settled by (auto simp: settled_fetch_def doc_of_step_facts)

lemma collect_ok:
  "collect st doc_types dir oid tenant steps out s = (out', s') \<Longrightarrow> result_ok doc_types out \<Longrightarrow>
     result_ok doc_types out'"
proof (induction steps arbitrary: out s)
  case (Cons step steps)
  let ?go = "\<lambda>t. fd_status (doc_of_step t step) = Doc_uploaded"
  have up: "fd_doc_type d = t \<and> settled_fetch d"
    if "upload_artifact st fl dir oid t tenant (doc_of_step t step) s1 = (d, s2)" "?go t" for fl t s1 d s2
    using upload_artifact_doc [OF that(1) doc_of_step_settled] that(2)
    by (simp add: doc_of_step_facts upload_only_def)
  from Cons.prems show ?case
    by (auto simp: Let_def doc_of_step_facts split: option.splits if_splits prod.splits dest!: up
        intro!: Cons.IH result_ok_put doc_of_step_settled)
qed simp

text \<open>When no step has the status \<open>error\<close>, only an upload makes a document fail.\<close>

definition uploads_only :: "(string \<times> fetched_document) list \<Rightarrow> bool" where
  "uploads_only out \<longleftrightarrow> (\<forall>(t, f) \<in> set out. upload_only f)"

lemma uploads_only_put: "uploads_only out \<Longrightarrow> upload_only f \<Longrightarrow> uploads_only (dict_put t f out)"
  using set_dict_put [of t f out] by (fastforce simp: uploads_only_def)

lemma doc_of_step_upload_only: "quiet_step s \<Longrightarrow> upload_only (doc_of_step t s)"
  by (cases "sp_status s") (auto simp: upload_only_def doc_of_step_facts quiet_step_def)

lemma collect_uploads_only:
  "collect st doc_types dir oid tenant steps out s = (out', s') \<Longrightarrow> list_all quiet_step steps \<Longrightarrow>
     uploads_only out \<Longrightarrow> uploads_only out'"
proof (induction steps arbitrary: out s)
  case (Cons step steps)
  then have q: "quiet_step step" by simp
  have up: "upload_only d"
    if "upload_artifact st fl dir oid t tenant (doc_of_step t step) s1 = (d, s2)" for fl t s1 d s2
    using upload_artifact_doc [OF that doc_of_step_settled doc_of_step_upload_only [OF q]]
    by (simp add: doc_of_step_facts)
  from Cons.prems show ?case
    by (auto simp: Let_def split: option.splits if_splits prod.splits dest!: up
        intro!: Cons.IH uploads_only_put doc_of_step_upload_only)
qed simp

lemma fetch_for_result_ok:
  assumes "fetch_documents_for en au adapters st order doc_types tenant w = (Inr out, w')"
  shows "result_ok doc_types out"
proof (cases "include_steps doc_types = []")
  case True
  with assms show ?thesis by (simp add: fetch_documents_for_def result_ok_def Let_def)
next
  case False
  with assms show ?thesis
    by (auto simp: fetch_documents_for_def Let_def result_ok_def [where out = "[]"]
        split: option.splits prod.splits sum.splits dest!: collect_ok)
qed

lemma fetch_for_uploads_only:
  assumes "fetch_documents_for en au (ADAPTERS en) st order doc_types tenant w = (Inr out, w')"
  shows "uploads_only out"
proof (cases "include_steps doc_types = []")
  case True
  with assms show ?thesis by (simp add: fetch_documents_for_def uploads_only_def Let_def)
next
  case False
  then obtain o1 where o1: "order = Some o1"
    using assms by (cases order) (auto simp: fetch_documents_for_def Let_def)
  obtain d fs ev where w: "w = (d, fs, ev)" by (cases w) auto
  obtain r d2 fs2 where run: "run_research en au (ADAPTERS en) (args_of_order o1)
      (Some (include_steps doc_types)) (d, fs) = (r, (d2, fs2))"
    by (metis prod.exhaust_sel)
  then obtain result where r: "r = Inr result"
    using assms False o1 w by (cases r) (auto simp: fetch_documents_for_def Let_def)
  have "list_all quiet_step (rs_steps result)"
    using run_research_InrD [OF run [unfolded r]] gives_InrD [OF build_steps_status] by metis
  moreover obtain out2 s where "collect st doc_types (rs_docs_dir result) (od_id o1) tenant
      (rs_steps result) [] (fs2, ev) = (out2, s)" by (meson surj_pair)
  ultimately show ?thesis
    using collect_uploads_only assms False o1 w run r
    by (fastforce simp: fetch_documents_for_def Let_def uploads_only_def)
qed

interpretation live_fetcher: document_fetcher "build_document_fetcher en au adapters st fault_str"
  for en au adapters st fault_str
proof unfold_locales
  fix w w' :: "'a \<times> stores" and order doc_types tenant out t f
  assume "build_document_fetcher en au adapters st fault_str w order doc_types tenant = (Inr out, w')"
    and "(t, f) \<in> set out"
  then have "result_ok doc_types out" "(t, f) \<in> set out"
    by (auto simp: build_document_fetcher_def split: prod.splits sum.splits dest: fetch_for_result_ok)
  then show "t \<in> set doc_types \<and> fd_doc_type f = t" "settled_fetch f" by (auto simp: result_ok_def)
qed

section \<open>A worker with such a fetcher\<close>

abbreviation settled_doc :: "doc_row \<Rightarrow> bool" where
  "settled_doc d \<equiv> d_status d \<in> {Doc_uploaded, Doc_fetched, Doc_skipped, Doc_failed}"

lemma apply_fetched_status: "d_status (apply_fetched now f d) = fd_status f"
  by (simp add: apply_fetched_def Let_def)

locale worker_fetcher = document_fetcher fetch for fetch :: "'w fetcher"
begin

lemma outcome_settled: "settled_doc (fetch_outcome now (fst (fetch w order types t)) d)"
proof -
  obtain r w' where f: "fetch w order types t = (r, w')" by (meson surj_pair)
  show ?thesis
  proof (cases r)
    case (Inl e)
    then show ?thesis by (simp add: f fetch_outcome_def apply_exception_def)
  next
    case (Inr out)
    then show ?thesis
      using lookup_settled [OF f [unfolded Inr], of "d_doc_type d"]
      by (auto simp: f fetch_outcome_def apply_exception_def apply_fetched_status settled_fetch_def
          split: option.split)
  qed
qed

lemma fetch_all_settled: "fetch_all fetch order t now ds w = (ds', w') \<Longrightarrow> list_all settled_doc ds'"
proof (induction ds arbitrary: w w' ds')
  case (Cons d ds)
  obtain r w1 where f: "fetch w order [d_doc_type d] t = (r, w1)" by (meson surj_pair)
  obtain rest w2 where g: "fetch_all fetch order t now ds w1 = (rest, w2)" by (meson surj_pair)
  have "settled_doc (fetch_outcome now r (d\<lparr>d_status := Doc_fetching\<rparr>))"
    using outcome_settled [of now w order "[d_doc_type d]" t] by (simp add: f)
  with Cons.IH [OF g] Cons.prems f g show ?case by auto
qed simp

end

interpretation live_worker: worker_fetcher "build_document_fetcher en au adapters st fault_str"
  for en au adapters st fault_str
  by unfold_locales

text \<open>The rows of a job take their documents' outcomes.\<close>

lemma job_docs_taken:
  assumes same: "list_all2 same_doc (doc_list_for_job db i) docs"
    and d: "d \<in> set (with_objects docs (db_docs db))" "d_job_id d = i" "d_deleted_at d = None"
  shows "d \<in> set docs"
proof -
  from d(1) obtain q where q: "q \<in> set (db_docs db)"
    and eq: "d = (case List.find (\<lambda>x. d_id x = d_id q) docs of Some x \<Rightarrow> x | None \<Rightarrow> q)"
    by (auto simp: with_objects_def)
  show ?thesis
  proof (cases "List.find (\<lambda>x. d_id x = d_id q) docs")
    case None
    with eq d(2,3) q have "q \<in> set (doc_list_for_job db i)" by (simp add: doc_list_for_job_def)
    then have "d_id q \<in> set (map d_id docs)" using same_docs_columns [OF same] by simp
    with None show ?thesis by (auto simp: find_None_iff)
  next
    case (Some x)
    with eq find_SomeD [OF Some] show ?thesis by auto
  qed
qed

section \<open>What an upload leaves in the store\<close>

lemma copy2_files:
  assumes "copy2 fs src p = (Inr u, fs')"
  shows "\<exists>data. read_bytes fs src = Inr data \<and> read_bytes fs' src = Inr data \<and> fs_dirs fs' = fs_dirs fs \<and>
      (if p \<in> set (fs_dirs fs) then map_of (fs_files fs') p = map_of (fs_files fs) p
       else read_bytes fs' p = Inr data)"
  using assms
  by (auto simp: copy2_def write_bytes_def read_bytes_def Let_def is_file_def
      split: if_splits sum.splits option.splits)

lemma copy_in_files:
  assumes "local_copy_in rt fs key src = (Inr n, fs')" "\<not> local_exists rt fs key"
  shows "\<exists>data. read_bytes fs' src = Inr data \<and> local_get rt fs' key \<in> {Inr data, Inl ''IsADirectoryError''}"
proof -
  from assms obtain p where p: "local_p rt key = Inr p" by (auto simp: local_copy_in_def split: sum.splits)
  obtain r fs1 where mk: "mkdir_parents fs (butlast p) = (r, fs1)" by (meson surj_pair)
  then obtain u where r: "r = Inr u" using assms p by (cases r) (auto simp: local_copy_in_def)
  obtain c fs2 where cp: "copy2 fs1 src p = (c, fs2)" by (meson surj_pair)
  then obtain u2 where c: "c = Inr u2" using assms p mk r by (cases c) (auto simp: local_copy_in_def)
  have fs2: "fs2 = fs'" using assms p mk r cp c by (auto simp: local_copy_in_def)
  have "fs_files fs1 = fs_files fs" using mkdir_files [of fs "butlast p"] mk by simp
  then have "map_of (fs_files fs1) p = None" using assms(2) p by (simp add: local_exists_def is_file_def)
  then show ?thesis
    using copy2_files [OF cp [unfolded c]] p fs2
    by (auto simp: local_get_def read_bytes_def split: if_splits)
qed

end
