(* ===== verification/AuditFacts.thy ===== *)
theory AuditFacts
  imports StepFacts
begin

text \<open>
  The run's manifest only grows, and each step's provenance is logged in it; what the context keeps of a
  parcel and of warnings.
\<close>

section \<open>Computations that only add to the manifest\<close>

definition grows :: "('e, 'a, 'd world) io \<Rightarrow> bool" where
  "grows m \<longleftrightarrow> (\<forall>w. set (cx_manifest (fst w)) \<subseteq> set (cx_manifest (fst (snd (m w)))))"

lemma growsD: "grows m \<Longrightarrow> m w = (r, w') \<Longrightarrow> set (cx_manifest (fst w)) \<subseteq> set (cx_manifest (fst w'))"
  by (metis grows_def snd_conv)

named_theorems grow_intros \<open>computations that only add to the manifest\<close>

lemma grows_return [grow_intros]: "grows (io_return a)"
  by (simp add: grows_def io_return_def)

lemma grows_get_ctx [grow_intros]: "grows get_ctx"
  by (simp add: grows_def get_ctx_def)

lemma grows_lift [grow_intros]: "grows (io_lift r)"
  by (simp add: grows_def io_lift_def)

lemma grows_on_fs [grow_intros]: "grows (on_fs m)"
  by (auto simp: grows_def on_fs_def split: prod.split sum.split)

lemma grows_clerk_scrape [grow_intros]: "grows (clerk_scrape en fips dd plat deed)"
  by (auto simp: grows_def clerk_scrape_def split: prod.split)

lemma grows_set_ctx: "(\<And>ctx. set (cx_manifest ctx) \<subseteq> set (cx_manifest (f ctx))) \<Longrightarrow> grows (set_ctx f)"
  by (simp add: grows_def set_ctx_def)

lemma grows_bind:
  assumes "grows m" "\<And>a. grows (f a)"
  shows "grows (io_bind m f)"
  unfolding grows_def
proof
  fix w
  obtain r w1 where m: "m w = (r, w1)" by (meson surj_pair)
  show "set (cx_manifest (fst w)) \<subseteq> set (cx_manifest (fst (snd (io_bind m f w))))"
  proof -
    have "set (cx_manifest (fst w)) \<subseteq> set (cx_manifest (fst w1))" by (rule growsD [OF assms(1) m])
    moreover have "set (cx_manifest (fst w1)) \<subseteq> set (cx_manifest (fst (snd (f a w1))))" for a
      using assms(2) [of a] unfolding grows_def by blast
    ultimately show ?thesis
      by (cases r) (simp_all add: io_bind_def m subset_trans)
  qed
qed

lemma grows_then: "grows m \<Longrightarrow> grows n \<Longrightarrow> grows (io_then m n)"
  unfolding io_then_def by (rule grows_bind)

lemma grows_catch:
  assumes "grows m" "\<And>e. grows (h e)"
  shows "grows (io_catch m h)"
  unfolding grows_def
proof
  fix w
  obtain r w1 where m: "m w = (r, w1)" by (meson surj_pair)
  show "set (cx_manifest (fst w)) \<subseteq> set (cx_manifest (fst (snd (io_catch m h w))))"
  proof -
    have "set (cx_manifest (fst w)) \<subseteq> set (cx_manifest (fst w1))" by (rule growsD [OF assms(1) m])
    moreover have "set (cx_manifest (fst w1)) \<subseteq> set (cx_manifest (fst (snd (h e w1))))" for e
      using assms(2) [of e] unfolding grows_def by blast
    ultimately show ?thesis
      by (cases r) (simp_all add: io_catch_def m subset_trans)
  qed
qed

lemmas grow_combs = grows_bind grows_then grows_catch

lemma grows_best_effort [grow_intros]: "grows (best_effort m)"
  unfolding best_effort_def by (intro grow_combs grow_intros)

lemma grows_from_ctx [grow_intros]: "grows (from_ctx f)"
  unfolding from_ctx_def by (intro grow_combs grow_intros)

lemma grows_parcel [grow_intros]: "grows (parcel_fetch en)"
  unfolding parcel_fetch_def Let_def by (intro grow_combs grow_intros) (auto intro!: grow_combs grow_intros)

lemma grows_appraiser [grow_intros]: "grows (appraiser_fetch en)"
  unfolding appraiser_fetch_def Let_def by (intro grow_combs grow_intros) (auto intro!: grow_combs grow_intros)

lemma grows_scrape [grow_intros]: "grows (scrape_documents en dd)"
  unfolding scrape_documents_def Let_def
  by (intro grow_combs grow_intros) (auto intro!: grow_combs grow_intros grows_set_ctx split: option.split)

lemma grows_deed [grow_intros]: "grows (deed_fetch en dd)"
  unfolding deed_fetch_def Let_def by (intro grow_combs grow_intros)

lemma grows_plat [grow_intros]: "grows (plat_fetch en dd)"
  unfolding plat_fetch_def by (intro grow_combs grow_intros)

lemma grows_attempt [grow_intros]: "grows (attempt_clerk_fetch en key label src dd)"
  unfolding attempt_clerk_fetch_def Let_def by (intro grow_combs grow_intros)

lemma grows_flood [grow_intros]: "grows (flood_fetch en)"
  unfolding flood_fetch_def Let_def by (intro grow_combs grow_intros) (auto intro!: grow_combs grow_intros)

lemma grows_ngs [grow_intros]: "grows (ngs_fetch en)"
  unfolding ngs_fetch_def by (intro grow_combs grow_intros)

definition growing_adapter :: "'d source_adapter \<Rightarrow> bool" where
  "growing_adapter ad \<longleftrightarrow> (\<forall>dd. grows (ad_fetch ad dd)) \<and> grows (ad_fallback ad)"

lemma growing_adapterI:
  "(\<And>dd. grows (f dd)) \<Longrightarrow> grows g \<Longrightarrow> growing_adapter \<lparr>ad_fetch = f, ad_fallback = g\<rparr>"
  by (simp add: growing_adapter_def)

lemma ADAPTERS_growing: "map_of (ADAPTERS en) key = Some ad \<Longrightarrow> growing_adapter ad"
proof -
  have "list_all (\<lambda>(key, ad). growing_adapter ad) (ADAPTERS en)"
    unfolding ADAPTERS_def attempt_clerk_adapter_def list.pred_inject prod.case
    by (intro conjI list.pred_inject(1) growing_adapterI grow_intros)
  then show "map_of (ADAPTERS en) key = Some ad \<Longrightarrow> growing_adapter ad"
    by (auto simp: list_all_iff dest: map_of_SomeD)
qed

section \<open>Provenance is logged\<close>

definition logged :: "property_context \<Rightarrow> step_result \<Rightarrow> bool" where
  "logged ctx s \<longleftrightarrow> (\<forall>pr \<in> set (sp_provenance s). \<exists>e \<in> set (cx_manifest ctx). provenance_from e = pr)"

lemma logged_mono: "logged ctx s \<Longrightarrow> set (cx_manifest ctx) \<subseteq> set (cx_manifest ctx') \<Longrightarrow> logged ctx' s"
  by (auto simp: logged_def)

lemma foldl_log [simp]: "cx_manifest (foldl cx_log ctx es) = cx_manifest ctx @ es"
  by (induction es arbitrary: ctx) (simp_all add: cx_log_def)

text \<open>A computation that adds to the manifest and logs the step it answers with.\<close>

definition logs :: "('e, step_result, 'd world) io \<Rightarrow> bool" where
  "logs m \<longleftrightarrow> grows m \<and> (\<forall>w s w'. m w = (Inr s, w') \<longrightarrow> logged (fst w') s)"

lemma logs_assemble: "logs (assemble d src outcome err conf)"
  unfolding logs_def assemble_def
  by (auto intro!: grow_combs grow_intros grows_set_ctx
      simp: io_then_def io_bind_def set_ctx_def io_return_def logged_def step_of_def)

lemma logs_bind: "grows m \<Longrightarrow> (\<And>a. logs (f a)) \<Longrightarrow> logs (io_bind m f)"
  unfolding logs_def io_bind_Inr by (intro conjI grows_bind) blast+

lemma logs_catch: "logs m \<Longrightarrow> (\<And>e. logs (h e)) \<Longrightarrow> logs (io_catch m h)"
  unfolding logs_def io_catch_Inr by (intro conjI grows_catch) blast+

lemma run_one_logs:
  assumes "growing_adapter ad"
  shows "logs (run_one d ad dd)"
proof -
  have f: "grows (ad_fetch ad dd)" and g: "grows (ad_fallback ad)"
    using assms by (auto simp: growing_adapter_def)
  show ?thesis
    unfolding run_one_def
    by (rule logs_catch, rule logs_bind [OF f logs_assemble])
      (auto split: fault.split prod.split intro!: logs_bind [OF g] logs_bind logs_assemble
        grows_catch [OF g] grow_intros)
qed

lemma one_step_logs: "logs (one_step (ADAPTERS en) dd d)"
  by (auto simp: one_step_def split: option.split intro!: logs_assemble run_one_logs dest: ADAPTERS_growing)

lemma grows_steps_for: "grows (steps_for (ADAPTERS en) inc dd ds)"
  using one_step_logs by (induction ds) (auto simp: logs_def intro!: grow_combs grow_intros)

lemma steps_for_logged:
  "steps_for (ADAPTERS en) inc dd ds w = (Inr ss, w') \<Longrightarrow> list_all (logged (fst w')) ss"
proof (induction ds arbitrary: w ss)
  case (Cons d ds)
  show ?case
  proof (cases "is_wanted inc d")
    case True
    with Cons.prems obtain s w1 ss1 where 1: "one_step (ADAPTERS en) dd d w = (Inr s, w1)"
      and 2: "steps_for (ADAPTERS en) inc dd ds w1 = (Inr ss1, w')" and ss: "ss = s # ss1"
      by (auto simp: io_bind_Inr io_return_def)
    have "logged (fst w1) s" using one_step_logs 1 unfolding logs_def by blast
    then have "logged (fst w') s" using growsD [OF grows_steps_for 2] by (rule logged_mono)
    with Cons.IH [OF 2] ss show ?thesis by simp
  next
    case False
    with Cons show ?thesis by simp
  qed
qed (simp add: io_return_def)

lemma build_steps_logged:
  "build_steps (ADAPTERS en) inc w = (Inr ss, w') \<Longrightarrow> list_all (logged (fst w')) ss"
  by (auto simp: build_steps_def io_bind_Inr dest: steps_for_logged)

section \<open>The context\<close>

lemma settle_parcel_cases:
  "settle_parcel p = (ok, pid, hints, p') \<Longrightarrow>
     ok = parcel_trusted p \<and> parcel_trusted p' = ok \<and> pa_parcel_id p' = pid \<and>
     (\<not> ok \<longrightarrow> pid = [] \<and> hints = [])"
  by (auto simp: settle_parcel_def Let_def parcel_trusted_def)

definition context_ok :: "property_context \<Rightarrow> bool" where
  "context_ok ctx \<longleftrightarrow>
     (if cx_parcel_ok ctx then parcel_trusted (cx_parcel ctx)
      else cx_parcel_id ctx = [] \<and> cx_parcel_hints ctx = [] \<and> unconfirmed_warning \<in> set (cx_warnings ctx)) \<and>
     pa_parcel_id (cx_parcel ctx) = cx_parcel_id ctx \<and>
     ck_search_hints (cx_clerk_ref ctx) = cx_parcel_hints ctx \<and>
     distinct (cx_warnings ctx)"

lemma unconfirmed_nonempty: "unconfirmed_warning \<noteq> []"
  by (simp add: unconfirmed_warning_def)

lemma references_hints: "ck_search_hints (references ha r fips st cn hints) = hints"
  by (simp add: references_def Let_def)

lemma resolve_context_ok: "gives context_ok (\<lambda>_. True) (resolve_property_context en ra)"
  unfolding resolve_property_context_def Let_def
  by (auto intro!: bind_any gives_return dest!: settle_parcel_cases split: prod.split
      simp: context_ok_def bag_add_distinct bag_add_set references_hints unconfirmed_nonempty)

end
