(* ===== verification/RunProps.thy ===== *)
theory RunProps
  imports AdapterFacts AuditFacts WorkerProps
begin

text \<open>
  The properties of a research run and of the document fetcher: the steps of a run, what they report
  of a failure, the shared scrape, the property context, the audit trail, and what reaches the blob
  store and the document rows.
\<close>

section \<open>Steps\<close>

text \<open>C27: With the production adapters, assembling the steps fails only when the documents folder cannot
  be created; otherwise it answers one step per wanted document of the reference set, in its order,
  whatever the sources, portals and files do.\<close>

theorem build_steps_cover:
  "case build_steps (ADAPTERS en) inc (ctx, d, fs) of
     (Inl _, _) \<Rightarrow> \<not> is_ok (fst (docs_dir (cx_folder ctx) fs))
   | (Inr steps, _) \<Rightarrow> map sp_key steps = map rd_key (filter (is_wanted inc) RESIDENTIAL_DOCS)"
proof -
  obtain r w where Pair: "build_steps (ADAPTERS en) inc (ctx, d, fs) = (r, w)"
    by (meson surj_pair)
  show ?thesis
  proof (cases r)
    case (Inl e)
    with Pair show ?thesis using build_steps_fails [of en inc ctx d fs e w] by simp
  next
    case (Inr steps)
    with Pair show ?thesis
      using gives_InrD [OF build_steps_good] by (fastforce dest: steps_keys)
  qed
qed

definition failed_step_ok :: "step_result \<Rightarrow> bool" where
  "failed_step_ok s \<longleftrightarrow>
     sp_key s \<in> {''flood'', ''benchmarks''} \<and> sp_status s = Step_link \<and> sp_link s \<noteq> [] \<and>
     sp_downloaded s = [] \<and> sp_provenance s = [] \<and> sp_confidence s = Conf_none"


text \<open>The clerk scrape runs once per context: it always answers, and asked again, also for another
  folder, it gives the same result and changes neither the context, nor the portals, nor a file.\<close>

theorem scrape_runs_once:
  "\<exists>docs w'. scrape_documents en dd w = (Inr docs, w') \<and> scrape_documents en dd' w' = (Inr docs, w')"
  using never_raises_Inr [OF quiet_scrape, of en dd w] scrape_cached [OF scrape_kept] by metis

section \<open>The context and the audit trail\<close>

text \<open>C29: A context that resolves keeps a parcel identifier and search hints only of a trusted parcel;
  otherwise both are empty and the run warns that the parcel is not confirmed.  The identifier is the
  one written into the parcel record, the clerk references carry the same hints, and no warning is
  there twice.\<close>

theorem context_keeps_trusted_only:
  "case resolve_property_context en ra fs of
     (Inl _, _) \<Rightarrow> True
   | (Inr ctx, _) \<Rightarrow>
       (if cx_parcel_ok ctx then parcel_trusted (cx_parcel ctx)
        else cx_parcel_id ctx = [] \<and> cx_parcel_hints ctx = [] \<and> unconfirmed_warning \<in> set (cx_warnings ctx)) \<and>
       pa_parcel_id (cx_parcel ctx) = cx_parcel_id ctx \<and>
       ck_search_hints (cx_clerk_ref ctx) = cx_parcel_hints ctx \<and> distinct (cx_warnings ctx)"
proof (cases "resolve_property_context en ra fs")
  case (Pair r fs')
  then show ?thesis
    using gives_InrD [OF resolve_context_ok, of en ra fs] by (cases r) (auto simp: context_ok_def)
qed

lemma write_audit_files:
  assumes "write_audit au ctx result fs = (Inr (), fs')"
  shows "read_bytes fs' (cx_folder ctx @ [''manifest.json'']) = Inr (au_manifest au ctx) \<and>
         read_bytes fs' (cx_folder ctx @ [''result.json'']) = Inr (au_result au result)"
  using assms
  by (auto simp: write_audit_def io_then_def io_bind_def write_bytes_def read_bytes_def split: if_splits)

text \<open>C30: A run that returns has written its result to \<open>result.json\<close> and its manifest to
  \<open>manifest.json\<close> in the folder it names; it has one step per wanted document, and every provenance
  record of a step is that of an entry of the manifest.\<close>

theorem run_is_audited:
  "case run_research en au (ADAPTERS en) ra inc (d, fs) of
     (Inl _, _) \<Rightarrow> True
   | (Inr result, (_, fs')) \<Rightarrow>
       read_bytes fs' (rs_docs_dir result @ [''result.json'']) = Inr (au_result au result) \<and>
       map sp_key (rs_steps result) = map rd_key (filter (is_wanted inc) RESIDENTIAL_DOCS) \<and>
       (\<exists>ctx. read_bytes fs' (rs_docs_dir result @ [''manifest.json'']) = Inr (au_manifest au ctx) \<and>
              (\<Union>s \<in> set (rs_steps result). set (sp_provenance s)) \<subseteq> provenance_from ` set (cx_manifest ctx))"
proof -
  obtain r w where Pair: "run_research en au (ADAPTERS en) ra inc (d, fs) = (r, w)"
    by (meson surj_pair)
  show ?thesis
  proof (cases r)
    case (Inr result)
    obtain d' fs' where w: "w = (d', fs')" by (cases w) auto
    obtain ctx fs1 ctx2 fs2 where bs: "build_steps (ADAPTERS en) inc (ctx, d, fs1) = (Inr (rs_steps result), (ctx2, d', fs2))"
      and res: "result = result_of (ra_address ra) ctx2 (rs_steps result) (en_now_utc en)"
      and au: "write_audit au ctx2 result fs2 = (Inr (), fs')"
      using Pair Inr w by (metis run_research_InrD)
    have dir: "rs_docs_dir result = cx_folder ctx2" by (subst res) simp
    have "map sp_key (rs_steps result) = map rd_key (filter (is_wanted inc) RESIDENTIAL_DOCS)"
      using gives_InrD [OF build_steps_good bs] by (rule steps_keys)
    moreover have "(\<Union>s \<in> set (rs_steps result). set (sp_provenance s)) \<subseteq> provenance_from ` set (cx_manifest ctx2)"
      using build_steps_logged [OF bs] by (fastforce simp: list_all_iff logged_def)
    ultimately show ?thesis
      using write_audit_files [OF au] Pair Inr w dir by auto
  qed (simp add: Pair)
qed

section \<open>The fetcher and the rows\<close>

text \<open>C31: The fetcher answers only for types it was asked for, each under its own type, with a status the
  worker accepts as final; a document with a file has the status uploaded and the store key of the
  file.\<close>

theorem fetcher_answers_requests:
  "case build_document_fetcher en au adapters st fault_str w order doc_types tenant of
     (Inl _, _) \<Rightarrow> True
   | (Inr out, _) \<Rightarrow> list_all (\<lambda>(t, f). t \<in> set doc_types \<and> fd_doc_type f = t \<and> settled_fetch f) out"
proof -
  obtain r w' where Pair: "build_document_fetcher en au adapters st fault_str w order doc_types tenant = (r, w')"
    by (meson surj_pair)
  have "list_all (\<lambda>(t, f). t \<in> set doc_types \<and> fd_doc_type f = t \<and> settled_fetch f) out"
    if "r = Inr out" for out
    using live_fetcher.only_requested [OF Pair [unfolded that]] live_fetcher.settled [OF Pair [unfolded that]]
    by (auto simp: list_all_iff)
  with Pair show ?thesis by (cases r) simp_all
qed

text \<open>Of the production fetcher's outcomes only two error codes reach a document row:
  \<open>S3_UPLOAD_FAILED\<close> and \<open>INTERNAL_ERROR\<close>.  The codes of a source that is blocked, broken or times
  out are never stored, because such a source gives a link and the row counts as fetched.\<close>

theorem row_error_codes:
  "d_error_code
     (fetch_outcome now
        (fst (build_document_fetcher en au (ADAPTERS en) st fault_str w order [d_doc_type doc] tenant))
        (doc\<lparr>d_error_code := None\<rparr>))
   \<in> {None, Some ''S3_UPLOAD_FAILED'', Some ''INTERNAL_ERROR''}"
proof -
  obtain r w' where Pair: "fetch_documents_for en au (ADAPTERS en) st order [d_doc_type doc] (Some tenant) w = (r, w')"
    by (meson surj_pair)
  show ?thesis
  proof (cases r)
    case (Inl e)
    with Pair show ?thesis
      by (simp add: build_document_fetcher_def fetch_outcome_def apply_exception_def)
  next
    case (Inr out)
    have "upload_only f" if "map_of out t = Some f" for t f
      using fetch_for_uploads_only [OF Pair [unfolded Inr]] map_of_SomeD [OF that]
      by (auto simp: uploads_only_def)
    with Pair Inr show ?thesis
      by (auto simp: build_document_fetcher_def fetch_outcome_def apply_exception_def apply_fetched_def
          upload_only_def Let_def split: option.split)
  qed
qed

text \<open>C33: A task of a live job that nobody disturbs, run with the production fetcher, comes to rest: every
  document of the job has a final status, and the job is completed, partial or failed with its
  completion time, whatever the sources, portals, files and the store do.\<close>

theorem production_run_settles:
  assumes "tables_ok db" and "job_get db (tk_job_id t) (tk_tenant_id t) = Some job"
    and "j_status job \<notin> {Job_cancelled, Job_cancelling}"
    and "provider (j_order_id job) (tk_tenant_id t) = Inr order" and "\<not> opt_truthy (j_callback_url job)"
    and "research_job provider (build_document_fetcher en au adapters st fault_str) post cfg (\<lambda>_ db. db) db t w =
           (db', wk, w')"
  shows "(\<forall>d \<in> set (db_docs db'). d_job_id d = tk_job_id t \<longrightarrow> d_deleted_at d = None \<longrightarrow> settled_doc d) \<and>
     (\<exists>j \<in> set (db_jobs db'). j_id j = tk_job_id t \<and> j_status j \<in> {Job_completed, Job_partial, Job_failed} \<and>
        j_completed_at j = Some (db_clock db))"
proof -
  let ?f = "build_document_fetcher en au adapters st fault_str"
  obtain docs w2 where all: "fetch_all ?f order (tk_tenant_id t) (db_clock db)
      (doc_list_for_job db (tk_job_id t)) w = (docs, w2)" by (meson surj_pair)
  have db': "db' = db\<lparr>db_jobs := update_where (\<lambda>j. j_id j = tk_job_id t)
        (\<lambda>_. finished_job (db_clock db) job docs) (db_jobs db), db_docs := with_objects docs (db_docs db)\<rparr>"
    using research_job_undisturbed [OF assms(1,2) _ assms(4,5) all assms(6)] assms(3)
    by (simp add: cancel_seen_def)
  have docs: "\<forall>d \<in> set (db_docs db'). d_job_id d = tk_job_id t \<longrightarrow> d_deleted_at d = None \<longrightarrow> settled_doc d"
    using job_docs_taken [OF fetch_all_same [OF all]] live_worker.fetch_all_settled [OF all]
    by (simp add: db' list_all_iff)
  have "job \<in> set (db_jobs db)" "j_id job = tk_job_id t"
    using assms(2) by (auto simp: job_get_def dest: find_SomeD)
  then have "finished_job (db_clock db) job docs \<in> set (db_jobs db')"
    by (auto simp: db' update_where_def)
  moreover have "j_id (finished_job (db_clock db) job docs) = tk_job_id t"
    using \<open>j_id job = tk_job_id t\<close> by (simp add: finished_job_def recalc_job_counters_def)
  moreover have "j_status (finished_job (db_clock db) job docs) \<in> {Job_completed, Job_partial, Job_failed}"
    "j_completed_at (finished_job (db_clock db) job docs) = Some (db_clock db)"
    by (simp_all add: finished_job_def)
  ultimately show ?thesis using docs by blast
qed

theorem production_run_settles_witness:
  "\<forall>en au adapters st fault_str post w.
     case research_job demo_provider (build_document_fetcher en au adapters st fault_str) post
         default_callback_settings (\<lambda>_ db. db) (demo_db Job_queued) demo_task w of
       (db', _, _) \<Rightarrow>
         list_all settled_doc (filter (\<lambda>d. d_job_id d = 1 \<and> d_deleted_at d = None) (db_docs db')) \<and>
         (\<exists>j \<in> set (db_jobs db'). j_id j = 1 \<and> j_status j \<in> {Job_completed, Job_partial, Job_failed} \<and>
            j_completed_at j = Some (db_clock (demo_db Job_queued)))"
proof (intro allI)
  fix en au adapters st fault_str post w
  let ?job = "(new_job_row 1 0 7 8 9 5 [''PARCEL_RECORD'', ''NGS_CONTROL''] None)\<lparr>j_status := Job_queued\<rparr>"
  obtain db' wk w' where run: "research_job demo_provider (build_document_fetcher en au adapters st fault_str)
      post default_callback_settings (\<lambda>_ db. db) (demo_db Job_queued) demo_task w = (db', wk, w')"
    by (rule prod_cases3)
  have calm: "j_status ?job \<notin> {Job_cancelled, Job_cancelling}"
    "demo_provider (j_order_id ?job) (tk_tenant_id demo_task) = Inr None"
    "\<not> opt_truthy (j_callback_url ?job)"
    by (simp_all add: demo_provider_def new_job_row_def)
  from production_run_settles [OF demo_db_ok demo_get calm run]
  show "case research_job demo_provider (build_document_fetcher en au adapters st fault_str) post
         default_callback_settings (\<lambda>_ db. db) (demo_db Job_queued) demo_task w of
       (db', _, _) \<Rightarrow>
         list_all settled_doc (filter (\<lambda>d. d_job_id d = 1 \<and> d_deleted_at d = None) (db_docs db')) \<and>
         (\<exists>j \<in> set (db_jobs db'). j_id j = 1 \<and> j_status j \<in> {Job_completed, Job_partial, Job_failed} \<and>
            j_completed_at j = Some (db_clock (demo_db Job_queued)))"
    unfolding run by (auto simp: list_all_iff demo_task_def)
qed

section \<open>Uploads\<close>

lemma fresh_reference:
  assumes "evidence_ok ev" "create_evidence ev oid key fn n sha mime = ((i, j), ev')"
  shows "get_file_reference ev' i =
      Some \<lparr>fm_key = key, fm_filename = fn, fm_size_bytes = n, fm_sha256 = sha,
            fm_mime_type = opt_or mime ''application/pdf''\<rparr>"
proof -
  have "List.find (\<lambda>f. f_id f = ev_fresh ev \<and> f_deleted_at f = None) (ev_files ev) = None"
    using assms(1) by (auto simp: find_None_iff evidence_ok_def)
  moreover have "List.find P (xs @ [x]) = (case List.find P xs of None \<Rightarrow> if P x then Some x else None | Some y \<Rightarrow> Some y)"
    for P :: "file_row \<Rightarrow> bool" and xs x
    by (induction xs) auto
  ultimately show ?thesis
    using assms(2)
    by (cases mime)
      (auto simp: create_evidence_def get_file_reference_def Let_def opt_or_def or_str_def)
qed

text \<open>C32: An upload that succeeds records the staged file: the file row has the key, name, size and digest
  of the bytes on the staging disk.  When the key was free, the store now holds those bytes under it
  (unless the key names a directory); when it was taken, the store is left as it was, so the row can
  describe other bytes than the stored ones.\<close>

theorem upload_records_staged_file:
  assumes "evidence_ok ev"
    and "upload_file st order_id doc_type tenant_id fn src doc (fs, ev) = (Inr doc', (fs', ev'))"
  shows "\<exists>key data. fd_file_key doc' = Some key \<and> read_bytes fs' src = Inr data \<and>
     (\<exists>i. fd_file_id doc' = Some i \<and>
        get_file_reference ev' i = Some \<lparr>fm_key = key, fm_filename = fn, fm_size_bytes = length data,
            fm_sha256 = st_sha256 st data, fm_mime_type = guess_mime fn\<rparr>) \<and>
     (if local_exists (st_root st) fs key then fs' = fs
      else local_get (st_root st) fs' key \<in> {Inr data, Inl ''IsADirectoryError''})"
proof -
  obtain key s1 where key: "build_key (case tenant_id of Some t \<Rightarrow> uuid_str t | None \<Rightarrow> ''research'')
        (uuid_str order_id) doc_type fn = Inr key"
    and copy: "(if local_exists (st_root st) fs key then (Inr (), (fs, ev))
           else case local_copy_in (st_root st) fs key src of
                  (Inl e, fs1) \<Rightarrow> (Inl e, (fs1, ev)) | (Inr _, fs1) \<Rightarrow> (Inr (), (fs1, ev))) = (Inr (), s1)"
    and rec: "record_upload st order_id key fn src doc s1 = (Inr doc', (fs', ev'))"
    using assms(2) by (auto simp: upload_file_def io_bind_Inr io_then_def io_lift_def)
  have s1: "s1 = (fs', ev)" "if local_exists (st_root st) fs key then fs' = fs
      else (\<exists>n. local_copy_in (st_root st) fs key src = (Inr n, fs'))"
    using copy rec by (auto simp: record_upload_def split: if_splits sum.splits prod.splits)
  obtain data i j where "read_bytes fs' src = Inr data"
    and ce: "create_evidence ev order_id key fn (length data) (st_sha256 st data) (Some (guess_mime fn)) =
          ((i, j), ev')"
    and doc': "fd_file_key doc' = Some key" "fd_file_id doc' = Some i"
    using rec s1(1) by (auto simp: record_upload_def split: sum.splits prod.splits)
  moreover have "opt_or (Some (guess_mime fn)) ''application/pdf'' = guess_mime fn"
    by (simp add: opt_or_def or_str_def guess_mime_def Let_def)
  moreover have "if local_exists (st_root st) fs key then fs' = fs
      else local_get (st_root st) fs' key \<in> {Inr data, Inl ''IsADirectoryError''}"
    using s1(2) calculation(1) copy_in_files [of "st_root st" fs key src _ fs'] by (auto split: if_splits)
  ultimately show ?thesis
    using fresh_reference [OF assms(1) ce] by auto
qed

definition demo_stores :: stores_env where
  "demo_stores = \<lparr>st_root = [''r''], st_sha256 = rev\<rparr>"

definition demo_staged :: fs where
  "demo_staged = \<lparr>fs_files = [([''s'', ''documents'', ''a.pdf''], ''data'')],
                  fs_dirs = [[], [''s''], [''s'', ''documents'']]\<rparr>"

definition no_evidence :: evidence where
  "no_evidence = \<lparr>ev_files = [], ev_links = [], ev_fresh = 5\<rparr>"

definition demo_fetched :: fetched_document where
  "demo_fetched =
     \<lparr>fd_doc_type = ''DEED_SUBJECT_PARCEL'', fd_status = Doc_uploaded, fd_summary = [], fd_link = [],
      fd_link_label = [], fd_file_key = None, fd_file_name = None, fd_file_size = None, fd_sha256 = [],
      fd_mime_type = None, fd_file_id = None, fd_order_file_id = None, fd_provenance = [],
      fd_warnings = [], fd_error_code = None, fd_error_message = None, fd_retryable = False\<rparr>"

lemma demo_digest: "st_sha256 demo_stores = rev"
  by (simp add: demo_stores_def)

lemma demo_upload_ok:
  "is_ok (fst (upload_file demo_stores 3 ''DEED_SUBJECT_PARCEL'' None ''a.pdf'' [''s'', ''documents'', ''a.pdf'']
      demo_fetched (demo_staged, no_evidence)))"
  by code_simp

theorem upload_records_staged_file_witness:
  "case upload_file demo_stores 3 ''DEED_SUBJECT_PARCEL'' None ''a.pdf'' [''s'', ''documents'', ''a.pdf'']
      demo_fetched (demo_staged, no_evidence) of
     (Inl _, _) \<Rightarrow> False
   | (Inr doc', (fs', ev')) \<Rightarrow>
       \<exists>key data i. fd_file_key doc' = Some key \<and> read_bytes fs' [''s'', ''documents'', ''a.pdf''] = Inr data \<and>
         fd_file_id doc' = Some i \<and> map_option fm_sha256 (get_file_reference ev' i) = Some (rev data)"
proof -
  obtain r s where eq: "upload_file demo_stores 3 ''DEED_SUBJECT_PARCEL'' None ''a.pdf''
      [''s'', ''documents'', ''a.pdf''] demo_fetched (demo_staged, no_evidence) = (r, s)"
    by (meson surj_pair)
  obtain fs' ev' where s: "s = (fs', ev')" by (meson surj_pair)
  obtain doc' where r: "r = Inr doc'" using demo_upload_ok by (cases r) (simp_all add: eq)
  have "evidence_ok no_evidence" by (simp add: evidence_ok_def no_evidence_def)
  from upload_records_staged_file [OF this eq [unfolded r s]] show ?thesis
    using demo_digest by (auto simp: eq r s)
qed

end
