(* ===== verification/StateData.thy ===== *)
theory StateData
  imports Registry
begin

text \<open>
  The state modules of \<open>data/states/\<close>, one group of definitions per file: the statewide parcel service
  (\<open>PARCEL\<close>), the county entries (\<open>COUNTIES\<close>, split in parts where the literal is long), the statewide
  links, and the module they make.  The literals are the source's, entry by entry; the helper functions
  and loops that build entries (\<open>az.py\<close>, \<open>nj.py\<close>, \<open>nm.py\<close>, \<open>oh.py\<close>, \<open>tx.py\<close>) are definitions of their
  own.  Georgia, whose module computes most of its entries, has the theory \<open>GeorgiaData\<close>.
\<close>

section \<open>Building entries\<close>

text \<open>\<open>template.format(a)\<close> for a template with one placeholder.\<close>

fun format_one :: "string \<Rightarrow> string \<Rightarrow> string" where
  "format_one [] a = []"
| "format_one (c # cs) a =
     (if take 2 (c # cs) = ''{}'' then a @ tl cs else c # format_one cs a)"

text \<open>\<open>COUNTIES.setdefault(fips, {...})[key] = url\<close> for each \<open>fips: (name, url)\<close> of a table of links.\<close>

definition link_entry :: "string \<Rightarrow> string \<Rightarrow> string \<Rightarrow> string \<Rightarrow> entry option \<Rightarrow> entry" where
  "link_entry st key name url cur =
     dict_put key (RStr url)
       (case cur of
          None \<Rightarrow> [(''county'', RStr name), (''state'', RStr st), (''clerk_platform'', RStr ''unknown'')]
        | Some e \<Rightarrow> e)"

definition fold_links ::
  "string \<Rightarrow> string \<Rightarrow> (string \<times> string) table \<Rightarrow> entry table \<Rightarrow> entry table" where
  "fold_links st key links counties =
     foldl (\<lambda>d (fips, (name, url)). dict_put fips (link_entry st key name url (map_of d fips)) d)
       counties links"

text \<open>The letter n with a tilde, in UTF-8.\<close>

definition enye :: string where
  "enye = [CHR 0xC3, CHR 0xB1]"

section \<open>Alabama\<close>

definition al_counties :: "entry table" where
  "al_counties =
    [(''01073'',
       [(''county'', RStr ''Jefferson''), (''state'', RStr ''AL''),
        (''gis_rest'', RStr ''https://jccgis.jccal.org/server/rest/services/Basemap/Parcels/MapServer/0''),
        (''id_fields'', RList [''PARCELID'', ''PID'', ''APP_PID'', ''ParcelNo'']),
        (''clerk_platform'', RStr ''unknown'')]),
     (''01097'',
       [(''county'', RStr ''Mobile''), (''state'', RStr ''AL''),
        (''gis_rest'', RStr ''https://services8.arcgis.com/HND1NcQt6vgOGn1z/arcgis/rest/services/MCRC_Public_Parcels/FeatureServer/0''),
        (''id_fields'', RList [''Parcel_Number'', ''ParcelNo'', ''Account_Number'', ''KeyNum'']),
        (''clerk_platform'', RStr ''unknown'')]),
     (''01089'',
       [(''county'', RStr ''Madison''), (''state'', RStr ''AL''),
        (''gis_rest'', RStr ''https://web3.kcsgis.com/kcsgis/rest/services/Madison/AL47_GAMAWeb/MapServer/141''),
        (''id_fields'', RList [''ParcelNum'', ''PIN'']), (''clerk_platform'', RStr ''unknown'')])]"

definition al_module :: state_module where
  "al_module =
     \<lparr>sm_state = ''AL'', sm_parcel = None, sm_counties = al_counties,
      sm_deed_link = [], sm_plat_link = [], sm_appraiser_link = []\<rparr>"

section \<open>Arkansas\<close>

definition ar_parcel :: state_service where
  "ar_parcel =
    \<lparr>ss_url = [''https://gis.arkansas.gov/arcgis/rest/services/AGFC/AGFC_Cadastre_Viewer/FeatureServer/1''],
     ss_kind = ''featureserver'', ss_label = ''Arkansas Statewide Parcels (GeoStor)'',
     ss_id_fields = [''parcelid''], ss_related = [], ss_id_only = False,
     ss_counties_covered = None\<rparr>"

definition ar_module :: state_module where
  "ar_module =
     \<lparr>sm_state = ''AR'', sm_parcel = Some ar_parcel, sm_counties = [],
      sm_deed_link = [], sm_plat_link = [], sm_appraiser_link = []\<rparr>"

section \<open>Arizona\<close>

definition az_AZ :: string where
  "az_AZ = ''https://services.arcgis.com/C34zQ7veRS0V1t04/arcgis/rest/services/Parcels/FeatureServer''"

definition azc :: "string \<Rightarrow> nat \<Rightarrow> entry" where
  "azc county layer =
     [(''county'', RStr county), (''state'', RStr ''AZ''),
      (''gis_rest'', RStr (az_AZ @ ''/'' @ show_nat layer)),
      (''id_fields'', RList [''APN'', ''PARCEL'']), (''clerk_platform'', RStr ''unknown'')]"

definition az_counties :: "entry table" where
  "az_counties =
    [(''04001'', azc ''Apache'' 0),
     (''04003'', azc ''Cochise'' 1),
     (''04005'', azc ''Coconino'' 2),
     (''04007'', azc ''Gila'' 3),
     (''04009'', azc ''Graham'' 4),
     (''04011'', azc ''Greenlee'' 5),
     (''04012'', azc ''La Paz'' 6),
     (''04017'', azc ''Navajo'' 9),
     (''04023'', azc ''Santa Cruz'' 12),
     (''04027'', azc ''Yuma'' 13),
     (''04013'',
       [(''county'', RStr ''Maricopa''), (''state'', RStr ''AZ''),
        (''gis_rest'', RStr ''https://gis.mcassessor.maricopa.gov/arcgis/rest/services/Parcels/MapServer/0''),
        (''id_fields'', RList [''APN'', ''APN_DASH'']), (''clerk_platform'', RStr ''unknown'')]),
     (''04019'',
       [(''county'', RStr ''Pima''), (''state'', RStr ''AZ''),
        (''gis_rest'', RStr ''https://gisdata.pima.gov/arcgis1/rest/services/GISOpenData/LandRecords/MapServer/12''),
        (''id_fields'', RList [''PARCEL'']), (''clerk_platform'', RStr ''unknown'')]),
     (''04021'',
       [(''county'', RStr ''Pinal''), (''state'', RStr ''AZ''),
        (''gis_rest'', RStr ''https://gis.pinal.gov/mapping/rest/services/TaxParcels/MapServer/3''),
        (''id_fields'', RList [''PARCELID'']), (''clerk_platform'', RStr ''unknown'')]),
     (''04025'',
       [(''county'', RStr ''Yavapai''), (''state'', RStr ''AZ''),
        (''gis_rest'', RStr ''https://services1.arcgis.com/BajuNXbtZNiBKFkx/arcgis/rest/services/Parcels_in_Yavapai_County/FeatureServer/0''),
        (''id_fields'', RList [''PARCEL_ID'', ''ACCOUNTNO'']), (''clerk_platform'', RStr ''unknown'')])]"

definition az_module :: state_module where
  "az_module =
     \<lparr>sm_state = ''AZ'', sm_parcel = None, sm_counties = az_counties,
      sm_deed_link = [], sm_plat_link = [], sm_appraiser_link = []\<rparr>"

section \<open>California\<close>

definition ca_parcel :: state_service where
  "ca_parcel =
    \<lparr>ss_url = [''https://services2.arcgis.com/zr3KAIbsRSUyARHG/arcgis/rest/services/CA_State_Parcels/FeatureServer/0''],
     ss_kind = ''featureserver'', ss_label = (''CA earthquake-zone parcels (partial '' @ emdash @ '' county service preferred)''),
     ss_id_fields = [''PARCEL_APN''], ss_related = [], ss_id_only = False,
     ss_counties_covered = None\<rparr>"

definition ca_counties :: "entry table" where
  "ca_counties =
    [(''06037'',
       [(''county'', RStr ''Los Angeles''), (''state'', RStr ''CA''),
        (''gis_rest'', RStr ''https://public.gis.lacounty.gov/public/rest/services/LACounty_Cache/LACounty_Parcel/MapServer''),
        (''appraiser_url'', RStr ''https://assessor.lacounty.gov/''),
        (''clerk_url'', RStr ''https://www.lavote.gov/home/recorder/document-recording''),
        (''clerk_platform'', RStr ''unknown'')])]"

definition ca_module :: state_module where
  "ca_module =
     \<lparr>sm_state = ''CA'', sm_parcel = Some ca_parcel, sm_counties = ca_counties,
      sm_deed_link = [], sm_plat_link = [], sm_appraiser_link = []\<rparr>"

section \<open>Colorado\<close>

definition co_parcel :: state_service where
  "co_parcel =
    \<lparr>ss_url = [''https://gis.colorado.gov/public/rest/services/Address_and_Parcel/Colorado_Public_Parcels/FeatureServer/0''],
     ss_kind = ''featureserver'', ss_label = (''Colorado Public Parcel Composite (CO OIT '' @ emdash @ '' partial statewide)''),
     ss_id_fields = [''parcel_id'', ''account''], ss_related = [], ss_id_only = False,
     ss_counties_covered = Some 38\<rparr>"

definition co_module :: state_module where
  "co_module =
     \<lparr>sm_state = ''CO'', sm_parcel = Some co_parcel, sm_counties = [],
      sm_deed_link = [], sm_plat_link = [], sm_appraiser_link = []\<rparr>"

section \<open>Connecticut\<close>

definition ct_parcel :: state_service where
  "ct_parcel =
    \<lparr>ss_url = [''https://services3.arcgis.com/3FL1kr7L4LvwA2Kb/arcgis/rest/services/Connecticut_CAMA_and_Parcel_Layer/FeatureServer/0''],
     ss_kind = ''featureserver'', ss_label = ''Connecticut CAMA & Parcel Layer (CT GIS Office)'',
     ss_id_fields = [''Parcel_ID''], ss_related = [], ss_id_only = False,
     ss_counties_covered = None\<rparr>"

definition ct_module :: state_module where
  "ct_module =
     \<lparr>sm_state = ''CT'', sm_parcel = Some ct_parcel, sm_counties = [],
      sm_deed_link = [], sm_plat_link = [], sm_appraiser_link = []\<rparr>"

section \<open>District of Columbia\<close>

definition dc_parcel :: state_service where
  "dc_parcel =
    \<lparr>ss_url = [''https://maps2.dcgis.dc.gov/dcgis/rest/services/DCGIS_DATA/DC_Property_Basemap_WebMercator/MapServer/2''],
     ss_kind = ''mapserver'', ss_label = ''DC Property (OCTO / DCGIS)'',
     ss_id_fields = [''SSL''], ss_related = [], ss_id_only = False,
     ss_counties_covered = None\<rparr>"

definition dc_module :: state_module where
  "dc_module =
     \<lparr>sm_state = ''DC'', sm_parcel = Some dc_parcel, sm_counties = [],
      sm_deed_link = [], sm_plat_link = [], sm_appraiser_link = []\<rparr>"

section \<open>Delaware\<close>

definition de_counties :: "entry table" where
  "de_counties =
    [(''10001'',
       [(''county'', RStr ''Kent''), (''state'', RStr ''DE''),
        (''gis_rest'', RStr ''https://gis.kentcountyde.gov/server/rest/services/Parcels/Parcels/MapServer/0''),
        (''id_fields'', RList [''Name'']), (''clerk_platform'', RStr ''unknown'')])]"

definition de_module :: state_module where
  "de_module =
     \<lparr>sm_state = ''DE'', sm_parcel = None, sm_counties = de_counties,
      sm_deed_link = [], sm_plat_link = [], sm_appraiser_link = []\<rparr>"

section \<open>Florida\<close>

definition fl_parcel :: state_service where
  "fl_parcel =
    \<lparr>ss_url = [''https://services9.arcgis.com/Gh9awoU677aKree0/arcgis/rest/services/Florida_Statewide_Cadastral/FeatureServer/0''],
     ss_kind = ''featureserver'', ss_label = ''FL DOR Statewide Cadastral (FGIO)'',
     ss_id_fields = [''PARCEL_ID'', ''PARCELNO''], ss_related = [], ss_id_only = False,
     ss_counties_covered = None\<rparr>"

definition fl_module :: state_module where
  "fl_module =
     \<lparr>sm_state = ''FL'', sm_parcel = Some fl_parcel, sm_counties = [],
      sm_deed_link = [], sm_plat_link = [], sm_appraiser_link = []\<rparr>"

section \<open>Hawaii\<close>

definition hi_parcel :: state_service where
  "hi_parcel =
    \<lparr>ss_url = [''https://geodata.hawaii.gov/arcgis/rest/services/ParcelsZoning/MapServer/25''],
     ss_kind = ''mapserver'', ss_label = ''Hawaii Statewide TMK Parcels (State GIS)'',
     ss_id_fields = [''tmk_txt'', ''cty_tmk'', ''tmk''], ss_related = [], ss_id_only = False,
     ss_counties_covered = None\<rparr>"

definition hi_module :: state_module where
  "hi_module =
     \<lparr>sm_state = ''HI'', sm_parcel = Some hi_parcel, sm_counties = [],
      sm_deed_link = [], sm_plat_link = [], sm_appraiser_link = []\<rparr>"

section \<open>Iowa\<close>

definition ia_POLK :: string where
  "ia_POLK = ''https://gis4.polkcountyiowa.gov/server/rest/services/Public/Polk_County_Parcels/FeatureServer''"

definition ia_counties :: "entry table" where
  "ia_counties =
    [(''19153'',
       [(''county'', RStr ''Polk''), (''state'', RStr ''IA''), (''gis_rest'', RStr (ia_POLK @ ''/1'')),
        (''id_fields'', RList [''Parcel_Number'']),
        (''related'', RRel [\<lparr>rl_url = Some (ia_POLK @ ''/3''), rl_key = Some ''Parcel_Number'', rl_where = Some ''ParcelNumber'', rl_quote = Some True\<rparr>, \<lparr>rl_url = Some (ia_POLK @ ''/5''), rl_key = Some ''Parcel_Number'', rl_where = Some ''ParcelNumber'', rl_quote = Some True\<rparr>]),
        (''clerk_platform'', RStr ''unknown'')]),
     (''19163'',
       [(''county'', RStr ''Scott''), (''state'', RStr ''IA''),
        (''gis_rest'', RStr ''https://services.arcgis.com/ovln19YRWV44nBqV/arcgis/rest/services/Cadastral/FeatureServer/3''),
        (''id_fields'', RList [''PIN'']), (''clerk_platform'', RStr ''unknown'')]),
     (''19103'',
       [(''county'', RStr ''Johnson''), (''state'', RStr ''IA''),
        (''gis_rest'', RStr ''https://gis.johnsoncountyiowa.gov/arcgis/rest/services/LandRecords/Land_Records/MapServer/9''),
        (''id_fields'', RList [''PPN'']), (''clerk_platform'', RStr ''unknown'')]),
     (''19113'',
       [(''county'', RStr ''Linn''), (''state'', RStr ''IA''),
        (''gis_rest'', RStr ''https://services.arcgis.com/i14SLLmXo7Hn9vNc/arcgis/rest/services/RealEstateParcel/FeatureServer/0''),
        (''id_fields'', RList [''GPN'']), (''clerk_platform'', RStr ''unknown'')]),
     (''19193'',
       [(''county'', RStr ''Woodbury''), (''state'', RStr ''IA''),
        (''gis_rest'', RStr ''https://services.arcgis.com/kd1jFI4TM5bZHeP8/arcgis/rest/services/Woodbury_County_IA_Parcel_Data_Feature/FeatureServer/0''),
        (''id_fields'', RList [''PIN'']), (''situs_exclude'', RList [''addr_city'']),
        (''clerk_platform'', RStr ''unknown'')]),
     (''19169'',
       [(''county'', RStr ''Story''), (''state'', RStr ''IA''),
        (''gis_rest'', RStr ''https://apps.storycounty.com/arcgis/rest/services/parcels/MapServer/0''),
        (''id_fields'', RList [''PARCELID'', ''GEOCODE'']), (''clerk_platform'', RStr ''unknown'')]),
     (''19155'',
       [(''county'', RStr ''Pottawattamie''), (''state'', RStr ''IA''),
        (''gis_rest'', RStr ''https://gis.pottcounty-ia.gov/arcgis/rest/services/PublicDataEnterprise/PublicData_Parcels/FeatureServer/0''),
        (''id_fields'', RList [''PIN'', ''TAXPIN'']), (''situs_exclude'', RList [''TaxAddress'']),
        (''clerk_platform'', RStr ''unknown'')]),
     (''19033'',
       [(''county'', RStr ''Cerro Gordo''), (''state'', RStr ''IA''),
        (''gis_rest'', RStr ''https://services7.arcgis.com/qyyoWTywHfayX67L/arcgis/rest/services/Tax_Parcels_Feature_Service/FeatureServer/0''),
        (''id_fields'', RList [''PARCELID'', ''Tyler_ParcelNumber'']),
        (''clerk_platform'', RStr ''unknown'')]),
     (''19127'',
       [(''county'', RStr ''Marshall''), (''state'', RStr ''IA''),
        (''gis_rest'', RStr ''https://gis.marshallcountyia.gov/arcgis/rest/services/WebParcels/MapServer/0''),
        (''id_fields'', RList [''PIN'', ''parcel_number'']), (''clerk_platform'', RStr ''unknown'')]),
     (''19013'',
       [(''county'', RStr ''Black Hawk''), (''state'', RStr ''IA''),
        (''gis_rest'', RStr ''https://services5.arcgis.com/ya62ECiavqTkK0wv/arcgis/rest/services/ParcelFabricPublished_gdb/FeatureServer/15''),
        (''id_fields'', RList [''PIN'', ''ParcelID'']), (''clerk_platform'', RStr ''unknown'')]),
     (''19061'',
       [(''county'', RStr ''Dubuque''), (''state'', RStr ''IA''),
        (''gis_rest'', RStr ''https://gis.dubuquecounty.us/server/rest/services/Maps/Land_Records/MapServer/26''),
        (''id_fields'', RList [''PIN'']), (''clerk_platform'', RStr ''unknown'')])]"

definition ia_module :: state_module where
  "ia_module =
     \<lparr>sm_state = ''IA'', sm_parcel = None, sm_counties = ia_counties,
      sm_deed_link = [], sm_plat_link = [], sm_appraiser_link = []\<rparr>"

section \<open>Idaho\<close>

definition id_parcel :: state_service where
  "id_parcel =
    \<lparr>ss_url = [''https://gis1.idl.idaho.gov/arcgis/rest/services/Portal/WhiteStar_Parcels/FeatureServer/0''],
     ss_kind = ''featureserver'', ss_label = ''Idaho Statewide Parcels (ID Dept. of Lands / WhiteStar)'',
     ss_id_fields = [''apn''], ss_related = [], ss_id_only = False,
     ss_counties_covered = None\<rparr>"

definition id_module :: state_module where
  "id_module =
     \<lparr>sm_state = ''ID'', sm_parcel = Some id_parcel, sm_counties = [],
      sm_deed_link = [], sm_plat_link = [], sm_appraiser_link = []\<rparr>"

section \<open>Illinois\<close>

definition il_counties_1 :: "entry table" where
  "il_counties_1 =
    [(''17031'',
       [(''county'', RStr ''Cook''), (''state'', RStr ''IL''),
        (''gis_rest'', RStr ''https://gis12.cookcountyil.gov/traditional/rest/services/CookViewer3Parcels/MapServer/0''),
        (''id_fields'', RList [''PIN14_dash'', ''PIN14'', ''PARID'']),
        (''clerk_platform'', RStr ''unknown'')]),
     (''17043'',
       [(''county'', RStr ''DuPage''), (''state'', RStr ''IL''),
        (''gis_rest'', RStr ''https://gis.dupageco.org/arcgis/rest/services/DuPage_County_IL/ParcelsWithRealEstateCC/MapServer/0''),
        (''id_fields'', RList [''PIN'']), (''clerk_platform'', RStr ''unknown'')]),
     (''17097'',
       [(''county'', RStr ''Lake''), (''state'', RStr ''IL''),
        (''gis_rest'', RStr ''https://maps.lakecountyil.gov/arcgis/rest/services/GISMapping/WABParcels/MapServer/12''),
        (''id_fields'', RList [''PIN'']), (''clerk_platform'', RStr ''unknown'')]),
     (''17197'',
       [(''county'', RStr ''Will''), (''state'', RStr ''IL''),
        (''gis_rest'', RStr ''https://services.arcgis.com/fGsbyIOAuxHnF97m/arcgis/rest/services/Parcels_LY/FeatureServer/0''),
        (''id_fields'', RList [''PIN'']), (''clerk_platform'', RStr ''unknown'')]),
     (''17089'',
       [(''county'', RStr ''Kane''), (''state'', RStr ''IL''),
        (''gis_rest'', RStr ''https://gistech.countyofkane.org/arcgis/rest/services/KanePINList/MapServer/0''),
        (''id_fields'', RList [''PIN'']), (''clerk_platform'', RStr ''unknown'')]),
     (''17005'',
       [(''county'', RStr ''Bond''), (''state'', RStr ''IL''),
        (''gis_rest'', RStr ''https://services.arcgis.com/VbP0KHITyLTMBTy3/arcgis/rest/services/Parcels/FeatureServer/0''),
        (''id_fields'', RList [''parcel_number'', ''alternate_parcel_number'']),
        (''clerk_platform'', RStr ''unknown'')]),
     (''17009'',
       [(''county'', RStr ''Brown''), (''state'', RStr ''IL''),
        (''gis_rest'', RStr ''https://services1.arcgis.com/aHxsJXn8GAlRIIIg/arcgis/rest/services/Parcels/FeatureServer/2''),
        (''id_fields'', RList [''ParcelID'', ''PIN'', ''ALTPIN'']), (''clerk_platform'', RStr ''unknown'')]),
     (''17049'',
       [(''county'', RStr ''Effingham''), (''state'', RStr ''IL''),
        (''gis_rest'', RStr ''https://services5.arcgis.com/4aeqJB5xSs86LgEv/arcgis/rest/services/Effingham_Public_View/FeatureServer/1''),
        (''id_fields'', RList [''PinAssesso'', ''PinFormatt'', ''PinUnforma'']),
        (''clerk_platform'', RStr ''unknown'')]),
     (''17063'',
       [(''county'', RStr ''Grundy''), (''state'', RStr ''IL''),
        (''gis_rest'', RStr ''https://services6.arcgis.com/xzQjU5cYdJs9TQI4/arcgis/rest/services/EconomicDevelopment_WFL1/FeatureServer/14''),
        (''id_fields'', RList [''PIN'']), (''clerk_platform'', RStr ''unknown'')]),
     (''17073'',
       [(''county'', RStr ''Henry''), (''state'', RStr ''IL''),
        (''gis_rest'', RStr ''https://services.arcgis.com/4YineAQdtmx0tv46/arcgis/rest/services/Parcel_Henry/FeatureServer/0''),
        (''id_fields'', RList [''PIN'', ''PIN_J'', ''ParcelNumber_Formatted'']),
        (''clerk_platform'', RStr ''unknown'')]),
     (''17091'',
       [(''county'', RStr ''Kankakee''), (''state'', RStr ''IL''),
        (''gis_rest'', RStr ''https://k3gis.net/arcgis/rest/services/Cadastral/Tax_Parcels_and_Subdivisions_2025/MapServer/0''),
        (''id_fields'', RList [''pin'', ''parcel_number'', ''formatted_parcel'']),
        (''clerk_platform'', RStr ''unknown'')]),
     (''17109'',
       [(''county'', RStr ''McDonough''), (''state'', RStr ''IL''),
        (''gis_rest'', RStr ''https://gis.wiu.edu/arcgis/rest/services/mcdonough_highway/MapServer/21''),
        (''id_fields'', RList [''PARCELID'', ''FIRST_PIN'', ''NEW_PIN'']),
        (''clerk_platform'', RStr ''unknown'')]),
     (''17111'',
       [(''county'', RStr ''McHenry''), (''state'', RStr ''IL''),
        (''gis_rest'', RStr ''https://services1.arcgis.com/6iYC5AXXYapRVNzl/arcgis/rest/services/McHenry_County_TaxParcels/FeatureServer/0''),
        (''id_fields'', RList [''ParcelNumber'', ''ParcelArea'']), (''clerk_platform'', RStr ''unknown'')]),
     (''17113'',
       [(''county'', RStr ''McLean''), (''state'', RStr ''IL''),
        (''gis_rest'', RStr ''https://www.mcgisweb.org/mcgc/rest/services/Cadastral/Cadastral_Web/MapServer/0''),
        (''id_fields'', RList [''PIN'', ''Dash_PIN'', ''parcel_year'']),
        (''clerk_platform'', RStr ''unknown'')]),
     (''17115'',
       [(''county'', RStr ''Macon''), (''state'', RStr ''IL''),
        (''gis_rest'', RStr ''https://services1.arcgis.com/a3k0qIja5SolIRYR/arcgis/rest/services/Parcels2021/FeatureServer/0''),
        (''id_fields'', RList [''ParcelNumb'']), (''clerk_platform'', RStr ''unknown'')]),
     (''17131'',
       [(''county'', RStr ''Mercer''), (''state'', RStr ''IL''),
        (''gis_rest'', RStr ''https://services1.arcgis.com/p5CKEkDVdYePfy0g/arcgis/rest/services/Parcel/FeatureServer/39''),
        (''id_fields'', RList [''PIN'', ''AltPIN'', ''parcel_number'']),
        (''clerk_platform'', RStr ''unknown'')]),
     (''17163'',
       [(''county'', RStr ''St. Clair''), (''state'', RStr ''IL''),
        (''gis_rest'', RStr ''https://arcgispublicmap.co.st-clair.il.us/server/rest/services/SCC_parcel_map_data/MapServer/29''),
        (''id_fields'', RList [''parcelid'', ''parcel_number'']), (''clerk_platform'', RStr ''unknown'')])]"

definition il_counties_2 :: "entry table" where
  "il_counties_2 =
    [(''17179'',
       [(''county'', RStr ''Tazewell''), (''state'', RStr ''IL''),
        (''gis_rest'', RStr ''https://gis.tazewell-il.gov/arcgis/rest/services/WAB/TazCo_Parcels_WithOwner/MapServer/1''),
        (''id_fields'', RList [''PIN2'', ''PIN'', ''parcel_number'']),
        (''clerk_platform'', RStr ''unknown'')]),
     (''17201'',
       [(''county'', RStr ''Winnebago''), (''state'', RStr ''IL''),
        (''gis_rest'', RStr ''https://services9.arcgis.com/s8vOzt2hgxqrWawQ/arcgis/rest/services/Parcels_and_Addresses/FeatureServer/1''),
        (''id_fields'', RList [''PrimaryPIN'', ''PIN'', ''DashPIN'']),
        (''clerk_platform'', RStr ''unknown'')])]"

definition il_counties :: "entry table" where
  "il_counties = il_counties_1 @ il_counties_2"

definition il_module :: state_module where
  "il_module =
     \<lparr>sm_state = ''IL'', sm_parcel = None, sm_counties = il_counties,
      sm_deed_link = [], sm_plat_link = [], sm_appraiser_link = []\<rparr>"

section \<open>Indiana\<close>

definition in_parcel :: state_service where
  "in_parcel =
    \<lparr>ss_url = [''https://gisdata.in.gov/server/rest/services/Hosted/Parcel_Boundaries_of_Indiana_Current/FeatureServer/0''],
     ss_kind = ''featureserver'', ss_label = ''Indiana Statewide Parcels (IndianaMap / DLGF)'',
     ss_id_fields = [''state_parcel_id'', ''parcel_id''], ss_related = [], ss_id_only = False,
     ss_counties_covered = None\<rparr>"

definition in_module :: state_module where
  "in_module =
     \<lparr>sm_state = ''IN'', sm_parcel = Some in_parcel, sm_counties = [],
      sm_deed_link = [], sm_plat_link = [], sm_appraiser_link = []\<rparr>"

section \<open>Kansas\<close>

definition ks_counties :: "entry table" where
  "ks_counties =
    [(''20173'',
       [(''county'', RStr ''Sedgwick''), (''state'', RStr ''KS''),
        (''gis_rest'', RStr ''https://gismaps.sedgwickcounty.org/arcgis/rest/services/Appraiser/ParcelsTrim_Dynamic_SP/MapServer/0''),
        (''clerk_platform'', RStr ''unknown'')]),
     (''20177'',
       [(''county'', RStr ''Shawnee''), (''state'', RStr ''KS''),
        (''gis_rest'', RStr ''https://services2.arcgis.com/2XE514jeVQMWNKHX/arcgis/rest/services/Parcels/FeatureServer/0''),
        (''id_fields'', RList [''PIN'', ''QUICKREFID'']), (''situs_exclude'', RList [''PADDRESS2'']),
        (''clerk_platform'', RStr ''unknown'')]),
     (''20161'',
       [(''county'', RStr ''Riley''), (''state'', RStr ''KS''),
        (''gis_rest'', RStr ''https://services.arcgis.com/6WmEmDp2YlKJjhJt/arcgis/rest/services/Parcels/FeatureServer/0''),
        (''id_fields'', RList [''PID'', ''QuickRefID'', ''PARCELNUM'']),
        (''clerk_platform'', RStr ''unknown'')]),
     (''20045'',
       [(''county'', RStr ''Douglas''), (''state'', RStr ''KS''),
        (''gis_rest'', RStr ''https://gis.dgcoks.gov/server/rest/services/Tax_Parcel/MapServer/0''),
        (''clerk_platform'', RStr ''unknown'')])]"

definition ks_module :: state_module where
  "ks_module =
     \<lparr>sm_state = ''KS'', sm_parcel = None, sm_counties = ks_counties,
      sm_deed_link = [], sm_plat_link = [], sm_appraiser_link = []\<rparr>"

section \<open>Kentucky\<close>

definition ky_counties :: "entry table" where
  "ky_counties =
    [(''21111'',
       [(''county'', RStr ''Jefferson''), (''state'', RStr ''KY''),
        (''gis_rest'', RStr ''https://services1.arcgis.com/79kfd2K6fskCAkyg/arcgis/rest/services/New_AllParcels/FeatureServer/0''),
        (''id_fields'', RList [''ParcelID'']), (''clerk_platform'', RStr ''unknown'')]),
     (''21067'',
       [(''county'', RStr ''Fayette''), (''state'', RStr ''KY''),
        (''gis_rest'', RStr ''https://maps.lexingtonky.gov/lfucggis/rest/services/property/MapServer/1''),
        (''id_fields'', RList [''PVANUM'']), (''clerk_platform'', RStr ''unknown'')])]"

definition ky_module :: state_module where
  "ky_module =
     \<lparr>sm_state = ''KY'', sm_parcel = None, sm_counties = ky_counties,
      sm_deed_link = [], sm_plat_link = [], sm_appraiser_link = []\<rparr>"

section \<open>Louisiana\<close>

definition la_counties :: "entry table" where
  "la_counties =
    [(''22033'',
       [(''county'', RStr ''East Baton Rouge''), (''state'', RStr ''LA''),
        (''gis_rest'', RStr ''https://maps.brla.gov/gis/rest/services/Cadastral/Tax_Parcel/MapServer/0''),
        (''id_fields'', RList [''ASSESSMENT_NUM'', ''ID'', ''PRONO'']),
        (''clerk_platform'', RStr ''unknown'')]),
     (''22005'',
       [(''county'', RStr ''Ascension''), (''state'', RStr ''LA''),
        (''gis_rest'', RStr ''https://services6.arcgis.com/1fGAZVgZnPx4zcNH/arcgis/rest/services/Ascension_Parish_Tax_Parcels/FeatureServer/0''),
        (''id_fields'', RList [''PARCEL_NO'']), (''situs_exclude'', RList [''STREET_DIR'']),
        (''clerk_platform'', RStr ''unknown'')]),
     (''22071'',
       [(''county'', RStr ''Orleans''), (''state'', RStr ''LA''),
        (''gis_rest'', RStr ''https://maps.nola.gov/server/rest/services/Assessor/Landbase_Layers/MapServer/0''),
        (''id_fields'', RList [''GEOPIN'']), (''clerk_platform'', RStr ''unknown'')]),
     (''22055'',
       [(''county'', RStr ''Lafayette''), (''state'', RStr ''LA''),
        (''gis_rest'', RStr ''https://services1.arcgis.com/Brg1qbmzmFn7JtpX/arcgis/rest/services/Parish_Parcels__All_/FeatureServer/0''),
        (''id_fields'', RList [''parcelnumb'', ''parcel_id'', ''geoid'']),
        (''clerk_platform'', RStr ''unknown'')]),
     (''22103'',
       [(''county'', RStr ''St. Tammany''), (''state'', RStr ''LA''),
        (''gis_rest'', RStr ''https://services8.arcgis.com/25X4t4tff35goFar/arcgis/rest/services/ASSESSOR_PARCELS/FeatureServer/0''),
        (''id_fields'', RList [''assmnt_num'', ''PIN'']), (''clerk_platform'', RStr ''unknown'')])]"

definition la_module :: state_module where
  "la_module =
     \<lparr>sm_state = ''LA'', sm_parcel = None, sm_counties = la_counties,
      sm_deed_link = [], sm_plat_link = [], sm_appraiser_link = []\<rparr>"

section \<open>Massachusetts\<close>

definition ma_parcel :: state_service where
  "ma_parcel =
    \<lparr>ss_url = [''https://services1.arcgis.com/hGdibHYSPO59RG1h/arcgis/rest/services/Massachusetts_Property_Tax_Parcels/FeatureServer/0''],
     ss_kind = ''featureserver'', ss_label = ''MassGIS L3 Statewide Property Tax Parcels'',
     ss_id_fields = [''LOC_ID''], ss_related = [], ss_id_only = False,
     ss_counties_covered = None\<rparr>"

definition ma_module :: state_module where
  "ma_module =
     \<lparr>sm_state = ''MA'', sm_parcel = Some ma_parcel, sm_counties = [],
      sm_deed_link = [], sm_plat_link = [], sm_appraiser_link = []\<rparr>"

section \<open>Maryland\<close>

definition md_parcel :: state_service where
  "md_parcel =
    \<lparr>ss_url = [''https://mdgeodata.md.gov/imap/rest/services/PlanningCadastre/MD_PropertyData/MapServer/0''],
     ss_kind = ''mapserver-points'', ss_label = ''Maryland MDP/SDAT Property Data'',
     ss_id_fields = [], ss_related = [], ss_id_only = False,
     ss_counties_covered = None\<rparr>"

definition md_module :: state_module where
  "md_module =
     \<lparr>sm_state = ''MD'', sm_parcel = Some md_parcel, sm_counties = [],
      sm_deed_link = [], sm_plat_link = [], sm_appraiser_link = []\<rparr>"

section \<open>Maine\<close>

definition me_parcel :: state_service where
  "me_parcel =
    \<lparr>ss_url = [''https://services1.arcgis.com/RbMX0mRVOFNTdLzd/arcgis/rest/services/Maine_Parcels_Organized_Towns/FeatureServer/10''],
     ss_kind = ''featureserver'', ss_label = (''Maine Statewide Parcels (Maine GeoLibrary '' @ emdash @ '' organized towns)''),
     ss_id_fields = [''STATE_ID'', ''MAP_BK_LOT''], ss_related = [], ss_id_only = False,
     ss_counties_covered = None\<rparr>"

definition me_module :: state_module where
  "me_module =
     \<lparr>sm_state = ''ME'', sm_parcel = Some me_parcel, sm_counties = [],
      sm_deed_link = [], sm_plat_link = [], sm_appraiser_link = []\<rparr>"

section \<open>Michigan\<close>

definition mi_counties_1 :: "entry table" where
  "mi_counties_1 =
    [(''26163'',
       [(''county'', RStr ''Wayne''), (''state'', RStr ''MI''),
        (''gis_rest'', RList [''https://services2.arcgis.com/qvkbeam7Wirps6zC/arcgis/rest/services/parcel_file_current/FeatureServer/0'', ''https://www.waynecounty.com/gisserver/rest/services/ParcelViewer/prcls_fullAdd_parsed_FINAL/MapServer/0'']),
        (''id_fields'', RList [''parcel_id'', ''packedParc'', ''PID_All'']),
        (''clerk_platform'', RStr ''unknown'')]),
     (''26125'',
       [(''county'', RStr ''Oakland''), (''state'', RStr ''MI''),
        (''gis_rest'', RStr ''https://gisservices.oakgov.com/arcgis/rest/services/Enterprise/EnterpriseOpenParcelDataMapService/MapServer/1''),
        (''id_fields'', RList [''PIN'', ''KEYPIN'']), (''clerk_platform'', RStr ''unknown'')]),
     (''26099'',
       [(''county'', RStr ''Macomb''), (''state'', RStr ''MI''),
        (''gis_rest'', RStr ''https://gis.macombgov.org/arcgis1/rest/services/FLEX2/Parcel_Layers/MapServer/4''),
        (''id_fields'', RList [''TAX_ID'']), (''clerk_platform'', RStr ''unknown'')]),
     (''26081'',
       [(''county'', RStr ''Kent''), (''state'', RStr ''MI''),
        (''gis_rest'', RStr ''https://gis.kentcountymi.gov/agisprod/rest/services/ParcelsWithCondos/MapServer/0''),
        (''id_fields'', RList [''PNUM'', ''PPN'']), (''clerk_platform'', RStr ''unknown'')]),
     (''26139'',
       [(''county'', RStr ''Ottawa''), (''state'', RStr ''MI''),
        (''gis_rest'', RStr ''https://gis.miottawa.org/arcgis/rest/services/HostedServices/ParcelsPublic/MapServer/0''),
        (''id_fields'', RList [''FinalPIN'', ''ParentPIN'', ''CondoPIN'']),
        (''clerk_platform'', RStr ''unknown'')]),
     (''26023'',
       [(''county'', RStr ''Branch''), (''state'', RStr ''MI''),
        (''gis_rest'', RStr ''https://services2.arcgis.com/OHynDFZ1SVDsGFwm/arcgis/rest/services/BranchCountyParcels/FeatureServer/191''),
        (''id_fields'', RList [''PARCELID'', ''PARCEL_ADD'']), (''clerk_platform'', RStr ''unknown'')]),
     (''26025'',
       [(''county'', RStr ''Calhoun''), (''state'', RStr ''MI''),
        (''gis_rest'', RStr ''https://services6.arcgis.com/cuKwt0IKP5B84jop/arcgis/rest/services/City_Crew_Televising/FeatureServer/5''),
        (''id_fields'', RList [''PARCEL_ID'']), (''clerk_platform'', RStr ''unknown'')]),
     (''26029'',
       [(''county'', RStr ''Charlevoix''), (''state'', RStr ''MI''),
        (''gis_rest'', RStr ''https://services8.arcgis.com/iOTGKDZaCCAubV8c/arcgis/rest/services/charlevoix_parcels_shp/FeatureServer/0''),
        (''id_fields'', RList [''pin'', ''pin_1'', ''last5pin'']), (''clerk_platform'', RStr ''unknown'')]),
     (''26045'',
       [(''county'', RStr ''Eaton''), (''state'', RStr ''MI''),
        (''gis_rest'', RStr ''https://services2.arcgis.com/c9l1e4fKpsCnqD7H/arcgis/rest/services/Parcels_AGO/FeatureServer/0''),
        (''id_fields'', RList [''LOWPARCELID'', ''PARCELID'', ''LPARCEL'']),
        (''clerk_platform'', RStr ''unknown'')]),
     (''26067'',
       [(''county'', RStr ''Ionia''), (''state'', RStr ''MI''),
        (''gis_rest'', RStr ''https://services9.arcgis.com/i2awudUyJK8gxxEe/arcgis/rest/services/Ionia_County_Tax_Parcels_Public/FeatureServer/0''),
        (''id_fields'', RList [''CountyParcels_PIN'', ''Parcel_Data_OWNERNAME'', ''Parcel_Data_OWNERADDRESS'']),
        (''clerk_platform'', RStr ''unknown'')]),
     (''26089'',
       [(''county'', RStr ''Leelanau''), (''state'', RStr ''MI''),
        (''gis_rest'', RStr ''https://services7.arcgis.com/fxYnXhgYKUlZqDAy/arcgis/rest/services/Leelanau_Parcels_2024/FeatureServer/0''),
        (''id_fields'', RList [''PARCEL'']), (''clerk_platform'', RStr ''unknown'')]),
     (''26111'',
       [(''county'', RStr ''Midland''), (''state'', RStr ''MI''),
        (''gis_rest'', RStr ''https://services8.arcgis.com/oPzYIHLHP6C6pRlh/arcgis/rest/services/TaxParcels/FeatureServer/18''),
        (''id_fields'', RList [''ParcelNumber'']), (''clerk_platform'', RStr ''unknown'')]),
     (''26117'',
       [(''county'', RStr ''Montcalm''), (''state'', RStr ''MI''),
        (''gis_rest'', RStr ''https://services6.arcgis.com/GJ2uZAPsEvtmqpe1/ArcGIS/rest/services/Tax_Parcels/FeatureServer/0''),
        (''id_fields'', RList [''TaxParcel_PARCELID'']), (''clerk_platform'', RStr ''unknown'')]),
     (''26121'',
       [(''county'', RStr ''Muskegon''), (''state'', RStr ''MI''),
        (''gis_rest'', RStr ''https://services5.arcgis.com/X42k956XlfnIoN3d/arcgis/rest/services/Kent_Ottawa_Muskegon_Parcels/FeatureServer/1''),
        (''id_fields'', RList [''PIN'']), (''clerk_platform'', RStr ''unknown'')]),
     (''26123'',
       [(''county'', RStr ''Newaygo''), (''state'', RStr ''MI''),
        (''gis_rest'', RStr ''https://services6.arcgis.com/pcT1Mx8rlQHDmzpy/arcgis/rest/services/PivotPointParcelsNewaygo/FeatureServer/0''),
        (''id_fields'', RList [''PIN'', ''PACKEDPIN'', ''PARCEL'']), (''clerk_platform'', RStr ''unknown'')]),
     (''26147'',
       [(''county'', RStr ''St. Clair''), (''state'', RStr ''MI''),
        (''gis_rest'', RStr ''https://services7.arcgis.com/uns3DkaXlVtg1Y2Q/arcgis/rest/services/Sanilac___St__Clair_Drain_WFL1/FeatureServer/9''),
        (''id_fields'', RList [''PIN'', ''PARCEL_NUM'']), (''clerk_platform'', RStr ''unknown'')])]"

definition mi_counties_2 :: "entry table" where
  "mi_counties_2 =
    [(''26149'',
       [(''county'', RStr ''St. Joseph''), (''state'', RStr ''MI''),
        (''gis_rest'', RStr ''https://services5.arcgis.com/jvZ2ldpSLd1kK0tx/arcgis/rest/services/StJoeCoParcelsAGOWM/FeatureServer/0''),
        (''id_fields'', RList [''PIN'', ''PARCELNUM'']), (''clerk_platform'', RStr ''unknown'')]),
     (''26159'',
       [(''county'', RStr ''Van Buren''), (''state'', RStr ''MI''),
        (''gis_rest'', RStr ''https://services3.arcgis.com/fOViEAUKl91t9cT6/arcgis/rest/services/Parcels/FeatureServer/0''),
        (''id_fields'', RList [''PARCEL_NO'']), (''clerk_platform'', RStr ''unknown'')])]"

definition mi_counties :: "entry table" where
  "mi_counties = mi_counties_1 @ mi_counties_2"

definition mi_module :: state_module where
  "mi_module =
     \<lparr>sm_state = ''MI'', sm_parcel = None, sm_counties = mi_counties,
      sm_deed_link = [], sm_plat_link = [], sm_appraiser_link = []\<rparr>"

section \<open>Minnesota\<close>

definition mn_parcel :: state_service where
  "mn_parcel =
    \<lparr>ss_url = [''https://services.arcgis.com/8df8p0NlLFEShl0r/arcgis/rest/services/7Counties_Layers/FeatureServer/6''],
     ss_kind = ''featureserver'', ss_label = ''Minnesota Twin Cities 7-county metro parcels (MetroGIS)'',
     ss_id_fields = [''COUNTY_PIN'', ''STATE_PIN''], ss_related = [], ss_id_only = False,
     ss_counties_covered = None\<rparr>"

definition mn_module :: state_module where
  "mn_module =
     \<lparr>sm_state = ''MN'', sm_parcel = Some mn_parcel, sm_counties = [],
      sm_deed_link = [], sm_plat_link = [], sm_appraiser_link = []\<rparr>"

section \<open>Missouri\<close>

definition mo_JAX :: string where
  "mo_JAX = ''https://jcgis.jacksongov.org/arcgis/rest/services/ParcelViewer/ParcelsAscendRelate/MapServer''"

definition mo_counties :: "entry table" where
  "mo_counties =
    [(''29189'',
       [(''county'', RStr ''St. Louis''), (''state'', RStr ''MO''),
        (''gis_rest'', RStr ''https://maps.stlouisco.com/hosting/rest/services/Maps/AGS_Parcels/MapServer/0''),
        (''id_fields'', RList [''LOCATOR'']), (''clerk_platform'', RStr ''unknown'')]),
     (''29095'',
       [(''county'', RStr ''Jackson''), (''state'', RStr ''MO''), (''gis_rest'', RStr (mo_JAX @ ''/1'')),
        (''id_fields'', RList [''parcel_id'', ''PropertyID'', ''Name'']),
        (''related'', RRel [\<lparr>rl_url = Some (mo_JAX @ ''/2''), rl_key = Some ''PropertyID'', rl_where = Some ''property_id'', rl_quote = Some False\<rparr>]),
        (''clerk_platform'', RStr ''unknown'')]),
     (''29183'',
       [(''county'', RStr ''St. Charles''), (''state'', RStr ''MO''),
        (''gis_rest'', RStr ''https://gis.sccmo.org/scc_gis/rest/services/open_data/Tax_Information_o/FeatureServer/2''),
        (''id_fields'', RList [''Parcel_ID'', ''Account'']), (''clerk_platform'', RStr ''unknown'')]),
     (''29097'',
       [(''county'', RStr ''Jasper''), (''state'', RStr ''MO''),
        (''gis_rest'', RStr ''https://services6.arcgis.com/f6278XvXrNz6PmsX/arcgis/rest/services/Parcels/FeatureServer/1''),
        (''id_fields'', RList [''PIN'', ''FullPin'']), (''clerk_platform'', RStr ''unknown'')]),
     (''29165'',
       [(''county'', RStr ''Platte''), (''state'', RStr ''MO''),
        (''gis_rest'', RStr ''https://services.arcgis.com/KP64F8Xif9MkUwD4/arcgis/rest/services/Tax_Parcels_2023/FeatureServer/0''),
        (''id_fields'', RList [''Parcel_PIN'', ''PARCELNUM'']), (''compose_situs'', RBool True),
        (''clerk_platform'', RStr ''unknown'')]),
     (''29019'',
       [(''county'', RStr ''Boone''), (''state'', RStr ''MO''),
        (''gis_rest'', RStr ''https://gis.showmeboone.com/arcgis/rest/services/CO_TaxEntities/MapServer/0''),
        (''id_fields'', RList [''ASSESSOR'', ''ASSESSOR_FORMAT'']), (''clerk_platform'', RStr ''unknown'')]),
     (''29145'',
       [(''county'', RStr ''Newton''), (''state'', RStr ''MO''),
        (''gis_rest'', RStr ''https://services3.arcgis.com/g6eV2CrSSwCZj8Mc/arcgis/rest/services/Newton_Parcels/FeatureServer/0''),
        (''id_fields'', RList [''PARCEL_PID'']), (''clerk_platform'', RStr ''unknown'')])]"

definition mo_module :: state_module where
  "mo_module =
     \<lparr>sm_state = ''MO'', sm_parcel = None, sm_counties = mo_counties,
      sm_deed_link = [], sm_plat_link = [], sm_appraiser_link = []\<rparr>"

section \<open>Mississippi\<close>

definition ms_SVC :: string where
  "ms_SVC = ''https://gis.mississippi.edu/server/rest/services/Cadastral/MS_Parcels_August_2024/MapServer''"

definition ms_parcel :: state_service where
  "ms_parcel =
    \<lparr>ss_url = [(ms_SVC @ ''/1''), (ms_SVC @ ''/2'')],
     ss_kind = ''mapserver'', ss_label = ''Mississippi Statewide Parcels (MARIS/MDEQ)'',
     ss_id_fields = [''PARNO''], ss_related = [], ss_id_only = False,
     ss_counties_covered = None\<rparr>"

definition ms_module :: state_module where
  "ms_module =
     \<lparr>sm_state = ''MS'', sm_parcel = Some ms_parcel, sm_counties = [],
      sm_deed_link = [], sm_plat_link = [], sm_appraiser_link = []\<rparr>"

section \<open>Montana\<close>

definition mt_parcel :: state_service where
  "mt_parcel =
    \<lparr>ss_url = [''https://gisservicemt.gov/arcgis/rest/services/MSDI_Framework/Parcels/MapServer/0''],
     ss_kind = ''mapserver'', ss_label = ''Montana Cadastral (MSL/DOR)'',
     ss_id_fields = [], ss_related = [], ss_id_only = False,
     ss_counties_covered = None\<rparr>"

definition mt_module :: state_module where
  "mt_module =
     \<lparr>sm_state = ''MT'', sm_parcel = Some mt_parcel, sm_counties = [],
      sm_deed_link = [], sm_plat_link = [], sm_appraiser_link = []\<rparr>"

section \<open>North Carolina\<close>

definition nc_parcel :: state_service where
  "nc_parcel =
    \<lparr>ss_url = [''https://services.nconemap.gov/secure/rest/services/NC1Map_Parcels/FeatureServer/1''],
     ss_kind = ''featureserver'', ss_label = ''NC OneMap Statewide Parcels'',
     ss_id_fields = [], ss_related = [], ss_id_only = False,
     ss_counties_covered = None\<rparr>"

definition nc_module :: state_module where
  "nc_module =
     \<lparr>sm_state = ''NC'', sm_parcel = Some nc_parcel, sm_counties = [],
      sm_deed_link = [], sm_plat_link = [], sm_appraiser_link = []\<rparr>"

section \<open>North Dakota\<close>

definition nd_SVC :: string where
  "nd_SVC = ''https://services1.arcgis.com/GOcSXpzwBHyk2nog/arcgis/rest/services/NDGISHUB_Parcels/FeatureServer''"

definition nd_parcel :: state_service where
  "nd_parcel =
    \<lparr>ss_url = [(nd_SVC @ ''/0'')],
     ss_kind = ''featureserver'', ss_label = ''North Dakota Statewide Parcels (ND GIS Hub)'',
     ss_id_fields = [''UniqueGISID'', ''GISID''], ss_related = [\<lparr>rl_url = Some (nd_SVC @ ''/1''), rl_key = Some ''UniqueGISID'', rl_where = None, rl_quote = None\<rparr>], ss_id_only = False,
     ss_counties_covered = None\<rparr>"

definition nd_module :: state_module where
  "nd_module =
     \<lparr>sm_state = ''ND'', sm_parcel = Some nd_parcel, sm_counties = [],
      sm_deed_link = [], sm_plat_link = [], sm_appraiser_link = []\<rparr>"

section \<open>Nebraska\<close>

definition ne_parcel :: state_service where
  "ne_parcel =
    \<lparr>ss_url = [''https://giscat.ne.gov/enterprise/rest/services/StatewideParcelsExternal/FeatureServer/0''],
     ss_kind = ''featureserver'', ss_label = ''Nebraska Statewide Parcels (NE OCIO / NebraskaMAP)'',
     ss_id_fields = [''Parcel_ID'', ''State_PID''], ss_related = [], ss_id_only = False,
     ss_counties_covered = None\<rparr>"

definition ne_module :: state_module where
  "ne_module =
     \<lparr>sm_state = ''NE'', sm_parcel = Some ne_parcel, sm_counties = [],
      sm_deed_link = [], sm_plat_link = [], sm_appraiser_link = []\<rparr>"

section \<open>New Hampshire\<close>

definition nh_parcel :: state_service where
  "nh_parcel =
    \<lparr>ss_url = [''https://nhgeodata.unh.edu/hosting/rest/services/Hosted/CAD_ParcelMosaic/FeatureServer/1''],
     ss_kind = ''featureserver'', ss_label = ''New Hampshire Statewide Parcels (NH GRANIT / DRA)'',
     ss_id_fields = [''pid'', ''displayid''], ss_related = [], ss_id_only = False,
     ss_counties_covered = None\<rparr>"

definition nh_module :: state_module where
  "nh_module =
     \<lparr>sm_state = ''NH'', sm_parcel = Some nh_parcel, sm_counties = [],
      sm_deed_link = [], sm_plat_link = [], sm_appraiser_link = []\<rparr>"

section \<open>New Jersey\<close>

definition nj_parcel :: state_service where
  "nj_parcel =
    \<lparr>ss_url = [''https://maps.nj.gov/arcgis/rest/services/Framework/Cadastral/MapServer/0''],
     ss_kind = ''mapserver'', ss_label = ''New Jersey Parcels & MOD-IV (NJOGIS)'',
     ss_id_fields = [], ss_related = [], ss_id_only = False,
     ss_counties_covered = None\<rparr>"

text \<open>A falsy note is left out of the entry.\<close>

definition nj_c :: "string \<Rightarrow> string \<Rightarrow> string \<Rightarrow> string option \<Rightarrow> entry" where
  "nj_c name clerk platform note =
     (let e = [(''county'', RStr name), (''state'', RStr ''NJ''), (''clerk_url'', RStr clerk),
               (''clerk_platform'', RStr platform)]
      in case note of
           None \<Rightarrow> e
         | Some n \<Rightarrow> if n \<noteq> [] then dict_put ''clerk_note'' (RStr n) e else e)"

definition nj_counties :: "entry table" where
  "nj_counties =
    [(''34001'', nj_c ''Atlantic'' ''https://www.atlanticcountyclerk.org/'' ''inhouse'' None),
     (''34003'', nj_c ''Bergen'' ''https://www.bergencountyclerk.gov/'' ''inhouse'' (Some ''Bergen County Clerk land-record services.'')),
     (''34005'', nj_c ''Burlington'' ''https://press.co.burlington.nj.us/PRESS/clerk/ClerkHome.aspx'' ''inhouse'' (Some ''PRESS (Public Records Electronic Search System); guest login available.'')),
     (''34007'', nj_c ''Camden'' ''https://www.camdencounty.com/service/county-clerk/'' ''inhouse'' None),
     (''34009'', nj_c ''Cape May'' ''https://capemaycountynj.gov/189/County-Clerk'' ''inhouse'' (Some (''County Clerk page. The records host clerk.capemaycountynj.gov (NewVision publicsearch) fails TLS from this network '' @ emdash @ '' index goes back to 2000, deeds/mortgages to 1996.''))),
     (''34011'', nj_c ''Cumberland'' ''https://cumberlandcountyclerknj.gov/public-land-records/'' ''inhouse'' (Some ''Online deeds/mortgages from 2002; ImageSync covers 1960-1987.'')),
     (''34013'', nj_c ''Essex'' ''https://www.essexclerk.com/'' ''inhouse'' (Some ''Essex has a Register of Deeds rather than a County Clerk.'')),
     (''34015'', nj_c ''Gloucester'' ''https://www.gloucestercountynj.gov/370/Land-Records'' ''inhouse'' None),
     (''34017'', nj_c ''Hudson'' ''https://www.hudsoncountyclerk.org/'' ''inhouse'' (Some ''Hudson has a Register of Deeds rather than a County Clerk.'')),
     (''34019'', nj_c ''Hunterdon'' ''https://www.co.hunterdon.nj.us/263/Recording-Section'' ''inhouse'' (Some ''Records from 1785 onward.'')),
     (''34021'', nj_c ''Mercer'' ''http://records.mercercounty.org/RecordsNG_Search/'' ''inhouse'' (Some ''Official Records public search.'')),
     (''34023'', nj_c ''Middlesex'' ''https://mcrecords.co.middlesex.nj.us/publicsearch1/'' ''inhouse'' (Some (''NewVision BrowserView '' @ emdash @ '' deeds 1929+, mortgages 1950+, other docs 1958+. Same platform family as the Polk FL scraper adapter.''))),
     (''34025'', nj_c ''Monmouth'' ''https://www.monmouthcountyclerk.gov/'' ''inhouse'' None),
     (''34027'', nj_c ''Morris'' ''https://mcclerksng.co.morris.nj.us/publicsearch/'' ''inhouse'' (Some (''NewVision BrowserView '' @ emdash @ '' same platform as the Polk FL adapter; records vault goes back to the late 1700s.''))),
     (''34029'', nj_c ''Ocean'' ''https://sng.co.ocean.nj.us/searchapplication/'' ''inhouse'' (Some ''Official records from 1977-04-01 onward.'')),
     (''34031'', nj_c ''Passaic'' ''https://www.passaiccountynj.org/government/passaic-county-clerk/land-records'' ''inhouse'' (Some ''PRESS grantor/grantee index covers 2000-12 onward.'')),
     (''34033'', nj_c ''Salem'' ''https://salemcountyclerk.org/public-records-search/'' ''inhouse'' (Some ''Deeds from 1941; mortgages from 2003 (partial).'')),
     (''34035'', nj_c ''Somerset'' ''https://liveacclaim.co.somerset.nj.us/AcclaimWeb/'' ''acclaim'' (Some (''AcclaimWeb '' @ emdash @ '' the SAME platform as the existing `acclaim` adapter, so deed/plat auto-download is reachable here without new scraper work.''))),
     (''34037'', nj_c ''Sussex'' ''https://www.sussexcountyclerk.org'' ''inhouse'' None),
     (''34039'', nj_c ''Union'' ''https://ucnj.org/county-clerk/'' ''inhouse'' None),
     (''34041'', nj_c ''Warren'' ''https://www.warrencountynj.gov/government/warren-county-clerk-s-office/public-land-records'' ''inhouse'' (Some ''Search IQS: name, date, doc type, book/page, address, instrument no.''))]"

definition nj_module :: state_module where
  "nj_module =
     \<lparr>sm_state = ''NJ'', sm_parcel = Some nj_parcel, sm_counties = nj_counties,
      sm_deed_link = [], sm_plat_link = [], sm_appraiser_link = ''https://www.taxrecords-nj.com/pub/cgi/prc6.cgi?menu=index&ms_user=monm&passwd=''\<rparr>"

section \<open>New Mexico\<close>

definition nm_BASE :: string where
  "nm_BASE = ''https://gis.ose.nm.gov/server_s/rest/services/Parcels/County_Parcels_2025/MapServer''"

definition nm_LAYERS :: "(nat \<times> string \<times> string) list" where
  "nm_LAYERS =
    [
     (0, ''35001'', ''Bernalillo''), (1, ''35003'', ''Catron''), (2, ''35005'', ''Chaves''),
     (3, ''35006'', ''Cibola''), (4, ''35007'', ''Colfax''), (5, ''35009'', ''Curry''),
     (6, ''35011'', ''De Baca''), (7, ''35013'', (''Do'' @ enye @ ''a Ana'')), (8, ''35015'', ''Eddy''),
     (9, ''35017'', ''Grant''), (10, ''35019'', ''Guadalupe''), (11, ''35021'', ''Harding''),
     (12, ''35023'', ''Hidalgo''), (13, ''35025'', ''Lea''), (14, ''35027'', ''Lincoln''),
     (15, ''35028'', ''Los Alamos''), (16, ''35029'', ''Luna''), (17, ''35031'', ''McKinley''),
     (18, ''35033'', ''Mora''), (19, ''35035'', ''Otero''), (20, ''35037'', ''Quay''),
     (21, ''35039'', ''Rio Arriba''), (22, ''35041'', ''Roosevelt''), (23, ''35043'', ''Sandoval''),
     (24, ''35045'', ''San Juan''), (25, ''35047'', ''San Miguel''), (26, ''35049'', ''Santa Fe''),
     (27, ''35051'', ''Sierra''), (28, ''35053'', ''Socorro''), (29, ''35055'', ''Taos''),
     (30, ''35057'', ''Torrance''), (31, ''35059'', ''Union''), (32, ''35061'', ''Valencia'')]"

definition nm_counties :: "entry table" where
  "nm_counties =
     foldl (\<lambda>d (lid, fips, name).
       dict_put fips
         [(''county'', RStr name), (''state'', RStr ''NM''),
          (''gis_rest'', RStr (nm_BASE @ ''/'' @ show_nat lid)),
          (''id_fields'', RList [''UPC'', ''StateParcelId'', ''LocalParcelId'', ''AccountNumber'']),
          (''clerk_platform'', RStr ''unknown'')] d) [] nm_LAYERS"

definition nm_module :: state_module where
  "nm_module =
     \<lparr>sm_state = ''NM'', sm_parcel = None, sm_counties = nm_counties,
      sm_deed_link = [], sm_plat_link = [], sm_appraiser_link = []\<rparr>"

section \<open>Nevada\<close>

definition nv_parcel :: state_service where
  "nv_parcel =
    \<lparr>ss_url = [''https://gis.dot.nv.gov/agsphs/rest/services/Reference/Statewide_Parcels/MapServer/0''],
     ss_kind = ''mapserver'', ss_label = (''Nevada Statewide Parcels (NV State Lands '' @ emdash @ '' 2018)''),
     ss_id_fields = [''APN''], ss_related = [], ss_id_only = False,
     ss_counties_covered = None\<rparr>"

definition nv_module :: state_module where
  "nv_module =
     \<lparr>sm_state = ''NV'', sm_parcel = Some nv_parcel, sm_counties = [],
      sm_deed_link = [], sm_plat_link = [], sm_appraiser_link = []\<rparr>"

section \<open>New York\<close>

definition ny_parcel :: state_service where
  "ny_parcel =
    \<lparr>ss_url = [''https://gisservices.its.ny.gov/arcgis/rest/services/NYS_Tax_Parcels_Public/MapServer/1''],
     ss_kind = ''mapserver'', ss_label = ''NYS Statewide Tax Parcels (NYS GIS)'',
     ss_id_fields = [''PRINT_KEY'', ''SWIS_SBL_ID''], ss_related = [], ss_id_only = False,
     ss_counties_covered = None\<rparr>"

definition ny_module :: state_module where
  "ny_module =
     \<lparr>sm_state = ''NY'', sm_parcel = Some ny_parcel, sm_counties = [],
      sm_deed_link = [], sm_plat_link = [], sm_appraiser_link = []\<rparr>"

section \<open>Ohio\<close>

definition oh_parcel :: state_service where
  "oh_parcel =
    \<lparr>ss_url = [''https://utility.arcgis.com/usrsvcs/servers/213022e8a0644d62a1f03031202039ff/rest/services/Hosted/Statewide_Parcels_ODNR_WebMerc/FeatureServer/10''],
     ss_kind = ''featureserver'', ss_label = ''Ohio Statewide Parcels (ODNR)'',
     ss_id_fields = [''statewide_pin'', ''pin''], ss_related = [], ss_id_only = True,
     ss_counties_covered = None\<rparr>"

definition oh_counties_1 :: "entry table" where
  "oh_counties_1 =
    [(''39049'',
       [(''county'', RStr ''Franklin''), (''state'', RStr ''OH''),
        (''gis_rest'', RStr ''https://gis.franklincountyohio.gov/hosting/rest/services/ParcelFeatures/Parcel_Features/MapServer/0''),
        (''id_fields'', RList [''PARCELID'', ''LOWPARCELID'']), (''clerk_platform'', RStr ''unknown'')]),
     (''39061'',
       [(''county'', RStr ''Hamilton''), (''state'', RStr ''OH''),
        (''gis_rest'', RStr ''https://services8.arcgis.com/YU1yCuZZBuqsMM2h/arcgis/rest/services/Parcel_Poly_BOR_20241022/FeatureServer/0''),
        (''id_fields'', RList [''PARCELID'', ''PARCEL'', ''Auditor_Property_ID'']),
        (''clerk_platform'', RStr ''unknown'')]),
     (''39153'',
       [(''county'', RStr ''Summit''), (''state'', RStr ''OH''),
        (''gis_rest'', RStr ''https://services3.arcgis.com/3Ukh5HzAdI6WZ3KP/arcgis/rest/services/TaxParcels_public/FeatureServer/0''),
        (''id_fields'', RList [''LOWPARCELID'', ''PARCELID'']), (''clerk_platform'', RStr ''unknown'')]),
     (''39095'',
       [(''county'', RStr ''Lucas''), (''state'', RStr ''OH''),
        (''gis_rest'', RStr ''https://services3.arcgis.com/T8dczfwPixv79EgZ/arcgis/rest/services/Parcels_General_Land_Use_Classification_view/FeatureServer/0''),
        (''id_fields'', RList [''parcel_code'']), (''clerk_platform'', RStr ''unknown'')]),
     (''39151'',
       [(''county'', RStr ''Stark''), (''state'', RStr ''OH''),
        (''gis_rest'', RStr ''https://utility.arcgis.com/usrsvcs/servers/067a37ee416e4d11bc23dd1446ad30ba/rest/services/Auditor/StarkCountyParcels/FeatureServer/0''),
        (''id_fields'', RList [''PIN'']), (''clerk_platform'', RStr ''unknown'')]),
     (''39017'',
       [(''county'', RStr ''Butler''), (''state'', RStr ''OH''),
        (''gis_rest'', RStr ''https://services3.arcgis.com/RFsrKHehR4N08ybb/arcgis/rest/services/LSD_Draft_Map_WFL1/FeatureServer/3''),
        (''id_fields'', RList [''PIN'', ''OPINOLD'', ''RID_PARCEL'']),
        (''clerk_platform'', RStr ''unknown'')]),
     (''39093'',
       [(''county'', RStr ''Lorain''), (''state'', RStr ''OH''),
        (''gis_rest'', RStr ''https://services1.arcgis.com/vGBb7WYV10mOJRNM/arcgis/rest/services/OwnershipParcels_2025_Public_View/FeatureServer/1''),
        (''id_fields'', RList [''PARCELID'', ''IMAGEPIN'']), (''clerk_platform'', RStr ''unknown'')]),
     (''39085'',
       [(''county'', RStr ''Lake''), (''state'', RStr ''OH''),
        (''gis_rest'', RStr ''https://gis.lakecountyohio.gov/arcgis/rest/services/Sharing/LCGIS_SHARE_2023/FeatureServer/0''),
        (''id_fields'', RList [''PIN'', ''PIN_NODASH'']), (''clerk_platform'', RStr ''unknown'')]),
     (''39007'',
       [(''county'', RStr ''Ashtabula''), (''state'', RStr ''OH''),
        (''gis_rest'', RStr ''https://services3.arcgis.com/LbREO35fKGJZptlq/arcgis/rest/services/Integrity_Parcels/FeatureServer/9''),
        (''id_fields'', RList [''PIN'', ''PIN_NO_DASHES'']), (''clerk_platform'', RStr ''unknown'')]),
     (''39019'',
       [(''county'', RStr ''Carroll''), (''state'', RStr ''OH''),
        (''gis_rest'', RStr ''https://services8.arcgis.com/dZSJY7MSQPhysZUz/arcgis/rest/services/Carroll_Parcels/FeatureServer/0''),
        (''id_fields'', RList [''PIN'', ''Parcel_Number'', ''Property_ID'']),
        (''clerk_platform'', RStr ''unknown'')]),
     (''39025'',
       [(''county'', RStr ''Clermont''), (''state'', RStr ''OH''),
        (''gis_rest'', RStr ''https://services1.arcgis.com/hwQMmmEzVzbTfv5U/arcgis/rest/services/Clermont_Parcels/FeatureServer/0''),
        (''id_fields'', RList [''PIN'']), (''clerk_platform'', RStr ''unknown'')]),
     (''39027'',
       [(''county'', RStr ''Clinton''), (''state'', RStr ''OH''),
        (''gis_rest'', RStr ''https://services1.arcgis.com/tAhcHWpOD9ygNPbJ/arcgis/rest/services/Site_Plan_Parcels_2022/FeatureServer/3''),
        (''id_fields'', RList [''PARCELID'', ''ParcelID_1'', ''PIN'']),
        (''clerk_platform'', RStr ''unknown'')]),
     (''39029'',
       [(''county'', RStr ''Columbiana''), (''state'', RStr ''OH''),
        (''gis_rest'', RStr ''https://services8.arcgis.com/234WKrCI77bh5yOY/arcgis/rest/services/Parcels_Public/FeatureServer/0''),
        (''id_fields'', RList [''ParcelNumber'']), (''clerk_platform'', RStr ''unknown'')]),
     (''39043'',
       [(''county'', RStr ''Erie''), (''state'', RStr ''OH''),
        (''gis_rest'', RStr ''https://arcgis.eriecounty.oh.gov/arcgisdev/rest/services/WMAS/Parcels/MapServer/0''),
        (''id_fields'', RList [''Map_Number'', ''Parcel_Number'', ''Parcel_Number_No_Dash'']),
        (''clerk_platform'', RStr ''unknown'')]),
     (''39047'',
       [(''county'', RStr ''Fayette''), (''state'', RStr ''OH''),
        (''gis_rest'', RStr ''https://services8.arcgis.com/CJpiu5T88EYxY793/arcgis/rest/services/Fayette_County_Ohio_GIS_Tax_Parcels/FeatureServer/0''),
        (''id_fields'', RList [''Parcel_ID'', ''Parcel_No1'', ''Parcel_N_1'']),
        (''clerk_platform'', RStr ''unknown'')]),
     (''39055'',
       [(''county'', RStr ''Geauga''), (''state'', RStr ''OH''),
        (''gis_rest'', RStr ''https://gcgis.geauga.oh.gov/arcgis/rest/services/2030___2026/FeatureServer/0''),
        (''id_fields'', RList [''PARCEL_ID2'', ''NumParcels'']), (''clerk_platform'', RStr ''unknown'')])]"

definition oh_counties_2 :: "entry table" where
  "oh_counties_2 =
    [(''39059'',
       [(''county'', RStr ''Guernsey''), (''state'', RStr ''OH''),
        (''gis_rest'', RStr ''https://services8.arcgis.com/EtYD1cRq8Hkljjf7/arcgis/rest/services/Guernsey_County_WFL1/FeatureServer/12''),
        (''id_fields'', RList [''Parcel'', ''Parcel2'']), (''clerk_platform'', RStr ''unknown'')]),
     (''39063'',
       [(''county'', RStr ''Hancock''), (''state'', RStr ''OH''),
        (''gis_rest'', RStr ''https://services1.arcgis.com/lAWlC1VwZYAIzeQJ/arcgis/rest/services/Hancock_Parcels/FeatureServer/1''),
        (''id_fields'', RList [''MAPNUMBER'', ''MAPNUMBER0'', ''PARCEL'']),
        (''clerk_platform'', RStr ''unknown'')]),
     (''39069'',
       [(''county'', RStr ''Henry''), (''state'', RStr ''OH''),
        (''gis_rest'', RStr ''https://services.arcgis.com/osmyvTbXDC07yFxn/arcgis/rest/services/HenryParcels/FeatureServer/0''),
        (''id_fields'', RList [''MAPNUM'', ''PARCEL'']), (''clerk_platform'', RStr ''unknown'')]),
     (''39075'',
       [(''county'', RStr ''Holmes''), (''state'', RStr ''OH''),
        (''gis_rest'', RStr ''https://services6.arcgis.com/JuJ3otBHQoYlrmJI/arcgis/rest/services/parcels_cama/FeatureServer/0''),
        (''id_fields'', RList [''GISPIN'', ''Parcel_Number'']), (''clerk_platform'', RStr ''unknown'')]),
     (''39077'',
       [(''county'', RStr ''Huron''), (''state'', RStr ''OH''),
        (''gis_rest'', RStr ''https://services5.arcgis.com/ZEuF9401wMEdHLM6/arcgis/rest/services/HuronCountyParcels/FeatureServer/0''),
        (''id_fields'', RList [''PARCELID'', ''Parcel'']), (''clerk_platform'', RStr ''unknown'')]),
     (''39089'',
       [(''county'', RStr ''Licking''), (''state'', RStr ''OH''),
        (''gis_rest'', RStr ''https://gis.lickingcounty.gov/server/rest/services/Auditor/Parcels/FeatureServer/0''),
        (''id_fields'', RList [''EpinCount'', ''Parcel'', ''T1Parcels'']),
        (''clerk_platform'', RStr ''unknown'')]),
     (''39103'',
       [(''county'', RStr ''Medina''), (''state'', RStr ''OH''),
        (''gis_rest'', RStr ''https://services5.arcgis.com/m37BbrYBtVXq1nb8/arcgis/rest/services/Medina_Board_of_Revision_Cases_v2/FeatureServer/0''),
        (''id_fields'', RList [''ParcelPIN'']), (''clerk_platform'', RStr ''unknown'')]),
     (''39109'',
       [(''county'', RStr ''Miami''), (''state'', RStr ''OH''),
        (''gis_rest'', RStr ''https://services3.arcgis.com/wCWf4EGMg4PzHwzA/arcgis/rest/services/parcel_joined/FeatureServer/0''),
        (''id_fields'', RList [''PARCEL'', ''Parcel2'']), (''clerk_platform'', RStr ''unknown'')]),
     (''39111'',
       [(''county'', RStr ''Monroe''), (''state'', RStr ''OH''),
        (''gis_rest'', RStr ''https://services8.arcgis.com/ToWOUVqNUhbTXzVc/arcgis/rest/services/Parcels/FeatureServer/2''),
        (''id_fields'', RList [''APN'', ''FORMAL_APN'', ''REM_ACCT_NUM'']),
        (''clerk_platform'', RStr ''unknown'')]),
     (''39115'',
       [(''county'', RStr ''Morgan''), (''state'', RStr ''OH''),
        (''gis_rest'', RStr ''https://services8.arcgis.com/cYuOLPdETvKbspkC/arcgis/rest/services/Morgan_Parcels/FeatureServer/0''),
        (''id_fields'', RList [''PIN'', ''ParcelNumb'', ''Parcel_Num'']),
        (''clerk_platform'', RStr ''unknown'')]),
     (''39117'',
       [(''county'', RStr ''Morrow''), (''state'', RStr ''OH''),
        (''gis_rest'', RStr ''https://services9.arcgis.com/fb2xHTkLEUUJA1y5/arcgis/rest/services/MorrowTaxParcels_withTaxData/FeatureServer/0''),
        (''id_fields'', RList [''PIN'', ''PIN_NoDash'']), (''clerk_platform'', RStr ''unknown'')]),
     (''39119'',
       [(''county'', RStr ''Muskingum''), (''state'', RStr ''OH''),
        (''gis_rest'', RStr ''https://services5.arcgis.com/N1ybEAKiuuUIL8Mz/arcgis/rest/services/Parcel/FeatureServer/0''),
        (''id_fields'', RList [''MAP_NUM'', ''ParcelNumb'', ''PARCELNUM'']),
        (''clerk_platform'', RStr ''unknown'')]),
     (''39129'',
       [(''county'', RStr ''Pickaway''), (''state'', RStr ''OH''),
        (''gis_rest'', RStr ''https://services.arcgis.com/Kky1VmxJleu73HxO/arcgis/rest/services/Pickaway_County_School_Districts_WFL1/FeatureServer/2''),
        (''id_fields'', RList [''Parcel2'']), (''clerk_platform'', RStr ''unknown'')]),
     (''39149'',
       [(''county'', RStr ''Shelby''), (''state'', RStr ''OH''),
        (''gis_rest'', RStr ''https://services6.arcgis.com/fzPZZJiNVtryYcsC/arcgis/rest/services/Parcels/FeatureServer/0''),
        (''id_fields'', RList [''PIN_No_Dash'', ''PIN'', ''Parcel_Number'']),
        (''clerk_platform'', RStr ''unknown'')]),
     (''39157'',
       [(''county'', RStr ''Tuscarawas''), (''state'', RStr ''OH''),
        (''gis_rest'', RStr ''https://services9.arcgis.com/9TS9JAXFNg3gQQuK/arcgis/rest/services/Tuscarawas_County_Parcels/FeatureServer/0''),
        (''id_fields'', RList [''PARCEL_ID'', ''Parcel_Num'', ''Parcel_N_1'']),
        (''clerk_platform'', RStr ''unknown'')]),
     (''39159'',
       [(''county'', RStr ''Union''), (''state'', RStr ''OH''),
        (''gis_rest'', RStr ''https://www7.co.union.oh.us/unioncountyohio/rest/services/parcel/MapServer/0''),
        (''id_fields'', RList [''ParcelClass'', ''PARCELTYPE'']), (''clerk_platform'', RStr ''unknown'')]),
     (''39169'',
       [(''county'', RStr ''Wayne''), (''state'', RStr ''OH''),
        (''gis_rest'', RStr ''https://services6.arcgis.com/WiOy9S7NUTWyXUe4/arcgis/rest/services/WayneCo_Parcels/FeatureServer/0''),
        (''id_fields'', RList [''Parcel'', ''Parcel2'']), (''clerk_platform'', RStr ''unknown'')])]"

definition oh_counties :: "entry table" where
  "oh_counties = oh_counties_1 @ oh_counties_2"

definition oh_auditor :: "(string \<times> string) table" where
  "oh_auditor =
    [(''39001'', ''Adams'', ''https://adamscountyauditor.org/''),
     (''39009'', ''Athens'', ''https://www.athenscountyauditor.org/''),
     (''39011'', ''Auglaize'', ''https://auglaizecountyauditor.org/''),
     (''39013'', ''Belmont'', ''https://belmontcountyauditor.org/''),
     (''39017'', ''Butler'', ''https://butlercountyauditor.org/''),
     (''39021'', ''Champaign'', ''https://auditor.co.champaign.oh.us/''),
     (''39023'', ''Clark'', ''https://clarkcountyauditor.org/''),
     (''39027'', ''Clinton'', ''https://clintoncountyauditor.org/''),
     (''39029'', ''Columbiana'', ''https://columbianacountyauditor.org/''),
     (''39035'', ''Cuyahoga'', ''https://cuyahogacountyauditor.org/''),
     (''39041'', ''Delaware'', ''https://delawarecountyauditor.org/''),
     (''39047'', ''Fayette'', ''https://www.fayettecountyauditor.org''),
     (''39049'', ''Franklin'', ''https://auditor.franklincountyohio.gov/''),
     (''39057'', ''Greene'', ''https://auditor.greenecountyohio.gov/Search/Name''),
     (''39061'', ''Hamilton'', ''https://hamiltoncountyauditor.org/''),
     (''39071'', ''Highland'', ''https://highlandcountyauditor.org/''),
     (''39075'', ''Holmes'', ''https://www.holmescountyauditor.org/''),
     (''39077'', ''Huron'', ''https://huroncountyauditor.org/''),
     (''39079'', ''Jackson'', ''https://jacksoncountyauditor.org/''),
     (''39083'', ''Knox'', ''https://knoxcountyauditor.org/''),
     (''39087'', ''Lawrence'', ''https://lawrencecountyauditor.org/''),
     (''39097'', ''Madison'', ''https://auditor.co.madison.oh.us/''),
     (''39105'', ''Meigs'', ''https://meigscountyauditor.org/''),
     (''39107'', ''Mercer'', ''https://auditor.mercercountyohio.gov/''),
     (''39115'', ''Morgan'', ''https://www.morgancountyauditor.org''),
     (''39117'', ''Morrow'', ''https://auditor.co.morrow.oh.us/''),
     (''39119'', ''Muskingum'', ''https://www.muskingumcountyauditor.org/''),
     (''39123'', ''Ottawa'', ''https://auditor.co.ottawa.oh.us/''),
     (''39127'', ''Perry'', ''https://auditor.perrycountyohio.gov/''),
     (''39129'', ''Pickaway'', ''https://auditor.pickawaycountyohio.gov/''),
     (''39133'', ''Portage'', ''https://portagecountyauditor.org/''),
     (''39135'', ''Preble'', ''https://preblecountyauditor.org/''),
     (''39137'', ''Putnam'', ''https://auditor.putnamcountyohio.gov/''),
     (''39141'', ''Ross'', ''https://rosscountyauditor.org/''),
     (''39147'', ''Seneca'', ''https://senecacountyauditoroh.gov/''),
     (''39151'', ''Stark'', ''https://starkcountyauditor.org/''),
     (''39155'', ''Trumbull'', ''https://trumbullcountyauditor.org/''),
     (''39157'', ''Tuscarawas'', ''https://tuscarawascountyauditor.org/''),
     (''39161'', ''Van Wert'', ''https://auditor.vanwertcountyohio.gov/''),
     (''39163'', ''Vinton'', ''https://vintoncountyauditor.org/''),
     (''39165'', ''Warren'', ''https://auditor.warrencountyohio.gov/''),
     (''39169'', ''Wayne'', ''https://waynecountyauditor.org/''),
     (''39003'', ''Allen'', ''https://beacon.schneidercorp.com/Application.aspx?App=AllenCountyOH&PageType=Search''),
     (''39033'', ''Crawford'', ''https://beacon.schneidercorp.com/Application.aspx?App=CrawfordCountyOH&PageType=Search''),
     (''39045'', ''Fairfield'', ''https://beacon.schneidercorp.com/Application.aspx?App=FairfieldCountyOH&PageType=Search''),
     (''39051'', ''Fulton'', ''https://beacon.schneidercorp.com/Application.aspx?App=FultonCountyOH&PageType=Search''),
     (''39053'', ''Gallia'', ''https://beacon.schneidercorp.com/Application.aspx?App=GalliaCountyOH&PageType=Search''),
     (''39063'', ''Hancock'', ''https://beacon.schneidercorp.com/Application.aspx?App=HancockCountyOH&PageType=Search''),
     (''39065'', ''Hardin'', ''https://beacon.schneidercorp.com/Application.aspx?App=HardinCountyOH&PageType=Search''),
     (''39109'', ''Miami'', ''https://beacon.schneidercorp.com/Application.aspx?App=MiamiCountyOH&PageType=Search''),
     (''39139'', ''Richland'', ''https://beacon.schneidercorp.com/Application.aspx?App=RichlandCountyOH&PageType=Search''),
     (''39143'', ''Sandusky'', ''https://beacon.schneidercorp.com/Application.aspx?App=SanduskyCountyOH&PageType=Search''),
     (''39159'', ''Union'', ''https://beacon.schneidercorp.com/Application.aspx?App=UnionCountyOH&PageType=Search''),
     (''39173'', ''Wood'', ''https://beacon.schneidercorp.com/Application.aspx?App=WoodCountyOH&PageType=Search''),
     (''39175'', ''Wyandot'', ''https://beacon.schneidercorp.com/Application.aspx?App=WyandotCountyOH&PageType=Search'')]"

definition oh_recorder :: "(string \<times> string) table" where
  "oh_recorder =
    [(''39013'', ''Belmont'', ''https://belmontcountyrecorder.org/''),
     (''39025'', ''Clermont'', ''https://recorder.clermontcountyohio.gov/''),
     (''39049'', ''Franklin'', ''https://www.franklincountyohio.gov/Agency-Directory/Recorder/''),
     (''39055'', ''Geauga'', ''https://recorder.co.geauga.oh.us/''),
     (''39057'', ''Greene'', ''https://www.greenecountyohio.gov/473/Recorder''),
     (''39061'', ''Hamilton'', ''https://www.hamiltoncountyohio.gov/recorder''),
     (''39065'', ''Hardin'', ''https://hardincountyohio.gov/recorder/''),
     (''39067'', ''Harrison'', ''https://www.harrisoncountyohio.gov/recorder''),
     (''39085'', ''Lake'', ''https://www.lakecountyohio.gov/recorder/''),
     (''39091'', ''Logan'', ''https://www.logancountyohio.gov/recorder.html''),
     (''39101'', ''Marion'', ''https://www.marioncountyohio.gov/recorder''),
     (''39103'', ''Medina'', ''https://recorder.medinacounty.gov/''),
     (''39107'', ''Mercer'', ''https://www.mercercountyoh.gov/elected-officials/recorder/''),
     (''39117'', ''Morrow'', ''https://www.morrowcountyohio.gov/recorder''),
     (''39141'', ''Ross'', ''https://www.rosscountyohio.gov/recorder/''),
     (''39151'', ''Stark'', ''https://www.starkcountyohio.gov/government/offices/recorder/index.php''),
     (''39159'', ''Union'', ''https://www.unioncountyohio.gov/recorder''),
     (''39161'', ''Van Wert'', ''https://www.vanwertcountyohio.gov/recorder''),
     (''39165'', ''Warren'', ''https://recorder.warrencountyohio.gov/''),
     (''39173'', ''Wood'', ''https://recorder.co.wood.oh.us/'')]"

text \<open>Each county of the auditor table gets its link as \<open>appraiser_url\<close>, each of the recorder table as
  \<open>clerk_url\<close>; a county without an entry gets one.\<close>

definition oh_with_auditors :: "entry table" where
  "oh_with_auditors = fold_links ''OH'' ''appraiser_url'' oh_auditor oh_counties"

definition oh_folded :: "entry table" where
  "oh_folded = fold_links ''OH'' ''clerk_url'' oh_recorder oh_with_auditors"

definition oh_module :: state_module where
  "oh_module =
     \<lparr>sm_state = ''OH'', sm_parcel = Some oh_parcel, sm_counties = oh_folded,
      sm_deed_link = [], sm_plat_link = [], sm_appraiser_link = []\<rparr>"

section \<open>Oklahoma\<close>

definition ok_counties :: "entry table" where
  "ok_counties =
    [(''40109'',
       [(''county'', RStr ''Oklahoma''), (''state'', RStr ''OK''),
        (''gis_rest'', RStr ''https://services8.arcgis.com/euhkr1dAJeQBIjV0/arcgis/rest/services/TaxParcelsPublics_view/FeatureServer/0''),
        (''id_fields'', RList [''accountno'', ''PARCELNB_1'', ''pin'', ''propertyid'']),
        (''clerk_platform'', RStr ''unknown'')]),
     (''40143'',
       [(''county'', RStr ''Tulsa''), (''state'', RStr ''OK''),
        (''gis_rest'', RStr ''https://map11.incog.org/arcgis11wa/rest/services/Parcels_TulsaCo/FeatureServer/0''),
        (''id_fields'', RList [''ParcelNo'', ''AccountNo'', ''ACCT_NUM'']),
        (''clerk_platform'', RStr ''unknown'')]),
     (''40017'',
       [(''county'', RStr ''Canadian''), (''state'', RStr ''OK''),
        (''gis_rest'', RStr ''https://services2.arcgis.com/0NjdXxmJp53hZWPd/arcgis/rest/services/ParcelDataService_2_view/FeatureServer/3''),
        (''id_fields'', RList [''parcel_id'', ''account'']), (''clerk_platform'', RStr ''unknown'')]),
     (''40031'',
       [(''county'', RStr ''Comanche''), (''state'', RStr ''OK''),
        (''gis_rest'', RStr ''https://services6.arcgis.com/eNPJk90aMrXNOKF8/arcgis/rest/services/Comanche_Parcels/FeatureServer/0''),
        (''id_fields'', RList [''ParcelID'', ''ACCOUNT'']), (''clerk_platform'', RStr ''unknown'')])]"

definition ok_module :: state_module where
  "ok_module =
     \<lparr>sm_state = ''OK'', sm_parcel = None, sm_counties = ok_counties,
      sm_deed_link = [], sm_plat_link = [], sm_appraiser_link = []\<rparr>"

section \<open>Oregon\<close>

definition or_METRO_RLIS :: string where
  "or_METRO_RLIS = ''https://services2.arcgis.com/McQ0OlIABe29rJJy/arcgis/rest/services/Taxlots_(Public)/FeatureServer/3''"

definition or_counties :: "entry table" where
  "or_counties =
    [(''41051'',
       [(''county'', RStr ''Multnomah''), (''state'', RStr ''OR''),
        (''gis_rest'', RStr ''https://services5.arcgis.com/x7DNZL1YqNQVNykA/arcgis/rest/services/Multnomah_County_Taxlot_Parcels/FeatureServer/0''),
        (''id_fields'', RList [''MAPTAXLOT'', ''PROPID'', ''ALTACCTNUM'']),
        (''clerk_platform'', RStr ''unknown'')]),
     (''41067'',
       [(''county'', RStr ''Washington''), (''state'', RStr ''OR''), (''gis_rest'', RStr or_METRO_RLIS),
        (''id_fields'', RList [''TLID'', ''PRIMACCNUM'', ''ORTAXLOT'']),
        (''clerk_platform'', RStr ''unknown'')]),
     (''41005'',
       [(''county'', RStr ''Clackamas''), (''state'', RStr ''OR''), (''gis_rest'', RStr or_METRO_RLIS),
        (''id_fields'', RList [''TLID'', ''PRIMACCNUM'', ''ORTAXLOT'']),
        (''clerk_platform'', RStr ''unknown'')]),
     (''41039'',
       [(''county'', RStr ''Lane''), (''state'', RStr ''OR''),
        (''gis_rest'', RStr ''https://lcmaps.lanecounty.org/arcgis/rest/services/LaneCountyMaps/AddressParcel/MapServer/2''),
        (''id_fields'', RList [''MAPTAXLOT'', ''TAXLOT'', ''ACCTNO'']),
        (''related'', RRel [\<lparr>rl_url = Some ''https://lcmaps.lanecounty.org/arcgis/rest/services/LaneCountyMaps/AddressParcel/MapServer/0'', rl_key = Some ''MAPTAXLOT'', rl_where = None, rl_quote = None\<rparr>]),
        (''clerk_platform'', RStr ''unknown'')]),
     (''41047'',
       [(''county'', RStr ''Marion''), (''state'', RStr ''OR''),
        (''gis_rest'', RStr ''https://services3.arcgis.com/SXXjryU22GsO8OEC/arcgis/rest/services/Parcels/FeatureServer/0''),
        (''id_fields'', RList [''TAXLOT'', ''ALT_TAXLOT'']), (''clerk_platform'', RStr ''unknown'')]),
     (''41029'',
       [(''county'', RStr ''Jackson''), (''state'', RStr ''OR''),
        (''gis_rest'', RStr ''https://services1.arcgis.com/aD4sstpQmlnZu2vq/arcgis/rest/services/Taxlots/FeatureServer/0''),
        (''id_fields'', RList [''MAPNUMBER'', ''TAXLOT'', ''ACCOUNT'']),
        (''clerk_platform'', RStr ''unknown'')]),
     (''41035'',
       [(''county'', RStr ''Klamath''), (''state'', RStr ''OR''),
        (''gis_rest'', RStr ''https://services.arcgis.com/H6Mh1bySxR4oHx6x/arcgis/rest/services/KC_Taxlots/FeatureServer/1''),
        (''id_fields'', RList [''MAP_TAXLOT'', ''MapNumber'', ''ORMapNum'']),
        (''clerk_platform'', RStr ''unknown'')])]"

definition or_module :: state_module where
  "or_module =
     \<lparr>sm_state = ''OR'', sm_parcel = None, sm_counties = or_counties,
      sm_deed_link = [], sm_plat_link = [], sm_appraiser_link = []\<rparr>"

section \<open>Pennsylvania\<close>

definition pa_parcel :: state_service where
  "pa_parcel =
    \<lparr>ss_url = [''https://gis.dep.pa.gov/depgisprd/rest/services/Parcels/PA_Parcels/MapServer/0''],
     ss_kind = ''mapserver'', ss_label = ''Pennsylvania Parcels (PA DEP/PASDA)'',
     ss_id_fields = [], ss_related = [], ss_id_only = False,
     ss_counties_covered = None\<rparr>"

definition pa_module :: state_module where
  "pa_module =
     \<lparr>sm_state = ''PA'', sm_parcel = Some pa_parcel, sm_counties = [],
      sm_deed_link = [], sm_plat_link = [], sm_appraiser_link = []\<rparr>"

section \<open>Rhode Island\<close>

definition ri_parcel :: state_service where
  "ri_parcel =
    \<lparr>ss_url = [''https://risegis.ri.gov/hosting/rest/services/RIDEM/Tax_Parcels/MapServer/0''],
     ss_kind = ''mapserver'', ss_label = ''Rhode Island Statewide Tax Parcels (RIGIS)'',
     ss_id_fields = [''PlatLot''], ss_related = [], ss_id_only = False,
     ss_counties_covered = None\<rparr>"

definition ri_module :: state_module where
  "ri_module =
     \<lparr>sm_state = ''RI'', sm_parcel = Some ri_parcel, sm_counties = [],
      sm_deed_link = [], sm_plat_link = [], sm_appraiser_link = []\<rparr>"

section \<open>South Carolina\<close>

definition sc_counties :: "entry table" where
  "sc_counties =
    [(''45091'',
       [(''county'', RStr ''York''), (''state'', RStr ''SC''),
        (''gis_rest'', RStr ''https://services1.arcgis.com/2AGLxyiJoNiVHKwq/arcgis/rest/services/Parcels/FeatureServer/0''),
        (''id_fields'', RList [''ParcelID'', ''ParcelTrackID'']), (''clerk_platform'', RStr ''unknown'')]),
     (''45045'',
       [(''county'', RStr ''Greenville''), (''state'', RStr ''SC''),
        (''gis_rest'', RStr ''https://www.gcgis.org/arcgis3/rest/services/GCGIA/GCGIA_FeatureAccess/FeatureServer/10''),
        (''id_fields'', RList [''PIN'']),
        (''situs_exclude'', RList [''STREET'', ''CITY'', ''STATE'', ''ZIP5'']),
        (''clerk_platform'', RStr ''unknown'')])]"

definition sc_module :: state_module where
  "sc_module =
     \<lparr>sm_state = ''SC'', sm_parcel = None, sm_counties = sc_counties,
      sm_deed_link = [], sm_plat_link = [], sm_appraiser_link = []\<rparr>"

section \<open>Tennessee\<close>

definition tn_parcel :: state_service where
  "tn_parcel =
    \<lparr>ss_url = [''https://services1.arcgis.com/YuVBSS7Y1of2Qud1/arcgis/rest/services/Tennessee_Property_Boundaries_Public_Use/FeatureServer/0''],
     ss_kind = ''featureserver'', ss_label = (''Tennessee Statewide Parcels (TN Comptroller '' @ emdash @ '' 86 of 95 counties)''),
     ss_id_fields = [''PARCELID'', ''GISLINK'', ''PARCEL''], ss_related = [], ss_id_only = False,
     ss_counties_covered = Some 86\<rparr>"

definition tn_module :: state_module where
  "tn_module =
     \<lparr>sm_state = ''TN'', sm_parcel = Some tn_parcel, sm_counties = [],
      sm_deed_link = [], sm_plat_link = [], sm_appraiser_link = []\<rparr>"

section \<open>Texas\<close>

definition tx_parcel :: state_service where
  "tx_parcel =
    \<lparr>ss_url = [''https://services1.arcgis.com/1mtXwieMId59thmg/arcgis/rest/services/2019_Texas_Parcels_StratMap/FeatureServer/0''],
     ss_kind = ''featureserver'', ss_label = ''Texas Parcels StratMap 2025 (TxGIO)'',
     ss_id_fields = [''Prop_ID''], ss_related = [], ss_id_only = False,
     ss_counties_covered = None\<rparr>"

definition tx_PS :: string where
  "tx_PS = ''https://{}.tx.publicsearch.us/''"

definition tx_ps :: "string \<Rightarrow> string" where
  "tx_ps slug = format_one tx_PS slug"

definition tx_counties_1 :: "entry table" where
  "tx_counties_1 =
    [(''48201'',
       [(''county'', RStr ''Harris''), (''state'', RStr ''TX''),
        (''appraiser_url'', RStr ''https://public.hcad.org/''),
        (''clerk_url'', RStr ''https://www.cclerk.hctx.net/applications/websearch/RP.aspx''),
        (''clerk_platform'', RStr ''inhouse''),
        (''clerk_note'', RStr (''Harris County Clerk '' @ [CHR 0x27] @ ''Web Inquiry'' @ [CHR 0x27] @ '' real-property search.''))]),
     (''48113'',
       [(''county'', RStr ''Dallas''), (''state'', RStr ''TX''),
        (''appraiser_url'', RStr ''https://www.dallascad.org/''), (''clerk_url'', RStr (tx_ps ''dallas'')),
        (''clerk_platform'', RStr ''publicsearch'')]),
     (''48439'',
       [(''county'', RStr ''Tarrant''), (''state'', RStr ''TX''),
        (''appraiser_url'', RStr ''https://www.tad.org/''), (''clerk_url'', RStr (tx_ps ''tarrant'')),
        (''clerk_platform'', RStr ''publicsearch'')]),
     (''48029'',
       [(''county'', RStr ''Bexar''), (''state'', RStr ''TX''),
        (''appraiser_url'', RStr ''https://bcad.org/''), (''clerk_url'', RStr (tx_ps ''bexar'')),
        (''clerk_platform'', RStr ''publicsearch'')]),
     (''48453'',
       [(''county'', RStr ''Travis''), (''state'', RStr ''TX''),
        (''appraiser_url'', RStr ''https://traviscad.org/''),
        (''clerk_url'', RStr ''https://countyclerk.traviscountytx.gov/''),
        (''clerk_platform'', RStr ''inhouse'')]),
     (''48085'',
       [(''county'', RStr ''Collin''), (''state'', RStr ''TX''),
        (''appraiser_url'', RStr ''https://collincad.org/''), (''clerk_url'', RStr (tx_ps ''collin'')),
        (''clerk_platform'', RStr ''publicsearch'')]),
     (''48121'',
       [(''county'', RStr ''Denton''), (''state'', RStr ''TX''),
        (''appraiser_url'', RStr ''https://www.dentoncad.com/''), (''clerk_url'', RStr (tx_ps ''denton'')),
        (''clerk_platform'', RStr ''publicsearch'')]),
     (''48215'',
       [(''county'', RStr ''Hidalgo''), (''state'', RStr ''TX''),
        (''appraiser_url'', RStr ''https://www.hidalgocad.org/''),
        (''clerk_url'', RStr (tx_ps ''hidalgo'')), (''clerk_platform'', RStr ''publicsearch'')]),
     (''48157'',
       [(''county'', RStr ''Fort Bend''), (''state'', RStr ''TX''),
        (''appraiser_url'', RStr ''https://www.fbcad.org/''),
        (''clerk_url'', RStr ''https://www.fortbendcountytx.gov/government/departments/county-clerk''),
        (''clerk_platform'', RStr ''inhouse'')]),
     (''48141'',
       [(''county'', RStr ''El Paso''), (''state'', RStr ''TX''),
        (''appraiser_url'', RStr ''https://epcad.org/''),
        (''clerk_url'', RStr ''https://apps.epcountytx.gov/publicrecords/OfficialPublicRecords''),
        (''clerk_platform'', RStr ''inhouse'')]),
     (''48491'',
       [(''county'', RStr ''Williamson''), (''state'', RStr ''TX''),
        (''appraiser_url'', RStr ''https://www.wcad.org/''), (''clerk_url'', RStr (tx_ps ''williamson'')),
        (''clerk_platform'', RStr ''publicsearch'')]),
     (''48339'',
       [(''county'', RStr ''Montgomery''), (''state'', RStr ''TX''),
        (''appraiser_url'', RStr ''https://mcad-tx.org/''), (''clerk_url'', RStr (tx_ps ''montgomery'')),
        (''clerk_platform'', RStr ''publicsearch'')]),
     (''48061'',
       [(''county'', RStr ''Cameron''), (''state'', RStr ''TX''),
        (''appraiser_url'', RStr ''https://www.cameroncad.org/''),
        (''clerk_url'', RStr (tx_ps ''cameron'')), (''clerk_platform'', RStr ''publicsearch'')]),
     (''48039'',
       [(''county'', RStr ''Brazoria''), (''state'', RStr ''TX''),
        (''appraiser_url'', RStr ''https://brazoriacad.org/''),
        (''clerk_url'', RStr ''https://www.brazoriacountyclerktx.gov/search-records''),
        (''clerk_platform'', RStr ''inhouse'')]),
     (''48027'',
       [(''county'', RStr ''Bell''), (''state'', RStr ''TX''),
        (''appraiser_url'', RStr ''https://bellcad.org/''), (''clerk_url'', RStr (tx_ps ''bell'')),
        (''clerk_platform'', RStr ''publicsearch'')]),
     (''48167'',
       [(''county'', RStr ''Galveston''), (''state'', RStr ''TX''),
        (''appraiser_url'', RStr ''https://galvestoncad.org/''),
        (''clerk_url'', RStr ''https://www.galvestoncountytx.gov/our-county/county-clerk/records-search''),
        (''clerk_platform'', RStr ''inhouse'')]),
     (''48355'',
       [(''county'', RStr ''Nueces''), (''state'', RStr ''TX''),
        (''appraiser_url'', RStr ''https://nuecescad.net/''), (''clerk_url'', RStr (tx_ps ''nueces'')),
        (''clerk_platform'', RStr ''publicsearch'')]),
     (''48303'',
       [(''county'', RStr ''Lubbock''), (''state'', RStr ''TX''),
        (''appraiser_url'', RStr ''https://lubbockcad.org/'')]),
     (''48479'',
       [(''county'', RStr ''Webb''), (''state'', RStr ''TX''),
        (''appraiser_url'', RStr ''https://www.webbcad.org/'')]),
     (''48423'',
       [(''county'', RStr ''Smith''), (''state'', RStr ''TX''),
        (''appraiser_url'', RStr ''https://smithcad.org/''), (''clerk_url'', RStr (tx_ps ''smith'')),
        (''clerk_platform'', RStr ''publicsearch'')]),
     (''48309'',
       [(''county'', RStr ''McLennan''), (''state'', RStr ''TX''),
        (''appraiser_url'', RStr ''https://www.mclennancad.org/''),
        (''clerk_url'', RStr ''https://www.mclennan.gov/178/Official-Public-Records''),
        (''clerk_platform'', RStr ''inhouse''),
        (''clerk_note'', RStr ''Online index covers 1996-present; 1849-1995 are book volumes.'')]),
     (''48041'',
       [(''county'', RStr ''Brazos''), (''state'', RStr ''TX''),
        (''appraiser_url'', RStr ''https://brazoscad.org/''), (''clerk_url'', RStr (tx_ps ''brazos'')),
        (''clerk_platform'', RStr ''publicsearch'')]),
     (''48245'',
       [(''county'', RStr ''Jefferson''), (''state'', RStr ''TX''),
        (''appraiser_url'', RStr ''https://jcad.org/''), (''clerk_url'', RStr (tx_ps ''jefferson'')),
        (''clerk_platform'', RStr ''publicsearch'')]),
     (''48091'',
       [(''county'', RStr ''Comal''), (''state'', RStr ''TX''),
        (''appraiser_url'', RStr ''https://www.comalcad.org/''),
        (''clerk_url'', RStr ''https://comal.landrecordsonline.com/''),
        (''clerk_platform'', RStr ''inhouse''),
        (''clerk_note'', RStr ''Comal County Public Access (landrecordsonline).'')]),
     (''48187'',
       [(''county'', RStr ''Guadalupe''), (''state'', RStr ''TX''),
        (''appraiser_url'', RStr ''https://guadalupead.org/''),
        (''clerk_url'', RStr ''https://www.guadalupetx.gov/page/coclerk.opr''),
        (''clerk_platform'', RStr ''inhouse''),
        (''clerk_note'', RStr ''County Clerk Official Public Records page (records back to 1832).'')])]"

definition tx_counties_2 :: "entry table" where
  "tx_counties_2 =
    [(''48209'',
       [(''county'', RStr ''Hays''), (''state'', RStr ''TX''),
        (''appraiser_url'', RStr ''https://www.hayscad.org/''),
        (''clerk_url'', RStr ''https://www.hayscountytx.gov/202/Records-Division''),
        (''clerk_platform'', RStr ''inhouse''),
        (''clerk_note'', RStr ''Records Division; self-service index from 1848-present.'')]),
     (''48139'',
       [(''county'', RStr ''Ellis''), (''state'', RStr ''TX''),
        (''appraiser_url'', RStr ''https://www.elliscad.com/''),
        (''clerk_url'', RStr ''https://www.elliscountytx.gov/956/New-Online-Records-Search-Information''),
        (''clerk_platform'', RStr ''inhouse''),
        (''clerk_note'', RStr ''County landing page for the online records search.'')]),
     (''48251'',
       [(''county'', RStr ''Johnson''), (''state'', RStr ''TX''),
        (''appraiser_url'', RStr ''https://johnsoncad.com/''), (''clerk_url'', RStr (tx_ps ''johnson'')),
        (''clerk_platform'', RStr ''publicsearch'')]),
     (''48367'',
       [(''county'', RStr ''Parker''), (''state'', RStr ''TX''),
        (''appraiser_url'', RStr ''https://www.parkercad.org/''),
        (''clerk_url'', RStr ''https://www.parkercountytx.gov/114/Public-Records''),
        (''clerk_platform'', RStr ''inhouse'')]),
     (''48181'',
       [(''county'', RStr ''Grayson''), (''state'', RStr ''TX''),
        (''appraiser_url'', RStr ''https://www.graysoncad.org/''),
        (''clerk_url'', RStr (tx_ps ''grayson'')), (''clerk_platform'', RStr ''publicsearch'')]),
     (''48257'',
       [(''county'', RStr ''Kaufman''), (''state'', RStr ''TX''),
        (''appraiser_url'', RStr ''https://www.kaufmancad.org/'')]),
     (''48135'',
       [(''county'', RStr ''Ector''), (''state'', RStr ''TX''),
        (''appraiser_url'', RStr ''https://www.ectorcad.org/''),
        (''clerk_url'', RStr ''https://www.ectorcountytx.gov/172/County-Clerk''),
        (''clerk_platform'', RStr ''inhouse'')]),
     (''48329'',
       [(''county'', RStr ''Midland''), (''state'', RStr ''TX''),
        (''appraiser_url'', RStr ''https://midcad.org/''), (''clerk_url'', RStr (tx_ps ''midland'')),
        (''clerk_platform'', RStr ''publicsearch'')]),
     (''48441'',
       [(''county'', RStr ''Taylor''), (''state'', RStr ''TX''),
        (''appraiser_url'', RStr ''https://www.taylorcad.org/'')]),
     (''48183'',
       [(''county'', RStr ''Gregg''), (''state'', RStr ''TX''),
        (''appraiser_url'', RStr ''https://gcad.org/'')]),
     (''48485'',
       [(''county'', RStr ''Wichita''), (''state'', RStr ''TX''),
        (''appraiser_url'', RStr ''https://wadtx.com/'')]),
     (''48381'',
       [(''county'', RStr ''Randall''), (''state'', RStr ''TX''),
        (''appraiser_url'', RStr ''https://www.prad.org/'')]),
     (''48375'',
       [(''county'', RStr ''Potter''), (''state'', RStr ''TX''),
        (''appraiser_url'', RStr ''https://www.prad.org/''), (''clerk_url'', RStr (tx_ps ''potter'')),
        (''clerk_platform'', RStr ''publicsearch'')]),
     (''48213'',
       [(''county'', RStr ''Henderson''), (''state'', RStr ''TX''),
        (''appraiser_url'', RStr ''https://www.hendersoncad.org/'')]),
     (''48331'',
       [(''county'', RStr ''Milam''), (''state'', RStr ''TX''),
        (''appraiser_url'', RStr ''https://milamad.org/'')])]"

definition tx_counties :: "entry table" where
  "tx_counties = tx_counties_1 @ tx_counties_2"

definition tx_module :: state_module where
  "tx_module =
     \<lparr>sm_state = ''TX'', sm_parcel = Some tx_parcel, sm_counties = tx_counties,
      sm_deed_link = [], sm_plat_link = [], sm_appraiser_link = []\<rparr>"

section \<open>Utah\<close>

definition ut_parcel :: state_service where
  "ut_parcel =
    \<lparr>ss_url = [''https://services1.arcgis.com/99lidPhWCzftIe9K/arcgis/rest/services/UtahStatewideParcels/FeatureServer/0''],
     ss_kind = ''featureserver'', ss_label = ''Utah Statewide Parcels (UGRC / LIR)'',
     ss_id_fields = [''PARCEL_ID''], ss_related = [], ss_id_only = False,
     ss_counties_covered = None\<rparr>"

definition ut_module :: state_module where
  "ut_module =
     \<lparr>sm_state = ''UT'', sm_parcel = Some ut_parcel, sm_counties = [],
      sm_deed_link = [], sm_plat_link = [], sm_appraiser_link = []\<rparr>"

section \<open>Virginia\<close>

definition va_parcel :: state_service where
  "va_parcel =
    \<lparr>ss_url = [''https://vginmaps.vdem.virginia.gov/arcgis/rest/services/VA_Base_Layers/VA_Parcels/MapServer/0''],
     ss_kind = ''mapserver'', ss_label = ''Virginia VGIN Statewide Parcels'',
     ss_id_fields = [], ss_related = [], ss_id_only = False,
     ss_counties_covered = None\<rparr>"

definition va_module :: state_module where
  "va_module =
     \<lparr>sm_state = ''VA'', sm_parcel = Some va_parcel, sm_counties = [],
      sm_deed_link = [], sm_plat_link = [], sm_appraiser_link = []\<rparr>"

section \<open>Vermont\<close>

definition vt_parcel :: state_service where
  "vt_parcel =
    \<lparr>ss_url = [''https://services1.arcgis.com/BkFxaEFNwHqX3tAw/arcgis/rest/services/FS_VCGI_VTPARCELS_WM_NOCACHE_v2/FeatureServer/1''],
     ss_kind = ''featureserver'', ss_label = ''Vermont VCGI Statewide Parcels'',
     ss_id_fields = [], ss_related = [], ss_id_only = False,
     ss_counties_covered = None\<rparr>"

definition vt_module :: state_module where
  "vt_module =
     \<lparr>sm_state = ''VT'', sm_parcel = Some vt_parcel, sm_counties = [],
      sm_deed_link = [], sm_plat_link = [], sm_appraiser_link = []\<rparr>"

section \<open>Washington\<close>

definition wa_parcel :: state_service where
  "wa_parcel =
    \<lparr>ss_url = [''https://services.arcgis.com/jsIt88o09Q0r1j8h/arcgis/rest/services/Current_Parcels/FeatureServer/0''],
     ss_kind = ''featureserver'', ss_label = ''Washington State Parcels'',
     ss_id_fields = [], ss_related = [], ss_id_only = False,
     ss_counties_covered = None\<rparr>"

definition wa_module :: state_module where
  "wa_module =
     \<lparr>sm_state = ''WA'', sm_parcel = Some wa_parcel, sm_counties = [],
      sm_deed_link = [], sm_plat_link = [], sm_appraiser_link = []\<rparr>"

section \<open>Wisconsin\<close>

definition wi_parcel :: state_service where
  "wi_parcel =
    \<lparr>ss_url = [''https://services3.arcgis.com/n6uYoouQZW75n5WI/arcgis/rest/services/Wisconsin_Statewide_Parcels_DB/FeatureServer/0''],
     ss_kind = ''featureserver'', ss_label = ''Wisconsin Statewide Parcels (WI DOA / State Cartographer)'',
     ss_id_fields = [''PARCELID'', ''TAXPARCELID'', ''STATEID''], ss_related = [], ss_id_only = False,
     ss_counties_covered = None\<rparr>"

definition wi_module :: state_module where
  "wi_module =
     \<lparr>sm_state = ''WI'', sm_parcel = Some wi_parcel, sm_counties = [],
      sm_deed_link = [], sm_plat_link = [], sm_appraiser_link = []\<rparr>"

section \<open>West Virginia\<close>

definition wv_parcel :: state_service where
  "wv_parcel =
    \<lparr>ss_url = [''https://services.wvgis.wvu.edu/arcgis/rest/services/Planning_Cadastre/WV_Parcels/MapServer/0''],
     ss_kind = ''mapserver'', ss_label = ''West Virginia Statewide Parcels (WVU GISTC)'',
     ss_id_fields = [''CleanParcelID''], ss_related = [], ss_id_only = False,
     ss_counties_covered = None\<rparr>"

definition wv_module :: state_module where
  "wv_module =
     \<lparr>sm_state = ''WV'', sm_parcel = Some wv_parcel, sm_counties = [],
      sm_deed_link = [], sm_plat_link = [], sm_appraiser_link = []\<rparr>"

section \<open>Wyoming\<close>

definition wy_parcel :: state_service where
  "wy_parcel =
    \<lparr>ss_url = [''https://services3.arcgis.com/r0iJ85SKZ4zAzz3P/arcgis/rest/services/Wyoming_Parcels_for_2026/FeatureServer/0''],
     ss_kind = ''featureserver'', ss_label = ''Wyoming Statewide Parcels (Property Tax Division)'',
     ss_id_fields = [''parcelnb'', ''accountno''], ss_related = [], ss_id_only = False,
     ss_counties_covered = None\<rparr>"

definition wy_module :: state_module where
  "wy_module =
     \<lparr>sm_state = ''WY'', sm_parcel = Some wy_parcel, sm_counties = [],
      sm_deed_link = [], sm_plat_link = [], sm_appraiser_link = []\<rparr>"

end
