(* ===== verification/GeorgiaData.thy ===== *)
theory GeorgiaData
  imports StateData Geography
begin

text \<open>
  Georgia, \<open>data/states/ga.py\<close>: the counties wired by hand, the appraiser table and the loop that folds
  it into the entries, then \<open>_fill_all_counties\<close>, which gives the counties of the bundled county list
  (its rows for Georgia are the argument) a link-only entry and an appraiser link and then updates the
  table with the counties of the automated sweep.  The statements run in this order when the module is
  imported.
\<close>

section \<open>Counties wired by hand\<close>

definition GSCCCA :: string where
  "GSCCCA = ''https://search.gsccca.org/RealEstate/''"

definition GSCCCA_PLAT :: string where
  "GSCCCA_PLAT = ''https://search.gsccca.org/Plat/''"

definition ga_counties_1 :: "entry table" where
  "ga_counties_1 =
    [(''13135'',
       [(''county'', RStr ''Gwinnett''), (''state'', RStr ''GA''),
        (''gis_rest'', RStr ''https://services3.arcgis.com/RfpmnkSAQleRbndX/arcgis/rest/services/Property_and_Tax/FeatureServer''),
        (''clerk_url'', RStr GSCCCA), (''clerk_platform'', RStr ''unknown''),
        (''clerk_note'', RStr ''Georgia statewide GSCCCA real-estate index (all counties).'')]),
     (''13121'',
       [(''county'', RStr ''Fulton''), (''state'', RStr ''GA''),
        (''gis_rest'', RStr ''https://gismaps.fultoncountyga.gov/arcgispub2/rest/services/PropertyMapViewer/PropertyMapViewer/MapServer/11''),
        (''id_fields'', RList [''ParcelID'']), (''clerk_url'', RStr GSCCCA),
        (''clerk_platform'', RStr ''unknown''),
        (''clerk_note'', RStr ''Georgia statewide GSCCCA real-estate index (all counties).'')]),
     (''13089'',
       [(''county'', RStr ''DeKalb''), (''state'', RStr ''GA''),
        (''gis_rest'', RStr ''https://dcgis.dekalbcountyga.gov/hosted/rest/services/PropertyAppraisal/Parcels_IASWorld/FeatureServer/0''),
        (''id_fields'', RList [''PARCELID'']), (''clerk_url'', RStr GSCCCA),
        (''clerk_platform'', RStr ''unknown''),
        (''clerk_note'', RStr ''Georgia statewide GSCCCA real-estate index (all counties).'')]),
     (''13067'',
       [(''county'', RStr ''Cobb''), (''state'', RStr ''GA''),
        (''gis_rest'', RStr ''https://gis.cobbcounty.gov/gisserver/rest/services/cobbpublic/cobbparcelsmapwm_public/MapServer/3''),
        (''id_fields'', RList [''PIN'', ''PARID'']), (''clerk_url'', RStr GSCCCA),
        (''clerk_platform'', RStr ''unknown''),
        (''clerk_note'', RStr ''Georgia statewide GSCCCA real-estate index (all counties).'')]),
     (''13063'',
       [(''county'', RStr ''Clayton''), (''state'', RStr ''GA''),
        (''gis_rest'', RStr ''https://gis.claytoncountyga.gov/server/rest/services/TaxAssessor/Parcels/MapServer/0''),
        (''id_fields'', RList [''PARCELID'']), (''clerk_url'', RStr GSCCCA),
        (''clerk_platform'', RStr ''unknown''),
        (''clerk_note'', RStr ''Georgia statewide GSCCCA real-estate index (all counties).'')]),
     (''13051'',
       [(''county'', RStr ''Chatham''), (''state'', RStr ''GA''),
        (''gis_rest'', RStr ''https://pub.sagis.org/arcgis/rest/services/Pictometry/ParcelDigest/MapServer/0''),
        (''id_fields'', RList [''PIN'']), (''clerk_url'', RStr GSCCCA),
        (''clerk_platform'', RStr ''unknown''),
        (''clerk_note'', RStr ''Georgia statewide GSCCCA real-estate index (all counties).'')]),
     (''13057'',
       [(''county'', RStr ''Cherokee''), (''state'', RStr ''GA''),
        (''gis_rest'', RStr ''https://gis.cherokeecountyga.gov/arcgis/rest/services/MainLayers/MapServer/1''),
        (''id_fields'', RList [''PIN'', ''TINNoSpace'']), (''clerk_url'', RStr GSCCCA),
        (''clerk_platform'', RStr ''unknown''),
        (''clerk_note'', RStr ''Georgia statewide GSCCCA real-estate index (all counties).'')]),
     (''13151'',
       [(''county'', RStr ''Henry''), (''state'', RStr ''GA''),
        (''gis_rest'', RStr ''https://arcgis.co.henry.ga.us/server/rest/services/Parcels/MapServer/12''),
        (''id_fields'', RList [''PARCEL_NO'']), (''clerk_url'', RStr GSCCCA),
        (''clerk_platform'', RStr ''unknown''),
        (''clerk_note'', RStr ''Georgia statewide GSCCCA real-estate index (all counties).'')]),
     (''13117'',
       [(''county'', RStr ''Forsyth''), (''state'', RStr ''GA''),
        (''gis_rest'', RStr ''https://geo.forsythco.com/gis/rest/services/Public/Tax_Parcel/FeatureServer/0''),
        (''id_fields'', RList [''PARCELID'']), (''clerk_url'', RStr GSCCCA),
        (''clerk_platform'', RStr ''unknown''),
        (''clerk_note'', RStr ''Georgia statewide GSCCCA real-estate index (all counties).'')]),
     (''13139'',
       [(''county'', RStr ''Hall''), (''state'', RStr ''GA''),
        (''gis_rest'', RStr ''https://hallgis.hallcounty.org/arcgis/rest/services/GHCGIS_WebData/MapServer/1''),
        (''id_fields'', RList [''PIN'']), (''clerk_url'', RStr GSCCCA),
        (''clerk_platform'', RStr ''unknown''),
        (''clerk_note'', RStr ''Georgia statewide GSCCCA real-estate index (all counties).'')]),
     (''13021'',
       [(''county'', RStr ''Bibb''), (''state'', RStr ''GA''),
        (''gis_rest'', RStr ''https://services2.arcgis.com/zPFLSOZ5HzUzzTQb/arcgis/rest/services/TaxParcels/FeatureServer/0''),
        (''id_fields'', RList [''PARCELID'', ''LOWPARCELID'']), (''clerk_url'', RStr GSCCCA),
        (''clerk_platform'', RStr ''unknown''),
        (''clerk_note'', RStr ''Georgia statewide GSCCCA real-estate index (all counties).'')]),
     (''13245'',
       [(''county'', RStr ''Richmond''), (''state'', RStr ''GA''),
        (''gis_rest'', RStr ''https://gismap.augustaga.gov/arcgis/rest/services/AGOL/AGSGeneralFeatures/MapServer/32''),
        (''id_fields'', RList [''parcel_no'', ''pin'']), (''clerk_url'', RStr GSCCCA),
        (''clerk_platform'', RStr ''unknown''),
        (''clerk_note'', RStr ''Georgia statewide GSCCCA real-estate index (all counties).'')]),
     (''13215'',
       [(''county'', RStr ''Muscogee''), (''state'', RStr ''GA''),
        (''gis_rest'', RStr ''https://ccggisprod.columbusga.org/server/rest/services/TaxAssessors/CurrentYearCAMA_Internal/MapServer/1''),
        (''id_fields'', RList [''TaxPIN'']), (''clerk_url'', RStr GSCCCA),
        (''clerk_platform'', RStr ''unknown''),
        (''clerk_note'', RStr ''Georgia statewide GSCCCA real-estate index (all counties).'')]),
     (''13097'',
       [(''county'', RStr ''Douglas''), (''state'', RStr ''GA''),
        (''gis_rest'', RStr ''https://maps.douglascountyga.gov/arcgis/rest/services/LandRecords/LandRecords/MapServer/0''),
        (''id_fields'', RList [''PIN'']), (''clerk_url'', RStr GSCCCA),
        (''clerk_platform'', RStr ''unknown''),
        (''clerk_note'', RStr ''Georgia statewide GSCCCA real-estate index (all counties).'')]),
     (''13095'',
       [(''county'', RStr ''Dougherty''), (''state'', RStr ''GA''),
        (''gis_rest'', RStr ''https://services6.arcgis.com/VKHi8CC6pMIyYUIs/arcgis/rest/services/Parcels_Public_View/FeatureServer/0''),
        (''id_fields'', RList [''ParcelNum'']), (''clerk_url'', RStr GSCCCA),
        (''clerk_platform'', RStr ''unknown''),
        (''clerk_note'', RStr ''Georgia statewide GSCCCA real-estate index (all counties).'')]),
     (''13073'',
       [(''county'', RStr ''Columbia''), (''state'', RStr ''GA''),
        (''gis_rest'', RStr ''https://gis.columbiacountyga.gov/host/rest/services/MapsOnline/Parcels_Snapshot/MapServer/1003''),
        (''id_fields'', RList [''ParcelNum'']), (''clerk_url'', RStr GSCCCA),
        (''clerk_platform'', RStr ''unknown''),
        (''clerk_note'', RStr ''Georgia statewide GSCCCA real-estate index (all counties).'')])]"

definition ga_counties_2 :: "entry table" where
  "ga_counties_2 =
    [(''13313'',
       [(''county'', RStr ''Whitfield''), (''state'', RStr ''GA''),
        (''gis_rest'', RStr ''https://gis.whitfieldcountyga.com/server/rest/services/TaxAssessMapping/MapServer/11''),
        (''id_fields'', RList [''PARCEL_FUL'']),
        (''situs_exclude'', RList [''address1'', ''city'', ''state'', ''zip'']),
        (''clerk_url'', RStr GSCCCA), (''clerk_platform'', RStr ''unknown''),
        (''clerk_note'', RStr ''Georgia statewide GSCCCA real-estate index (all counties).'')]),
     (''13127'',
       [(''county'', RStr ''Glynn''), (''state'', RStr ''GA''),
        (''gis_rest'', RStr ''https://services.arcgis.com/5iWzb1srkjPDXmpL/arcgis/rest/services/GlynnCounty_Cama_05212026/FeatureServer/0''),
        (''id_fields'', RList [''PARCEL_ID'', ''PARCELID'']), (''clerk_url'', RStr GSCCCA),
        (''clerk_platform'', RStr ''unknown''),
        (''clerk_note'', RStr ''Georgia statewide GSCCCA real-estate index (all counties).'')]),
     (''13179'',
       [(''county'', RStr ''Liberty''), (''state'', RStr ''GA''),
        (''gis_rest'', RStr ''https://gis.libertycountyga.gov/arcgis/rest/services/ParcelsService/MapServer/15''),
        (''id_fields'', RList [''Parcel_Number'', ''PIN'']), (''clerk_url'', RStr GSCCCA),
        (''clerk_platform'', RStr ''unknown''),
        (''clerk_note'', RStr ''Georgia statewide GSCCCA real-estate index (all counties).'')]),
     (''13113'',
       [(''county'', RStr ''Fayette''), (''state'', RStr ''GA''),
        (''gis_rest'', RStr ''https://services5.arcgis.com/Hg5aLg4LtSINzVWa/arcgis/rest/services/TaxParcels_public/FeatureServer/0''),
        (''id_fields'', RList [''PARCELID'']), (''clerk_url'', RStr GSCCCA),
        (''clerk_platform'', RStr ''unknown''),
        (''clerk_note'', RStr ''Georgia statewide GSCCCA real-estate index (all counties).'')]),
     (''13015'',
       [(''county'', RStr ''Bartow''), (''state'', RStr ''GA''),
        (''gis_rest'', RStr ''https://www.bartowgis.org/arcgis/rest/services/AGOServices/BartowLand/FeatureServer/2''),
        (''id_fields'', RList [''PARCELID'']),
        (''situs_exclude'', RList [''Mailing_Address_1'', ''Mailing_Address_2'', ''Mailing_City'', ''Mailing_State'', ''Mailing_Zip'']),
        (''clerk_url'', RStr GSCCCA), (''clerk_platform'', RStr ''unknown''),
        (''clerk_note'', RStr ''Georgia statewide GSCCCA real-estate index (all counties).'')]),
     (''13115'',
       [(''county'', RStr ''Floyd''), (''state'', RStr ''GA''),
        (''gis_rest'', RStr ''https://services2.arcgis.com/nV67H1IJR8GS6SAA/ArcGIS/rest/services/Current_Parcels/FeatureServer/5''),
        (''id_fields'', RList [''PARCEL'']),
        (''situs_exclude'', RList [''ADDRESS'', ''CITY'', ''STATE'', ''ZIP'']),
        (''clerk_url'', RStr GSCCCA), (''clerk_platform'', RStr ''unknown''),
        (''clerk_note'', RStr ''Georgia statewide GSCCCA real-estate index (all counties).'')]),
     (''13045'',
       [(''county'', RStr ''Carroll''), (''state'', RStr ''GA''),
        (''gis_rest'', RStr ''https://services.arcgis.com/ISpzx3B5ZsVA6e1Z/arcgis/rest/services/Carroll_Parcels_20240923_ExportFeatures/FeatureServer/0''),
        (''id_fields'', RList [''PIN'', ''Parcel_no'']), (''clerk_url'', RStr GSCCCA),
        (''clerk_platform'', RStr ''unknown''),
        (''clerk_note'', RStr ''Georgia statewide GSCCCA real-estate index (all counties).'')]),
     (''13247'',
       [(''county'', RStr ''Rockdale''), (''state'', RStr ''GA''),
        (''gis_rest'', RStr ''https://services.arcgis.com/Tbke9ca9DhtF4VIx/ArcGIS/rest/services/Parcel_Polygons_working/FeatureServer/0''),
        (''id_fields'', RList [''PARCEL_NO'']), (''clerk_url'', RStr GSCCCA),
        (''clerk_platform'', RStr ''unknown''),
        (''clerk_note'', RStr ''Georgia statewide GSCCCA real-estate index (all counties).'')]),
     (''13185'',
       [(''county'', RStr ''Lowndes''), (''state'', RStr ''GA''),
        (''gis_rest'', RStr ''https://www.valorgis.com/arcgis/rest/services/Valor/Parcels/MapServer/0''),
        (''id_fields'', RList [''PARCEL_NO'']),
        (''situs_exclude'', RList [''ADDRESS1'', ''ADDRESS2'', ''ADDRESS3'', ''CITY'', ''STATE'', ''ZIP'']),
        (''clerk_url'', RStr GSCCCA), (''clerk_platform'', RStr ''unknown''),
        (''clerk_note'', RStr ''Georgia statewide GSCCCA real-estate index (all counties).'')]),
     (''13275'',
       [(''county'', RStr ''Thomas''), (''state'', RStr ''GA''),
        (''gis_rest'', RStr ''https://www.thomascountymaps.org/arcgis/rest/services/parcels_addresses/MapServer/4''),
        (''id_fields'', RList [''PARCEL_NO'']),
        (''situs_exclude'', RList [''ADDRESS1'', ''ADDRESS2'', ''ADDRESS3'', ''CITY'', ''STATE'', ''ZIP_1'']),
        (''clerk_url'', RStr GSCCCA), (''clerk_platform'', RStr ''unknown''),
        (''clerk_note'', RStr ''Georgia statewide GSCCCA real-estate index (all counties).'')]),
     (''13029'',
       [(''county'', RStr ''Bryan''), (''state'', RStr ''GA''),
        (''gis_rest'', RStr ''https://bryangis.bryan-county.org/arcgis/rest/services/PropertyDetails/MapServer/0''),
        (''id_fields'', RList [''PARCEL_NO'']),
        (''situs_exclude'', RList [''ADDRESS1'', ''ADDRESS2'', ''ADDRESS3'', ''CITY'', ''STATE'', ''ZIP_1'']),
        (''clerk_url'', RStr GSCCCA), (''clerk_platform'', RStr ''unknown''),
        (''clerk_note'', RStr ''Georgia statewide GSCCCA real-estate index (all counties).'')]),
     (''13303'',
       [(''county'', RStr ''Washington''), (''state'', RStr ''GA''),
        (''gis_rest'', RStr ''https://services.arcgis.com/ISpzx3B5ZsVA6e1Z/arcgis/rest/services/Washington_Parcels/FeatureServer/0''),
        (''id_fields'', RList [''Parcel_ID'', ''PARCEL_NO'']), (''clerk_url'', RStr GSCCCA),
        (''clerk_platform'', RStr ''unknown''),
        (''clerk_note'', RStr ''Georgia statewide GSCCCA real-estate index (all counties).'')]),
     (''13193'',
       [(''county'', RStr ''Macon''), (''state'', RStr ''GA''),
        (''gis_rest'', RStr ''https://services1.arcgis.com/Ug5xGQbHsD8zuZzM/ArcGIS/rest/services/Parcels12_2018/FeatureServer/0''),
        (''id_fields'', RList [''Parcel_Num'']), (''clerk_url'', RStr GSCCCA),
        (''clerk_platform'', RStr ''unknown''),
        (''clerk_note'', RStr ''Georgia statewide GSCCCA real-estate index (all counties).'')]),
     (''13221'',
       [(''county'', RStr ''Oglethorpe''), (''state'', RStr ''GA''),
        (''id_fields'', RList [''PIN'', ''Parcel_No'']),
        (''gis_rest'', RStr ''https://services.arcgis.com/ISpzx3B5ZsVA6e1Z/arcgis/rest/services/Oglethorpe_Parcels/FeatureServer/0''),
        (''clerk_url'', RStr GSCCCA), (''clerk_platform'', RStr ''unknown'')]),
     (''13161'',
       [(''county'', RStr ''Jeff Davis''), (''state'', RStr ''GA''), (''id_fields'', RList [''PIN'']),
        (''gis_rest'', RStr ''https://services.arcgis.com/ISpzx3B5ZsVA6e1Z/arcgis/rest/services/JeffDParcels_ExportFeatures/FeatureServer/0''),
        (''clerk_url'', RStr GSCCCA), (''clerk_platform'', RStr ''unknown'')]),
     (''13291'',
       [(''county'', RStr ''Union''), (''state'', RStr ''GA''), (''id_fields'', RList [''PIN'']),
        (''gis_rest'', RStr ''https://services.arcgis.com/ISpzx3B5ZsVA6e1Z/arcgis/rest/services/Union_Parcels/FeatureServer/0''),
        (''clerk_url'', RStr GSCCCA), (''clerk_platform'', RStr ''unknown'')]),
     (''13263'',
       [(''county'', RStr ''Talbot''), (''state'', RStr ''GA''),
        (''id_fields'', RList [''PIN'', ''Parcel_No'']),
        (''gis_rest'', RStr ''https://services.arcgis.com/ISpzx3B5ZsVA6e1Z/arcgis/rest/services/Talbot_Parcels/FeatureServer/0''),
        (''clerk_url'', RStr GSCCCA), (''clerk_platform'', RStr ''unknown'')])]"

definition ga_counties_3 :: "entry table" where
  "ga_counties_3 =
    [(''13251'',
       [(''county'', RStr ''Screven''), (''state'', RStr ''GA''),
        (''id_fields'', RList [''PIN'', ''parcel_no'']),
        (''gis_rest'', RStr ''https://services.arcgis.com/ISpzx3B5ZsVA6e1Z/arcgis/rest/services/Screven_2020_Webmap/FeatureServer/0''),
        (''clerk_url'', RStr GSCCCA), (''clerk_platform'', RStr ''unknown'')]),
     (''13081'',
       [(''county'', RStr ''Crisp''), (''state'', RStr ''GA''),
        (''id_fields'', RList [''PIN'', ''Parcel_No'']),
        (''gis_rest'', RStr ''https://services.arcgis.com/ISpzx3B5ZsVA6e1Z/arcgis/rest/services/Crisp_Parcels/FeatureServer/0''),
        (''clerk_url'', RStr GSCCCA), (''clerk_platform'', RStr ''unknown'')]),
     (''13109'',
       [(''county'', RStr ''Evans''), (''state'', RStr ''GA''),
        (''id_fields'', RList [''PARCEL_NO'', ''PIN'']),
        (''gis_rest'', RStr ''https://services.arcgis.com/ISpzx3B5ZsVA6e1Z/arcgis/rest/services/Parcels_ExportFeaturesEvans/FeatureServer/0''),
        (''clerk_url'', RStr GSCCCA), (''clerk_platform'', RStr ''unknown'')]),
     (''13125'',
       [(''county'', RStr ''Glascock''), (''state'', RStr ''GA''), (''id_fields'', RList [''PIN'']),
        (''gis_rest'', RStr ''https://services.arcgis.com/ISpzx3B5ZsVA6e1Z/arcgis/rest/services/Glascock_Web_Map_2026_WFL1/FeatureServer/1''),
        (''clerk_url'', RStr GSCCCA), (''clerk_platform'', RStr ''unknown'')]),
     (''13013'',
       [(''county'', RStr ''Barrow''), (''state'', RStr ''GA''),
        (''id_fields'', RList [''Parcel_no'', ''Realkey'']),
        (''gis_rest'', RStr ''https://services.arcgis.com/ISpzx3B5ZsVA6e1Z/ArcGIS/rest/services/Barrow_Web_Map_2026_WFL1/FeatureServer/3''),
        (''clerk_url'', RStr GSCCCA), (''clerk_platform'', RStr ''unknown'')]),
     (''13049'',
       [(''county'', RStr ''Charlton''), (''state'', RStr ''GA''),
        (''id_fields'', RList [''PARCEL_NO'', ''PIN'']),
        (''gis_rest'', RStr ''https://services.arcgis.com/ISpzx3B5ZsVA6e1Z/ArcGIS/rest/services/Charlton_Webmap/FeatureServer/0''),
        (''clerk_url'', RStr GSCCCA), (''clerk_platform'', RStr ''unknown'')]),
     (''13271'',
       [(''county'', RStr ''Telfair''), (''state'', RStr ''GA''), (''id_fields'', RList [''PIN'']),
        (''gis_rest'', RStr ''https://services.arcgis.com/ISpzx3B5ZsVA6e1Z/ArcGIS/rest/services/Telfair_2025_WFL1/FeatureServer/0''),
        (''clerk_url'', RStr GSCCCA), (''clerk_platform'', RStr ''unknown'')]),
     (''13093'',
       [(''county'', RStr ''Dooly''), (''state'', RStr ''GA''), (''id_fields'', RList [''Parcel_No'']),
        (''gis_rest'', RStr ''https://services9.arcgis.com/x9uoDq5JB3OouaRv/arcgis/rest/services/Parcel_Regions_w_WinGAP/FeatureServer/0''),
        (''situs_exclude'', RList [''address1'', ''address2'', ''address3'', ''city'', ''state'', ''zip_code'']),
        (''clerk_url'', RStr GSCCCA), (''clerk_platform'', RStr ''unknown'')]),
     (''13277'',
       [(''county'', RStr ''Tift''), (''state'', RStr ''GA''), (''id_fields'', RList [''ParcelNum'']),
        (''gis_rest'', RStr ''https://www.sgrcmaps.com/alma/rest/services/Tift/Tift_Parcels/MapServer/0''),
        (''clerk_url'', RStr GSCCCA), (''clerk_platform'', RStr ''unknown'')]),
     (''13155'',
       [(''county'', RStr ''Irwin''), (''state'', RStr ''GA''), (''id_fields'', RList [''PARCEL_NO'']),
        (''gis_rest'', RStr ''https://www.sgrcmaps.com/alma/rest/services/Irwin/ParcelInformation/MapServer/5''),
        (''situs_exclude'', RList [''ADDRESS1'', ''ADDRESS2'', ''ADDRESS3'', ''CITY'', ''STATE'', ''ZIP_1'']),
        (''clerk_url'', RStr GSCCCA), (''clerk_platform'', RStr ''unknown'')]),
     (''13287'',
       [(''county'', RStr ''Turner''), (''state'', RStr ''GA''), (''id_fields'', RList [''Parcel_No'']),
        (''gis_rest'', RStr ''https://www.sgrcmaps.com/alma/rest/services/Turner/TurnerParcels/MapServer/0''),
        (''situs_exclude'', RList [''address1'', ''address2'', ''address3'']),
        (''clerk_url'', RStr GSCCCA), (''clerk_platform'', RStr ''unknown'')]),
     (''13003'',
       [(''county'', RStr ''Atkinson''), (''state'', RStr ''GA''),
        (''id_fields'', RList [''PARCEL_NO'', ''PARCELNUM'']),
        (''gis_rest'', RStr ''https://www.sgrcmaps.com/alma/rest/services/Atkinson/PropertyInformation/MapServer/1''),
        (''situs_exclude'', RList [''ADDRESS1'', ''ADDRESS2'', ''ADDRESS3'', ''CITY'', ''STATE'', ''ZIP_1'']),
        (''clerk_url'', RStr GSCCCA), (''clerk_platform'', RStr ''unknown'')]),
     (''13069'',
       [(''county'', RStr ''Coffee''), (''state'', RStr ''GA''), (''id_fields'', RList [''Parcel_No'']),
        (''gis_rest'', RStr ''https://www.sgrcmaps.com/alma/rest/services/Coffee/CoffeeBackgroundLayers/MapServer/2''),
        (''clerk_url'', RStr GSCCCA), (''clerk_platform'', RStr ''unknown'')]),
     (''13233'',
       [(''county'', RStr ''Polk''), (''state'', RStr ''GA''),
        (''gis_rest'', RStr ''https://services.arcgis.com/ISpzx3B5ZsVA6e1Z/ArcGIS/rest/services/Parcels/FeatureServer/0''),
        (''id_fields'', RList [''PID'', ''PIN'', ''Parcel_Num'']), (''clerk_url'', RStr GSCCCA),
        (''clerk_platform'', RStr ''unknown''),
        (''clerk_note'', RStr ''Georgia statewide GSCCCA real-estate index (all counties).'')]),
     (''13225'',
       [(''county'', RStr ''Peach''), (''state'', RStr ''GA''),
        (''gis_rest'', RStr ''https://services1.arcgis.com/Ug5xGQbHsD8zuZzM/arcgis/rest/services/Peach_County_Parcels/FeatureServer/0''),
        (''id_fields'', RList [''PARCEL_NO'']), (''clerk_url'', RStr GSCCCA),
        (''clerk_platform'', RStr ''unknown''),
        (''clerk_note'', RStr ''Georgia statewide GSCCCA real-estate index (all counties).'')]),
     (''13199'',
       [(''county'', RStr ''Meriwether''), (''state'', RStr ''GA''),
        (''gis_rest'', RStr ''https://services9.arcgis.com/Xv8vRekQ4FVHSSIe/arcgis/rest/services/MeriwetherParcels/FeatureServer/0''),
        (''id_fields'', RList [''Parcel_No'']),
        (''situs_exclude'', RList [''address1'', ''address2'', ''address3'', ''city'', ''state'', ''zip_code'']),
        (''clerk_url'', RStr GSCCCA), (''clerk_platform'', RStr ''unknown''),
        (''clerk_note'', RStr ''Georgia statewide GSCCCA real-estate index (all counties).'')]),
     (''13055'',
       [(''county'', RStr ''Chattooga''), (''state'', RStr ''GA''),
        (''gis_rest'', RStr ''https://services.arcgis.com/ISpzx3B5ZsVA6e1Z/ArcGIS/rest/services/Chattooga_Webmap_2025_WFL1/FeatureServer/3''),
        (''id_fields'', RList [''PIN'', ''MAP_PAR'']), (''clerk_url'', RStr GSCCCA),
        (''clerk_platform'', RStr ''unknown''),
        (''clerk_note'', RStr ''Georgia statewide GSCCCA real-estate index (all counties).'')]),
     (''13027'',
       [(''county'', RStr ''Brooks''), (''state'', RStr ''GA''),
        (''gis_rest'', RStr ''https://www.sgrcmaps.com/alma/rest/services/Brooks/Boundaries/MapServer/0''),
        (''id_fields'', RList [''PARCEL_NO'']),
        (''situs_exclude'', RList [''ADDRESS1'', ''ADDRESS2'', ''ADDRESS3'', ''CITY'', ''STATE'', ''ZIP_1'']),
        (''clerk_url'', RStr GSCCCA), (''clerk_platform'', RStr ''unknown''),
        (''clerk_note'', RStr ''Georgia statewide GSCCCA real-estate index (all counties).'')]),
     (''13075'',
       [(''county'', RStr ''Cook''), (''state'', RStr ''GA''),
        (''gis_rest'', RStr ''https://www.sgrcmaps.com/alma/rest/services/Cook/Cook_Parcels/MapServer/0''),
        (''id_fields'', RList [''Parcel_No'']),
        (''situs_exclude'', RList [''address1'', ''address2'', ''address3'', ''city'', ''state'']),
        (''clerk_url'', RStr GSCCCA), (''clerk_platform'', RStr ''unknown''),
        (''clerk_note'', RStr ''Georgia statewide GSCCCA real-estate index (all counties).'')]),
     (''13163'',
       [(''county'', RStr ''Jefferson''), (''state'', RStr ''GA''),
        (''gis_rest'', RStr ''https://services.arcgis.com/ISpzx3B5ZsVA6e1Z/ArcGIS/rest/services/Jefferson_Web_Map_2024_WFL1/FeatureServer/3''),
        (''id_fields'', RList [''PIN'', ''PARCEL_NO'']), (''clerk_url'', RStr GSCCCA),
        (''clerk_platform'', RStr ''unknown''),
        (''clerk_note'', RStr ''Georgia statewide GSCCCA real-estate index (all counties).'')]),
     (''13107'',
       [(''county'', RStr ''Emanuel''), (''state'', RStr ''GA''),
        (''gis_rest'', RStr ''https://services8.arcgis.com/oi3j4zWzPc3hzTpc/arcgis/rest/services/Emanuel_Parcels_view/FeatureServer/0''),
        (''id_fields'', RList [''Parcel_No'']),
        (''situs_exclude'', RList [''address1'', ''address2'', ''address3'', ''city'', ''state'', ''zip_code'']),
        (''clerk_url'', RStr GSCCCA), (''clerk_platform'', RStr ''unknown''),
        (''clerk_note'', RStr ''Georgia statewide GSCCCA real-estate index (all counties).'')]),
     (''13229'',
       [(''county'', RStr ''Pierce''), (''state'', RStr ''GA''),
        (''gis_rest'', RStr ''https://www.sgrcmaps.com/alma/rest/services/Pierce/ParcelInformation/MapServer/0''),
        (''id_fields'', RList [''PARCEL_NO'', ''PAR_ID'']),
        (''situs_exclude'', RList [''ADDRESS1'', ''ADDRESS2'', ''ADDRESS3'', ''CITY'', ''STATE'', ''ZIP_1'']),
        (''clerk_url'', RStr GSCCCA), (''clerk_platform'', RStr ''unknown''),
        (''clerk_note'', RStr ''Georgia statewide GSCCCA real-estate index (all counties).'')])]"

definition ga_counties_4 :: "entry table" where
  "ga_counties_4 =
    [(''13157'',
       [(''county'', RStr ''Jackson''), (''state'', RStr ''GA''),
        (''gis_rest'', RStr ''https://services8.arcgis.com/bcbi4lYRFOsss0F5/arcgis/rest/services/Tax_Parcels/FeatureServer/9''),
        (''id_fields'', RList [''PARCEL_NO'', ''PIN'', ''tax_id'']),
        (''situs_exclude'', RList [''ADDRESS1'', ''ADDRESS2'', ''ADDRESS3'', ''CITY'', ''STATE'']),
        (''clerk_url'', RStr GSCCCA), (''clerk_platform'', RStr ''unknown''),
        (''clerk_note'', RStr ''Georgia statewide GSCCCA real-estate index (all counties).'')]),
     (''13133'',
       [(''county'', RStr ''Greene''), (''state'', RStr ''GA''),
        (''gis_rest'', RStr ''https://services7.arcgis.com/QbbsWI5nIfBp4cMB/arcgis/rest/services/Parcel_Regions_w_WinGAP_view/FeatureServer/0''),
        (''id_fields'', RList [''Parcel_No'']),
        (''situs_exclude'', RList [''address1'', ''address2'', ''address3'', ''city'', ''state'', ''zip_code'']),
        (''clerk_url'', RStr GSCCCA), (''clerk_platform'', RStr ''unknown''),
        (''clerk_note'', RStr ''Georgia statewide GSCCCA real-estate index (all counties).'')]),
     (''13211'',
       [(''county'', RStr ''Morgan''), (''state'', RStr ''GA''),
        (''gis_rest'', RStr ''https://services9.arcgis.com/mr2xH531NAL4tt7e/arcgis/rest/services/Parcels/FeatureServer/0''),
        (''id_fields'', RList [''Parcel_No'']), (''clerk_url'', RStr GSCCCA),
        (''clerk_platform'', RStr ''unknown''),
        (''clerk_note'', RStr ''Georgia statewide GSCCCA real-estate index (all counties).'')]),
     (''13059'',
       [(''county'', RStr ''Clarke''), (''state'', RStr ''GA''),
        (''gis_rest'', RStr ''https://enigma.accgov.com/server/rest/services/ACC_Parcels/FeatureServer/0''),
        (''id_fields'', RList [''PARCEL_NO'']), (''clerk_url'', RStr GSCCCA),
        (''clerk_platform'', RStr ''unknown''),
        (''clerk_note'', RStr ''Georgia statewide GSCCCA real-estate index (all counties).'')]),
     (''13077'',
       [(''county'', RStr ''Coweta''), (''state'', RStr ''GA''),
        (''gis_rest'', RStr ''https://coweta-gis-web.coweta.ga.us/arcgis/rest/services/WinGapParcels/MapServer/0''),
        (''id_fields'', RList [''PID'', ''ParcelNumber'']), (''situs_exclude'', RList [''StreetAddress'']),
        (''clerk_url'', RStr GSCCCA), (''clerk_platform'', RStr ''unknown''),
        (''clerk_note'', RStr ''Georgia statewide GSCCCA real-estate index (all counties).'')]),
     (''13153'',
       [(''county'', RStr ''Houston''), (''state'', RStr ''GA''),
        (''gis_rest'', RStr ''https://services1.arcgis.com/Ug5xGQbHsD8zuZzM/arcgis/rest/services/HoustonCoParcels_withOwner/FeatureServer/0''),
        (''id_fields'', RList [''PARCEL_NO'', ''PIN'']), (''clerk_url'', RStr GSCCCA),
        (''clerk_platform'', RStr ''unknown''),
        (''clerk_note'', RStr ''Georgia statewide GSCCCA real-estate index (all counties).'')]),
     (''13223'',
       [(''county'', RStr ''Paulding''), (''state'', RStr ''GA''),
        (''gis_rest'', RStr ''https://services8.arcgis.com/7YXQzPPGs9Uc4qKl/arcgis/rest/services/Paulding_Map_Auto_Updated_WFL1/FeatureServer/25''),
        (''id_fields'', RList [''APIN'', ''GPIN'']), (''clerk_url'', RStr GSCCCA),
        (''clerk_platform'', RStr ''unknown''),
        (''clerk_note'', RStr ''Georgia statewide GSCCCA real-estate index (all counties).'')]),
     (''13217'',
       [(''county'', RStr ''Newton''), (''state'', RStr ''GA''),
        (''gis_rest'', RStr ''https://services1.arcgis.com/qTQ6qYkHpxlu0G82/arcgis/rest/services/Newton_Parcels/FeatureServer/0''),
        (''id_fields'', RList [''PARCEL_NO'', ''PARCELNO'']),
        (''situs_exclude'', RList [''Address1'', ''Address2'', ''City'', ''State'', ''ZipCode'']),
        (''clerk_url'', RStr GSCCCA), (''clerk_platform'', RStr ''unknown''),
        (''clerk_note'', RStr ''Georgia statewide GSCCCA real-estate index (all counties).'')]),
     (''13285'',
       [(''county'', RStr ''Troup''), (''state'', RStr ''GA''),
        (''gis_rest'', RStr ''https://services6.arcgis.com/WjqAE1SlQxuk7dsk/arcgis/rest/services/Troup_County_GA_Parcel_Feature_Layer/FeatureServer/0''),
        (''id_fields'', RList [''parcelnumb'', ''account_nu'']), (''clerk_url'', RStr GSCCCA),
        (''clerk_platform'', RStr ''unknown''),
        (''clerk_note'', RStr ''Georgia statewide GSCCCA real-estate index (all counties).'')]),
     (''13255'',
       [(''county'', RStr ''Spalding''), (''state'', RStr ''GA''),
        (''gis_rest'', RStr ''https://services5.arcgis.com/IBG8fFojdkoiHAvQ/arcgis/rest/services/Parcels_Public_View/FeatureServer/1''),
        (''id_fields'', RList [''PARCEL_ID'']), (''clerk_url'', RStr GSCCCA),
        (''clerk_platform'', RStr ''unknown''),
        (''clerk_note'', RStr ''Georgia statewide GSCCCA real-estate index (all counties).'')]),
     (''13031'',
       [(''county'', RStr ''Bulloch''), (''state'', RStr ''GA''),
        (''gis_rest'', RStr ''https://services6.arcgis.com/XxfLDid4CNOqpdhy/arcgis/rest/services/Mobile_Map/FeatureServer/1''),
        (''id_fields'', RList [''PROP_PIN'']), (''clerk_url'', RStr GSCCCA),
        (''clerk_platform'', RStr ''unknown''),
        (''clerk_note'', RStr ''Georgia statewide GSCCCA real-estate index (all counties).'')]),
     (''13175'',
       [(''county'', RStr ''Laurens''), (''state'', RStr ''GA''),
        (''gis_rest'', RStr ''https://services.arcgis.com/ISpzx3B5ZsVA6e1Z/arcgis/rest/services/Laurens_Web_Map_WFL1/FeatureServer/5''),
        (''id_fields'', RList [''Parcel_No'', ''PIN'']), (''clerk_url'', RStr GSCCCA),
        (''clerk_platform'', RStr ''unknown''),
        (''clerk_note'', RStr ''Georgia statewide GSCCCA real-estate index (all counties).'')]),
     (''13219'',
       [(''county'', RStr ''Oconee''), (''state'', RStr ''GA''),
        (''gis_rest'', RStr ''https://services1.arcgis.com/Ug5xGQbHsD8zuZzM/arcgis/rest/services/Greater_Athens_All_WFL1/FeatureServer/32''),
        (''id_fields'', RList [''PARCELID'', ''RealKey'']), (''clerk_url'', RStr GSCCCA),
        (''clerk_platform'', RStr ''unknown''),
        (''clerk_note'', RStr ''Georgia statewide GSCCCA real-estate index (all counties).'')])]"

definition ga_counties_5 :: "entry table" where
  "ga_counties_5 =
    [(''13137'',
       [(''county'', RStr ''Habersham''), (''state'', RStr ''GA''),
        (''gis_rest'', RStr ''https://arcgis5.roktech.net/arcgis/rest/services/habersham/habersham_rokmaps/MapServer/8''),
        (''id_fields'', RList [''PARNO'', ''PIN'']), (''clerk_url'', RStr GSCCCA),
        (''clerk_platform'', RStr ''unknown''),
        (''clerk_note'', RStr ''Georgia statewide GSCCCA real-estate index (all counties).'')]),
     (''13187'',
       [(''county'', RStr ''Lumpkin''), (''state'', RStr ''GA''),
        (''gis_rest'', RStr ''https://services6.arcgis.com/gVx1YCdWTpppaijl/arcgis/rest/services/Base_Map/FeatureServer/3''),
        (''id_fields'', RList [''PARCEL_NO'', ''REALKEY'']),
        (''situs_exclude'', RList [''ADDRESS1'', ''ADDRESS2'', ''ADDRESS3'', ''CITY'', ''STATE'', ''ZIP'']),
        (''clerk_url'', RStr GSCCCA), (''clerk_platform'', RStr ''unknown''),
        (''clerk_note'', RStr ''Georgia statewide GSCCCA real-estate index (all counties).'')]),
     (''13009'',
       [(''county'', RStr ''Baldwin''), (''state'', RStr ''GA''),
        (''gis_rest'', RStr ''https://services7.arcgis.com/Da8HZMsU25Hzzob3/arcgis/rest/services/Baldwin_County_Zoning_WFL1/FeatureServer/1''),
        (''id_fields'', RList [''PARID'']), (''clerk_url'', RStr GSCCCA),
        (''clerk_platform'', RStr ''unknown''),
        (''clerk_note'', RStr ''Georgia statewide GSCCCA real-estate index (all counties).'')]),
     (''13039'',
       [(''county'', RStr ''Camden''), (''state'', RStr ''GA''),
        (''gis_rest'', RStr ''https://services3.arcgis.com/feUM6sTOP0Mfde8s/arcgis/rest/services/CamdenParcel_12132021_view/FeatureServer/122''),
        (''id_fields'', RList [''RealKey'']), (''clerk_url'', RStr GSCCCA),
        (''clerk_platform'', RStr ''unknown''),
        (''clerk_note'', RStr ''Georgia statewide GSCCCA real-estate index (all counties).'')]),
     (''13299'',
       [(''county'', RStr ''Ware''), (''state'', RStr ''GA''),
        (''gis_rest'', RStr ''https://services9.arcgis.com/XAyIBOsw3fLfDjTY/arcgis/rest/services/WareCounty_Base_gdb/FeatureServer/38''),
        (''id_fields'', RList [''PARCEL_NO'', ''REALKEY'']), (''clerk_url'', RStr GSCCCA),
        (''clerk_platform'', RStr ''unknown''),
        (''clerk_note'', RStr ''Georgia statewide GSCCCA real-estate index (all counties).'')]),
     (''13261'',
       [(''county'', RStr ''Sumter''), (''state'', RStr ''GA''),
        (''gis_rest'', RStr ''https://services.arcgis.com/ISpzx3B5ZsVA6e1Z/arcgis/rest/services/Sumter_Lake_Subrecords_2026_WFL1/FeatureServer/1''),
        (''id_fields'', RList [''PARCELID'', ''PIN'']), (''clerk_url'', RStr GSCCCA),
        (''clerk_platform'', RStr ''unknown''),
        (''clerk_note'', RStr ''Georgia statewide GSCCCA real-estate index (all counties).'')]),
     (''13207'',
       [(''county'', RStr ''Monroe''), (''state'', RStr ''GA''),
        (''gis_rest'', RStr ''https://services1.arcgis.com/Ug5xGQbHsD8zuZzM/arcgis/rest/services/MonroeCountyParcels_Jan2026/FeatureServer/15''),
        (''id_fields'', RList [''PARCELID'', ''PARCEL'']), (''clerk_url'', RStr GSCCCA),
        (''clerk_platform'', RStr ''unknown''),
        (''clerk_note'', RStr ''Georgia statewide GSCCCA real-estate index (all counties).'')]),
     (''13085'',
       [(''county'', RStr ''Dawson''), (''state'', RStr ''GA''),
        (''gis_rest'', RStr ''https://services.arcgis.com/ISpzx3B5ZsVA6e1Z/arcgis/rest/services/Dawson_Webmap_WFL1/FeatureServer/1''),
        (''id_fields'', RList [''Parcel_No'', ''Realkey'']), (''clerk_url'', RStr GSCCCA),
        (''clerk_platform'', RStr ''unknown''),
        (''clerk_note'', RStr ''Georgia statewide GSCCCA real-estate index (all counties).'')]),
     (''13083'',
       [(''county'', RStr ''Dade''), (''state'', RStr ''GA''),
        (''gis_rest'', RStr ''https://services2.arcgis.com/9rZSWj5rVGcJbHoU/arcgis/rest/services/EPL_Map/FeatureServer/4''),
        (''id_fields'', RList [''PARCEL_NO'', ''REALKEY'']),
        (''situs_exclude'', RList [''ADDRESS1'', ''ADDRESS2'', ''ADDRESS3'', ''CITY'', ''STATE'', ''ZIP'']),
        (''clerk_url'', RStr GSCCCA), (''clerk_platform'', RStr ''unknown''),
        (''clerk_note'', RStr ''Georgia statewide GSCCCA real-estate index (all counties).'')]),
     (''13079'',
       [(''county'', RStr ''Crawford''), (''state'', RStr ''GA''),
        (''gis_rest'', RStr ''https://services1.arcgis.com/Ug5xGQbHsD8zuZzM/arcgis/rest/services/CrawfordCountyParcels_Jan2026/FeatureServer/0''),
        (''id_fields'', RList [''PARCELNO'', ''PID'']), (''clerk_url'', RStr GSCCCA),
        (''clerk_platform'', RStr ''unknown''),
        (''clerk_note'', RStr ''Georgia statewide GSCCCA real-estate index (all counties).'')]),
     (''13321'',
       [(''county'', RStr ''Worth''), (''state'', RStr ''GA''),
        (''gis_rest'', RStr ''https://services2.arcgis.com/PYn6bWCjT6bhw1z3/arcgis/rest/services/Worth_Heirs_Concentration_Census_Block_WFL1/FeatureServer/4''),
        (''id_fields'', RList [''Parcel_No'', ''PIN'']), (''clerk_url'', RStr GSCCCA),
        (''clerk_platform'', RStr ''unknown''),
        (''clerk_note'', RStr ''Georgia statewide GSCCCA real-estate index (all counties).'')]),
     (''13279'',
       [(''county'', RStr ''Toombs''), (''state'', RStr ''GA''),
        (''gis_rest'', RStr ''https://services5.arcgis.com/HHvUPZ2XuLOAJxjR/arcgis/rest/services/MontgomeryToombsBoundary/FeatureServer/16''),
        (''id_fields'', RList [''Parcel_No'', ''Realkey'']),
        (''situs_exclude'', RList [''address1'', ''address2'', ''address3'', ''city'', ''state'', ''zip'', ''zip_code'']),
        (''clerk_url'', RStr GSCCCA), (''clerk_platform'', RStr ''unknown''),
        (''clerk_note'', RStr ''Georgia statewide GSCCCA real-estate index (all counties).'')]),
     (''13025'',
       [(''county'', RStr ''Brantley''), (''state'', RStr ''GA''),
        (''gis_rest'', RStr ''https://services3.arcgis.com/86pyA5PND5NdokIc/arcgis/rest/services/Brantley_Parcels_view/FeatureServer/0''),
        (''id_fields'', RList [''Parcel_No'', ''Realkey'']),
        (''situs_exclude'', RList [''address1'', ''address2'', ''address3'', ''city'', ''state'', ''zip'', ''zip_code'']),
        (''clerk_url'', RStr GSCCCA), (''clerk_platform'', RStr ''unknown''),
        (''clerk_note'', RStr ''Georgia statewide GSCCCA real-estate index (all counties).'')]),
     (''13191'',
       [(''county'', RStr ''McIntosh''), (''state'', RStr ''GA''),
        (''gis_rest'', RStr ''https://services1.arcgis.com/PITZGI6S0DUdRaq5/arcgis/rest/services/McIntosh_Parcels_20220811/FeatureServer/0''),
        (''id_fields'', RList [''PARCEL_NO'', ''PIN'', ''REALKEY'']), (''clerk_url'', RStr GSCCCA),
        (''clerk_platform'', RStr ''unknown''),
        (''clerk_note'', RStr ''Georgia statewide GSCCCA real-estate index (all counties).'')]),
     (''13289'',
       [(''county'', RStr ''Twiggs''), (''state'', RStr ''GA''),
        (''gis_rest'', RStr ''https://services1.arcgis.com/Ug5xGQbHsD8zuZzM/arcgis/rest/services/Twiggs_County_Parcels/FeatureServer/0''),
        (''id_fields'', RList [''PARCEL_NO'']), (''clerk_url'', RStr GSCCCA),
        (''clerk_platform'', RStr ''unknown''),
        (''clerk_note'', RStr ''Georgia statewide GSCCCA real-estate index (all counties).'')]),
     (''13269'',
       [(''county'', RStr ''Taylor''), (''state'', RStr ''GA''),
        (''gis_rest'', RStr ''https://services.arcgis.com/ISpzx3B5ZsVA6e1Z/arcgis/rest/services/Taylor_Web_Map_2025_WFL1/FeatureServer/6''),
        (''id_fields'', RList [''PARCEL_NO'', ''PIN'']), (''clerk_url'', RStr GSCCCA),
        (''clerk_platform'', RStr ''unknown''),
        (''clerk_note'', RStr ''Georgia statewide GSCCCA real-estate index (all counties).'')])]"

definition ga_counties_6 :: "entry table" where
  "ga_counties_6 =
    [(''13317'',
       [(''county'', RStr ''Wilkes''), (''state'', RStr ''GA''),
        (''gis_rest'', RStr ''https://services.arcgis.com/ISpzx3B5ZsVA6e1Z/ArcGIS/rest/services/Wilkes_Parcels/FeatureServer/0''),
        (''id_fields'', RList [''QPID'', ''REALKEY'']), (''clerk_url'', RStr GSCCCA),
        (''clerk_platform'', RStr ''unknown''),
        (''clerk_note'', RStr ''Georgia statewide GSCCCA real-estate index (all counties).'')]),
     (''13131'',
       [(''county'', RStr ''Grady''), (''state'', RStr ''GA''),
        (''gis_rest'', RStr ''https://services7.arcgis.com/Pf7RRv4QttHB3VbR/arcgis/rest/services/WebParcels/FeatureServer/0''),
        (''id_fields'', RList [''PARCELNO'', ''PIN'']), (''clerk_url'', RStr GSCCCA),
        (''clerk_platform'', RStr ''unknown''),
        (''clerk_note'', RStr ''Georgia statewide GSCCCA real-estate index (all counties).'')]),
     (''13173'',
       [(''county'', RStr ''Lanier''), (''state'', RStr ''GA''),
        (''gis_rest'', RStr ''https://www.sgrcmaps.com/alma/rest/services/Lanier/Parcels/MapServer/2''),
        (''id_fields'', RList [''PARCEL_NO'']), (''clerk_url'', RStr GSCCCA),
        (''clerk_platform'', RStr ''unknown''),
        (''clerk_note'', RStr ''Georgia statewide GSCCCA real-estate index (all counties).'')]),
     (''13259'',
       [(''county'', RStr ''Stewart''), (''state'', RStr ''GA''),
        (''gis_rest'', RStr ''https://services2.arcgis.com/PYn6bWCjT6bhw1z3/arcgis/rest/services/Stewart_County_WFL1/FeatureServer/5''),
        (''id_fields'', RList [''PARCEL_ID'', ''REALKEY'']),
        (''situs_exclude'', RList [''ADDRESS1'', ''ADDRESS2'', ''ADDRESS3'', ''CITY'', ''STATE'', ''ZIP'']),
        (''clerk_url'', RStr GSCCCA), (''clerk_platform'', RStr ''unknown''),
        (''clerk_note'', RStr ''Georgia statewide GSCCCA real-estate index (all counties).'')]),
     (''13101'',
       [(''county'', RStr ''Echols''), (''state'', RStr ''GA''),
        (''gis_rest'', RStr ''https://services5.arcgis.com/HA2thkMWRBDb77XN/arcgis/rest/services/Echols_Tax_Parcels/FeatureServer/11''),
        (''id_fields'', RList [''PARCEL_NO'', ''REALKEY'']),
        (''situs_exclude'', RList [''ADDRESS1'', ''ADDRESS2'', ''ADDRESS3'', ''CITY'', ''STATE'', ''ZIP'']),
        (''clerk_url'', RStr GSCCCA), (''clerk_platform'', RStr ''unknown''),
        (''clerk_note'', RStr ''Georgia statewide GSCCCA real-estate index (all counties).'')]),
     (''13061'',
       [(''county'', RStr ''Clay''), (''state'', RStr ''GA''),
        (''gis_rest'', RStr ''https://services1.arcgis.com/Ug5xGQbHsD8zuZzM/arcgis/rest/services/Clay_County_Parcels_10_23/FeatureServer/0''),
        (''id_fields'', RList [''Parcel_No'', ''Realkey'']),
        (''situs_exclude'', RList [''address1'', ''address2'', ''address3'', ''city'', ''state'', ''zip'', ''zip_code'']),
        (''clerk_url'', RStr GSCCCA), (''clerk_platform'', RStr ''unknown''),
        (''clerk_note'', RStr ''Georgia statewide GSCCCA real-estate index (all counties).'')])]"

definition ga_counties :: "entry table" where
  "ga_counties = ga_counties_1 @ ga_counties_2 @ ga_counties_3 @ ga_counties_4 @ ga_counties_5 @ ga_counties_6"


section \<open>Appraiser links\<close>

definition ga_appraiser_1 :: "(string \<times> string) table" where
  "ga_appraiser_1 =
    [(''13001'', ''Appling'', ''https://qpublic.net/ga/appling/''),
     (''13003'', ''Atkinson'', ''https://qpublic.net/ga/atkinson/''),
     (''13005'', ''Bacon'', ''https://qpublic.net/ga/bacon/''),
     (''13007'', ''Baker'', ''https://qpublic.net/ga/baker/''),
     (''13009'', ''Baldwin'', ''https://qpublic.net/ga/baldwin/''),
     (''13011'', ''Banks'', ''https://qpublic.schneidercorp.com/Application.aspx?App=BanksCountyGA&Layer=Parcels&PageType=Search''),
     (''13013'', ''Barrow'', ''https://barrowassessor.org/''),
     (''13015'', ''Bartow'', ''https://qpublic.net/ga/bartow/''),
     (''13017'', ''Ben Hill'', ''https://qpublic.net/ga/benhill/''),
     (''13019'', ''Berrien'', ''https://qpublic.net/ga/berrien/''),
     (''13021'', ''Bibb'', ''https://qpublic.net/ga/bibb/''),
     (''13023'', ''Bleckley'', ''https://qpublic.net/ga/bleckley/''),
     (''13025'', ''Brantley'', ''https://qpublic.net/ga/brantley/''),
     (''13027'', ''Brooks'', ''https://qpublic.net/ga/brooks/''),
     (''13029'', ''Bryan'', ''https://beacon.schneidercorp.com/Application.aspx?AppID=639&LayerID=11303&PageTypeID=2&PageID=4634''),
     (''13031'', ''Bulloch'', ''https://qpublic.net/ga/bulloch/''),
     (''13033'', ''Burke'', ''https://qpublic.net/ga/burke/''),
     (''13035'', ''Butts'', ''https://qpublic.net/ga/butts/''),
     (''13037'', ''Calhoun'', ''https://qpublic.net/ga/calhoun/''),
     (''13039'', ''Camden'', ''https://camdencountymaps.com/''),
     (''13043'', ''Candler'', ''https://qpublic.net/ga/candler/''),
     (''13045'', ''Carroll'', ''https://qpublic.net/ga/carroll/''),
     (''13047'', ''Catoosa'', ''https://catoosaassessor.com/''),
     (''13049'', ''Charlton'', ''https://qpublic.net/ga/charlton/''),
     (''13051'', ''Chatham'', ''https://www.chathamcountyga.gov/''),
     (''13053'', ''Chattahoochee'', ''https://qpublic.net/ga/chattahoochee/''),
     (''13055'', ''Chattooga'', ''https://qpublic.net/ga/chattooga/''),
     (''13057'', ''Cherokee'', ''https://qpublic.net/ga/cherokee/''),
     (''13059'', ''Clarke'', ''https://qpublic.net/ga/clarke/''),
     (''13061'', ''Clay'', ''https://qpublic.net/ga/clay/''),
     (''13063'', ''Clayton'', ''https://qpublic.schneidercorp.com/Application.aspx?App=ClaytonCountyGA&Layer=Parcels&PageType=Search''),
     (''13065'', ''Clinch'', ''https://qpublic.net/ga/clinch/''),
     (''13067'', ''Cobb'', ''https://www.cobbcounty.gov''),
     (''13069'', ''Coffee'', ''https://www.coffeecounty-ga.gov/departments/assessor/index.php''),
     (''13071'', ''Colquitt'', ''https://qpublic.net/ga/colquitt/''),
     (''13073'', ''Columbia'', ''https://qpublic.schneidercorp.com/Application.aspx?App=ColumbiaCountyGA&Layer=Parcels&PageType=Search''),
     (''13075'', ''Cook'', ''https://qpublic.net/ga/cook/''),
     (''13077'', ''Coweta'', ''https://qpublic.schneidercorp.com/Application.aspx?App=CowetaCountyGA&Layer=Parcels&PageType=Search''),
     (''13079'', ''Crawford'', ''https://qpublic.net/ga/crawford/''),
     (''13081'', ''Crisp'', ''https://qpublic.net/ga/crisp/''),
     (''13083'', ''Dade'', ''https://qpublic.net/ga/dade/''),
     (''13085'', ''Dawson'', ''https://dawsonassessors.com/''),
     (''13087'', ''Decatur'', ''https://qpublic.net/ga/decatur/''),
     (''13089'', ''DeKalb'', ''https://qpublic.schneidercorp.com/Application.aspx?App=DekalbCountyGA&Layer=Parcels&PageType=Search''),
     (''13091'', ''Dodge'', ''https://qpublic.net/ga/dodge/''),
     (''13093'', ''Dooly'', ''https://qpublic.net/ga/dooly/''),
     (''13095'', ''Dougherty'', ''https://qpublic.schneidercorp.com/Application.aspx?App=DoughertyCountyGA&Layer=Parcels&PageType=Search''),
     (''13097'', ''Douglas'', ''https://qpublic.schneidercorp.com/Application.aspx?App=DouglasCountyGA&Layer=Parcels&PageType=Search''),
     (''13099'', ''Early'', ''https://qpublic.net/ga/early/''),
     (''13101'', ''Echols'', ''https://qpublic.net/ga/echols/''),
     (''13103'', ''Effingham'', ''https://qpublic.net/ga/effingham/''),
     (''13105'', ''Elbert'', ''https://qpublic.net/ga/elbert/''),
     (''13107'', ''Emanuel'', ''https://qpublic.net/ga/emanuel/''),
     (''13109'', ''Evans'', ''https://qpublic.net/ga/evans/''),
     (''13111'', ''Fannin'', ''https://qpublic.net/ga/fannin/''),
     (''13113'', ''Fayette'', ''https://www.fayettecountyga.gov/''),
     (''13115'', ''Floyd'', ''https://qpublic.net/ga/floyd/''),
     (''13117'', ''Forsyth'', ''https://qpublic.net/ga/forsyth/''),
     (''13119'', ''Franklin'', ''https://qpublic.net/ga/franklin/''),
     (''13121'', ''Fulton'', ''https://www.fultoncountyga.gov/''),
     (''13123'', ''Gilmer'', ''https://gilmerassessors.com/''),
     (''13125'', ''Glascock'', ''https://qpublic.net/ga/glascock/''),
     (''13127'', ''Glynn'', ''https://qpublic.net/ga/glynn/''),
     (''13129'', ''Gordon'', ''https://gordonassessors.com/''),
     (''13131'', ''Grady'', ''https://qpublic.net/ga/grady/''),
     (''13133'', ''Greene'', ''https://qpublic.net/ga/greene/''),
     (''13135'', ''Gwinnett'', ''https://www.gwinnettcounty.com/home''),
     (''13137'', ''Habersham'', ''https://qpublic.net/ga/habersham/''),
     (''13139'', ''Hall'', ''https://qpublic.net/ga/hall/''),
     (''13141'', ''Hancock'', ''https://qpublic.net/ga/hancock/''),
     (''13143'', ''Haralson'', ''https://qpublic.net/ga/haralson/''),
     (''13145'', ''Harris'', ''https://qpublic.net/ga/harris/''),
     (''13147'', ''Hart'', ''https://qpublic.net/ga/hart/''),
     (''13149'', ''Heard'', ''https://qpublic.net/ga/heard/''),
     (''13151'', ''Henry'', ''https://qpublic.schneidercorp.com/Application.aspx?App=HenryCountyGA&Layer=Parcels&PageType=Search''),
     (''13153'', ''Houston'', ''https://qpublic.net/ga/houston/''),
     (''13155'', ''Irwin'', ''https://qpublic.net/ga/irwin/''),
     (''13157'', ''Jackson'', ''https://qpublic.net/ga/jackson/''),
     (''13159'', ''Jasper'', ''https://qpublic.net/ga/jasper/''),
     (''13161'', ''Jeff Davis'', ''https://qpublic.net/ga/jeffdavis/''),
     (''13163'', ''Jefferson'', ''https://qpublic.net/ga/jefferson/''),
     (''13165'', ''Jenkins'', ''https://qpublic.net/ga/jenkins/''),
     (''13167'', ''Johnson'', ''https://qpublic.net/ga/johnson/''),
     (''13169'', ''Jones'', ''https://jonescountygataxassessor.com/''),
     (''13171'', ''Lamar'', ''https://qpublic.net/ga/lamar/''),
     (''13173'', ''Lanier'', ''https://qpublic.net/ga/lanier/''),
     (''13175'', ''Laurens'', ''https://qpublic.net/ga/laurens/''),
     (''13177'', ''Lee'', ''https://qpublic.net/ga/lee/''),
     (''13179'', ''Liberty'', ''https://qpublic.net/ga/liberty/''),
     (''13181'', ''Lincoln'', ''https://qpublic.net/ga/lincoln/''),
     (''13183'', ''Long'', ''https://qpublic.net/ga/long/''),
     (''13185'', ''Lowndes'', ''https://qpublic.net/ga/lowndes/''),
     (''13187'', ''Lumpkin'', ''https://qpublic.schneidercorp.com/Application.aspx?App=LumpkinCountyGA&Layer=Parcels&PageType=Search''),
     (''13189'', ''McDuffie'', ''https://qpublic.net/ga/mcduffie/''),
     (''13191'', ''McIntosh'', ''https://mcintoshassessor.com/''),
     (''13193'', ''Macon'', ''https://qpublic.net/ga/macon/''),
     (''13195'', ''Madison'', ''https://qpublic.net/ga/madison/''),
     (''13197'', ''Marion'', ''https://qpublic.net/ga/marion/''),
     (''13199'', ''Meriwether'', ''https://qpublic.net/ga/meriwether/''),
     (''13201'', ''Miller'', ''https://qpublic.net/ga/miller/''),
     (''13205'', ''Mitchell'', ''https://qpublic.net/ga/mitchell/''),
     (''13207'', ''Monroe'', ''https://qpublic.net/ga/monroe/''),
     (''13209'', ''Montgomery'', ''https://qpublic.net/ga/montgomery/''),
     (''13211'', ''Morgan'', ''https://qpublic.net/ga/morgan/''),
     (''13213'', ''Murray'', ''https://qpublic.net/ga/murray/''),
     (''13215'', ''Muscogee'', ''https://qpublic.schneidercorp.com/Application.aspx?App=MuscogeeCountyGA&PageType=Search''),
     (''13217'', ''Newton'', ''https://qpublic.net/ga/newton/''),
     (''13219'', ''Oconee'', ''https://qpublic.net/ga/oconee/''),
     (''13221'', ''Oglethorpe'', ''https://qpublic.net/ga/oglethorpe/''),
     (''13223'', ''Paulding'', ''https://www.paulding.gov/252/Board-of-Assessors/''),
     (''13225'', ''Peach'', ''https://qpublic.net/ga/peach/''),
     (''13227'', ''Pickens'', ''https://qpublic.net/ga/pickens/''),
     (''13229'', ''Pierce'', ''https://qpublic.net/ga/pierce/''),
     (''13231'', ''Pike'', ''https://qpublic.net/ga/pike/''),
     (''13233'', ''Polk'', ''https://qpublic.net/ga/polk/''),
     (''13235'', ''Pulaski'', ''https://qpublic.net/ga/pulaski/''),
     (''13237'', ''Putnam'', ''https://qpublic.net/ga/putnam/''),
     (''13239'', ''Quitman'', ''https://qpublic.net/ga/quitman/''),
     (''13241'', ''Rabun'', ''https://qpublic.net/ga/rabun/''),
     (''13243'', ''Randolph'', ''https://qpublic.net/ga/randolph/''),
     (''13245'', ''Richmond'', ''https://augustarichmondtaxassessor.com/''),
     (''13247'', ''Rockdale'', ''https://qpublic.net/ga/rockdale/''),
     (''13249'', ''Schley'', ''https://qpublic.net/ga/schley/''),
     (''13251'', ''Screven'', ''https://qpublic.net/ga/screven/''),
     (''13253'', ''Seminole'', ''https://qpublic.net/ga/seminole/''),
     (''13255'', ''Spalding'', ''https://qpublic.net/ga/spalding/''),
     (''13257'', ''Stephens'', ''https://qpublic.net/ga/stephens/''),
     (''13259'', ''Stewart'', ''https://qpublic.net/ga/stewart/''),
     (''13261'', ''Sumter'', ''https://sumterassessors.com/''),
     (''13263'', ''Talbot'', ''https://qpublic.net/ga/talbot/''),
     (''13265'', ''Taliaferro'', ''https://qpublic.net/ga/taliaferro/''),
     (''13267'', ''Tattnall'', ''https://qpublic.net/ga/tattnall/''),
     (''13269'', ''Taylor'', ''https://qpublic.net/ga/taylor/''),
     (''13271'', ''Telfair'', ''https://qpublic.net/ga/telfair/''),
     (''13273'', ''Terrell'', ''https://qpublic.net/ga/terrell/''),
     (''13275'', ''Thomas'', ''https://qpublic.net/ga/thomas/''),
     (''13277'', ''Tift'', ''https://qpublic.net/ga/tift/''),
     (''13279'', ''Toombs'', ''https://qpublic.net/ga/toombs/''),
     (''13281'', ''Towns'', ''https://qpublic.net/ga/towns/''),
     (''13283'', ''Treutlen'', ''https://qpublic.net/ga/treutlen/''),
     (''13285'', ''Troup'', ''https://qpublic.net/ga/troup/''),
     (''13287'', ''Turner'', ''https://qpublic.net/ga/turner/''),
     (''13289'', ''Twiggs'', ''https://qpublic.net/ga/twiggs/''),
     (''13291'', ''Union'', ''https://qpublic.schneidercorp.com/Application.aspx?App=UnionCountyGA&Layer=Parcels&PageType=Search''),
     (''13293'', ''Upson'', ''https://qpublic.net/ga/upson/''),
     (''13295'', ''Walker'', ''https://qpublic.net/ga/walker/''),
     (''13297'', ''Walton'', ''https://qpublic.net/ga/walton/'')]"

definition ga_appraiser_2 :: "(string \<times> string) table" where
  "ga_appraiser_2 =
    [(''13299'', ''Ware'', ''https://qpublic.net/ga/ware/''),
     (''13301'', ''Warren'', ''https://qpublic.net/ga/warren/''),
     (''13303'', ''Washington'', ''https://qpublic.net/ga/washington/''),
     (''13305'', ''Wayne'', ''https://qpublic.net/ga/wayne/''),
     (''13307'', ''Webster'', ''https://qpublic.net/ga/webster/''),
     (''13309'', ''Wheeler'', ''https://qpublic.net/ga/wheeler/''),
     (''13311'', ''White'', ''https://qpublic.net/ga/white/''),
     (''13313'', ''Whitfield'', ''https://qpublic.net/ga/whitfield/''),
     (''13315'', ''Wilcox'', ''https://qpublic.net/ga/wilcox/''),
     (''13317'', ''Wilkes'', ''https://qpublic.net/ga/wilkes/''),
     (''13319'', ''Wilkinson'', ''https://qpublic.net/ga/wilkinson/''),
     (''13321'', ''Worth'', ''https://qpublic.net/ga/worth/'')]"

definition ga_appraiser :: "(string \<times> string) table" where
  "ga_appraiser = ga_appraiser_1 @ ga_appraiser_2"

definition ga_linked :: "entry table" where
  "ga_linked = fold_links ''GA'' ''appraiser_url'' ga_appraiser ga_counties"

section \<open>All the counties\<close>

definition QPUBLIC :: string where
  "QPUBLIC = ''https://qpublic.net/ga/{}/''"

definition APPRAISER_OVERRIDE :: "string table" where
  "APPRAISER_OVERRIDE =
    [
     (''13135'', ''https://www.gwinnettcounty.com/government/departments/county-administrator/assessor''),
     (''13051'', ''https://boa.chathamcountyga.gov/''),
     (''13063'', ''https://claytoncountypropertyappraiser.org/''),
     (''13097'', ''https://www.celebratedouglascounty.com/TaxAssessor/''),
     (''13113'', ''https://fayettecountyga.gov/departments/assessor/online_services.php''),
     (''13073'', ''https://qpublic.schneidercorp.com/Application.aspx?App=ColumbiaCountyGA&PageType=Search''),
     (''13011'', ''https://qpublic.schneidercorp.com/Application.aspx?App=BanksCountyGA&PageType=Search'')]"


text \<open>\<open>re.sub(r"[^a-z0-9]", "", basename.lower())\<close>.\<close>

definition ga_slug :: "string \<Rightarrow> string" where
  "ga_slug basename = filter (\<lambda>c. is_lower c \<or> is_digit c) (lower basename)"

definition ga_fill_one :: "entry table \<Rightarrow> county_row \<Rightarrow> entry table" where
  "ga_fill_one d c =
     (let fips = cw_fips c;
          slug = ga_slug (cw_basename c);
          cur = (case map_of d fips of
                   None \<Rightarrow>
                     [(''county'', RStr (cw_basename c)), (''state'', RStr ''GA''),
                      (''clerk_url'', RStr GSCCCA), (''clerk_platform'', RStr ''unknown''),
                      (''clerk_note'', RStr ''Georgia statewide GSCCCA real-estate index (all counties).'')]
                 | Some e \<Rightarrow> e);
          url = (case map_of APPRAISER_OVERRIDE fips of Some u \<Rightarrow> u | None \<Rightarrow> format_one QPUBLIC slug)
      in dict_put fips (dict_setdefault ''appraiser_url'' (RStr url) cur) d)"

text \<open>The counties of the sweep, \<open>COUNTIES.update({...})\<close>.\<close>

definition ga_swept_1 :: "entry table" where
  "ga_swept_1 =
    [(''13013'',
       [(''county'', RStr ''Barrow''), (''state'', RStr ''GA''),
        (''gis_rest'', RStr ''https://services5.arcgis.com/OVFGXfRTCVcPwl55/arcgis/rest/services/Barrow_Parcels_w_Owner/FeatureServer/0''),
        (''id_fields'', RList [''Map_no'', ''Parcel_no'', ''PARCEL_NO_1'']), (''clerk_url'', RStr GSCCCA),
        (''clerk_platform'', RStr ''unknown''),
        (''clerk_note'', RStr ''Georgia statewide GSCCCA real-estate index (all counties).'')]),
     (''13017'',
       [(''county'', RStr ''Ben Hill''), (''state'', RStr ''GA''),
        (''gis_rest'', RStr ''https://services5.arcgis.com/HA2thkMWRBDb77XN/arcgis/rest/services/BH_Property/FeatureServer/2''),
        (''id_fields'', RList [''PARCEL_NO'', ''ACCTSTATUS_1'']), (''clerk_url'', RStr GSCCCA),
        (''clerk_platform'', RStr ''unknown''),
        (''clerk_note'', RStr ''Georgia statewide GSCCCA real-estate index (all counties).'')]),
     (''13055'',
       [(''county'', RStr ''Chattooga''), (''state'', RStr ''GA''),
        (''gis_rest'', RStr ''https://services9.arcgis.com/eXIsbyIncFwEzqul/arcgis/rest/services/parcels_historic/FeatureServer/2''),
        (''id_fields'', RList [''parcel_address'']), (''clerk_url'', RStr GSCCCA),
        (''clerk_platform'', RStr ''unknown''),
        (''clerk_note'', RStr ''Georgia statewide GSCCCA real-estate index (all counties).'')]),
     (''13061'',
       [(''county'', RStr ''Clay''), (''state'', RStr ''GA''),
        (''gis_rest'', RStr ''https://services1.arcgis.com/Ug5xGQbHsD8zuZzM/arcgis/rest/services/Clay_County_Parcels_10_23/FeatureServer/0''),
        (''id_fields'', RList [''Parcel_No'', ''acctstatus'', ''Parcel'']), (''clerk_url'', RStr GSCCCA),
        (''clerk_platform'', RStr ''unknown''),
        (''clerk_note'', RStr ''Georgia statewide GSCCCA real-estate index (all counties).''),
        (''situs_exclude'', RList [''address1'', ''address2'', ''address3'', ''city'', ''state'', ''zip'', ''zip_code''])]),
     (''13083'',
       [(''county'', RStr ''Dade''), (''state'', RStr ''GA''),
        (''gis_rest'', RStr ''https://services.arcgis.com/UnTXoPXBYERF0OH6/arcgis/rest/services/Dade_Parcels_2020LLLT/FeatureServer/5''),
        (''id_fields'', RList [''PARCEL_NO'', ''parcelAddress'']), (''clerk_url'', RStr GSCCCA),
        (''clerk_platform'', RStr ''unknown''),
        (''clerk_note'', RStr ''Georgia statewide GSCCCA real-estate index (all counties).'')]),
     (''13095'',
       [(''county'', RStr ''Dougherty''), (''state'', RStr ''GA''),
        (''gis_rest'', RStr ''https://services6.arcgis.com/VKHi8CC6pMIyYUIs/arcgis/rest/services/Parcels_Public_View/FeatureServer/0''),
        (''id_fields'', RList [''ParcelNum'', ''Parcels'']), (''clerk_url'', RStr GSCCCA),
        (''clerk_platform'', RStr ''unknown''),
        (''clerk_note'', RStr ''Georgia statewide GSCCCA real-estate index (all counties).'')]),
     (''13101'',
       [(''county'', RStr ''Echols''), (''state'', RStr ''GA''),
        (''gis_rest'', RStr ''https://services5.arcgis.com/HA2thkMWRBDb77XN/arcgis/rest/services/Echols_Tax_Parcels/FeatureServer/11''),
        (''id_fields'', RList [''PARCELNO'', ''PARCEL_NO'', ''PARCEL_NO2'']), (''clerk_url'', RStr GSCCCA),
        (''clerk_platform'', RStr ''unknown''),
        (''clerk_note'', RStr ''Georgia statewide GSCCCA real-estate index (all counties).'')]),
     (''13103'',
       [(''county'', RStr ''Effingham''), (''state'', RStr ''GA''),
        (''gis_rest'', RStr ''https://services5.arcgis.com/9Z9r3rLUCq0SjsRb/arcgis/rest/services/Effingham_County_GA_Parcels/FeatureServer/0''),
        (''id_fields'', RList [''PIN400'', ''PIN'', ''WPIN'']), (''situs_exclude'', RList [''address1'']),
        (''clerk_url'', RStr GSCCCA), (''clerk_platform'', RStr ''unknown''),
        (''clerk_note'', RStr ''Georgia statewide GSCCCA real-estate index (all counties).'')]),
     (''13107'',
       [(''county'', RStr ''Emanuel''), (''state'', RStr ''GA''),
        (''gis_rest'', RStr ''https://services5.arcgis.com/HHvUPZ2XuLOAJxjR/arcgis/rest/services/Emanuel_CountyWide_GeoData_View/FeatureServer/20''),
        (''id_fields'', RList [''Parcel_No'', ''acctstatus'', ''Parcel'']), (''clerk_url'', RStr GSCCCA),
        (''clerk_platform'', RStr ''unknown''),
        (''clerk_note'', RStr ''Georgia statewide GSCCCA real-estate index (all counties).'')]),
     (''13109'',
       [(''county'', RStr ''Evans''), (''state'', RStr ''GA''),
        (''gis_rest'', RStr ''https://services6.arcgis.com/vgwS5Le2XfU2EPjI/arcgis/rest/services/Evans_Address_WithParcel_info/FeatureServer/1''),
        (''id_fields'', RList [''PARCEL_NO'']), (''clerk_url'', RStr GSCCCA),
        (''clerk_platform'', RStr ''unknown''),
        (''clerk_note'', RStr ''Georgia statewide GSCCCA real-estate index (all counties).'')]),
     (''13113'',
       [(''county'', RStr ''Fayette''), (''state'', RStr ''GA''),
        (''gis_rest'', RStr ''https://services5.arcgis.com/Hg5aLg4LtSINzVWa/arcgis/rest/services/Parcels_Data_SAGES/FeatureServer/0''),
        (''id_fields'', RList [''PARCEL_NO'', ''PARCEL_KEY'', ''PARCEL'']), (''clerk_url'', RStr GSCCCA),
        (''clerk_platform'', RStr ''unknown''),
        (''clerk_note'', RStr ''Georgia statewide GSCCCA real-estate index (all counties).'')]),
     (''13115'',
       [(''county'', RStr ''Floyd''), (''state'', RStr ''GA''),
        (''gis_rest'', RStr ''https://services2.arcgis.com/nV67H1IJR8GS6SAA/arcgis/rest/services/Current_Parcels/FeatureServer/5''),
        (''id_fields'', RList [''PARCEL'', ''PARCEL_1'']), (''clerk_url'', RStr GSCCCA),
        (''clerk_platform'', RStr ''unknown''),
        (''clerk_note'', RStr ''Georgia statewide GSCCCA real-estate index (all counties).'')]),
     (''13133'',
       [(''county'', RStr ''Greene''), (''state'', RStr ''GA''),
        (''gis_rest'', RStr ''https://services7.arcgis.com/QbbsWI5nIfBp4cMB/arcgis/rest/services/Parcel_Regions_w_WinGAP_view/FeatureServer/0''),
        (''id_fields'', RList [''Parcel_No'', ''acctstatus'', ''Parcel'']), (''clerk_url'', RStr GSCCCA),
        (''clerk_platform'', RStr ''unknown''),
        (''clerk_note'', RStr ''Georgia statewide GSCCCA real-estate index (all counties).'')]),
     (''13185'',
       [(''county'', RStr ''Lowndes''), (''state'', RStr ''GA''),
        (''gis_rest'', RStr ''https://services3.arcgis.com/fYt1jp3hqamxgSvI/arcgis/rest/services/TaxParcels_OwnerName/FeatureServer/0''),
        (''id_fields'', RList [''PARCEL_NO'', ''PARCEL'']), (''clerk_url'', RStr GSCCCA),
        (''clerk_platform'', RStr ''unknown''),
        (''clerk_note'', RStr ''Georgia statewide GSCCCA real-estate index (all counties).'')]),
     (''13187'',
       [(''county'', RStr ''Lumpkin''), (''state'', RStr ''GA''),
        (''gis_rest'', RStr ''https://services6.arcgis.com/BAJNi3EgCdtQ1BCG/arcgis/rest/services/Lumpkin_2025Parcels/FeatureServer/0''),
        (''id_fields'', RList [''PARCEL_NO'', ''PARCEL_N_1'', ''parcel_n_2'']),
        (''clerk_url'', RStr GSCCCA), (''clerk_platform'', RStr ''unknown''),
        (''clerk_note'', RStr ''Georgia statewide GSCCCA real-estate index (all counties).'')])]"

definition ga_swept_2 :: "entry table" where
  "ga_swept_2 =
    [(''13199'',
       [(''county'', RStr ''Meriwether''), (''state'', RStr ''GA''),
        (''gis_rest'', RStr ''https://services9.arcgis.com/Xv8vRekQ4FVHSSIe/arcgis/rest/services/MeriwetherParcels/FeatureServer/0''),
        (''id_fields'', RList [''Parcel_No'', ''acctstatus'', ''Parcel'']), (''clerk_url'', RStr GSCCCA),
        (''clerk_platform'', RStr ''unknown''),
        (''clerk_note'', RStr ''Georgia statewide GSCCCA real-estate index (all counties).'')]),
     (''13225'',
       [(''county'', RStr ''Peach''), (''state'', RStr ''GA''),
        (''gis_rest'', RStr ''https://services1.arcgis.com/Ug5xGQbHsD8zuZzM/arcgis/rest/services/Peach_County_Parcels/FeatureServer/0''),
        (''id_fields'', RList [''PARCEL_NO'']), (''clerk_url'', RStr GSCCCA),
        (''clerk_platform'', RStr ''unknown''),
        (''clerk_note'', RStr ''Georgia statewide GSCCCA real-estate index (all counties).'')]),
     (''13287'',
       [(''county'', RStr ''Turner''), (''state'', RStr ''GA''),
        (''gis_rest'', RStr ''https://services5.arcgis.com/HA2thkMWRBDb77XN/arcgis/rest/services/TunerParcels/FeatureServer/4''),
        (''id_fields'', RList [''Parcel_No'', ''acctstatus'', ''Parcel'']), (''clerk_url'', RStr GSCCCA),
        (''clerk_platform'', RStr ''unknown''),
        (''clerk_note'', RStr ''Georgia statewide GSCCCA real-estate index (all counties).'')]),
     (''13289'',
       [(''county'', RStr ''Twiggs''), (''state'', RStr ''GA''),
        (''gis_rest'', RStr ''https://services1.arcgis.com/Ug5xGQbHsD8zuZzM/arcgis/rest/services/Twiggs_County_Parcels/FeatureServer/0''),
        (''id_fields'', RList [''PARCEL_NO'']), (''clerk_url'', RStr GSCCCA),
        (''clerk_platform'', RStr ''unknown''),
        (''clerk_note'', RStr ''Georgia statewide GSCCCA real-estate index (all counties).'')]),
     (''13313'',
       [(''county'', RStr ''Whitfield''), (''state'', RStr ''GA''),
        (''gis_rest'', RStr ''https://services7.arcgis.com/POtw9JZ8E63Yf33x/arcgis/rest/services/City_of_Dalton_WFL1/FeatureServer/7''),
        (''id_fields'', RList [''PARCEL_FUL'']), (''clerk_url'', RStr GSCCCA),
        (''clerk_platform'', RStr ''unknown''),
        (''clerk_note'', RStr ''Georgia statewide GSCCCA real-estate index (all counties).'')])]"

definition ga_swept :: "entry table" where
  "ga_swept = ga_swept_1 @ ga_swept_2"


definition ga_filled :: "county_row list \<Rightarrow> entry table" where
  "ga_filled rows = dict_update (foldl ga_fill_one ga_linked rows) ga_swept"

definition ga_module :: "county_row list \<Rightarrow> state_module" where
  "ga_module rows =
     \<lparr>sm_state = ''GA'', sm_parcel = None, sm_counties = ga_filled rows,
      sm_deed_link = GSCCCA, sm_plat_link = GSCCCA_PLAT, sm_appraiser_link = []\<rparr>"

end
