(* ===== verification/RegistryData.thy ===== *)
theory RegistryData
  imports GeorgiaData
begin

text \<open>
  The registry the program runs with: the literal \<open>REGISTRY\<close> of \<open>data/county_platforms.py\<close>, the list of the
  state modules in the order \<open>pkgutil.iter_modules\<close> imports them (by file name), and the registry built
  from them, Georgia's rows of the county list and the bulk links.
\<close>

section \<open>The seeded counties\<close>

definition REGISTRY_base_1 :: "entry table" where
  "REGISTRY_base_1 =
    [(''12127'',
       [(''county'', RStr ''Volusia''), (''state'', RStr ''FL''),
        (''clerk_url'', RStr ''https://app02.clerk.org/or_m/''), (''clerk_platform'', RStr ''inhouse''),
        (''clerk_note'', RStr ''In-house Document Inquiry. ToS prohibits bulk reproduction - per-job lookups only. Index from 1988-04-04.''),
        (''appraiser_url'', RStr ''https://vcpa.vcgov.org/searches.html''), (''gis_rest'', RNone)]),
     (''12105'',
       [(''county'', RStr ''Polk''), (''state'', RStr ''FL''),
        (''clerk_url'', RStr ''https://apps.polkcountyclerk.net/browserviewor/''),
        (''clerk_platform'', RStr ''inhouse''),
        (''appraiser_url'', RStr ''https://www.polkflpa.gov/CamaSearch.aspx''), (''gis_rest'', RNone)]),
     (''12103'',
       [(''county'', RStr ''Pinellas''), (''state'', RStr ''FL''),
        (''clerk_url'', RStr ''https://officialrecords.mypinellasclerk.gov/''),
        (''clerk_platform'', RStr ''acclaim''), (''appraiser_url'', RStr ''https://www.pcpao.gov/''),
        (''gis_rest'', RStr ''https://egis.pinellas.gov/gis/rest/services/PublicWebGIS/Parcels/MapServer''),
        (''parcel_layer_hint'', RStr ''parcel'')]),
     (''12009'',
       [(''county'', RStr ''Brevard''), (''state'', RStr ''FL''),
        (''clerk_url'', RStr ''https://vaclmweb1.brevardclerk.us/AcclaimWeb/''),
        (''clerk_platform'', RStr ''acclaim''), (''appraiser_url'', RStr ''https://www.bcpao.us/''),
        (''appraiser_api'', RStr ''https://www.bcpao.us/api/v1/''), (''gis_rest'', RNone)]),
     (''12057'',
       [(''county'', RStr ''Hillsborough''), (''state'', RStr ''FL''),
        (''clerk_url'', RStr ''https://publicaccess.hillsclerk.com/oripublicaccess/''),
        (''clerk_platform'', RStr ''inhouse''), (''appraiser_url'', RStr ''https://www.hcpafl.org/''),
        (''gis_rest'', RNone)]),
     (''12011'',
       [(''county'', RStr ''Broward''), (''state'', RStr ''FL''),
        (''clerk_url'', RStr ''https://officialrecords.broward.org/AcclaimWeb/''),
        (''clerk_platform'', RStr ''acclaim''),
        (''clerk_note'', RStr ''Free bulk FTP feed (10 rolling days of images + index). All plats searchable regardless of date.''),
        (''appraiser_url'', RStr ''https://web.bcpa.net/''), (''gis_rest'', RNone)]),
     (''12095'',
       [(''county'', RStr ''Orange''), (''state'', RStr ''FL''),
        (''clerk_url'', RStr ''https://or.occompt.com/recorder/web/''),
        (''clerk_platform'', RStr ''eagle''), (''appraiser_url'', RStr ''https://ocpafl.org/''),
        (''gis_rest'', RNone)]),
     (''12086'',
       [(''county'', RStr ''Miami-Dade''), (''state'', RStr ''FL''),
        (''clerk_url'', RStr ''https://onlineservices.miamidadeclerk.gov/officialrecords/StandardSearch.aspx''),
        (''clerk_platform'', RStr ''inhouse''),
        (''appraiser_url'', RStr ''https://www.miamidade.gov/pa/''),
        (''gis_rest'', RStr ''https://gisweb.miamidade.gov/arcgis/rest/services/MD_LandInformation/MapServer''),
        (''parcel_layer_hint'', RStr ''parcel'')]),
     (''12069'',
       [(''county'', RStr ''Lake''), (''state'', RStr ''FL''),
        (''clerk_url'', RStr ''https://officialrecords.lakecountyclerk.org/''),
        (''clerk_platform'', RStr ''landmark''),
        (''appraiser_url'', RStr ''https://www.lakecopropappr.com/''), (''gis_rest'', RNone)]),
     (''12115'',
       [(''county'', RStr ''Sarasota''), (''state'', RStr ''FL''),
        (''clerk_url'', RStr ''https://secure.sarasotaclerk.com/OfficialRecords.aspx''),
        (''clerk_platform'', RStr ''inhouse''), (''appraiser_url'', RStr ''https://www.sc-pa.com/''),
        (''gis_rest'', RNone)]),
     (''12121'',
       [(''county'', RStr ''Suwannee''), (''state'', RStr ''FL''),
        (''clerk_url'', RStr ''https://www.myfloridacounty.com/orisearch/61''),
        (''clerk_platform'', RStr ''inhouse''), (''appraiser_url'', RStr ''https://www.suwanneepa.com/''),
        (''gis_rest'', RNone)]),
     (''12133'',
       [(''county'', RStr ''Washington''), (''state'', RStr ''FL''),
        (''clerk_url'', RStr ''https://www.myfloridacounty.com/orisearch/67''),
        (''clerk_platform'', RStr ''inhouse''),
        (''appraiser_url'', RStr ''https://www.qpublic.net/fl/washington/''), (''gis_rest'', RNone)]),
     (''12031'',
       [(''county'', RStr ''Duval''), (''state'', RStr ''FL''),
        (''clerk_url'', RStr ''https://or.duvalclerk.com/''), (''clerk_platform'', RStr ''inhouse''),
        (''appraiser_url'', RStr ''https://www.jacksonville.gov/departments/property-appraiser''),
        (''gis_rest'', RNone)]),
     (''12071'',
       [(''county'', RStr ''Lee''), (''state'', RStr ''FL''),
        (''clerk_url'', RStr ''https://www.leeclerk.org/departments/official-records-services/search-official-records''),
        (''clerk_platform'', RStr ''inhouse''), (''appraiser_url'', RStr ''https://www.leepa.org/''),
        (''gis_rest'', RNone)]),
     (''12021'',
       [(''county'', RStr ''Collier''), (''state'', RStr ''FL''),
        (''clerk_url'', RStr ''https://cor.collierclerk.com/coraccess/search/document''),
        (''clerk_platform'', RStr ''inhouse''),
        (''appraiser_url'', RStr ''https://www.collierappraiser.com/''), (''gis_rest'', RNone)]),
     (''12033'',
       [(''county'', RStr ''Escambia''), (''state'', RStr ''FL''),
        (''clerk_url'', RStr ''https://www.escambiaclerk.com/258/Online-Public-Records''),
        (''clerk_platform'', RStr ''inhouse''), (''appraiser_url'', RStr ''https://www.escpa.org/''),
        (''gis_rest'', RNone)]),
     (''12099'',
       [(''county'', RStr ''Palm Beach''), (''state'', RStr ''FL''),
        (''clerk_url'', RStr ''https://erec.mypalmbeachclerk.com/''),
        (''clerk_platform'', RStr ''landmark''), (''appraiser_url'', RStr ''https://pbcpao.gov/''),
        (''gis_rest'', RNone)]),
     (''12101'',
       [(''county'', RStr ''Pasco''), (''state'', RStr ''FL''),
        (''clerk_url'', RStr ''https://www.pascoclerk.com/333/Pasco-County-Official-Records-Search''),
        (''clerk_platform'', RStr ''inhouse''), (''appraiser_url'', RStr ''https://pascopa.com/''),
        (''gis_rest'', RNone)]),
     (''12117'',
       [(''county'', RStr ''Seminole''), (''state'', RStr ''FL''),
        (''clerk_url'', RStr ''https://recording.seminoleclerk.org/''),
        (''clerk_platform'', RStr ''inhouse''), (''appraiser_url'', RStr ''https://www.scpafl.org/''),
        (''gis_rest'', RNone)]),
     (''12083'',
       [(''county'', RStr ''Marion''), (''state'', RStr ''FL''),
        (''clerk_url'', RStr ''https://www.marioncountyclerk.org/departments/records-recording/official-records-recording/''),
        (''clerk_platform'', RStr ''inhouse''), (''appraiser_url'', RStr ''https://www.pa.marion.fl.us/''),
        (''gis_rest'', RNone)])]"

definition REGISTRY_base_2 :: "entry table" where
  "REGISTRY_base_2 =
    [(''12081'',
       [(''county'', RStr ''Manatee''), (''state'', RStr ''FL''),
        (''clerk_url'', RStr ''https://records.manateeclerk.com/OfficialRecords/Search''),
        (''clerk_platform'', RStr ''inhouse''), (''appraiser_url'', RStr ''https://www.manateepao.gov/''),
        (''gis_rest'', RNone)]),
     (''12097'',
       [(''county'', RStr ''Osceola''), (''state'', RStr ''FL''),
        (''clerk_url'', RStr ''https://officialrecords.osceolaclerk.org/searchng_ssl/''),
        (''clerk_platform'', RStr ''inhouse''),
        (''appraiser_url'', RStr ''https://www.property-appraiser.org/''), (''gis_rest'', RNone)]),
     (''12111'',
       [(''county'', RStr ''St. Lucie''), (''state'', RStr ''FL''),
        (''clerk_url'', RStr ''https://stlucieclerk.gov/search-official-records''),
        (''clerk_platform'', RStr ''inhouse''), (''appraiser_url'', RStr ''https://www.paslc.gov/''),
        (''gis_rest'', RNone)]),
     (''12109'',
       [(''county'', RStr ''St. Johns''), (''state'', RStr ''FL''),
        (''clerk_url'', RStr ''https://apps.stjohnsclerk.com/Landmark''),
        (''clerk_platform'', RStr ''landmark''), (''appraiser_url'', RStr ''https://www.sjcpa.gov/''),
        (''gis_rest'', RNone)]),
     (''12001'',
       [(''county'', RStr ''Alachua''), (''state'', RStr ''FL''),
        (''clerk_url'', RStr ''https://isol.alachuaclerk.org/RealEstate/SearchEntry.aspx?e=newSession''),
        (''clerk_platform'', RStr ''inhouse''), (''appraiser_url'', RStr ''https://www.acpafl.org/''),
        (''gis_rest'', RNone)]),
     (''12005'',
       [(''county'', RStr ''Bay''), (''state'', RStr ''FL''),
        (''clerk_url'', RStr ''https://www.baycoclerk.com/public-records/search-official-records/''),
        (''clerk_platform'', RStr ''landmark''), (''appraiser_url'', RStr ''https://baypa.net/''),
        (''gis_rest'', RNone)]),
     (''12019'',
       [(''county'', RStr ''Clay''), (''state'', RStr ''FL''),
        (''clerk_url'', RStr ''https://landmark.clayclerk.com/landmarkweb''),
        (''clerk_platform'', RStr ''landmark''), (''appraiser_url'', RStr ''https://www.ccpao.com/''),
        (''gis_rest'', RNone)]),
     (''12015'',
       [(''county'', RStr ''Charlotte''), (''state'', RStr ''FL''),
        (''clerk_url'', RStr ''https://or.charlotteclerk.com/recording/''),
        (''clerk_platform'', RStr ''landmark''),
        (''appraiser_url'', RStr ''https://www.ccappraiser.com/''), (''gis_rest'', RNone)]),
     (''12017'',
       [(''county'', RStr ''Citrus''), (''state'', RStr ''FL''),
        (''clerk_url'', RStr ''https://search.citrusclerk.org/LandmarkWeb''),
        (''clerk_platform'', RStr ''landmark''), (''appraiser_url'', RStr ''https://www.citruspa.org/''),
        (''gis_rest'', RNone)]),
     (''12053'',
       [(''county'', RStr ''Hernando''), (''state'', RStr ''FL''),
        (''clerk_url'', RStr ''https://or.hernandoclerk.com/landmarkweb/''),
        (''clerk_platform'', RStr ''landmark''), (''appraiser_url'', RStr ''https://hernandopa-fl.us/''),
        (''gis_rest'', RNone)]),
     (''12085'',
       [(''county'', RStr ''Martin''), (''state'', RStr ''FL''),
        (''clerk_url'', RStr ''https://or.martinclerk.com/LandmarkWeb''),
        (''clerk_platform'', RStr ''landmark''), (''appraiser_url'', RStr ''https://www.pamartinfl.gov/''),
        (''gis_rest'', RNone)]),
     (''12061'',
       [(''county'', RStr ''Indian River''), (''state'', RStr ''FL''),
        (''clerk_url'', RStr ''https://landmark.indian-river.org/''),
        (''clerk_platform'', RStr ''landmark''), (''appraiser_url'', RStr ''https://www.ircpa.org/''),
        (''gis_rest'', RNone)]),
     (''12073'',
       [(''county'', RStr ''Leon''), (''state'', RStr ''FL''),
        (''clerk_url'', RStr ''https://leonclerk.com/helpful-resources/records/official-records/''),
        (''clerk_platform'', RStr ''inhouse''), (''appraiser_url'', RStr ''https://www.leonpa.gov/''),
        (''gis_rest'', RNone)]),
     (''12091'',
       [(''county'', RStr ''Okaloosa''), (''state'', RStr ''FL''),
        (''clerk_url'', RStr ''https://okaloosacountyfl-web.tylerhost.net/web''),
        (''clerk_platform'', RStr ''eagle''), (''appraiser_url'', RStr ''https://www.okaloosapa.com/''),
        (''gis_rest'', RNone)]),
     (''12113'',
       [(''county'', RStr ''Santa Rosa''), (''state'', RStr ''FL''),
        (''clerk_url'', RStr ''https://santarosaclerk.com/courts/search-public-records/''),
        (''clerk_platform'', RStr ''inhouse''), (''appraiser_url'', RStr ''https://srcpa.gov/''),
        (''gis_rest'', RNone)]),
     (''12087'',
       [(''county'', RStr ''Monroe''), (''state'', RStr ''FL''),
        (''clerk_url'', RStr ''https://monroe-clerk.com/''), (''clerk_platform'', RStr ''inhouse''),
        (''appraiser_url'', RStr ''https://www.mcpafl.org/''), (''gis_rest'', RNone)]),
     (''12089'',
       [(''county'', RStr ''Nassau''), (''state'', RStr ''FL''),
        (''clerk_url'', RStr ''https://www.nassauclerk.com/174/Official-Records''),
        (''clerk_platform'', RStr ''inhouse''), (''appraiser_url'', RStr ''https://www.nassauflpa.com/''),
        (''gis_rest'', RNone)]),
     (''12035'',
       [(''county'', RStr ''Flagler''), (''state'', RStr ''FL''),
        (''clerk_url'', RStr ''https://records.flaglerclerk.gov/''),
        (''clerk_platform'', RStr ''inhouse''), (''appraiser_url'', RStr ''https://flaglerpa.com/''),
        (''gis_rest'', RNone)]),
     (''12023'',
       [(''county'', RStr ''Columbia''), (''state'', RStr ''FL''),
        (''clerk_url'', RStr ''https://columbiaclerk.com/online-services/search-records/''),
        (''clerk_platform'', RStr ''inhouse''),
        (''appraiser_url'', RStr ''https://columbia.floridapa.com/''), (''gis_rest'', RNone)]),
     (''12119'',
       [(''county'', RStr ''Sumter''), (''state'', RStr ''FL''),
        (''clerk_url'', RStr ''https://www.sumterclerk.com/public-records/official-records/search-official-records-online/''),
        (''clerk_platform'', RStr ''inhouse''), (''appraiser_url'', RStr ''https://www.sumterpa.com/''),
        (''gis_rest'', RNone)]),
     (''12055'',
       [(''county'', RStr ''Highlands''), (''state'', RStr ''FL''),
        (''clerk_url'', RStr ''https://www.highlandsclerkfl.gov/popular_services/official_records_search.php''),
        (''clerk_platform'', RStr ''inhouse''), (''appraiser_url'', RStr ''https://www.hcpao.org/''),
        (''gis_rest'', RNone)])]"

definition REGISTRY_base_3 :: "entry table" where
  "REGISTRY_base_3 =
    [(''12107'',
       [(''county'', RStr ''Putnam''), (''state'', RStr ''FL''),
        (''clerk_url'', RStr ''https://putnamclerk.com/county-recorder/official-records/''),
        (''clerk_platform'', RStr ''inhouse''), (''appraiser_url'', RStr ''https://pa.putnam-fl.com/''),
        (''gis_rest'', RNone)]),
     (''12051'',
       [(''county'', RStr ''Hendry''), (''state'', RStr ''FL''),
        (''clerk_url'', RStr ''https://www.hendryclerk.org/courts/official-records/''),
        (''clerk_platform'', RStr ''inhouse''), (''appraiser_url'', RStr ''https://hendryprop.com/''),
        (''gis_rest'', RNone)]),
     (''12027'',
       [(''county'', RStr ''DeSoto''), (''state'', RStr ''FL''),
        (''clerk_url'', RStr ''https://www.desotoclerk.com/records/records-search/''),
        (''clerk_platform'', RStr ''inhouse''), (''appraiser_url'', RStr ''https://www.desotopa.com/''),
        (''gis_rest'', RNone)]),
     (''12049'',
       [(''county'', RStr ''Hardee''), (''state'', RStr ''FL''),
        (''clerk_url'', RStr ''https://www.hardeeclerk.com/departments/recording/recording-official-records/''),
        (''clerk_platform'', RStr ''inhouse''), (''appraiser_url'', RStr ''https://hardeepa.com/''),
        (''gis_rest'', RNone)]),
     (''12093'',
       [(''county'', RStr ''Okeechobee''), (''state'', RStr ''FL''),
        (''clerk_url'', RStr ''https://www.okeechobeelandmark.com/''),
        (''clerk_platform'', RStr ''landmark''),
        (''appraiser_url'', RStr ''https://www.okeechobeepa.com/''), (''gis_rest'', RNone)]),
     (''12003'',
       [(''county'', RStr ''Baker''), (''state'', RStr ''FL''),
        (''clerk_url'', RStr ''https://recording.bakerclerk.com/''),
        (''clerk_platform'', RStr ''inhouse''), (''appraiser_url'', RStr ''https://www.bakerpa.com/''),
        (''gis_rest'', RNone)]),
     (''12007'',
       [(''county'', RStr ''Bradford''), (''state'', RStr ''FL''),
        (''clerk_url'', RStr ''https://bradfordclerk.com/official-records/''),
        (''clerk_platform'', RStr ''inhouse''),
        (''appraiser_url'', RStr ''https://www.bradfordappraiser.com/''), (''gis_rest'', RNone)]),
     (''12131'',
       [(''county'', RStr ''Walton''), (''state'', RStr ''FL''),
        (''clerk_url'', RStr ''https://orsearch.clerkofcourts.co.walton.fl.us/''),
        (''clerk_platform'', RStr ''landmark''), (''appraiser_url'', RStr ''https://waltonpa.com/''),
        (''gis_rest'', RNone)]),
     (''12063'',
       [(''county'', RStr ''Jackson''), (''state'', RStr ''FL''),
        (''clerk_url'', RStr ''https://www.jacksonclerk.com/search-official-records/''),
        (''clerk_platform'', RStr ''inhouse''), (''appraiser_url'', RStr ''https://jacksonpa.com/''),
        (''gis_rest'', RNone)]),
     (''12039'',
       [(''county'', RStr ''Gadsden''), (''state'', RStr ''FL''),
        (''clerk_url'', RStr ''https://www.gadsdenclerk.com/''), (''clerk_platform'', RStr ''inhouse''),
        (''appraiser_url'', RStr ''https://gadsdenpa.com/''), (''gis_rest'', RNone)]),
     (''12075'',
       [(''county'', RStr ''Levy''), (''state'', RStr ''FL''),
        (''clerk_url'', RStr ''https://levyclerk.com/departments-services/records-management/official-records/''),
        (''clerk_platform'', RStr ''inhouse''),
        (''appraiser_url'', RStr ''https://www.qpublic.net/fl/levy/''), (''gis_rest'', RNone)]),
     (''12129'',
       [(''county'', RStr ''Wakulla''), (''state'', RStr ''FL''),
        (''clerk_url'', RStr ''https://wakullaclerk.org/official-records/''),
        (''clerk_platform'', RStr ''landmark''), (''appraiser_url'', RStr ''https://mywakullapa.com/''),
        (''gis_rest'', RNone)]),
     (''12123'',
       [(''county'', RStr ''Taylor''), (''state'', RStr ''FL''),
        (''clerk_url'', RStr ''https://taylorclerk.com/''), (''clerk_platform'', RStr ''inhouse''),
        (''appraiser_url'', RStr ''https://qpublic.net/fl/taylor/''), (''gis_rest'', RNone)]),
     (''12079'',
       [(''county'', RStr ''Madison''), (''state'', RStr ''FL''),
        (''clerk_url'', RStr ''https://www.madisonclerk.com/departments-services/records/''),
        (''clerk_platform'', RStr ''inhouse''), (''appraiser_url'', RStr ''https://madisonpa.com/''),
        (''gis_rest'', RNone)]),
     (''12065'',
       [(''county'', RStr ''Jefferson''), (''state'', RStr ''FL''),
        (''clerk_url'', RStr ''https://www.jeffersonclerk.com/departments/recording-official-records/official-records/''),
        (''clerk_platform'', RStr ''inhouse''), (''appraiser_url'', RStr ''https://jeffersonpa.net/''),
        (''gis_rest'', RNone)]),
     (''12013'',
       [(''county'', RStr ''Calhoun''), (''state'', RStr ''FL''),
        (''clerk_url'', RStr ''https://calhounclerk.com/records-search/''),
        (''clerk_platform'', RStr ''inhouse''),
        (''appraiser_url'', RStr ''https://www.qpublic.net/fl/calhoun/''), (''gis_rest'', RNone)]),
     (''12037'',
       [(''county'', RStr ''Franklin''), (''state'', RStr ''FL''),
        (''clerk_url'', RStr ''https://www.franklinclerk.com/online-services/records-search/''),
        (''clerk_platform'', RStr ''inhouse''),
        (''appraiser_url'', RStr ''https://franklincountypa.net/''), (''gis_rest'', RNone)]),
     (''12041'',
       [(''county'', RStr ''Gilchrist''), (''state'', RStr ''FL''),
        (''clerk_url'', RStr ''https://gilchristclerk.com/recording/''),
        (''clerk_platform'', RStr ''inhouse''),
        (''appraiser_url'', RStr ''https://www.qpublic.net/fl/gilchrist/''), (''gis_rest'', RNone)]),
     (''12043'',
       [(''county'', RStr ''Glades''), (''state'', RStr ''FL''),
        (''clerk_url'', RStr ''https://gladesclerk.com/official-records/''),
        (''clerk_platform'', RStr ''inhouse''),
        (''appraiser_url'', RStr ''https://qpublic.net/fl/glades/''), (''gis_rest'', RNone)]),
     (''12045'',
       [(''county'', RStr ''Gulf''), (''state'', RStr ''FL''),
        (''clerk_url'', RStr ''https://www.gulfclerk.com/record-search/''),
        (''clerk_platform'', RStr ''inhouse''), (''appraiser_url'', RStr ''https://gulfpa.com/''),
        (''gis_rest'', RNone)]),
     (''12047'',
       [(''county'', RStr ''Hamilton''), (''state'', RStr ''FL''),
        (''clerk_url'', RStr ''https://hamiltonclerk.com/official-record-search/''),
        (''clerk_platform'', RStr ''inhouse''), (''appraiser_url'', RStr ''https://hamiltonpa.com/''),
        (''gis_rest'', RNone)])]"

definition REGISTRY_base_4 :: "entry table" where
  "REGISTRY_base_4 =
    [(''12059'',
       [(''county'', RStr ''Holmes''), (''state'', RStr ''FL''),
        (''clerk_url'', RStr ''https://holmesclerk.com/''), (''clerk_platform'', RStr ''inhouse''),
        (''appraiser_url'', RStr ''https://www.qpublic.net/fl/holmes/''), (''gis_rest'', RNone)]),
     (''12067'',
       [(''county'', RStr ''Lafayette''), (''state'', RStr ''FL''),
        (''clerk_url'', RStr ''https://www.lafayetteclerk.com/departments-services/records-search/''),
        (''clerk_platform'', RStr ''inhouse''), (''appraiser_url'', RStr ''https://www.lafayettepa.com/''),
        (''gis_rest'', RNone)]),
     (''12077'',
       [(''county'', RStr ''Liberty''), (''state'', RStr ''FL''),
        (''clerk_url'', RStr ''https://libertyclerk.com/clerk-services/official-records/''),
        (''clerk_platform'', RStr ''inhouse''), (''appraiser_url'', RStr ''https://libertypa.org/''),
        (''gis_rest'', RNone)]),
     (''12125'',
       [(''county'', RStr ''Union''), (''state'', RStr ''FL''),
        (''clerk_url'', RStr ''https://recording.unionclerk.com/''),
        (''clerk_platform'', RStr ''inhouse''), (''appraiser_url'', RStr ''https://union.floridapa.com/''),
        (''gis_rest'', RNone)]),
     (''12029'',
       [(''county'', RStr ''Dixie''), (''state'', RStr ''FL''),
        (''clerk_url'', RStr ''https://dixieclerk.com/departments-services/online-records/''),
        (''clerk_platform'', RStr ''inhouse''),
        (''appraiser_url'', RStr ''https://www.qpublic.net/fl/dixie/''), (''gis_rest'', RNone)])]"

definition REGISTRY_base :: "entry table" where
  "REGISTRY_base = REGISTRY_base_1 @ REGISTRY_base_2 @ REGISTRY_base_3 @ REGISTRY_base_4"

section \<open>The registry\<close>

definition state_modules :: "county_row list \<Rightarrow> state_module list" where
  "state_modules rows =
     [al_module, ar_module, az_module, ca_module, co_module, ct_module, dc_module, de_module,
      fl_module, ga_module rows, hi_module, ia_module, id_module, il_module, in_module,
      ks_module, ky_module, la_module, ma_module, md_module, me_module, mi_module, mn_module,
      mo_module, ms_module, mt_module, nc_module, nd_module, ne_module, nh_module, nj_module,
      nm_module, nv_module, ny_module, oh_module, ok_module, or_module, pa_module, ri_module,
      sc_module, tn_module, tx_module, ut_module, va_module, vt_module, wa_module, wi_module,
      wv_module, wy_module]"

definition live_registry :: "county_row list table \<Rightarrow> entry table \<Rightarrow> registry" where
  "live_registry raw bulk = build_registry REGISTRY_base (state_modules (county_rows raw ''13'')) bulk"

end
