(* ===== verification/RegistryTypes.thy ===== *)
theory RegistryTypes
  imports StateData GeorgiaData
begin

text \<open>
  What a well-typed registry is: every entry under a county FIPS of a known state, with that state's code,
  a platform that has a label, links that are absolute, and each field of the kind its readers expect.
  The operations that build the registry (links folded in, updates, the bulk merge, the aggregation of
  the modules) keep it, and determine the entry of a county.
\<close>

section \<open>Kinds of fields\<close>

definition is_url :: "string \<Rightarrow> bool" where
  "is_url s = (take 8 s = ''https://'' \<or> take 7 s = ''http://'')"

definition text_ok :: "rval \<Rightarrow> bool" where
  "text_ok v = (case v of RStr _ \<Rightarrow> True | _ \<Rightarrow> False)"

definition url_ok :: "rval \<Rightarrow> bool" where
  "url_ok v = (case v of RStr s \<Rightarrow> is_url s | _ \<Rightarrow> False)"

text \<open>A parcel service: none, one address or several.\<close>

definition service_ok :: "rval \<Rightarrow> bool" where
  "service_ok v =
     (case v of RNone \<Rightarrow> True | RStr s \<Rightarrow> is_url s | RList us \<Rightarrow> us \<noteq> [] \<and> list_all is_url us | _ \<Rightarrow> False)"

definition fields_ok :: "rval \<Rightarrow> bool" where
  "fields_ok v = (case v of RList xs \<Rightarrow> xs \<noteq> [] | _ \<Rightarrow> False)"

definition join_ok :: "related_cfg \<Rightarrow> bool" where
  "join_ok c = (rl_key c \<noteq> None \<and> (case rl_url c of Some u \<Rightarrow> is_url u | None \<Rightarrow> False))"

definition related_ok :: "rval \<Rightarrow> bool" where
  "related_ok v = (case v of RRel cs \<Rightarrow> list_all join_ok cs | _ \<Rightarrow> False)"

definition flag_ok :: "rval \<Rightarrow> bool" where
  "flag_ok v = (case v of RBool _ \<Rightarrow> True | _ \<Rightarrow> False)"

definition platform_ok :: "rval \<Rightarrow> bool" where
  "platform_ok v = (case v of RStr s \<Rightarrow> map_of PLATFORM_LABEL s \<noteq> None | _ \<Rightarrow> False)"

definition field_kinds :: "(rval \<Rightarrow> bool) table" where
  "field_kinds =
     [(''county'', text_ok), (''clerk_platform'', platform_ok), (''clerk_url'', url_ok),
      (''gis_rest'', service_ok), (''id_fields'', fields_ok), (''clerk_note'', text_ok),
      (''appraiser_url'', url_ok), (''situs_exclude'', fields_ok), (''related'', related_ok),
      (''parcel_layer_hint'', text_ok), (''compose_situs'', flag_ok), (''appraiser_api'', url_ok),
      (''plat_url'', url_ok)]"

text \<open>A field of a county of the state \<open>abbr\<close>; the bulk links carry the source of each link besides.\<close>

definition field_ok :: "string \<Rightarrow> string \<Rightarrow> rval \<Rightarrow> bool" where
  "field_ok abbr k v =
     (if k = ''state'' then (case v of RStr s \<Rightarrow> s = abbr | _ \<Rightarrow> False)
      else case map_of field_kinds k of Some kind \<Rightarrow> kind v | None \<Rightarrow> take 5 k = ''_src_'' \<and> text_ok v)"

section \<open>Tables\<close>

definition entries_all :: "(string \<Rightarrow> 'v \<Rightarrow> bool) \<Rightarrow> 'v table \<Rightarrow> bool" where
  "entries_all P t = list_all (\<lambda>(k, v). P k v) t"

definition entry_ok :: "string \<Rightarrow> entry \<Rightarrow> bool" where
  "entry_ok abbr e = entries_all (field_ok abbr) e"

definition county_key :: "string \<Rightarrow> string \<Rightarrow> bool" where
  "county_key pre f = (bulk_fips f \<and> take 2 f = pre)"

text \<open>The table of one state, with its FIPS prefix and its code.\<close>

definition table_ok :: "string \<Rightarrow> string \<Rightarrow> entry table \<Rightarrow> bool" where
  "table_ok pre abbr t = entries_all (\<lambda>f e. county_key pre f \<and> entry_ok abbr e) t"

definition links_ok :: "string \<Rightarrow> (string \<times> string) table \<Rightarrow> bool" where
  "links_ok pre links = entries_all (\<lambda>f (name, url). county_key pre f \<and> is_url url) links"

text \<open>The code of the state a county FIPS belongs to.\<close>

definition state_of :: "string \<Rightarrow> string" where
  "state_of f = (case map_of STATES (take 2 f) of None \<Rightarrow> [] | Some (abbr, _) \<Rightarrow> abbr)"

definition registry_ok :: "entry table \<Rightarrow> bool" where
  "registry_ok t = entries_all (\<lambda>f e. bulk_fips f \<and> state_of f \<noteq> [] \<and> entry_ok (state_of f) e) t"

lemma entries_all_simps [simp]:
  "entries_all P []"
  "entries_all P ((k, v) # t) \<longleftrightarrow> P k v \<and> entries_all P t"
  "entries_all P (s @ t) \<longleftrightarrow> entries_all P s \<and> entries_all P t"
  by (simp_all add: entries_all_def)

lemma entries_allD: "entries_all P t \<Longrightarrow> map_of t k = Some v \<Longrightarrow> P k v"
  by (auto simp: entries_all_def list_all_iff dest: map_of_SomeD)

lemma entries_all_mono: "entries_all P t \<Longrightarrow> (\<And>k v. P k v \<Longrightarrow> Q k v) \<Longrightarrow> entries_all Q t"
  by (induction t) auto

lemma entries_all_rev [simp]: "entries_all P (rev t) \<longleftrightarrow> entries_all P t"
  by (simp add: entries_all_def)

lemma entries_all_put [intro]: "entries_all P t \<Longrightarrow> P k v \<Longrightarrow> entries_all P (dict_put k v t)"
  by (induction t rule: dict_put.induct) auto

lemma entries_all_setdefault [intro]:
  "entries_all P t \<Longrightarrow> P k v \<Longrightarrow> entries_all P (dict_setdefault k v t)"
  by (simp add: dict_setdefault_def split: option.split)

lemma entries_all_update [intro]:
  assumes "entries_all P t" "entries_all P u"
  shows "entries_all P (dict_update t u)"
  using assms unfolding dict_update_def
  by (induction u arbitrary: t) (auto simp: entries_all_put)

section \<open>Look-ups after an update\<close>

lemma map_of_rev_distinct:
  assumes "distinct (map fst t)"
  shows "map_of (rev t) k = map_of t k"
proof -
  have "map_of (rev t) k = Some v \<longleftrightarrow> map_of t k = Some v" for v
    using assms by (simp add: map_of_eq_Some_iff rev_map [symmetric])
  then show ?thesis by (metis option.exhaust)
qed

lemma map_of_dict_update: "map_of (dict_update t u) k = (case map_of (rev u) k of None \<Rightarrow> map_of t k | Some v \<Rightarrow> Some v)"
  unfolding dict_update_def
  by (induction u arbitrary: t) (auto simp: map_add_def split: option.split)

text \<open>A county of the table of links ends with the last link the table has for it.\<close>

lemma fold_links_key:
  assumes "map_of (rev links) f = Some (name, url)"
  shows "\<exists>e. map_of (fold_links st key links t) f = Some e \<and> map_of e key = Some (RStr url)"
  using assms
  by (induction links rule: rev_induct) (auto simp: fold_links_def link_entry_def split: if_splits)

lemma ga_fill_keeps:
  "map_of d f = Some e \<Longrightarrow> map_of e ''appraiser_url'' = Some u \<Longrightarrow>
     map_of (foldl ga_fill_one d rows) f = Some e"
proof (induction rows arbitrary: d)
  case (Cons c rows)
  have "map_of (ga_fill_one d c) f = Some e"
    using Cons.prems by (auto simp: ga_fill_one_def Let_def dict_setdefault_def)
  then show ?case using Cons by simp
qed simp

section \<open>Building keeps the types\<close>

text \<open>What the checks of the literal tables rewrite with.\<close>

named_theorems registry_rules \<open>the kinds of the fields that occur\<close>

lemma take_append_prefix: "take n u = w \<Longrightarrow> length w = n \<Longrightarrow> take n (u @ v) = w"
  by auto

lemma is_url_append [registry_rules]: "is_url u \<Longrightarrow> is_url (u @ v)"
  using take_append_prefix [of 8 u "''https://''" v] take_append_prefix [of 7 u "''http://''" v]
  by (auto simp: is_url_def simp del: take_append)

lemma is_url_literal [registry_rules]:
  "is_url (CHR ''h'' # CHR ''t'' # CHR ''t'' # CHR ''p'' # CHR ''s'' # CHR '':'' # CHR ''/'' # CHR ''/'' # s)"
  "is_url (CHR ''h'' # CHR ''t'' # CHR ''t'' # CHR ''p'' # CHR '':'' # CHR ''/'' # CHR ''/'' # s)"
  by (simp_all add: is_url_def)

lemma field_rules [registry_rules]:
  "field_ok abbr ''state'' (RStr s) \<longleftrightarrow> s = abbr"
  "field_ok abbr ''county'' (RStr s)"
  "field_ok abbr ''clerk_note'' (RStr s)"
  "field_ok abbr ''parcel_layer_hint'' (RStr s)"
  "field_ok abbr ''clerk_url'' (RStr s) \<longleftrightarrow> is_url s"
  "field_ok abbr ''appraiser_url'' (RStr s) \<longleftrightarrow> is_url s"
  "field_ok abbr ''appraiser_api'' (RStr s) \<longleftrightarrow> is_url s"
  "field_ok abbr ''gis_rest'' RNone"
  "field_ok abbr ''gis_rest'' (RStr s) \<longleftrightarrow> is_url s"
  "field_ok abbr ''gis_rest'' (RList us) \<longleftrightarrow> us \<noteq> [] \<and> list_all is_url us"
  "field_ok abbr ''id_fields'' (RList xs) \<longleftrightarrow> xs \<noteq> []"
  "field_ok abbr ''situs_exclude'' (RList xs) \<longleftrightarrow> xs \<noteq> []"
  "field_ok abbr ''related'' (RRel cs) \<longleftrightarrow> list_all join_ok cs"
  "field_ok abbr ''compose_situs'' (RBool b)"
  by (simp_all add: field_ok_def field_kinds_def text_ok_def url_ok_def service_ok_def fields_ok_def
      related_ok_def flag_ok_def)

lemma platform_rules [registry_rules]:
  "field_ok abbr ''clerk_platform'' (RStr ''unknown'')"
  "field_ok abbr ''clerk_platform'' (RStr ''inhouse'')"
  "field_ok abbr ''clerk_platform'' (RStr ''acclaim'')"
  "field_ok abbr ''clerk_platform'' (RStr ''landmark'')"
  "field_ok abbr ''clerk_platform'' (RStr ''eagle'')"
  "field_ok abbr ''clerk_platform'' (RStr ''publicsearch'')"
  by (simp_all add: field_ok_def field_kinds_def platform_ok_def PLATFORM_LABEL_def)

lemma digit_rules [registry_rules]:
  "is_digit (CHR ''0'')" "is_digit (CHR ''1'')" "is_digit (CHR ''2'')" "is_digit (CHR ''3'')"
  "is_digit (CHR ''4'')" "is_digit (CHR ''5'')" "is_digit (CHR ''6'')" "is_digit (CHR ''7'')"
  "is_digit (CHR ''8'')" "is_digit (CHR ''9'')"
  by (simp_all add: is_digit_def)

lemma county_key_literal [registry_rules]:
  "county_key pre [a, b, c, d, e] \<longleftrightarrow>
     [a, b] = pre \<and> is_digit a \<and> is_digit b \<and> is_digit c \<and> is_digit d \<and> is_digit e"
  by (auto simp: county_key_def bulk_fips_def)

lemma join_ok_literal [registry_rules]:
  "join_ok \<lparr>rl_url = Some u, rl_key = Some k, rl_where = w, rl_quote = q\<rparr> \<longleftrightarrow> is_url u"
  by (simp add: join_ok_def)

lemma entry_ok_literal [registry_rules]:
  "entry_ok abbr []"
  "entry_ok abbr ((k, v) # e) \<longleftrightarrow> field_ok abbr k v \<and> entry_ok abbr e"
  by (simp_all add: entry_ok_def)

lemma table_ok_literal [registry_rules]:
  "table_ok pre abbr []"
  "table_ok pre abbr ((f, e) # t) \<longleftrightarrow> county_key pre f \<and> entry_ok abbr e \<and> table_ok pre abbr t"
  "table_ok pre abbr (t @ u) \<longleftrightarrow> table_ok pre abbr t \<and> table_ok pre abbr u"
  by (simp_all add: table_ok_def)

lemma links_ok_literal [registry_rules]:
  "links_ok pre []"
  "links_ok pre ((f, name, url) # l) \<longleftrightarrow> county_key pre f \<and> is_url url \<and> links_ok pre l"
  "links_ok pre (l @ m) \<longleftrightarrow> links_ok pre l \<and> links_ok pre m"
  by (simp_all add: links_ok_def)

lemma built_links [registry_rules]:
  "is_url GSCCCA" "is_url GSCCCA_PLAT" "is_url (tx_ps slug)" "is_url az_AZ" "is_url ia_POLK" "is_url mo_JAX"
  "is_url nm_BASE" "is_url or_METRO_RLIS"
  by (simp_all add: GSCCCA_def GSCCCA_PLAT_def tx_ps_def tx_PS_def az_AZ_def ia_POLK_def mo_JAX_def nm_BASE_def
      or_METRO_RLIS_def is_url_def)

lemma azc_ok [registry_rules]: "entry_ok ''AZ'' (azc county layer)"
  by (simp add: azc_def registry_rules)

lemma nj_c_ok [registry_rules]:
  "entry_ok ''NJ'' (nj_c name clerk platform note) \<longleftrightarrow>
     is_url clerk \<and> field_ok ''NJ'' ''clerk_platform'' (RStr platform)"
  by (auto simp: nj_c_def Let_def registry_rules split: option.split)

lemma field_ok_url: "is_url u \<Longrightarrow> field_ok abbr ''appraiser_url'' (RStr u) \<and> field_ok abbr ''clerk_url'' (RStr u)"
  by (simp add: field_ok_def field_kinds_def url_ok_def)

lemma link_entry_ok:
  assumes "is_url url" "key \<in> {''appraiser_url'', ''clerk_url''}"
    and "\<And>e. cur = Some e \<Longrightarrow> entry_ok abbr e"
  shows "entry_ok abbr (link_entry abbr key name url cur)"
proof -
  have new: "entry_ok abbr [(''county'', RStr name), (''state'', RStr abbr), (''clerk_platform'', RStr ''unknown'')]"
    by (simp add: entry_ok_def field_ok_def field_kinds_def text_ok_def platform_ok_def PLATFORM_LABEL_def)
  have "field_ok abbr key (RStr url)" using assms(2) field_ok_url [OF assms(1)] by blast
  then have "entry_ok abbr (dict_put key (RStr url) e)" if "entry_ok abbr e" for e
    using that entries_all_put unfolding entry_ok_def by blast
  then show ?thesis using new assms(3) unfolding link_entry_def by (auto simp del: dict_put.simps split: option.split)
qed

lemma table_ok_put:
  "table_ok pre abbr t \<Longrightarrow> county_key pre f \<Longrightarrow> entry_ok abbr e \<Longrightarrow> table_ok pre abbr (dict_put f e t)"
  unfolding table_ok_def by (intro entries_all_put) auto

lemma table_okD: "table_ok pre abbr t \<Longrightarrow> map_of t f = Some e \<Longrightarrow> county_key pre f \<and> entry_ok abbr e"
  unfolding table_ok_def by (drule (1) entries_allD) simp

lemma fold_links_ok:
  assumes "table_ok pre abbr t" "links_ok pre links" "key \<in> {''appraiser_url'', ''clerk_url''}"
  shows "table_ok pre abbr (fold_links abbr key links t)"
  using assms(2)
proof (induction links rule: rev_induct)
  case Nil
  then show ?case by (simp add: fold_links_def assms(1))
next
  case (snoc x links)
  obtain f name url where x: "x = (f, name, url)" by (cases x)
  have step: "fold_links abbr key (links @ [x]) t =
      dict_put f (link_entry abbr key name url (map_of (fold_links abbr key links t) f)) (fold_links abbr key links t)"
    by (simp add: fold_links_def x)
  show ?case
    unfolding step using snoc assms(3)
    by (intro table_ok_put link_entry_ok) (auto simp: links_ok_def x dest: table_okD)
qed

definition rows_ok :: "county_row list \<Rightarrow> bool" where
  "rows_ok rows = list_all (\<lambda>c. county_key ''13'' (cw_fips c)) rows"

lemma qpublic_url: "is_url (format_one QPUBLIC slug)"
  by (simp add: is_url_def QPUBLIC_def)

lemma override_url: "map_of APPRAISER_OVERRIDE f = Some u \<Longrightarrow> is_url u"
proof -
  have "entries_all (\<lambda>_. is_url) APPRAISER_OVERRIDE" by code_simp
  then show "map_of APPRAISER_OVERRIDE f = Some u \<Longrightarrow> is_url u" by (rule entries_allD)
qed

lemma ga_fill_ok:
  assumes "table_ok ''13'' ''GA'' t" "county_key ''13'' (cw_fips c)"
  shows "table_ok ''13'' ''GA'' (ga_fill_one t c)"
proof -
  have "entry_ok ''GA'' [(''county'', RStr (cw_basename c)), (''state'', RStr ''GA''),
       (''clerk_url'', RStr GSCCCA), (''clerk_platform'', RStr ''unknown''),
       (''clerk_note'', RStr ''Georgia statewide GSCCCA real-estate index (all counties).'')]"
    by (simp add: entry_ok_def field_ok_def field_kinds_def text_ok_def platform_ok_def PLATFORM_LABEL_def
        url_ok_def is_url_def GSCCCA_def)
  then have "entry_ok ''GA'' cur" if "cur = (case map_of t (cw_fips c) of
        None \<Rightarrow> [(''county'', RStr (cw_basename c)), (''state'', RStr ''GA''),
           (''clerk_url'', RStr GSCCCA), (''clerk_platform'', RStr ''unknown''),
           (''clerk_note'', RStr ''Georgia statewide GSCCCA real-estate index (all counties).'')]
      | Some e \<Rightarrow> e)" for cur
    using assms(1) that by (auto dest: table_okD split: option.splits)
  moreover have "field_ok ''GA'' ''appraiser_url''
      (RStr (case map_of APPRAISER_OVERRIDE (cw_fips c) of Some u \<Rightarrow> u | None \<Rightarrow> format_one QPUBLIC slug))" for slug
    using field_ok_url qpublic_url override_url by (simp split: option.split)
  ultimately show ?thesis
    using assms unfolding ga_fill_one_def Let_def entry_ok_def
    by (intro table_ok_put) (simp_all add: entry_ok_def entries_all_setdefault)
qed

lemma ga_fill_all_ok:
  "table_ok ''13'' ''GA'' t \<Longrightarrow> rows_ok rows \<Longrightarrow> table_ok ''13'' ''GA'' (foldl ga_fill_one t rows)"
  by (induction rows arbitrary: t) (simp_all add: rows_ok_def ga_fill_ok)

section \<open>The modules\<close>

definition state_prefix :: "string \<Rightarrow> string" where
  "state_prefix abbr = (case List.find (\<lambda>(_, (a, _)). a = abbr) STATES of None \<Rightarrow> [] | Some (pre, _) \<Rightarrow> pre)"

definition link_ok :: "string \<Rightarrow> bool" where
  "link_ok u = (u = [] \<or> is_url u)"

definition module_ok :: "state_module \<Rightarrow> bool" where
  "module_ok m =
     (state_of (state_prefix (sm_state m)) = sm_state m \<and>
      table_ok (state_prefix (sm_state m)) (sm_state m) (sm_counties m) \<and>
      link_ok (sm_deed_link m) \<and> link_ok (sm_plat_link m))"

definition modules_ok :: "state_module list \<Rightarrow> bool" where
  "modules_ok ms = (distinct (map sm_state ms) \<and> list_all module_ok ms)"

lemma county_key_state:
  "county_key pre f \<Longrightarrow> state_of f = state_of pre"
  by (auto simp: county_key_def state_of_def)

text \<open>The counties of a module are counties of its state.\<close>

lemma module_ok_state:
  assumes "module_ok m" "map_of (rev (sm_counties m)) f = Some e"
  shows "state_of f = sm_state m \<and> bulk_fips f \<and> entry_ok (sm_state m) e"
proof -
  have "table_ok (state_prefix (sm_state m)) (sm_state m) (rev (sm_counties m))"
    using assms(1) by (simp add: module_ok_def table_ok_def)
  from table_okD [OF this assms(2)] show ?thesis
    using assms(1) county_key_state by (auto simp: module_ok_def county_key_def)
qed

definition module_of :: "state_module list \<Rightarrow> string \<Rightarrow> state_module option" where
  "module_of ms f = List.find (\<lambda>m. sm_state m = state_of f) ms"

lemma rg_entries_load:
  "rg_entries (foldl load_module r ms) = foldl (\<lambda>d m. dict_update d (sm_counties m)) (rg_entries r) ms"
  by (induction ms arbitrary: r) (simp_all add: load_module_def)

text \<open>The aggregation of the modules finds in a county's own module the entry it answers with, whatever the
  order of the modules.\<close>

lemma map_of_modules:
  assumes "modules_ok ms"
  shows "map_of (foldl (\<lambda>d m. dict_update d (sm_counties m)) d ms) f =
     (case module_of ms f of
        None \<Rightarrow> map_of d f
      | Some m \<Rightarrow> (case map_of (rev (sm_counties m)) f of None \<Rightarrow> map_of d f | Some e \<Rightarrow> Some e))"
  using assms
proof (induction ms arbitrary: d)
  case Nil
  then show ?case by (simp add: module_of_def)
next
  case (Cons m ms)
  have IH: "map_of (foldl (\<lambda>d m. dict_update d (sm_counties m)) d' ms) f =
     (case module_of ms f of
        None \<Rightarrow> map_of d' f
      | Some m \<Rightarrow> (case map_of (rev (sm_counties m)) f of None \<Rightarrow> map_of d' f | Some e \<Rightarrow> Some e))" for d'
    using Cons by (simp add: modules_ok_def)
  show ?case
  proof (cases "sm_state m = state_of f")
    case True
    then have "module_of ms f = None"
      using Cons.prems by (auto simp: module_of_def find_None_iff modules_ok_def image_iff)
    then show ?thesis using True by (simp add: IH module_of_def map_of_dict_update)
  next
    case False
    then have "map_of (rev (sm_counties m)) f = None"
      using Cons.prems module_ok_state [of m f] by (force simp: modules_ok_def)
    then have "map_of (dict_update d (sm_counties m)) f = map_of d f" by (simp add: map_of_dict_update)
    then show ?thesis using False by (simp add: IH module_of_def cong: option.case_cong)
  qed
qed

lemma registry_ok_table:
  assumes "table_ok pre abbr t" "state_of pre = abbr" "abbr \<noteq> []"
  shows "registry_ok t"
  using assms(1) unfolding table_ok_def registry_ok_def
proof (rule entries_all_mono)
  fix f e
  assume "county_key pre f \<and> entry_ok abbr e"
  then show "bulk_fips f \<and> state_of f \<noteq> [] \<and> entry_ok (state_of f) e"
    using assms(2,3) county_key_state [of pre f] by (simp add: county_key_def)
qed

lemma registry_ok_modules:
  assumes "registry_ok d" "list_all module_ok ms" "list_all (\<lambda>m. sm_state m \<noteq> []) ms"
  shows "registry_ok (foldl (\<lambda>d m. dict_update d (sm_counties m)) d ms)"
  using assms
proof (induction ms arbitrary: d)
  case (Cons m ms)
  then have "registry_ok (sm_counties m)"
    by (intro registry_ok_table [of "state_prefix (sm_state m)" "sm_state m"]) (simp_all add: module_ok_def)
  then have "registry_ok (dict_update d (sm_counties m))"
    using Cons.prems(1) unfolding registry_ok_def by (rule entries_all_update [rotated])
  then show ?case using Cons by simp
qed simp

section \<open>The bulk links\<close>

lemma merge_entry_simps:
  "merge_entry cur [] = cur"
  "merge_entry cur ((k, v) # e) = merge_entry (if rval_truthy v then dict_setdefault k v cur else cur) e"
  by (simp_all add: merge_entry_def)

lemma merge_entry_ok:
  "entry_ok abbr cur \<Longrightarrow> entry_ok abbr e \<Longrightarrow> entry_ok abbr (merge_entry cur e)"
proof (induction e arbitrary: cur)
  case (Cons x e)
  obtain k v where x: "x = (k, v)" by (cases x)
  have "entry_ok abbr (if rval_truthy v then dict_setdefault k v cur else cur)"
    using Cons.prems entries_all_setdefault [of "field_ok abbr" cur k v] by (simp add: x entry_ok_def)
  then show ?case using Cons by (simp add: x merge_entry_simps entry_ok_def)
qed (simp add: merge_entry_simps)

text \<open>A merge keeps a field the entry has; a missing one takes the first value of the bulk entry that is
  not empty.\<close>

lemma map_of_merge_entry:
  "map_of (merge_entry cur e) k =
     (case map_of cur k of Some v \<Rightarrow> Some v | None \<Rightarrow> map_of (filter (\<lambda>(_, v). rval_truthy v) e) k)"
proof (induction e arbitrary: cur)
  case Nil
  then show ?case by (simp add: merge_entry_simps split: option.split)
next
  case (Cons x e)
  obtain a b where x: "x = (a, b)" by (cases x)
  show ?case
    unfolding x merge_entry_simps Cons.IH
    by (auto simp: map_of_dict_setdefault split: option.split)
qed

lemma map_of_merge_bulk_other:
  "map_of bulk f = None \<Longrightarrow> map_of (merge_bulk_links reg bulk) f = map_of reg f"
  unfolding merge_bulk_links_def
  by (induction bulk arbitrary: reg) (auto simp: Let_def split: if_splits)

lemma map_of_merge_bulk_bad:
  "\<not> bulk_fips f \<Longrightarrow> map_of (merge_bulk_links reg bulk) f = map_of reg f"
  unfolding merge_bulk_links_def
  by (induction bulk arbitrary: reg) (auto simp: Let_def split: if_splits)

lemma map_of_merge_bulk:
  assumes "map_of bulk f = Some e" "distinct (map fst bulk)" "bulk_fips f"
  shows "map_of (merge_bulk_links reg bulk) f =
     Some (merge_entry (case map_of reg f of None \<Rightarrow> [] | Some c \<Rightarrow> c) e)"
  using assms
proof (induction bulk arbitrary: reg)
  case (Cons x bulk)
  obtain g c where x: "x = (g, c)" by (cases x)
  show ?case
  proof (cases "g = f")
    case True
    then have "map_of bulk f = None" using Cons.prems(2) by (auto simp: x map_of_eq_None_iff)
    from map_of_merge_bulk_other [OF this] show ?thesis
      using True Cons.prems by (simp add: x merge_bulk_links_def Let_def)
  next
    case False
    then show ?thesis
      using Cons by (simp add: x merge_bulk_links_def Let_def)
  qed
qed simp

lemma registry_ok_merge:
  assumes "registry_ok reg" "registry_ok bulk"
  shows "registry_ok (merge_bulk_links reg bulk)"
  using assms
proof (induction bulk arbitrary: reg)
  case (Cons x bulk)
  obtain f e where x: "x = (f, e)" by (cases x)
  have "entry_ok (state_of f) (case map_of reg f of None \<Rightarrow> [] | Some c \<Rightarrow> c)"
    using Cons.prems(1) unfolding registry_ok_def
    by (auto simp: entry_ok_def dest: entries_allD split: option.split)
  then have "registry_ok (dict_put f (merge_entry (case map_of reg f of None \<Rightarrow> [] | Some c \<Rightarrow> c) e) reg)"
    using Cons.prems unfolding registry_ok_def
    by (intro entries_all_put) (simp_all add: x merge_entry_ok)
  then show ?case using Cons by (simp add: x merge_bulk_links_def Let_def registry_ok_def)
qed (simp add: merge_bulk_links_def)

end
