(* ===== verification/RegistryChecks.thy ===== *)
theory RegistryChecks
  imports RegistryData RegistryTypes
begin

text \<open>
  The literal tables of the registry, checked entry by entry, and what follows for the modules and the
  registry the program builds.
\<close>

named_theorems registry_checked \<open>the tables that are well typed\<close>

section \<open>The tables\<close>

lemma al_counties_ok [registry_checked]: "table_ok ''01'' ''AL'' al_counties"
  by (simp add: al_counties_def registry_rules)

lemma az_counties_ok [registry_checked]: "table_ok ''04'' ''AZ'' az_counties"
  by (simp add: az_counties_def registry_rules)

lemma ca_counties_ok [registry_checked]: "table_ok ''06'' ''CA'' ca_counties"
  by (simp add: ca_counties_def registry_rules)

lemma de_counties_ok [registry_checked]: "table_ok ''10'' ''DE'' de_counties"
  by (simp add: de_counties_def registry_rules)

lemma ia_counties_ok [registry_checked]: "table_ok ''19'' ''IA'' ia_counties"
  by (simp add: ia_counties_def registry_rules)

lemma il_counties_1_ok [registry_checked]: "table_ok ''17'' ''IL'' il_counties_1"
  by (simp add: il_counties_1_def registry_rules)

lemma il_counties_2_ok [registry_checked]: "table_ok ''17'' ''IL'' il_counties_2"
  by (simp add: il_counties_2_def registry_rules)

lemma il_counties_ok [registry_checked]: "table_ok ''17'' ''IL'' il_counties"
  by (simp add: il_counties_def registry_rules il_counties_1_ok il_counties_2_ok)

lemma ks_counties_ok [registry_checked]: "table_ok ''20'' ''KS'' ks_counties"
  by (simp add: ks_counties_def registry_rules)

lemma ky_counties_ok [registry_checked]: "table_ok ''21'' ''KY'' ky_counties"
  by (simp add: ky_counties_def registry_rules)

lemma la_counties_ok [registry_checked]: "table_ok ''22'' ''LA'' la_counties"
  by (simp add: la_counties_def registry_rules)

lemma mi_counties_1_ok [registry_checked]: "table_ok ''26'' ''MI'' mi_counties_1"
  by (simp add: mi_counties_1_def registry_rules)

lemma mi_counties_2_ok [registry_checked]: "table_ok ''26'' ''MI'' mi_counties_2"
  by (simp add: mi_counties_2_def registry_rules)

lemma mi_counties_ok [registry_checked]: "table_ok ''26'' ''MI'' mi_counties"
  by (simp add: mi_counties_def registry_rules mi_counties_1_ok mi_counties_2_ok)

lemma mo_counties_ok [registry_checked]: "table_ok ''29'' ''MO'' mo_counties"
  by (simp add: mo_counties_def registry_rules)

lemma nj_counties_ok [registry_checked]: "table_ok ''34'' ''NJ'' nj_counties"
  by (simp add: nj_counties_def registry_rules)

lemma nm_layers_ok: "list_all (\<lambda>(_, f, _). county_key ''35'' f) nm_LAYERS"
  by (simp add: nm_LAYERS_def registry_rules)

lemma nm_counties_ok [registry_checked]: "table_ok ''35'' ''NM'' nm_counties"
proof -
  have "table_ok ''35'' ''NM'' (foldl (\<lambda>d (lid, fips, name). dict_put fips
         [(''county'', RStr name), (''state'', RStr ''NM''),
          (''gis_rest'', RStr (nm_BASE @ ''/'' @ show_nat lid)),
          (''id_fields'', RList [''UPC'', ''StateParcelId'', ''LocalParcelId'', ''AccountNumber'']),
          (''clerk_platform'', RStr ''unknown'')] d) d layers)"
    if "table_ok ''35'' ''NM'' d" "list_all (\<lambda>(_, f, _). county_key ''35'' f) layers" for d layers
    using that by (induction layers arbitrary: d) (auto simp: table_ok_put registry_rules)
  then show ?thesis
    unfolding nm_counties_def using nm_layers_ok by (simp add: registry_rules)
qed

lemma oh_counties_1_ok [registry_checked]: "table_ok ''39'' ''OH'' oh_counties_1"
  by (simp add: oh_counties_1_def registry_rules)

lemma oh_counties_2_ok [registry_checked]: "table_ok ''39'' ''OH'' oh_counties_2"
  by (simp add: oh_counties_2_def registry_rules)

lemma oh_counties_ok [registry_checked]: "table_ok ''39'' ''OH'' oh_counties"
  by (simp add: oh_counties_def registry_rules oh_counties_1_ok oh_counties_2_ok)

lemma oh_auditor_ok [registry_checked]: "links_ok ''39'' oh_auditor"
  by (simp add: oh_auditor_def registry_rules)

lemma oh_recorder_ok [registry_checked]: "links_ok ''39'' oh_recorder"
  by (simp add: oh_recorder_def registry_rules)

lemma ok_counties_ok [registry_checked]: "table_ok ''40'' ''OK'' ok_counties"
  by (simp add: ok_counties_def registry_rules)

lemma or_counties_ok [registry_checked]: "table_ok ''41'' ''OR'' or_counties"
  by (simp add: or_counties_def registry_rules)

lemma sc_counties_ok [registry_checked]: "table_ok ''45'' ''SC'' sc_counties"
  by (simp add: sc_counties_def registry_rules)

lemma tx_counties_1_ok [registry_checked]: "table_ok ''48'' ''TX'' tx_counties_1"
  by (simp add: tx_counties_1_def registry_rules)

lemma tx_counties_2_ok [registry_checked]: "table_ok ''48'' ''TX'' tx_counties_2"
  by (simp add: tx_counties_2_def registry_rules)

lemma tx_counties_ok [registry_checked]: "table_ok ''48'' ''TX'' tx_counties"
  by (simp add: tx_counties_def registry_rules tx_counties_1_ok tx_counties_2_ok)

lemma ga_counties_1_ok [registry_checked]: "table_ok ''13'' ''GA'' ga_counties_1"
  by (simp add: ga_counties_1_def registry_rules)

lemma ga_counties_2_ok [registry_checked]: "table_ok ''13'' ''GA'' ga_counties_2"
  by (simp add: ga_counties_2_def registry_rules)

lemma ga_counties_3_ok [registry_checked]: "table_ok ''13'' ''GA'' ga_counties_3"
  by (simp add: ga_counties_3_def registry_rules)

lemma ga_counties_4_ok [registry_checked]: "table_ok ''13'' ''GA'' ga_counties_4"
  by (simp add: ga_counties_4_def registry_rules)

lemma ga_counties_5_ok [registry_checked]: "table_ok ''13'' ''GA'' ga_counties_5"
  by (simp add: ga_counties_5_def registry_rules)

lemma ga_counties_6_ok [registry_checked]: "table_ok ''13'' ''GA'' ga_counties_6"
  by (simp add: ga_counties_6_def registry_rules)

lemma ga_counties_ok [registry_checked]: "table_ok ''13'' ''GA'' ga_counties"
  by (simp add: ga_counties_def registry_rules ga_counties_1_ok ga_counties_2_ok ga_counties_3_ok ga_counties_4_ok ga_counties_5_ok ga_counties_6_ok)

lemma ga_swept_1_ok [registry_checked]: "table_ok ''13'' ''GA'' ga_swept_1"
  by (simp add: ga_swept_1_def registry_rules)

lemma ga_swept_2_ok [registry_checked]: "table_ok ''13'' ''GA'' ga_swept_2"
  by (simp add: ga_swept_2_def registry_rules)

lemma ga_swept_ok [registry_checked]: "table_ok ''13'' ''GA'' ga_swept"
  by (simp add: ga_swept_def registry_rules ga_swept_1_ok ga_swept_2_ok)

lemma ga_appraiser_1_ok [registry_checked]: "links_ok ''13'' ga_appraiser_1"
  by (simp add: ga_appraiser_1_def registry_rules)

lemma ga_appraiser_2_ok [registry_checked]: "links_ok ''13'' ga_appraiser_2"
  by (simp add: ga_appraiser_2_def registry_rules)

lemma ga_appraiser_ok [registry_checked]: "links_ok ''13'' ga_appraiser"
  by (simp add: ga_appraiser_def registry_rules ga_appraiser_1_ok ga_appraiser_2_ok)

lemma REGISTRY_base_1_ok [registry_checked]: "table_ok ''12'' ''FL'' REGISTRY_base_1"
  by (simp add: REGISTRY_base_1_def registry_rules)

lemma REGISTRY_base_2_ok [registry_checked]: "table_ok ''12'' ''FL'' REGISTRY_base_2"
  by (simp add: REGISTRY_base_2_def registry_rules)

lemma REGISTRY_base_3_ok [registry_checked]: "table_ok ''12'' ''FL'' REGISTRY_base_3"
  by (simp add: REGISTRY_base_3_def registry_rules)

lemma REGISTRY_base_4_ok [registry_checked]: "table_ok ''12'' ''FL'' REGISTRY_base_4"
  by (simp add: REGISTRY_base_4_def registry_rules)

lemma REGISTRY_base_ok [registry_checked]: "table_ok ''12'' ''FL'' REGISTRY_base"
  by (simp add: REGISTRY_base_def registry_rules REGISTRY_base_1_ok REGISTRY_base_2_ok REGISTRY_base_3_ok REGISTRY_base_4_ok)

section \<open>The modules\<close>

lemma state_codes: "list_all (\<lambda>(pre, (abbr, _)). state_of pre = abbr \<and> state_prefix abbr = pre) STATES"
  by code_simp

lemmas state_rules = state_codes [unfolded STATES_def list.pred_inject prod.case]

lemmas module_defs =
  al_module_def ar_module_def az_module_def ca_module_def co_module_def ct_module_def dc_module_def
  de_module_def fl_module_def ga_module_def hi_module_def ia_module_def id_module_def il_module_def
  in_module_def ks_module_def ky_module_def la_module_def ma_module_def md_module_def me_module_def
  mi_module_def mn_module_def mo_module_def ms_module_def mt_module_def nc_module_def nd_module_def
  ne_module_def nh_module_def nj_module_def nm_module_def nv_module_def ny_module_def oh_module_def
  ok_module_def or_module_def pa_module_def ri_module_def sc_module_def tn_module_def tx_module_def
  ut_module_def va_module_def vt_module_def wa_module_def wi_module_def wv_module_def wy_module_def

lemma oh_folded_ok [registry_checked]: "table_ok ''39'' ''OH'' oh_folded"
  unfolding oh_folded_def oh_with_auditors_def
  by (intro fold_links_ok registry_checked) simp_all

lemma ga_linked_ok: "table_ok ''13'' ''GA'' ga_linked"
  unfolding ga_linked_def by (intro fold_links_ok registry_checked) simp

lemma ga_filled_ok: "rows_ok rows \<Longrightarrow> table_ok ''13'' ''GA'' (ga_filled rows)"
  using ga_fill_all_ok [OF ga_linked_ok] ga_swept_ok
  unfolding ga_filled_def table_ok_def by (intro entries_all_update) simp_all

lemma state_modules_ok: "rows_ok rows \<Longrightarrow> modules_ok (state_modules rows)"
  unfolding modules_ok_def state_modules_def
  by (simp add: module_defs module_ok_def state_rules registry_checked ga_filled_ok
      link_ok_def registry_rules)

end
