(* ===== verification/RegistryProps.thy ===== *)
theory RegistryProps
  imports RegistryChecks
begin

text \<open>
  The properties of the registry the program runs with: its types, where the fields of a county come
  from, the links handed out from it, and the appraiser links of Georgia.
\<close>

section \<open>The entries\<close>

text \<open>The entry of a county before the bulk links: its state module's, else the seeded one.\<close>

definition own_entry :: "county_row list \<Rightarrow> string \<Rightarrow> entry option" where
  "own_entry rows f =
     (case module_of (state_modules rows) f of
        None \<Rightarrow> map_of REGISTRY_base f
      | Some m \<Rightarrow> (case map_of (rev (sm_counties m)) f of None \<Rightarrow> map_of REGISTRY_base f | Some e \<Rightarrow> Some e))"

lemma rg_entries_live:
  "rg_entries (live_registry raw bulk) =
     merge_bulk_links (dict_update REGISTRY_base
       (foldl (\<lambda>d m. dict_update d (sm_counties m)) [] (state_modules (county_rows raw ''13'')))) bulk"
  by (simp add: live_registry_def build_registry_def load_states_def rg_entries_load Let_def)

lemma dict_update_distinct: "distinct (map fst d) \<Longrightarrow> distinct (map fst (dict_update d u))"
  unfolding dict_update_def by (induction u arbitrary: d) auto

lemma distinct_modules_table:
  "distinct (map fst d) \<Longrightarrow> distinct (map fst (foldl (\<lambda>d m. dict_update d (sm_counties m)) d ms))"
proof (induction ms arbitrary: d)
  case (Cons m ms)
  then show ?case by (simp add: dict_update_distinct)
qed simp

lemma map_of_before_bulk:
  assumes "rows_ok rows"
  shows "map_of (dict_update REGISTRY_base (foldl (\<lambda>d m. dict_update d (sm_counties m)) [] (state_modules rows))) f =
     own_entry rows f"
proof -
  let ?t = "foldl (\<lambda>d m. dict_update d (sm_counties m)) [] (state_modules rows)"
  have "map_of (rev ?t) f = map_of ?t f"
    by (rule map_of_rev_distinct) (rule distinct_modules_table, simp)
  then show ?thesis
    by (simp add: map_of_dict_update own_entry_def map_of_modules [OF state_modules_ok [OF assms]]
        split: option.split)
qed

lemma seeded_ok: "registry_ok REGISTRY_base"
  by (rule registry_ok_table [OF REGISTRY_base_ok]) (simp_all add: state_of_def STATES_def)

lemma state_modules_registry_ok:
  "rows_ok rows \<Longrightarrow> registry_ok (foldl (\<lambda>d m. dict_update d (sm_counties m)) [] (state_modules rows))"
proof (rule registry_ok_modules)
  assume "rows_ok rows"
  then show "list_all module_ok (state_modules rows)" using state_modules_ok by (simp add: modules_ok_def)
qed (simp_all add: registry_ok_def state_modules_def module_defs)

lemma live_registry_ok:
  assumes "rows_ok (county_rows raw ''13'')" "registry_ok bulk"
  shows "registry_ok (rg_entries (live_registry raw bulk))"
  unfolding rg_entries_live
proof (rule registry_ok_merge [OF _ assms(2)])
  show "registry_ok (dict_update REGISTRY_base
      (foldl (\<lambda>d m. dict_update d (sm_counties m)) [] (state_modules (county_rows raw ''13''))))"
    using seeded_ok state_modules_registry_ok [OF assms(1)] unfolding registry_ok_def
    by (rule entries_all_update)
qed

text \<open>C34: The registry the program runs with is well typed: every entry stands under a five-digit FIPS of a
  known state, carries that state's code and a platform that has a label, its links and parcel services
  are absolute addresses, and every field has the kind its readers expect, so that no reader meets a value
  of another kind.  This holds for every county list whose Georgia rows are Georgia's, and every file of
  bulk links that is well typed itself.\<close>

theorem live_registry_typed:
  assumes "rows_ok (county_rows raw ''13'')" "registry_ok bulk"
  shows "registry_ok (rg_entries (live_registry raw bulk))"
  by (rule live_registry_ok [OF assms])

definition demo_counties :: "county_row list table" where
  "demo_counties =
     [(''13'', [\<lparr>cw_fips = ''13013'', cw_name = ''Barrow County'', cw_basename = ''Barrow''\<rparr>,
                \<lparr>cw_fips = ''13161'', cw_name = ''Jeff Davis County'', cw_basename = ''Jeff Davis''\<rparr>])]"

definition demo_bulk :: "entry table" where
  "demo_bulk =
     [(''05001'', [(''county'', RStr ''Arkansas''), (''state'', RStr ''AR''),
                   (''appraiser_url'', RStr ''https://www.arcountydata.com/''),
                   (''_src_appraiser_url'', RStr ''directory'')])]"

lemma demo_rows: "rows_ok (county_rows demo_counties ''13'')"
  by code_simp

lemma demo_bulk_ok: "registry_ok demo_bulk" "distinct (map fst demo_bulk)"
  by code_simp+

theorem live_registry_typed_witness:
  "registry_ok (rg_entries (live_registry demo_counties demo_bulk))"
  by (rule live_registry_typed [OF demo_rows demo_bulk_ok(1)])

lemma registry_field:
  assumes "rows_ok (county_rows raw ''13'')" "distinct (map fst bulk)"
  shows "map_of (lookup_or_empty (live_registry raw bulk) f) k =
     (case map_of (case own_entry (county_rows raw ''13'') f of None \<Rightarrow> [] | Some e \<Rightarrow> e) k of
        Some v \<Rightarrow> Some v
      | None \<Rightarrow> (if bulk_fips f then map_of (filter (\<lambda>(_, v). rval_truthy v) (case map_of bulk f of None \<Rightarrow> [] | Some e \<Rightarrow> e)) k
                else None))"
proof -
  let ?before = "dict_update REGISTRY_base
      (foldl (\<lambda>d m. dict_update d (sm_counties m)) [] (state_modules (county_rows raw ''13'')))"
  have own: "map_of ?before f = own_entry (county_rows raw ''13'') f"
    by (rule map_of_before_bulk [OF assms(1)])
  show ?thesis
  proof (cases "bulk_fips f \<and> map_of bulk f \<noteq> None")
    case True
    then obtain e where e: "map_of bulk f = Some e" "bulk_fips f" by auto
    from map_of_merge_bulk [OF e(1) assms(2) e(2), of ?before] show ?thesis
      by (simp add: lookup_or_empty_def lookup_def rg_entries_live own e map_of_merge_entry
          cong: option.case_cong)
  next
    case False
    then have "map_of (merge_bulk_links ?before bulk) f = map_of ?before f"
      using map_of_merge_bulk_other map_of_merge_bulk_bad by blast
    then show ?thesis
      using False by (auto simp: lookup_or_empty_def lookup_def rg_entries_live own split: option.split)
  qed
qed

text \<open>C35: The fields of a county's entry: a field its own state module gives (or the seeded registry, for a
  county its module does not list) is the one in force, whatever the other modules and the order they
  are imported in; a field missing there takes the first non-empty value of the bulk links for that
  county, and no other.\<close>

theorem registry_field_precedence:
  assumes "rows_ok (county_rows raw ''13'')" "distinct (map fst bulk)"
  shows "map_of (lookup_or_empty (live_registry raw bulk) f) k =
     (case map_of (case own_entry (county_rows raw ''13'') f of None \<Rightarrow> [] | Some e \<Rightarrow> e) k of
        Some v \<Rightarrow> Some v
      | None \<Rightarrow> (if bulk_fips f then map_of (filter (\<lambda>(_, v). rval_truthy v) (case map_of bulk f of None \<Rightarrow> [] | Some e \<Rightarrow> e)) k
                else None))"
  by (rule registry_field [OF assms])

theorem registry_field_precedence_witness:
  "entry_str (lookup_or_empty (live_registry demo_counties demo_bulk) ''05001'') ''appraiser_url'' =
     ''https://www.arcountydata.com/''"
proof -
  have "state_of ''05001'' = ''AR''" by code_simp
  then have "module_of (state_modules (county_rows demo_counties ''13'')) ''05001'' = Some ar_module"
    by (simp add: module_of_def state_modules_def module_defs)
  moreover have "map_of REGISTRY_base ''05001'' = None" by code_simp
  ultimately have "own_entry (county_rows demo_counties ''13'') ''05001'' = None"
    by (simp add: own_entry_def ar_module_def)
  then show ?thesis
    using registry_field_precedence [OF demo_rows demo_bulk_ok(2), of "''05001''" "''appraiser_url''"]
    by (simp add: entry_str_def demo_bulk_def bulk_fips_def is_digit_def)
qed

section \<open>The links handed out\<close>

lemma entry_link:
  assumes "entry_ok abbr e" "k \<in> {''clerk_url'', ''plat_url'', ''appraiser_url''}"
  shows "link_ok (entry_str e k)"
proof (cases "map_of e k")
  case (Some v)
  then have "field_ok abbr k v" using assms(1) unfolding entry_ok_def by (rule entries_allD [rotated])
  then have "url_ok v" using assms(2) by (auto simp: field_ok_def field_kinds_def)
  then show ?thesis using Some by (auto simp: entry_str_def url_ok_def link_ok_def split: rval.splits)
qed (simp add: entry_str_def link_ok_def)

lemma entry_platform:
  assumes "entry_ok abbr e"
  shows "map_of PLATFORM_LABEL (entry_get e ''clerk_platform'' ''unknown'') \<noteq> None"
proof (cases "map_of e ''clerk_platform''")
  case (Some v)
  then have "field_ok abbr ''clerk_platform'' v" using assms unfolding entry_ok_def by (rule entries_allD [rotated])
  then have "platform_ok v" by (simp add: field_ok_def field_kinds_def)
  then show ?thesis using Some by (simp add: entry_get_def platform_ok_def split: rval.splits)
qed (simp add: entry_get_def PLATFORM_LABEL_def)

lemma put_link_ok:
  "entries_all (\<lambda>_. is_url) d \<Longrightarrow> link_ok u \<Longrightarrow> entries_all (\<lambda>_. is_url) (put_link st u d)"
  by (auto simp: put_link_def link_ok_def intro: entries_all_put)

lemma statewide_links_ok:
  assumes "list_all module_ok ms" "entries_all (\<lambda>_. is_url) (rg_state_deed r)"
    "entries_all (\<lambda>_. is_url) (rg_state_plat r)"
  shows "entries_all (\<lambda>_. is_url) (rg_state_deed (foldl load_module r ms)) \<and>
     entries_all (\<lambda>_. is_url) (rg_state_plat (foldl load_module r ms))"
  using assms
  by (induction ms arbitrary: r) (simp_all add: load_module_def module_ok_def put_link_ok)

lemma link_of_ok: "entries_all (\<lambda>_. is_url) d \<Longrightarrow> link_ok (link_of d k)"
  by (auto simp: link_of_def link_ok_def dest: entries_allD split: option.split)

lemma live_links_ok:
  assumes "rows_ok (county_rows raw ''13'')"
  shows "link_ok (link_of (rg_state_deed (live_registry raw bulk)) st)"
    "link_ok (link_of (rg_state_plat (live_registry raw bulk)) st)"
proof -
  let ?r = "load_states (state_modules (county_rows raw ''13''))"
  have "list_all module_ok (state_modules (county_rows raw ''13''))"
    using state_modules_ok [OF assms] by (simp add: modules_ok_def)
  then have "entries_all (\<lambda>_. is_url) (rg_state_deed ?r) \<and> entries_all (\<lambda>_. is_url) (rg_state_plat ?r)"
    unfolding load_states_def by (rule statewide_links_ok) simp_all
  then show "link_ok (link_of (rg_state_deed (live_registry raw bulk)) st)"
    "link_ok (link_of (rg_state_plat (live_registry raw bulk)) st)"
    by (simp_all add: live_registry_def build_registry_def Let_def link_of_ok)
qed

lemma netronline_url: "is_url (netronline st c)"
  by (simp add: netronline_def registry_rules)

lemma or_str_url: "link_ok a \<Longrightarrow> is_url b \<Longrightarrow> is_url (or_str a b)"
  by (auto simp: or_str_def link_ok_def)

text \<open>C36: Every link the official-records references hand out is an absolute address, for every county and
  state: the records search, the plat search and the directory always, the appraiser site unless there is
  none; and the platform shown has a label.\<close>

theorem references_links_absolute:
  assumes "rows_ok (county_rows raw ''13'')" "registry_ok bulk"
  shows "let c = references has_adapter (live_registry raw bulk) f abbr name hints
     in is_url (ck_official_records_search c) \<and> is_url (ck_plat_search c) \<and> is_url (ck_directory_url c) \<and>
        (ck_appraiser_url c = [] \<or> is_url (ck_appraiser_url c)) \<and>
        ck_platform_label c \<in> snd ` set PLATFORM_LABEL"
proof -
  let ?r = "live_registry raw bulk"
  let ?e = "lookup_or_empty ?r f"
  have "\<exists>a. entry_ok a ?e"
  proof (cases "lookup ?r f")
    case (Some e)
    then show ?thesis
      using live_registry_ok [OF assms] unfolding lookup_def registry_ok_def
      by (auto simp: lookup_or_empty_def lookup_def dest: entries_allD)
  qed (simp add: lookup_or_empty_def registry_rules)
  then obtain a where e: "entry_ok a ?e" ..
  have links: "link_ok (entry_str ?e ''clerk_url'')" "link_ok (entry_str ?e ''plat_url'')"
    "link_ok (entry_str ?e ''appraiser_url'')"
    by (rule entry_link [OF e], simp)+
  obtain l where l: "map_of PLATFORM_LABEL (entry_get ?e ''clerk_platform'' ''unknown'') = Some l"
    using entry_platform [OF e] by blast
  then have "l \<in> snd ` set PLATFORM_LABEL" by (force dest: map_of_SomeD)
  then show ?thesis
    using links live_links_ok [OF assms(1)]
    by (simp add: references_def Let_def l or_str_url netronline_url link_ok_def)
qed

theorem references_links_absolute_witness:
  "is_url (ck_plat_search (references (\<lambda>_. False) (live_registry demo_counties demo_bulk) ''05001'' ''AR'' ''Arkansas'' []))"
  using references_links_absolute [OF demo_rows demo_bulk_ok(1), of "\<lambda>_. False" "''05001''" "''AR''" "''Arkansas''" "[]"]
  by (simp add: Let_def)

section \<open>The appraiser links of Georgia\<close>

lemma swept_without_appraiser: "entries_all (\<lambda>_ e. map_of e ''appraiser_url'' = None) ga_swept"
  by (simp add: ga_swept_def ga_swept_1_def ga_swept_2_def)

lemma georgia_entry:
  assumes "map_of (rev ga_appraiser) f = Some (name, url)"
  shows "\<exists>e. map_of (ga_filled rows) f = Some e \<and>
     map_of e ''appraiser_url'' = (if map_of ga_swept f = None then Some (RStr url) else None)"
proof -
  obtain e where e: "map_of ga_linked f = Some e" "map_of e ''appraiser_url'' = Some (RStr url)"
    using fold_links_key [OF assms] unfolding ga_linked_def by blast
  from ga_fill_keeps [OF this] have kept: "map_of (foldl ga_fill_one ga_linked rows) f = Some e" .
  show ?thesis
  proof (cases "map_of (rev ga_swept) f")
    case None
    then have "map_of ga_swept f = None" by (simp add: map_of_eq_None_iff)
    then show ?thesis using kept e None by (simp add: ga_filled_def map_of_dict_update)
  next
    case (Some e')
    then have "map_of e' ''appraiser_url'' = None"
      using swept_without_appraiser entries_allD [of "\<lambda>_ e. map_of e ''appraiser_url'' = None" "rev ga_swept"] by simp
    moreover have "map_of ga_swept f \<noteq> None"
      using Some by (metis map_of_eq_None_iff option.distinct(1) set_rev)
    ultimately show ?thesis using Some by (auto simp: ga_filled_def map_of_dict_update)
  qed
qed

lemma ga_counties_distinct: "distinct (map fst ga_counties)"
  by (simp add: ga_counties_def ga_counties_1_def ga_counties_2_def ga_counties_3_def ga_counties_4_def
      ga_counties_5_def ga_counties_6_def)

lemma fold_links_distinct:
  "distinct (map fst t) \<Longrightarrow> distinct (map fst (fold_links st key links t))"
  unfolding fold_links_def by (induction links arbitrary: t) auto

lemma ga_filled_distinct: "distinct (map fst (ga_filled rows))"
proof -
  have "distinct (map fst (foldl ga_fill_one t rows))" if "distinct (map fst t)" for t
    using that by (induction rows arbitrary: t) (auto simp: ga_fill_one_def Let_def)
  from this [OF fold_links_distinct [OF ga_counties_distinct]] show ?thesis
    unfolding ga_filled_def ga_linked_def by (rule dict_update_distinct)
qed

text \<open>C37: Georgia has an appraiser link for every county of its table, but the counties of the sweep lose
  theirs: the update with the swept entries runs after the links are folded in, and replaces the whole
  entry.  The references then show no appraiser site for them, although the table has one.\<close>

theorem georgia_sweep_drops_appraiser:
  assumes "rows_ok (county_rows raw ''13'')" "distinct (map fst bulk)" "map_of bulk f = None"
    and "map_of (rev ga_appraiser) f = Some (name, url)"
  shows "ck_appraiser_url (references has_adapter (live_registry raw bulk) f abbr cname hints) =
     (if map_of ga_swept f = None then url else [])"
proof -
  have "(f, name, url) \<in> set ga_appraiser" using assms(4) by (auto dest: map_of_SomeD)
  then have "county_key ''13'' f"
    using ga_appraiser_ok by (auto simp: links_ok_def entries_all_def list_all_iff)
  then have "state_of f = ''GA''"
    using county_key_state [of "''13''" f] by (simp add: state_rules)
  then have own: "module_of (state_modules (county_rows raw ''13'')) f = Some (ga_module (county_rows raw ''13''))"
    by (simp add: module_of_def state_modules_def module_defs)
  obtain e where e: "map_of (ga_filled (county_rows raw ''13'')) f = Some e"
    "map_of e ''appraiser_url'' = (if map_of ga_swept f = None then Some (RStr url) else None)"
    using georgia_entry [OF assms(4)] by blast
  then have "own_entry (county_rows raw ''13'') f = Some e"
    by (simp add: own_entry_def own map_of_rev_distinct [OF ga_filled_distinct] ga_module_def)
  then have "map_of (lookup_or_empty (live_registry raw bulk) f) ''appraiser_url'' =
      (if map_of ga_swept f = None then Some (RStr url) else None)"
    using registry_field [OF assms(1,2), of f "''appraiser_url''"] assms(3) e(2) by simp
  then show ?thesis by (simp add: references_def Let_def entry_str_def)
qed

text \<open>Barrow is in the table and in the sweep.\<close>

theorem georgia_sweep_drops_appraiser_witness:
  "map_of (rev ga_appraiser) ''13013'' = Some (''Barrow'', ''https://barrowassessor.org/'') \<and>
   ck_appraiser_url (references (\<lambda>_. False) (live_registry demo_counties demo_bulk) ''13013'' ''GA'' ''Barrow'' []) = []"
proof -
  have t: "map_of (rev ga_appraiser) ''13013'' = Some (''Barrow'', ''https://barrowassessor.org/'')"
    by code_simp
  have swept: "map_of ga_swept ''13013'' \<noteq> None" by (simp add: ga_swept_def ga_swept_1_def)
  have "map_of demo_bulk ''13013'' = None" by (simp add: demo_bulk_def)
  from georgia_sweep_drops_appraiser [OF demo_rows demo_bulk_ok(2) this t] t swept show ?thesis
    by simp
qed

end
