(* ===== verification/Migrations.thy ===== *)
theory Migrations
  imports Store
begin

text \<open>
  The schema changes of \<open>alembic/versions\<close> as lists of the operations they call, and the tables the
  mapped classes of \<open>engine/models.py\<close>, \<open>engine/order_source.py\<close>, \<open>engine/evidence_source.py\<close>,
  \<open>db/base.py\<close> and \<open>db/mixins.py\<close> declare.  The database that executes the operations is an
  argument (\<^verbatim>\<open>exec\<close>); what the revisions rely on of it, the documented effect of each statement
  where its preconditions hold, is the predicate \<^verbatim>\<open>ddl_laws\<close> over \<^verbatim>\<open>pg_effect\<close>.
\<close>

section \<open>Columns, constraints and operations\<close>

datatype col_type =
  Uuid_type | Jsonb_type | Integer_type | Big_integer_type | Boolean_type | Float_type | Text_type
| String_type "nat option"
| Timestamp_type bool
| Enum_type string "string list"

text \<open>\<open>server_default="0"\<close>, \<open>server_default=sa.text("false")\<close> and \<open>server_default=sa.func.now()\<close>.\<close>

datatype server_default = Quoted string | Sql_text string | Now

datatype column =
  Column (co_name: string) (co_type: col_type) (co_nullable: bool) (co_default: "server_default option")

text \<open>The expression of the one check constraint, \<open>jsonb_array_length(col) > 0\<close>.\<close>

datatype check = Array_length_positive string

datatype db_constraint =
  Check string check
| Foreign_key string string string "string option"
| Primary_key "string list"
| Unique string "string list"

datatype ddl =
  Create_table string "column list" "db_constraint list"
| Create_index string string "string list"
| Add_column string column
| Drop_column string string
| Drop_table string
| Drop_type_if_exists string
| Add_value_if_not_exists string string

record revision =
  rv_revision :: string
  rv_down_revision :: "string option"
  rv_upgrade :: "ddl list"
  rv_downgrade :: "ddl list"

section \<open>The revisions\<close>

definition upgrade_0002 :: "ddl list" where
  "upgrade_0002 =
    [Create_table ''tenants''
     [Column ''id'' Uuid_type False None,
      Column ''created_at'' (Timestamp_type True) False (Some Now),
      Column ''updated_at'' (Timestamp_type True) False (Some Now)]
     [Primary_key [''id'']],
     Create_table ''orders''
     [Column ''id'' Uuid_type False None,
      Column ''tenant_id'' Uuid_type False None,
      Column ''order_number'' (String_type (Some 100)) True None,
      Column ''address_line_1'' (String_type (Some 255)) False None,
      Column ''address_line_2'' (String_type (Some 255)) True None,
      Column ''city'' (String_type (Some 120)) True None,
      Column ''state'' (String_type (Some 2)) True None,
      Column ''zip_code'' (String_type (Some 10)) True None,
      Column ''county'' (String_type (Some 120)) True None,
      Column ''parcel_id'' (String_type (Some 100)) True None,
      Column ''lat'' Float_type True None,
      Column ''lon'' Float_type True None,
      Column ''survey_type'' (String_type (Some 100)) True None,
      Column ''created_by'' Uuid_type True None,
      Column ''updated_by'' Uuid_type True None,
      Column ''deleted_at'' (Timestamp_type True) True None,
      Column ''created_at'' (Timestamp_type True) False (Some Now),
      Column ''updated_at'' (Timestamp_type True) False (Some Now)]
     [Foreign_key ''tenant_id'' ''tenants'' ''id'' (Some ''RESTRICT''),
      Primary_key [''id'']],
     Create_index ''ix_orders_tenant_id'' ''orders'' [''tenant_id''],
     Create_table ''files''
     [Column ''id'' Uuid_type False None,
      Column ''filename'' (String_type (Some 255)) False None,
      Column ''content_key'' (String_type (Some 512)) True None,
      Column ''mime_type'' (String_type (Some 100)) True None,
      Column ''size'' Big_integer_type True None,
      Column ''sha256'' (String_type (Some 64)) True None,
      Column ''deleted_at'' (Timestamp_type True) True None,
      Column ''created_at'' (Timestamp_type True) False (Some Now),
      Column ''updated_at'' (Timestamp_type True) False (Some Now)]
     [Primary_key [''id'']],
     Create_table ''order_files''
     [Column ''id'' Uuid_type False None,
      Column ''order_id'' Uuid_type False None,
      Column ''file_id'' Uuid_type False None,
      Column ''deleted_at'' (Timestamp_type True) True None,
      Column ''created_at'' (Timestamp_type True) False (Some Now),
      Column ''updated_at'' (Timestamp_type True) False (Some Now)]
     [Foreign_key ''file_id'' ''files'' ''id'' None,
      Foreign_key ''order_id'' ''orders'' ''id'' (Some ''CASCADE''),
      Primary_key [''id'']]]"

definition downgrade_0002 :: "ddl list" where
  "downgrade_0002 =
    [Drop_table ''order_files'',
     Drop_table ''files'',
     Drop_table ''orders'',
     Drop_table ''tenants'']"

definition revision_0002 :: revision where
  "revision_0002 =
    \<lparr>rv_revision = ''0002_dev_base_tables'', rv_down_revision = None,
     rv_upgrade = upgrade_0002, rv_downgrade = downgrade_0002\<rparr>"

definition upgrade_0001 :: "ddl list" where
  "upgrade_0001 =
    [Create_table ''research_jobs''
     [Column ''id'' Uuid_type False None,
      Column ''tenant_id'' Uuid_type False None,
      Column ''order_id'' Uuid_type False None,
      Column ''idempotency_key'' Uuid_type False None,
      Column ''requested_doc_types'' Jsonb_type False None,
      Column ''status'' (Enum_type ''research_job_status_enum''
        [''queued'', ''running'', ''completed'', ''partial'', ''failed'', ''cancelling'', ''cancelled'']) False None,
      Column ''total_documents'' Integer_type False (Some (Quoted ''0'')),
      Column ''fetched_documents'' Integer_type False (Some (Quoted ''0'')),
      Column ''uploaded_documents'' Integer_type False (Some (Quoted ''0'')),
      Column ''failed_documents'' Integer_type False (Some (Quoted ''0'')),
      Column ''cancelled_documents'' Integer_type False (Some (Quoted ''0'')),
      Column ''started_at'' (Timestamp_type True) True None,
      Column ''completed_at'' (Timestamp_type True) True None,
      Column ''error_code'' (String_type (Some 100)) True None,
      Column ''error_message'' Text_type True None,
      Column ''callback_url'' (String_type (Some 2048)) True None,
      Column ''created_by'' Uuid_type True None,
      Column ''updated_by'' Uuid_type True None,
      Column ''deleted_at'' (Timestamp_type True) True None,
      Column ''created_at'' (Timestamp_type True) False (Some Now),
      Column ''updated_at'' (Timestamp_type True) False (Some Now)]
     [Check ''ck_research_job_nonempty_doc_types'' (Array_length_positive ''requested_doc_types''),
      Foreign_key ''order_id'' ''orders'' ''id'' (Some ''CASCADE''),
      Foreign_key ''tenant_id'' ''tenants'' ''id'' (Some ''RESTRICT''),
      Primary_key [''id''],
      Unique ''uq_research_job_idempotency_per_tenant'' [''tenant_id'', ''idempotency_key'']],
     Create_index ''ix_research_jobs_tenant_id'' ''research_jobs'' [''tenant_id''],
     Create_index ''ix_research_jobs_order_id'' ''research_jobs'' [''order_id''],
     Create_index ''ix_research_jobs_status'' ''research_jobs'' [''status''],
     Create_table ''research_documents''
     [Column ''id'' Uuid_type False None,
      Column ''job_id'' Uuid_type False None,
      Column ''order_id'' Uuid_type False None,
      Column ''doc_type'' (String_type (Some 100)) False None,
      Column ''status'' (Enum_type ''research_doc_status_enum''
        [''queued'', ''fetching'', ''fetched'', ''uploading'', ''uploaded'', ''failed'', ''skipped'']) False None,
      Column ''source_outcome'' (Enum_type ''source_outcome_enum''
        [''auto'', ''link_only'', ''blocked'', ''broken'', ''retryable'', ''manual_review'']) True None,
      Column ''confidence'' (Enum_type ''confidence_enum''
        [''high'', ''medium'', ''low'', ''none'']) True None,
      Column ''file_id'' Uuid_type True None,
      Column ''order_file_id'' Uuid_type True None,
      Column ''summary'' Text_type False (Some (Quoted '''')),
      Column ''link'' (String_type (Some 2048)) False (Some (Quoted '''')),
      Column ''link_label'' (String_type (Some 255)) False (Some (Quoted '''')),
      Column ''provenance'' Jsonb_type True None,
      Column ''warnings'' Jsonb_type True None,
      Column ''error_code'' (String_type (Some 100)) True None,
      Column ''error_message'' Text_type True None,
      Column ''retryable'' Boolean_type False (Some (Quoted ''true'')),
      Column ''retry_count'' Integer_type False (Some (Quoted ''0'')),
      Column ''fetched_at'' (Timestamp_type True) True None,
      Column ''uploaded_at'' (Timestamp_type True) True None,
      Column ''deleted_at'' (Timestamp_type True) True None,
      Column ''created_at'' (Timestamp_type True) False (Some Now),
      Column ''updated_at'' (Timestamp_type True) False (Some Now)]
     [Foreign_key ''file_id'' ''files'' ''id'' None,
      Foreign_key ''job_id'' ''research_jobs'' ''id'' (Some ''CASCADE''),
      Foreign_key ''order_file_id'' ''order_files'' ''id'' None,
      Foreign_key ''order_id'' ''orders'' ''id'' (Some ''CASCADE''),
      Primary_key [''id''],
      Unique ''uq_research_doc_per_job_type'' [''job_id'', ''doc_type'']],
     Create_index ''ix_research_documents_job_id'' ''research_documents'' [''job_id''],
     Create_index ''ix_research_documents_order_id'' ''research_documents'' [''order_id''],
     Create_index ''ix_research_documents_status'' ''research_documents'' [''status'']]"

definition downgrade_0001 :: "ddl list" where
  "downgrade_0001 =
    [Drop_table ''research_documents'',
     Drop_table ''research_jobs'',
     Drop_type_if_exists ''research_job_status_enum'',
     Drop_type_if_exists ''research_doc_status_enum'',
     Drop_type_if_exists ''source_outcome_enum'',
     Drop_type_if_exists ''confidence_enum'']"

definition revision_0001 :: revision where
  "revision_0001 =
    \<lparr>rv_revision = ''0001_research_tables'', rv_down_revision = Some ''0002_dev_base_tables'',
     rv_upgrade = upgrade_0001, rv_downgrade = downgrade_0001\<rparr>"

definition upgrade_0003 :: "ddl list" where
  "upgrade_0003 =
    [Add_column ''research_jobs'' (Column ''cancel_reason'' Text_type True None),
     Add_value_if_not_exists ''research_job_status_enum'' ''reviewed'',
     Add_value_if_not_exists ''research_job_status_enum'' ''archived'']"

definition downgrade_0003 :: "ddl list" where
  "downgrade_0003 =
    [Drop_column ''research_jobs'' ''cancel_reason'']"

definition revision_0003 :: revision where
  "revision_0003 =
    \<lparr>rv_revision = ''0003_cancel_reason'', rv_down_revision = Some ''0001_research_tables'',
     rv_upgrade = upgrade_0003, rv_downgrade = downgrade_0003\<rparr>"

definition upgrade_0004 :: "ddl list" where
  "upgrade_0004 =
    [Add_column ''research_jobs'' (Column ''callback_delivered'' Boolean_type False (Some (Sql_text ''false'')))]"

definition downgrade_0004 :: "ddl list" where
  "downgrade_0004 =
    [Drop_column ''research_jobs'' ''callback_delivered'']"

definition revision_0004 :: revision where
  "revision_0004 =
    \<lparr>rv_revision = ''0004_callback_delivered'', rv_down_revision = Some ''0003_cancel_reason'',
     rv_upgrade = upgrade_0004, rv_downgrade = downgrade_0004\<rparr>"

definition VERSIONS :: "revision list" where
  "VERSIONS = [revision_0001, revision_0002, revision_0003, revision_0004]"

text \<open>
  The order in which alembic runs the revisions: each once, after the one it revises.
\<close>

definition alembic_order :: "revision list \<Rightarrow> bool" where
  "alembic_order path \<longleftrightarrow>
     distinct path \<and> set path = set VERSIONS \<and>
     (\<forall>i < length path. \<forall>d. rv_down_revision (path ! i) = Some d \<longrightarrow>
        (\<exists>j < i. rv_revision (path ! j) = d))"

section \<open>What the mapped classes declare\<close>

text \<open>
  An attribute of a mapped class: name, type (\<open>Mapped[str]\<close> alone is an unbounded string,
  \<open>Mapped[datetime]\<close> a timestamp without time zone), \<open>nullable\<close> and \<open>index\<close>.  An enumeration column
  stores the names of the members, which are also their values.
\<close>

datatype attr = Attr (at_name: string) (at_type: col_type) (at_nullable: bool) (at_index: bool)

record mapped_class =
  mc_tablename :: string
  mc_attrs :: "attr list"
  mc_uniques :: "(string \<times> string list) list"

definition job_statuses :: "job_status list" where
  "job_statuses = [Job_queued, Job_running, Job_completed, Job_partial, Job_failed, Job_cancelling,
     Job_cancelled, Job_reviewed, Job_archived]"

definition doc_statuses :: "doc_status list" where
  "doc_statuses = [Doc_queued, Doc_fetching, Doc_fetched, Doc_uploading, Doc_uploaded, Doc_failed,
     Doc_skipped]"

fun source_outcome_value :: "source_outcome \<Rightarrow> string" where
  "source_outcome_value Out_auto = ''auto''"
| "source_outcome_value Out_link_only = ''link_only''"
| "source_outcome_value Out_blocked = ''blocked''"
| "source_outcome_value Out_broken = ''broken''"
| "source_outcome_value Out_retryable = ''retryable''"
| "source_outcome_value Out_manual_review = ''manual_review''"

definition source_outcomes :: "source_outcome list" where
  "source_outcomes =
    [Out_auto, Out_link_only, Out_blocked, Out_broken, Out_retryable, Out_manual_review]"

fun confidence_value :: "confidence \<Rightarrow> string" where
  "confidence_value Conf_high = ''high''"
| "confidence_value Conf_medium = ''medium''"
| "confidence_value Conf_low = ''low''"
| "confidence_value Conf_none = ''none''"

definition confidences :: "confidence list" where
  "confidences = [Conf_high, Conf_medium, Conf_low, Conf_none]"

text \<open>\<open>Base\<close> and the mixins; a class that declares an attribute of its own replaces the mixin's.\<close>

definition base_attrs :: "attr list" where
  "base_attrs = [Attr ''id'' Uuid_type False False]"

definition timestamp_attrs :: "attr list" where
  "timestamp_attrs =
    [Attr ''created_at'' (Timestamp_type True) False False,
     Attr ''updated_at'' (Timestamp_type True) False False]"

definition audit_attrs :: "attr list" where
  "audit_attrs =
    [Attr ''created_by'' Uuid_type True False, Attr ''updated_by'' Uuid_type True False]"

definition tenant_attrs :: "attr list" where
  "tenant_attrs = [Attr ''tenant_id'' Uuid_type False True]"

definition soft_delete_attrs :: "attr list" where
  "soft_delete_attrs = [Attr ''deleted_at'' (Timestamp_type True) True True]"

definition class_attrs :: "attr list \<Rightarrow> attr list \<Rightarrow> attr list" where
  "class_attrs mixins body =
     base_attrs @ body @ filter (\<lambda>a. at_name a \<notin> set (map at_name body)) mixins"

definition ResearchJob_class :: mapped_class where
  "ResearchJob_class = \<lparr>mc_tablename = ''research_jobs'', mc_attrs =
   class_attrs (tenant_attrs @ audit_attrs @ timestamp_attrs @ soft_delete_attrs)
    [Attr ''tenant_id'' Uuid_type False True,
     Attr ''order_id'' Uuid_type False True,
     Attr ''idempotency_key'' Uuid_type False False,
     Attr ''requested_doc_types'' Jsonb_type False False,
     Attr ''status'' (Enum_type ''research_job_status_enum'' (map job_status_value job_statuses)) False True,
     Attr ''total_documents'' Integer_type False False,
     Attr ''fetched_documents'' Integer_type False False,
     Attr ''uploaded_documents'' Integer_type False False,
     Attr ''failed_documents'' Integer_type False False,
     Attr ''cancelled_documents'' Integer_type False False,
     Attr ''started_at'' (Timestamp_type False) True False,
     Attr ''completed_at'' (Timestamp_type False) True False,
     Attr ''error_code'' (String_type (Some 100)) True False,
     Attr ''error_message'' Text_type True False,
     Attr ''cancel_reason'' Text_type True False,
     Attr ''callback_url'' (String_type (Some 2048)) True False,
     Attr ''callback_delivered'' Boolean_type False False],
   mc_uniques =
    [(''uq_research_job_idempotency_per_tenant'', [''tenant_id'', ''idempotency_key''])]\<rparr>"

definition ResearchDocument_class :: mapped_class where
  "ResearchDocument_class = \<lparr>mc_tablename = ''research_documents'', mc_attrs =
   class_attrs (timestamp_attrs @ soft_delete_attrs)
    [Attr ''job_id'' Uuid_type False True,
     Attr ''order_id'' Uuid_type False True,
     Attr ''doc_type'' (String_type (Some 100)) False False,
     Attr ''status'' (Enum_type ''research_doc_status_enum'' (map doc_status_value doc_statuses)) False True,
     Attr ''source_outcome'' (Enum_type ''source_outcome_enum'' (map source_outcome_value source_outcomes)) True False,
     Attr ''confidence'' (Enum_type ''confidence_enum'' (map confidence_value confidences)) True False,
     Attr ''file_id'' Uuid_type True True,
     Attr ''order_file_id'' Uuid_type True True,
     Attr ''summary'' Text_type False False,
     Attr ''link'' (String_type (Some 2048)) False False,
     Attr ''link_label'' (String_type (Some 255)) False False,
     Attr ''provenance'' Jsonb_type True False,
     Attr ''warnings'' Jsonb_type True False,
     Attr ''error_code'' (String_type (Some 100)) True False,
     Attr ''error_message'' Text_type True False,
     Attr ''retryable'' Boolean_type False False,
     Attr ''retry_count'' Integer_type False False,
     Attr ''fetched_at'' (Timestamp_type False) True False,
     Attr ''uploaded_at'' (Timestamp_type False) True False],
   mc_uniques = [(''uq_research_doc_per_job_type'', [''job_id'', ''doc_type''])]\<rparr>"

definition Order_class :: mapped_class where
  "Order_class = \<lparr>mc_tablename = ''orders'', mc_attrs =
   class_attrs (timestamp_attrs @ audit_attrs @ soft_delete_attrs)
    [Attr ''tenant_id'' Uuid_type False True,
     Attr ''order_number'' (String_type None) True False,
     Attr ''address_line_1'' (String_type None) False False,
     Attr ''address_line_2'' (String_type None) True False,
     Attr ''city'' (String_type None) True False,
     Attr ''state'' (String_type None) True False,
     Attr ''zip_code'' (String_type None) True False,
     Attr ''county'' (String_type None) True False,
     Attr ''parcel_id'' (String_type None) True False,
     Attr ''lat'' Float_type True False,
     Attr ''lon'' Float_type True False,
     Attr ''survey_type'' (String_type None) True False],
   mc_uniques = []\<rparr>"

definition Tenant_class :: mapped_class where
  "Tenant_class = \<lparr>mc_tablename = ''tenants'', mc_attrs = class_attrs timestamp_attrs [],
     mc_uniques = []\<rparr>"

definition File_class :: mapped_class where
  "File_class = \<lparr>mc_tablename = ''files'', mc_attrs =
   class_attrs (timestamp_attrs @ soft_delete_attrs)
    [Attr ''filename'' (String_type None) False False,
     Attr ''content_key'' (String_type None) True False,
     Attr ''mime_type'' (String_type None) True False,
     Attr ''size'' Integer_type True False,
     Attr ''sha256'' (String_type None) True False],
   mc_uniques = []\<rparr>"

definition OrderFile_class :: mapped_class where
  "OrderFile_class = \<lparr>mc_tablename = ''order_files'', mc_attrs =
   class_attrs (timestamp_attrs @ soft_delete_attrs)
    [Attr ''order_id'' Uuid_type False True,
     Attr ''file_id'' Uuid_type False True],
   mc_uniques = []\<rparr>"

definition mapped_classes :: "mapped_class list" where
  "mapped_classes = [ResearchJob_class, ResearchDocument_class, Order_class, Tenant_class,
     File_class, OrderFile_class]"

text \<open>The naming convention of \<open>Base.metadata\<close> for an index, \<open>ix_%(column_0_label)s\<close>.\<close>

definition ix_name :: "string \<Rightarrow> string \<Rightarrow> string" where
  "ix_name table column = ''ix_'' @ table @ ''_'' @ column"

end
