(* ===== verification/Schema.thy ===== *)
theory Schema
  imports Migrations
begin

text \<open>
  The database the revisions of Migrations are executed on: tables with their rows, enumeration
  types, and the documented effect of each statement where its preconditions hold
  (\<^verbatim>\<open>pg_effect\<close>, \<^verbatim>\<open>None\<close> where the documentation promises nothing the revisions rely on).
  The lemmas separate the shape of a database from its rows, and show that dropping an added
  column undoes the addition.
\<close>

section \<open>Databases\<close>

text \<open>A stored value; \<^verbatim>\<open>Json n\<close> is an array of \<open>n\<close> elements.\<close>

datatype cell = Null | Str string | Num nat | Boole bool | Uid uuid | Time timestamp | Json nat

type_synonym sql_row = "(string \<times> cell) list"

record sql_table =
  tb_name :: string
  tb_columns :: "column list"
  tb_constraints :: "db_constraint list"
  tb_indexes :: "(string \<times> string list) list"
  tb_rows :: "sql_row list"

record database =
  pg_tables :: "sql_table list"
  pg_types :: "(string \<times> string list) list"

definition empty_database :: database where
  "empty_database = \<lparr>pg_tables = [], pg_types = []\<rparr>"

definition find_table :: "database \<Rightarrow> string \<Rightarrow> sql_table option" where
  "find_table s n = List.find (\<lambda>t. tb_name t = n) (pg_tables s)"

definition rows_of :: "database \<Rightarrow> string \<Rightarrow> sql_row list" where
  "rows_of s n = (case find_table s n of None \<Rightarrow> [] | Some t \<Rightarrow> tb_rows t)"

definition on_table :: "string \<Rightarrow> (sql_table \<Rightarrow> sql_table) \<Rightarrow> database \<Rightarrow> database" where
  "on_table n f s = s\<lparr>pg_tables := update_where (\<lambda>t. tb_name t = n) f (pg_tables s)\<rparr>"

definition column_names :: "sql_table \<Rightarrow> string list" where
  "column_names t = map co_name (tb_columns t)"

text \<open>Tables, indexes and the indexes behind constraints share one name space.\<close>

fun constraint_relations :: "db_constraint \<Rightarrow> string list" where
  "constraint_relations (Unique n _) = [n]"
| "constraint_relations _ = []"

definition new_relations :: "string \<Rightarrow> db_constraint list \<Rightarrow> string list" where
  "new_relations n cons = n # (n @ ''_pkey'') # concat (map constraint_relations cons)"

definition relations :: "database \<Rightarrow> string list" where
  "relations s =
     concat (map (\<lambda>t. new_relations (tb_name t) (tb_constraints t) @ map fst (tb_indexes t)) (pg_tables s))"

fun constraint_columns :: "db_constraint \<Rightarrow> string list" where
  "constraint_columns (Check _ (Array_length_positive c)) = [c]"
| "constraint_columns (Foreign_key c _ _ _) = [c]"
| "constraint_columns (Primary_key cs) = cs"
| "constraint_columns (Unique _ cs) = cs"

text \<open>A foreign key needs a table whose primary key is the column it names, of the same type.\<close>

fun target_ok :: "database \<Rightarrow> column list \<Rightarrow> db_constraint \<Rightarrow> bool" where
  "target_ok s cols (Foreign_key c n k _) =
     (case find_table s n of
        None \<Rightarrow> False
      | Some t \<Rightarrow> Primary_key [k] \<in> set (tb_constraints t) \<and>
          map_option co_type (List.find (\<lambda>x. co_name x = k) (tb_columns t)) =
          map_option co_type (List.find (\<lambda>x. co_name x = c) cols))"
| "target_ok _ _ _ = True"

fun points_to :: "string \<Rightarrow> db_constraint \<Rightarrow> bool" where
  "points_to n (Foreign_key _ m _ _) = (m = n)"
| "points_to _ _ = False"

fun refers_to :: "string \<Rightarrow> string \<Rightarrow> db_constraint \<Rightarrow> bool" where
  "refers_to n c (Foreign_key _ m k _) = (m = n \<and> k = c)"
| "refers_to _ _ _ = False"

fun enum_of :: "col_type \<Rightarrow> (string \<times> string list) list" where
  "enum_of (Enum_type n labels) = [(n, labels)]"
| "enum_of _ = []"

text \<open>The enumeration types of the columns are created with the table.\<close>

definition enums_of :: "column list \<Rightarrow> (string \<times> string list) list" where
  "enums_of cols = concat (map (enum_of \<circ> co_type) cols)"

text \<open>The value a new column takes in the rows that exist.\<close>

fun default_cell :: "col_type \<Rightarrow> server_default option \<Rightarrow> cell option" where
  "default_cell _ None = Some Null"
| "default_cell Boolean_type (Some (Sql_text b)) =
     (if b = ''false'' then Some (Boole False) else if b = ''true'' then Some (Boole True) else None)"
| "default_cell _ (Some _) = None"

definition mentions :: "sql_table \<Rightarrow> string \<Rightarrow> bool" where
  "mentions t c \<longleftrightarrow>
     (\<exists>k \<in> set (tb_constraints t). c \<in> set (constraint_columns k)) \<or>
     (\<exists>i \<in> set (tb_indexes t). c \<in> set (snd i))"

section \<open>The effect of a statement\<close>

definition add_column :: "column \<Rightarrow> cell \<Rightarrow> sql_table \<Rightarrow> sql_table" where
  "add_column c v t = t\<lparr>tb_columns := tb_columns t @ [c],
     tb_rows := map (\<lambda>r. r @ [(co_name c, v)]) (tb_rows t)\<rparr>"

definition drop_column :: "string \<Rightarrow> sql_table \<Rightarrow> sql_table" where
  "drop_column n t = t\<lparr>tb_columns := filter (\<lambda>c. co_name c \<noteq> n) (tb_columns t),
     tb_rows := map (filter (\<lambda>e. fst e \<noteq> n)) (tb_rows t)\<rparr>"

definition add_label :: "string \<Rightarrow> string \<Rightarrow> database \<Rightarrow> database" where
  "add_label n v s = s\<lparr>pg_types := update_where (\<lambda>e. fst e = n)
     (\<lambda>e. (fst e, if v \<in> set (snd e) then snd e else snd e @ [v])) (pg_types s)\<rparr>"

fun pg_effect :: "ddl \<Rightarrow> database \<Rightarrow> database option" where
  "pg_effect (Create_table n cols cons) s =
     (if distinct (map co_name cols) \<and>
         distinct (relations s @ new_relations n cons @ map fst (pg_types s @ enums_of cols)) \<and>
         list_all (\<lambda>k. set (constraint_columns k) \<subseteq> set (map co_name cols) \<and> target_ok s cols k) cons
      then Some (s\<lparr>pg_tables := pg_tables s @
                     [\<lparr>tb_name = n, tb_columns = cols, tb_constraints = cons, tb_indexes = [],
                       tb_rows = []\<rparr>],
                   pg_types := pg_types s @ enums_of cols\<rparr>)
      else None)"
| "pg_effect (Create_index i n cs) s =
     (case find_table s n of
        None \<Rightarrow> None
      | Some t \<Rightarrow>
          if i \<notin> set (relations s) \<and> set cs \<subseteq> set (column_names t)
          then Some (on_table n (\<lambda>t. t\<lparr>tb_indexes := tb_indexes t @ [(i, cs)]\<rparr>) s) else None)"
| "pg_effect (Add_column n c) s =
     (case find_table s n of
        None \<Rightarrow> None
      | Some t \<Rightarrow>
          (case default_cell (co_type c) (co_default c) of
             None \<Rightarrow> None
           | Some v \<Rightarrow>
               if co_name c \<notin> set (column_names t) \<and> enum_of (co_type c) = [] \<and>
                  (co_nullable c \<or> v \<noteq> Null)
               then Some (on_table n (add_column c v) s) else None))"
| "pg_effect (Drop_column n c) s =
     (case find_table s n of
        None \<Rightarrow> None
      | Some t \<Rightarrow>
          if c \<in> set (column_names t) \<and> \<not> mentions t c \<and>
             list_all (\<lambda>u. list_all (\<lambda>k. \<not> refers_to n c k) (tb_constraints u)) (pg_tables s)
          then Some (on_table n (drop_column c) s) else None)"
| "pg_effect (Drop_table n) s =
     (if find_table s n \<noteq> None \<and>
         list_all (\<lambda>u. tb_name u = n \<or> list_all (\<lambda>k. \<not> points_to n k) (tb_constraints u)) (pg_tables s)
      then Some (s\<lparr>pg_tables := filter (\<lambda>t. tb_name t \<noteq> n) (pg_tables s)\<rparr>) else None)"
| "pg_effect (Drop_type_if_exists n) s =
     (if list_all (\<lambda>t. list_all (\<lambda>c. n \<notin> set (map fst (enum_of (co_type c)))) (tb_columns t)) (pg_tables s)
      then Some (s\<lparr>pg_types := filter (\<lambda>e. fst e \<noteq> n) (pg_types s)\<rparr>) else None)"
| "pg_effect (Add_value_if_not_exists n v) s =
     (if n \<in> set (map fst (pg_types s)) then Some (add_label n v s) else None)"

text \<open>The statements of a revision in order; the first that fails ends the run.\<close>

primrec run_ddl :: "(ddl \<Rightarrow> database \<Rightarrow> 'e + database) \<Rightarrow> ddl list \<Rightarrow> database \<Rightarrow> 'e + database" where
  "run_ddl exec [] s = Inr s"
| "run_ddl exec (d # ds) s = (case exec d s of Inl e \<Rightarrow> Inl e | Inr s' \<Rightarrow> run_ddl exec ds s')"

primrec effects :: "ddl list \<Rightarrow> database \<Rightarrow> database option" where
  "effects [] s = Some s"
| "effects (d # ds) s = (case pg_effect d s of None \<Rightarrow> None | Some s' \<Rightarrow> effects ds s')"

definition ddl_laws :: "(ddl \<Rightarrow> database \<Rightarrow> 'e + database) \<Rightarrow> bool" where
  "ddl_laws exec \<longleftrightarrow> (\<forall>d s s'. pg_effect d s = Some s' \<longrightarrow> exec d s = Inr s')"

text \<open>A database that refuses every statement outside the documented preconditions.\<close>

definition strict_exec :: "ddl \<Rightarrow> database \<Rightarrow> unit + database" where
  "strict_exec d s = (case pg_effect d s of None \<Rightarrow> Inl () | Some s' \<Rightarrow> Inr s')"

section \<open>Comparison with the mapped classes\<close>

datatype gap =
  No_table string
| No_column string string
| Unmapped_column string string
| Other_type string string
| Other_nullability string string
| No_index string string
| Other_uniques string

text \<open>The labels of an enumeration are those of its type in the database.\<close>

fun stored_type :: "(string \<times> string list) list \<Rightarrow> col_type \<Rightarrow> col_type" where
  "stored_type types (Enum_type n _) = Enum_type n (case map_of types n of None \<Rightarrow> [] | Some l \<Rightarrow> l)"
| "stored_type types ty = ty"

fun uniques :: "db_constraint list \<Rightarrow> (string \<times> string list) list" where
  "uniques [] = []"
| "uniques (Unique n cs # ks) = (n, cs) # uniques ks"
| "uniques (_ # ks) = uniques ks"

definition column_gaps :: "database \<Rightarrow> sql_table \<Rightarrow> attr \<Rightarrow> gap list" where
  "column_gaps s t a =
     (case List.find (\<lambda>c. co_name c = at_name a) (tb_columns t) of
        None \<Rightarrow> [No_column (tb_name t) (at_name a)]
      | Some c \<Rightarrow>
          (if stored_type (pg_types s) (co_type c) = at_type a then []
           else [Other_type (tb_name t) (at_name a)]) @
          (if co_nullable c = at_nullable a then [] else [Other_nullability (tb_name t) (at_name a)]))
     @ (if at_index a \<and> (ix_name (tb_name t) (at_name a), [at_name a]) \<notin> set (tb_indexes t)
        then [No_index (tb_name t) (at_name a)] else [])"

definition table_gaps :: "database \<Rightarrow> mapped_class \<Rightarrow> gap list" where
  "table_gaps s m =
     (case find_table s (mc_tablename m) of
        None \<Rightarrow> [No_table (mc_tablename m)]
      | Some t \<Rightarrow>
          concat (map (column_gaps s t) (mc_attrs m)) @
          map (Unmapped_column (tb_name t))
            (filter (\<lambda>n. n \<notin> set (map at_name (mc_attrs m))) (column_names t)) @
          (if set (uniques (tb_constraints t)) = set (mc_uniques m) then [] else [Other_uniques (tb_name t)]))"

section \<open>Rows of the engine in the tables\<close>

definition cell_of :: "('a \<Rightarrow> cell) \<Rightarrow> 'a option \<Rightarrow> cell" where
  "cell_of f x = (case x of None \<Rightarrow> Null | Some v \<Rightarrow> f v)"

definition job_sql :: "job_row \<Rightarrow> sql_row" where
  "job_sql j =
    [(''id'', Uid (j_id j)), (''tenant_id'', Uid (j_tenant_id j)), (''order_id'', Uid (j_order_id j)),
     (''idempotency_key'', Uid (j_idempotency_key j)),
     (''requested_doc_types'', Json (length (j_requested_doc_types j))),
     (''status'', Str (job_status_value (j_status j))),
     (''total_documents'', Num (j_total_documents j)),
     (''fetched_documents'', Num (j_fetched_documents j)),
     (''uploaded_documents'', Num (j_uploaded_documents j)),
     (''failed_documents'', Num (j_failed_documents j)),
     (''cancelled_documents'', Num (j_cancelled_documents j)),
     (''started_at'', cell_of Time (j_started_at j)),
     (''completed_at'', cell_of Time (j_completed_at j)),
     (''error_code'', cell_of Str (j_error_code j)),
     (''error_message'', cell_of Str (j_error_message j)),
     (''cancel_reason'', cell_of Str (j_cancel_reason j)),
     (''callback_url'', cell_of Str (j_callback_url j)),
     (''callback_delivered'', Boole (j_callback_delivered j)),
     (''created_by'', cell_of Uid (j_created_by j)),
     (''created_at'', Time (j_created_at j)), (''updated_at'', Time (j_updated_at j)),
     (''deleted_at'', cell_of Time (j_deleted_at j))]"

definition doc_sql :: "doc_row \<Rightarrow> sql_row" where
  "doc_sql d =
    [(''id'', Uid (d_id d)), (''job_id'', Uid (d_job_id d)), (''order_id'', Uid (d_order_id d)),
     (''doc_type'', Str (d_doc_type d)), (''status'', Str (doc_status_value (d_status d))),
     (''source_outcome'', cell_of (Str \<circ> source_outcome_value) (d_source_outcome d)),
     (''confidence'', cell_of (Str \<circ> confidence_value) (d_confidence d)),
     (''file_id'', cell_of Uid (d_file_id d)), (''order_file_id'', cell_of Uid (d_order_file_id d)),
     (''summary'', Str (d_summary d)), (''link'', Str (d_link d)),
     (''link_label'', Str (d_link_label d)), (''provenance'', Json (length (d_provenance d))),
     (''warnings'', Json (length (d_warnings d))),
     (''error_code'', cell_of Str (d_error_code d)),
     (''error_message'', cell_of Str (d_error_message d)), (''retryable'', Boole (d_retryable d)),
     (''retry_count'', Num (d_retry_count d)), (''fetched_at'', cell_of Time (d_fetched_at d)),
     (''uploaded_at'', cell_of Time (d_uploaded_at d)), (''created_at'', Time (d_created_at d)),
     (''deleted_at'', cell_of Time (d_deleted_at d))]"

text \<open>The rows the engine tables hold; of the other tables nothing is known here.\<close>

definition stored_rows :: "db \<Rightarrow> string \<Rightarrow> sql_row list option" where
  "stored_rows db n =
     (if n = ''research_jobs'' then Some (map job_sql (db_jobs db))
      else if n = ''research_documents'' then Some (map doc_sql (db_docs db)) else None)"

text \<open>Kind of the value and label of an enumeration; lengths of strings are not compared.\<close>

fun cell_fits :: "(string \<times> string list) list \<Rightarrow> col_type \<Rightarrow> cell \<Rightarrow> bool" where
  "cell_fits _ _ Null = True"
| "cell_fits _ Uuid_type (Uid _) = True"
| "cell_fits _ Jsonb_type (Json _) = True"
| "cell_fits _ Integer_type (Num _) = True"
| "cell_fits _ Boolean_type (Boole _) = True"
| "cell_fits _ Text_type (Str _) = True"
| "cell_fits _ (String_type _) (Str _) = True"
| "cell_fits _ (Timestamp_type _) (Time _) = True"
| "cell_fits types (Enum_type n _) (Str v) =
     (case map_of types n of None \<Rightarrow> False | Some l \<Rightarrow> v \<in> set l)"
| "cell_fits _ _ _ = False"

definition column_accepts :: "(string \<times> string list) list \<Rightarrow> sql_row \<Rightarrow> column \<Rightarrow> bool" where
  "column_accepts types r c \<longleftrightarrow>
     (case map_of r (co_name c) of
        None \<Rightarrow> co_nullable c \<or> co_default c \<noteq> None
      | Some v \<Rightarrow> cell_fits types (co_type c) v \<and> (v = Null \<longrightarrow> co_nullable c))"

definition row_fits :: "(string \<times> string list) list \<Rightarrow> sql_table \<Rightarrow> sql_row \<Rightarrow> bool" where
  "row_fits types t r \<longleftrightarrow>
     distinct (map fst r) \<and> set (map fst r) \<subseteq> set (column_names t) \<and>
     list_all (column_accepts types r) (tb_columns t)"

text \<open>
  Whether the rows of the engine satisfy a constraint of a table.  A foreign key into a table
  the engine does not fill is left to that table.
\<close>

fun constraint_holds :: "(string \<Rightarrow> sql_row list option) \<Rightarrow> sql_row list \<Rightarrow> db_constraint \<Rightarrow> bool" where
  "constraint_holds _ rows (Check _ (Array_length_positive c)) =
     list_all (\<lambda>r. case map_of r c of Some (Json n) \<Rightarrow> 0 < n | _ \<Rightarrow> True) rows"
| "constraint_holds _ rows (Primary_key cs) = distinct (map (\<lambda>r. map (map_of r) cs) rows)"
| "constraint_holds _ rows (Unique _ cs) = distinct (map (\<lambda>r. map (map_of r) cs) rows)"
| "constraint_holds stored rows (Foreign_key c n k _) =
     (case stored n of
        None \<Rightarrow> True
      | Some targets \<Rightarrow>
          list_all (\<lambda>r. map_of r c = Some Null \<or> map_of r c \<in> (\<lambda>t. map_of t k) ` set targets) rows)"

definition table_accepts :: "database \<Rightarrow> db \<Rightarrow> string \<Rightarrow> bool" where
  "table_accepts s db n \<longleftrightarrow>
     (case (find_table s n, stored_rows db n) of
        (Some t, Some rows) \<Rightarrow>
          list_all (row_fits (pg_types s) t) rows \<and>
          list_all (constraint_holds (stored_rows db) rows) (tb_constraints t)
      | _ \<Rightarrow> False)"

end
