(* ===== verification/SchemaFacts.thy ===== *)
theory SchemaFacts
  imports Schema ServiceFacts
begin

text \<open>
  Facts about the revisions: the documented effects determine a run, the effect of a statement on
  the shape of a database does not depend on its rows, dropping an added column restores the
  table, the revisions have one order, and the schema the chain ends in.  The last section shows
  that tables that are well formed in the sense of ServiceFacts satisfy that schema.
\<close>

section \<open>Running documented statements\<close>

lemma ddl_lawsD: "ddl_laws exec \<Longrightarrow> pg_effect d s = Some s' \<Longrightarrow> exec d s = Inr s'"
  unfolding ddl_laws_def by blast

lemma run_effects: "ddl_laws exec \<Longrightarrow> effects ds s = Some s' \<Longrightarrow> run_ddl exec ds s = Inr s'"
  by (induction ds arbitrary: s) (auto simp: ddl_lawsD split: option.splits)

lemma strict_laws: "ddl_laws strict_exec"
  by (simp add: ddl_laws_def strict_exec_def)

lemma effects_append: "effects (xs @ ys) s = Option.bind (effects xs s) (effects ys)"
  by (induction xs arbitrary: s) (auto split: option.splits)

section \<open>The shape of a database\<close>

definition bare_table :: "sql_table \<Rightarrow> sql_table" where
  "bare_table t = t\<lparr>tb_rows := []\<rparr>"

definition bare :: "database \<Rightarrow> database" where
  "bare s = s\<lparr>pg_tables := map bare_table (pg_tables s)\<rparr>"

lemma bare_table_sel [simp]:
  "tb_name (bare_table t) = tb_name t" "tb_columns (bare_table t) = tb_columns t"
  "tb_constraints (bare_table t) = tb_constraints t" "tb_indexes (bare_table t) = tb_indexes t"
  "column_names (bare_table t) = column_names t" "mentions (bare_table t) c = mentions t c"
  by (simp_all add: bare_table_def column_names_def mentions_def)

lemma find_map: "List.find P (map f xs) = map_option f (List.find (P \<circ> f) xs)"
  by (induction xs) auto

lemma find_table_bare [simp]: "find_table (bare s) n = map_option bare_table (find_table s n)"
  by (simp add: find_table_def bare_def find_map comp_def)

lemma relations_bare [simp]: "relations (bare s) = relations s"
  by (simp add: relations_def bare_def comp_def)

lemma bare_sel [simp]:
  "pg_types (bare s) = pg_types s" "pg_tables (bare s) = map bare_table (pg_tables s)"
  by (simp_all add: bare_def)

lemma target_ok_bare [simp]: "target_ok (bare s) cols k = target_ok s cols k"
  by (cases k) (auto split: option.splits)

lemma update_where_map:
  "(\<And>x. P (g x) = P x) \<Longrightarrow> (\<And>x. f (g x) = g (h x)) \<Longrightarrow>
   update_where P f (map g xs) = map g (update_where P h xs)"
  by (simp add: update_where_def)

lemma on_table_bare:
  "(\<And>t. f (bare_table t) = bare_table (h t)) \<Longrightarrow> on_table n f (bare s) = bare (on_table n h s)"
  by (simp add: on_table_def bare_def update_where_map)

lemma all_tables_bare:
  "list_all P (map bare_table ts) = list_all (\<lambda>t. P (bare_table t)) ts"
  by (simp add: list_all_iff)

lemma filter_map_bare:
  "(\<And>t. P (bare_table t) = P t) \<Longrightarrow> filter P (map bare_table ts) = map bare_table (filter P ts)"
  by (induction ts) auto

text \<open>The effect of a statement on the shape does not depend on the rows.\<close>

lemma effect_bare: "pg_effect d (bare s) = map_option bare (pg_effect d s)"
proof (cases d)
  case (Create_table n cols cons)
  have "(bare s)\<lparr>pg_tables := pg_tables (bare s) @ [u], pg_types := e\<rparr> =
        bare (s\<lparr>pg_tables := pg_tables s @ [u], pg_types := e\<rparr>)" if "bare_table u = u" for u e
    using that by (simp add: bare_def)
  with Create_table show ?thesis by (simp add: bare_table_def)
next
  case (Create_index i n cs)
  have "on_table n (\<lambda>t. t\<lparr>tb_indexes := tb_indexes t @ [(i, cs)]\<rparr>) (bare s) =
        bare (on_table n (\<lambda>t. t\<lparr>tb_indexes := tb_indexes t @ [(i, cs)]\<rparr>) s)"
    by (rule on_table_bare) (simp add: bare_table_def)
  with Create_index show ?thesis by (simp split: option.splits)
next
  case (Add_column n c)
  have "on_table n (add_column c v) (bare s) = bare (on_table n (add_column c v) s)" for v
    by (rule on_table_bare) (simp add: bare_table_def add_column_def)
  with Add_column show ?thesis by (simp split: option.splits)
next
  case (Drop_column n c)
  have "on_table n (drop_column c) (bare s) = bare (on_table n (drop_column c) s)"
    by (rule on_table_bare) (simp add: bare_table_def drop_column_def)
  with Drop_column show ?thesis by (simp add: all_tables_bare split: option.splits)
next
  case (Drop_table n)
  have "(bare s)\<lparr>pg_tables := map bare_table ts\<rparr> = bare (s\<lparr>pg_tables := ts\<rparr>)" for ts
    by (simp add: bare_def)
  with Drop_table show ?thesis by (simp add: all_tables_bare filter_map_bare)
next
  case (Drop_type_if_exists n)
  then show ?thesis by (simp add: all_tables_bare bare_def)
next
  case (Add_value_if_not_exists n v)
  then show ?thesis by (simp add: bare_def add_label_def)
qed

lemma effects_bare: "effects ds (bare s) = map_option bare (effects ds s)"
  by (induction ds arbitrary: s) (auto simp: effect_bare split: option.splits)

lemma effects_from_bare:
  assumes "effects ds (bare s) = Some b"
  obtains s' where "effects ds s = Some s'" "bare s' = b"
  using assms by (auto simp: effects_bare)

section \<open>Adding and dropping a column\<close>

lemma on_table_on_table:
  "(\<And>t. tb_name (g t) = tb_name t) \<Longrightarrow> on_table n f (on_table n g s) = on_table n (f \<circ> g) s"
  by (simp add: on_table_def update_where_def)

lemma on_table_id: "(\<And>t. t \<in> set (pg_tables s) \<Longrightarrow> tb_name t = n \<Longrightarrow> f t = t) \<Longrightarrow> on_table n f s = s"
  by (simp add: on_table_def update_where_id)

lemma on_table_add_label: "on_table n f (add_label e v s) = add_label e v (on_table n f s)"
  by (simp add: on_table_def add_label_def)

lemma column_sel [simp]:
  "tb_name (add_column c v t) = tb_name t" "tb_name (drop_column n t) = tb_name t"
  by (simp_all add: add_column_def drop_column_def)

definition rows_ok :: "database \<Rightarrow> bool" where
  "rows_ok s \<longleftrightarrow> (\<forall>t \<in> set (pg_tables s). \<forall>r \<in> set (tb_rows t). map fst r = column_names t)"

lemma drop_added:
  assumes "co_name c \<notin> set (column_names t)" "\<forall>r \<in> set (tb_rows t). map fst r = column_names t"
  shows "drop_column (co_name c) (add_column c v t) = t"
proof -
  have "filter (\<lambda>x. co_name x \<noteq> co_name c) (tb_columns t) = tb_columns t"
    using assms(1) by (intro filter_True ballI notI) (metis column_names_def image_eqI list.set_map)
  moreover have "filter (\<lambda>e. fst e \<noteq> co_name c) r = r" if "r \<in> set (tb_rows t)" for r
  proof (rule filter_True)
    show "\<forall>x\<in>set r. fst x \<noteq> co_name c"
      using assms that by (metis image_eqI list.set_map)
  qed
  ultimately show ?thesis
    by (simp add: drop_column_def add_column_def comp_def map_idI)
qed

lemma find_update_where:
  "(\<And>x. P (f x) = P x) \<Longrightarrow> (\<And>x. Q (f x) = Q x) \<Longrightarrow>
   List.find Q (update_where P f xs) = map_option (\<lambda>x. if P x then f x else x) (List.find Q xs)"
  by (induction xs) auto

lemma find_on_table:
  "(\<And>t. tb_name (f t) = tb_name t) \<Longrightarrow>
   find_table (on_table n f s) m = map_option (\<lambda>t. if m = n then f t else t) (find_table s m)"
  by (cases "find_table s m")
    (auto simp: find_table_def on_table_def find_update_where dest: find_SomeD)

lemma rows_of_on_table:
  "(\<And>t. tb_name (f t) = tb_name t) \<Longrightarrow> (\<And>t. tb_rows (f t) = g (tb_rows t)) \<Longrightarrow> g [] = [] \<Longrightarrow>
   rows_of (on_table n f s) m = (if m = n then g (rows_of s m) else rows_of s m)"
  by (auto simp: rows_of_def find_on_table split: option.splits)

lemma rows_of_add_column:
  "rows_of (on_table n (add_column c v) s) m =
     (if m = n then map (\<lambda>r. r @ [(co_name c, v)]) (rows_of s m) else rows_of s m)"
  by (rule rows_of_on_table) (simp_all add: add_column_def)

lemma rows_of_add_label [simp]: "rows_of (add_label e v s) m = rows_of s m"
  by (simp add: rows_of_def find_table_def add_label_def)

section \<open>The order of the revisions\<close>

lemmas revision_defs = revision_0001_def revision_0002_def revision_0003_def revision_0004_def

lemma revision_ids [simp]:
  "rv_revision revision_0001 = ''0001_research_tables''"
  "rv_revision revision_0002 = ''0002_dev_base_tables''"
  "rv_revision revision_0003 = ''0003_cancel_reason''"
  "rv_revision revision_0004 = ''0004_callback_delivered''"
  "rv_down_revision revision_0001 = Some ''0002_dev_base_tables''"
  "rv_down_revision revision_0002 = None"
  "rv_down_revision revision_0003 = Some ''0001_research_tables''"
  "rv_down_revision revision_0004 = Some ''0003_cancel_reason''"
  by (simp_all add: revision_defs)

lemma versions_cases:
  "r \<in> set VERSIONS \<longleftrightarrow> r = revision_0001 \<or> r = revision_0002 \<or> r = revision_0003 \<or> r = revision_0004"
  by (auto simp: VERSIONS_def)

lemma distinct_versions: "distinct VERSIONS"
proof -
  have "distinct (map rv_revision VERSIONS)" by (simp add: VERSIONS_def)
  then show ?thesis unfolding distinct_map by blast
qed

lemma alembic_order_unique:
  assumes "alembic_order path"
  shows "path = [revision_0002, revision_0001, revision_0003, revision_0004]"
proof -
  have "distinct path" and set: "set path = set VERSIONS"
    using assms by (simp_all add: alembic_order_def)
  then have "length path = length VERSIONS"
    using distinct_card [OF distinct_versions] distinct_card [of path] by simp
  then have len: "length path = 4" by (simp add: VERSIONS_def)
  then obtain a b c d where path: "path = [a, b, c, d]"
    by (auto simp: numeral_eq_Suc length_Suc_conv)
  have after: "rv_down_revision (path ! i) = Some e \<Longrightarrow> \<exists>j < i. rv_revision (path ! j) = e" if "i < 4" for i e
    using assms len that by (simp add: alembic_order_def)
  have inV: "a \<in> set VERSIONS" "b \<in> set VERSIONS" "c \<in> set VERSIONS" "d \<in> set VERSIONS"
    and ne: "a \<noteq> b" "a \<noteq> c" "a \<noteq> d" "b \<noteq> c" "b \<noteq> d" "c \<noteq> d"
    using set \<open>distinct path\<close> by (auto simp: path)
  have a: "a = revision_0002"
    using after [of 0] inV(1) by (auto simp: path versions_cases)
  have b: "b = revision_0001"
    using after [of 1] inV(2) ne(1) by (auto simp: path versions_cases a)
  have c: "c = revision_0003"
    using after [of 2] inV(3) ne(2,4) by (auto simp: path versions_cases a b less_2_cases_iff)
  have "d = revision_0004"
    using inV(4) ne(3,5,6) by (auto simp: versions_cases a b c)
  then show ?thesis by (simp add: path a b c)
qed

lemma the_order: "alembic_order [revision_0002, revision_0001, revision_0003, revision_0004]"
proof -
  have "distinct (map rv_revision [revision_0002, revision_0001, revision_0003, revision_0004])"
    by simp
  then have "distinct [revision_0002, revision_0001, revision_0003, revision_0004]"
    unfolding distinct_map by blast
  then show ?thesis
    unfolding alembic_order_def by (simp add: VERSIONS_def insert_commute numeral_eq_Suc All_less_Suc Ex_less_Suc)
qed

section \<open>Running the chain\<close>

abbreviation base_ddl :: "ddl list" where
  "base_ddl \<equiv> rv_upgrade revision_0002 @ rv_upgrade revision_0001"

abbreviation later_ddl :: "ddl list" where
  "later_ddl \<equiv> rv_upgrade revision_0003 @ rv_upgrade revision_0004"

abbreviation back_ddl :: "ddl list" where
  "back_ddl \<equiv> rv_downgrade revision_0004 @ rv_downgrade revision_0003"

abbreviation unbase_ddl :: "ddl list" where
  "unbase_ddl \<equiv> rv_downgrade revision_0001 @ rv_downgrade revision_0002"

text \<open>The tables after the first two revisions, and after the whole chain.\<close>

definition base_tables :: "sql_table list" where
  "base_tables =
   [\<lparr>tb_name = ''tenants'', tb_columns =
     [Column ''id'' Uuid_type False None,
      Column ''created_at'' (Timestamp_type True) False (Some Now),
      Column ''updated_at'' (Timestamp_type True) False (Some Now)],
    tb_constraints =
     [Primary_key [''id'']],
    tb_indexes = [], tb_rows = []\<rparr>,
   \<lparr>tb_name = ''orders'', tb_columns =
     [Column ''id'' Uuid_type False None,
      Column ''tenant_id'' Uuid_type False None,
      Column ''order_number'' (String_type (Some 100)) True None,
      Column ''address_line_1'' (String_type (Some 255)) False None,
      Column ''address_line_2'' (String_type (Some 255)) True None,
      Column ''city'' (String_type (Some 120)) True None,
      Column ''state'' (String_type (Some 2)) True None,
      Column ''zip_code'' (String_type (Some 10)) True None,
      Column ''county'' (String_type (Some 120)) True None,
      Column ''parcel_id'' (String_type (Some 100)) True None,
      Column ''lat'' Float_type True None,
      Column ''lon'' Float_type True None,
      Column ''survey_type'' (String_type (Some 100)) True None,
      Column ''created_by'' Uuid_type True None,
      Column ''updated_by'' Uuid_type True None,
      Column ''deleted_at'' (Timestamp_type True) True None,
      Column ''created_at'' (Timestamp_type True) False (Some Now),
      Column ''updated_at'' (Timestamp_type True) False (Some Now)],
    tb_constraints =
     [Foreign_key ''tenant_id'' ''tenants'' ''id'' (Some ''RESTRICT''),
      Primary_key [''id'']],
    tb_indexes = [(''ix_orders_tenant_id'', [''tenant_id''])], tb_rows = []\<rparr>,
   \<lparr>tb_name = ''files'', tb_columns =
     [Column ''id'' Uuid_type False None,
      Column ''filename'' (String_type (Some 255)) False None,
      Column ''content_key'' (String_type (Some 512)) True None,
      Column ''mime_type'' (String_type (Some 100)) True None,
      Column ''size'' Big_integer_type True None,
      Column ''sha256'' (String_type (Some 64)) True None,
      Column ''deleted_at'' (Timestamp_type True) True None,
      Column ''created_at'' (Timestamp_type True) False (Some Now),
      Column ''updated_at'' (Timestamp_type True) False (Some Now)],
    tb_constraints =
     [Primary_key [''id'']],
    tb_indexes = [], tb_rows = []\<rparr>,
   \<lparr>tb_name = ''order_files'', tb_columns =
     [Column ''id'' Uuid_type False None,
      Column ''order_id'' Uuid_type False None,
      Column ''file_id'' Uuid_type False None,
      Column ''deleted_at'' (Timestamp_type True) True None,
      Column ''created_at'' (Timestamp_type True) False (Some Now),
      Column ''updated_at'' (Timestamp_type True) False (Some Now)],
    tb_constraints =
     [Foreign_key ''file_id'' ''files'' ''id'' None,
      Foreign_key ''order_id'' ''orders'' ''id'' (Some ''CASCADE''),
      Primary_key [''id'']],
    tb_indexes = [], tb_rows = []\<rparr>]"

definition jobs_table :: "column list \<Rightarrow> sql_table" where
  "jobs_table added =
   \<lparr>tb_name = ''research_jobs'', tb_columns =
     ([Column ''id'' Uuid_type False None,
      Column ''tenant_id'' Uuid_type False None,
      Column ''order_id'' Uuid_type False None,
      Column ''idempotency_key'' Uuid_type False None,
      Column ''requested_doc_types'' Jsonb_type False None,
      Column ''status'' (Enum_type ''research_job_status_enum''
        [''queued'', ''running'', ''completed'', ''partial'', ''failed'', ''cancelling'', ''cancelled'']) False None,
      Column ''total_documents'' Integer_type False (Some (Quoted ''0'')),
      Column ''fetched_documents'' Integer_type False (Some (Quoted ''0'')),
      Column ''uploaded_documents'' Integer_type False (Some (Quoted ''0'')),
      Column ''failed_documents'' Integer_type False (Some (Quoted ''0'')),
      Column ''cancelled_documents'' Integer_type False (Some (Quoted ''0'')),
      Column ''started_at'' (Timestamp_type True) True None,
      Column ''completed_at'' (Timestamp_type True) True None,
      Column ''error_code'' (String_type (Some 100)) True None,
      Column ''error_message'' Text_type True None,
      Column ''callback_url'' (String_type (Some 2048)) True None,
      Column ''created_by'' Uuid_type True None,
      Column ''updated_by'' Uuid_type True None,
      Column ''deleted_at'' (Timestamp_type True) True None,
      Column ''created_at'' (Timestamp_type True) False (Some Now),
      Column ''updated_at'' (Timestamp_type True) False (Some Now)] @ added),
    tb_constraints =
     [Check ''ck_research_job_nonempty_doc_types'' (Array_length_positive ''requested_doc_types''),
      Foreign_key ''order_id'' ''orders'' ''id'' (Some ''CASCADE''),
      Foreign_key ''tenant_id'' ''tenants'' ''id'' (Some ''RESTRICT''),
      Primary_key [''id''],
      Unique ''uq_research_job_idempotency_per_tenant'' [''tenant_id'', ''idempotency_key'']],
    tb_indexes = [(''ix_research_jobs_tenant_id'', [''tenant_id'']), (''ix_research_jobs_order_id'', [''order_id'']), (''ix_research_jobs_status'', [''status''])], tb_rows = []\<rparr>"

definition docs_table :: sql_table where
  "docs_table =
   \<lparr>tb_name = ''research_documents'', tb_columns =
     [Column ''id'' Uuid_type False None,
      Column ''job_id'' Uuid_type False None,
      Column ''order_id'' Uuid_type False None,
      Column ''doc_type'' (String_type (Some 100)) False None,
      Column ''status'' (Enum_type ''research_doc_status_enum''
        [''queued'', ''fetching'', ''fetched'', ''uploading'', ''uploaded'', ''failed'', ''skipped'']) False None,
      Column ''source_outcome'' (Enum_type ''source_outcome_enum''
        [''auto'', ''link_only'', ''blocked'', ''broken'', ''retryable'', ''manual_review'']) True None,
      Column ''confidence'' (Enum_type ''confidence_enum''
        [''high'', ''medium'', ''low'', ''none'']) True None,
      Column ''file_id'' Uuid_type True None,
      Column ''order_file_id'' Uuid_type True None,
      Column ''summary'' Text_type False (Some (Quoted '''')),
      Column ''link'' (String_type (Some 2048)) False (Some (Quoted '''')),
      Column ''link_label'' (String_type (Some 255)) False (Some (Quoted '''')),
      Column ''provenance'' Jsonb_type True None,
      Column ''warnings'' Jsonb_type True None,
      Column ''error_code'' (String_type (Some 100)) True None,
      Column ''error_message'' Text_type True None,
      Column ''retryable'' Boolean_type False (Some (Quoted ''true'')),
      Column ''retry_count'' Integer_type False (Some (Quoted ''0'')),
      Column ''fetched_at'' (Timestamp_type True) True None,
      Column ''uploaded_at'' (Timestamp_type True) True None,
      Column ''deleted_at'' (Timestamp_type True) True None,
      Column ''created_at'' (Timestamp_type True) False (Some Now),
      Column ''updated_at'' (Timestamp_type True) False (Some Now)],
    tb_constraints =
     [Foreign_key ''file_id'' ''files'' ''id'' None,
      Foreign_key ''job_id'' ''research_jobs'' ''id'' (Some ''CASCADE''),
      Foreign_key ''order_file_id'' ''order_files'' ''id'' None,
      Foreign_key ''order_id'' ''orders'' ''id'' (Some ''CASCADE''),
      Primary_key [''id''],
      Unique ''uq_research_doc_per_job_type'' [''job_id'', ''doc_type'']],
    tb_indexes = [(''ix_research_documents_job_id'', [''job_id'']), (''ix_research_documents_order_id'', [''order_id'']), (''ix_research_documents_status'', [''status''])], tb_rows = []\<rparr>"

definition enum_types :: "string list \<Rightarrow> (string \<times> string list) list" where
  "enum_types added =
    [(''research_job_status_enum'', [''queued'', ''running'', ''completed'', ''partial'', ''failed'', ''cancelling'', ''cancelled''] @ added),
     (''research_doc_status_enum'', [''queued'', ''fetching'', ''fetched'', ''uploading'', ''uploaded'', ''failed'', ''skipped'']),
     (''source_outcome_enum'', [''auto'', ''link_only'', ''blocked'', ''broken'', ''retryable'', ''manual_review'']),
     (''confidence_enum'', [''high'', ''medium'', ''low'', ''none''])]"

definition first_schema :: database where
  "first_schema = \<lparr>pg_tables = base_tables @ [jobs_table [], docs_table], pg_types = enum_types []\<rparr>"

definition head_schema :: database where
  "head_schema =
    \<lparr>pg_tables = base_tables @
       [jobs_table [Column ''cancel_reason'' Text_type True None,
                    Column ''callback_delivered'' Boolean_type False (Some (Sql_text ''false''))], docs_table],
     pg_types = enum_types [''reviewed'', ''archived'']\<rparr>"

lemma first_effects: "effects base_ddl empty_database = Some first_schema"
  by code_simp

lemma head_effects: "effects later_ddl first_schema = Some head_schema"
  by code_simp

lemma back_effects: "effects back_ddl head_schema \<noteq> None"
  by code_simp

lemma down_effects: "effects (back_ddl @ unbase_ddl) head_schema = Some empty_database"
  by code_simp

lemma head_gaps:
  "concat (map (table_gaps head_schema) mapped_classes) =
    [Other_type ''research_jobs'' ''started_at'', Other_type ''research_jobs'' ''completed_at'',
     No_index ''research_jobs'' ''deleted_at'',
     No_index ''research_documents'' ''file_id'', No_index ''research_documents'' ''order_file_id'',
     Other_type ''research_documents'' ''fetched_at'', Other_type ''research_documents'' ''uploaded_at'',
     No_index ''research_documents'' ''deleted_at'',
     Other_type ''orders'' ''order_number'', Other_type ''orders'' ''address_line_1'',
     Other_type ''orders'' ''address_line_2'', Other_type ''orders'' ''city'',
     Other_type ''orders'' ''state'', Other_type ''orders'' ''zip_code'',
     Other_type ''orders'' ''county'', Other_type ''orders'' ''parcel_id'',
     Other_type ''orders'' ''survey_type'', No_index ''orders'' ''deleted_at'',
     Other_type ''files'' ''filename'', Other_type ''files'' ''content_key'',
     Other_type ''files'' ''mime_type'', Other_type ''files'' ''size'', Other_type ''files'' ''sha256'',
     No_index ''files'' ''deleted_at'',
     No_index ''order_files'' ''order_id'', No_index ''order_files'' ''file_id'',
     No_index ''order_files'' ''deleted_at'']"
  by code_simp

lemma chain_runs:
  assumes "ddl_laws exec" "alembic_order path"
  shows "run_ddl exec (concat (map rv_upgrade path)) empty_database = Inr head_schema"
proof (rule run_effects [OF assms(1)])
  have "effects (base_ddl @ later_ddl) empty_database = Some head_schema"
    by (subst effects_append) (simp only: first_effects head_effects Option.bind.simps)
  then show "effects (concat (map rv_upgrade path)) empty_database = Some head_schema"
    by (simp add: alembic_order_unique [OF assms(2)])
qed

section \<open>Rows through the later revisions\<close>

lemma rj_shape:
  "find_table first_schema ''research_jobs'' \<noteq> None"
  "list_all (\<lambda>t. tb_name t = ''research_jobs'' \<longrightarrow>
     ''cancel_reason'' \<notin> set (column_names t) \<and> ''callback_delivered'' \<notin> set (column_names t))
   (pg_tables first_schema)"
  by code_simp+

lemma later_exact:
  assumes "effects later_ddl s = Some s'"
  shows "s' = add_label ''research_job_status_enum'' ''archived''
      (add_label ''research_job_status_enum'' ''reviewed''
        (on_table ''research_jobs'' (add_column (Column ''callback_delivered'' Boolean_type False
            (Some (Sql_text ''false''))) (Boole False))
        (on_table ''research_jobs'' (add_column (Column ''cancel_reason'' Text_type True None) Null) s)))"
  using assms
  by (auto simp: revision_0003_def revision_0004_def upgrade_0003_def upgrade_0004_def
      on_table_add_label split: option.splits if_splits)

lemma back_exact:
  assumes "effects back_ddl s = Some s'"
  shows "s' = on_table ''research_jobs'' (drop_column ''cancel_reason'')
                (on_table ''research_jobs'' (drop_column ''callback_delivered'') s)"
  using assms
  by (auto simp: revision_0003_def revision_0004_def downgrade_0003_def downgrade_0004_def
      split: option.splits if_splits)

lemma drop_two_added:
  assumes "\<forall>r \<in> set (tb_rows t). map fst r = column_names t"
    and "co_name c \<notin> set (column_names t)" "co_name d \<notin> set (column_names t)" "co_name c \<noteq> co_name d"
  shows "drop_column (co_name c) (drop_column (co_name d) (add_column d w (add_column c v t))) = t"
proof -
  have "\<forall>r \<in> set (tb_rows (add_column c v t)). map fst r = column_names (add_column c v t)"
    using assms(1) by (auto simp: add_column_def column_names_def)
  then have "drop_column (co_name d) (add_column d w (add_column c v t)) = add_column c v t"
    using assms(3,4) by (intro drop_added) (auto simp: add_column_def column_names_def)
  then show ?thesis using assms(1,2) by (simp add: drop_added)
qed

lemma there_and_back:
  assumes "rows_ok s"
    and "\<And>t. t \<in> set (pg_tables s) \<Longrightarrow> tb_name t = n \<Longrightarrow>
           co_name c \<notin> set (column_names t) \<and> co_name d \<notin> set (column_names t)"
    and "co_name c \<noteq> co_name d"
  shows "on_table n (drop_column (co_name c)) (on_table n (drop_column (co_name d))
           (on_table n (add_column d w) (on_table n (add_column c v) s))) = s"
proof -
  have "(drop_column (co_name c) \<circ> (drop_column (co_name d) \<circ> (add_column d w \<circ> add_column c v))) t = t"
    if "t \<in> set (pg_tables s)" "tb_name t = n" for t
    using assms that unfolding rows_ok_def comp_def by (intro drop_two_added) auto
  then have "on_table n (drop_column (co_name c) \<circ> (drop_column (co_name d) \<circ> (add_column d w \<circ> add_column c v))) s = s"
    by (rule on_table_id)
  then show ?thesis by (simp add: on_table_on_table comp_assoc)
qed

section \<open>The rows of the engine in the migrated tables\<close>

lemma head_research_jobs:
  "find_table head_schema ''research_jobs'' = Some (jobs_table
     [Column ''cancel_reason'' Text_type True None,
      Column ''callback_delivered'' Boolean_type False (Some (Sql_text ''false''))])"
  by code_simp

lemma head_research_documents: "find_table head_schema ''research_documents'' = Some docs_table"
  by code_simp

lemma head_types: "pg_types head_schema = enum_types [''reviewed'', ''archived'']"
  by (simp add: head_schema_def)

lemma job_status_label: "job_status_value v \<in> set (map job_status_value job_statuses)"
  by (cases v) (simp_all add: job_statuses_def)

lemma cell_of_Null [simp]: "cell_of f x = Null \<longleftrightarrow> x = None \<or> (\<exists>v. x = Some v \<and> f v = Null)"
  by (auto simp: cell_of_def split: option.splits)

lemma cell_of_fits [simp]:
  "cell_fits T ty (cell_of f x) \<longleftrightarrow> (\<forall>v. x = Some v \<longrightarrow> cell_fits T ty (f v))"
  by (auto simp: cell_of_def split: option.splits)

lemma job_row_fits:
  "row_fits (pg_types head_schema) (the (find_table head_schema ''research_jobs'')) (job_sql j)"
  by (cases "j_status j")
    (simp_all add: head_research_jobs jobs_table_def head_types enum_types_def row_fits_def column_names_def job_sql_def column_accepts_def)

lemma outcome_fits:
  "map_of T n = Some (map source_outcome_value source_outcomes) \<Longrightarrow>
   cell_fits T (Enum_type n l) (Str (source_outcome_value v))"
  by (cases v) (simp_all add: source_outcomes_def)

lemma confidence_fits:
  "map_of T n = Some (map confidence_value confidences) \<Longrightarrow>
   cell_fits T (Enum_type n l) (Str (confidence_value v))"
  by (cases v) (simp_all add: confidences_def)

lemma doc_row_fits:
  "row_fits (pg_types head_schema) (the (find_table head_schema ''research_documents'')) (doc_sql d)"
proof -
  have "cell_fits (pg_types head_schema) (Enum_type ''source_outcome_enum'' l) (Str (source_outcome_value v))" for l v
    by (rule outcome_fits) (simp add: head_types enum_types_def source_outcomes_def)
  moreover have "cell_fits (pg_types head_schema) (Enum_type ''confidence_enum'' l) (Str (confidence_value v))" for l v
    by (rule confidence_fits) (simp add: head_types enum_types_def confidences_def)
  moreover have "cell_fits (pg_types head_schema) (Enum_type ''research_doc_status_enum'' l) (Str (doc_status_value (d_status d)))" for l
    by (cases "d_status d") (simp_all add: head_types enum_types_def)
  ultimately show ?thesis
    by (simp add: head_research_documents docs_table_def row_fits_def column_names_def doc_sql_def column_accepts_def
        del: cell_fits.simps(9))
qed

lemma distinct_cells:
  "distinct (map (\<lambda>x. [Some (Uid (f x))]) xs) = distinct (map f xs)"
  "distinct (map (\<lambda>x. [Some (Uid (f x)), Some (Uid (g x))]) xs) = distinct (map (\<lambda>x. (f x, g x)) xs)"
  "distinct (map (\<lambda>x. [Some (Uid (f x)), Some (Str (h x))]) xs) = distinct (map (\<lambda>x. (f x, h x)) xs)"
  by (induction xs) auto

lemma distinct_pairs:
  "(\<And>i. distinct (map g (filter (\<lambda>x. f x = i) xs))) \<Longrightarrow> distinct (map (\<lambda>x. (f x, g x)) xs)"
proof (induction xs)
  case (Cons a xs)
  have "distinct (map g (filter (\<lambda>x. f x = i) xs))" for i
    using Cons.prems [of i] by (simp split: if_splits)
  moreover have "g a \<notin> g ` {x \<in> set xs. f x = f a}"
    using Cons.prems [of "f a"] by simp
  ultimately show ?case using Cons.IH by auto
qed simp

lemma doc_keys_distinct:
  assumes "tables_ok db"
  shows "distinct (map (\<lambda>d. (d_job_id d, d_doc_type d)) (db_docs db))"
proof (rule distinct_pairs)
  fix i
  show "distinct (map d_doc_type (filter (\<lambda>d. d_job_id d = i) (db_docs db)))"
  proof (cases "\<exists>j \<in> set (db_jobs db). j_id j = i")
    case True
    then show ?thesis using assms by (auto simp: tables_ok_def jobs_ok_def docs_of_def)
  next
    case False
    then have "filter (\<lambda>d. d_job_id d = i) (db_docs db) = []"
      using assms by (auto simp: tables_ok_def docs_ok_def filter_empty_conv)
    then show ?thesis by simp
  qed
qed

lemma job_table_accepts:
  assumes "tables_ok db"
  shows "table_accepts head_schema db ''research_jobs''"
proof -
  have "list_all (row_fits (pg_types head_schema) (the (find_table head_schema ''research_jobs'')))
          (map job_sql (db_jobs db))"
    by (simp add: list_all_iff job_row_fits)
  moreover have "\<forall>j \<in> set (db_jobs db). j_requested_doc_types j \<noteq> []"
    using assms by (simp add: tables_ok_def jobs_ok_def)
  ultimately show ?thesis
    using assms unfolding table_accepts_def
    by (simp add: head_research_jobs jobs_table_def stored_rows_def job_sql_def distinct_cells list_all_iff
        tables_ok_def ids_ok_def keys_ok_def comp_def)
qed

lemma doc_table_accepts:
  assumes "tables_ok db"
  shows "table_accepts head_schema db ''research_documents''"
proof -
  have "list_all (row_fits (pg_types head_schema) (the (find_table head_schema ''research_documents'')))
          (map doc_sql (db_docs db))"
    by (simp add: list_all_iff doc_row_fits)
  moreover have "\<forall>d \<in> set (db_docs db). \<exists>j \<in> set (db_jobs db). j_id j = d_job_id d"
    using assms by (force simp: tables_ok_def docs_ok_def)
  ultimately show ?thesis
    using assms doc_keys_distinct [OF assms] unfolding table_accepts_def
    by (simp add: head_research_documents docs_table_def stored_rows_def doc_sql_def job_sql_def distinct_cells list_all_iff
        tables_ok_def ids_ok_def comp_def image_iff) force
qed

section \<open>A database at revision 0001 with one stored job\<close>

lemma bare_with_rows: "bare (on_table n (\<lambda>t. t\<lparr>tb_rows := f t\<rparr>) s) = bare s"
  by (simp add: on_table_def bare_def update_where_def bare_table_def comp_def if_distrib cong: if_cong)

lemma bare_first: "bare first_schema = first_schema"
proof -
  have "effects base_ddl (bare empty_database) = Some (bare first_schema)"
    by (simp only: effects_bare first_effects option.map)
  then show ?thesis
    using first_effects by (simp add: bare_def empty_database_def)
qed

lemma rows_ok_first: "rows_ok first_schema"
proof -
  have "\<forall>t \<in> set (map bare_table (pg_tables first_schema)). tb_rows t = []"
    by (auto simp: bare_table_def)
  then have "\<forall>t \<in> set (pg_tables first_schema). tb_rows t = []"
    by (metis bare_first bare_sel(2))
  then show ?thesis by (simp add: rows_ok_def)
qed

lemma rows_ok_with_row:
  "rows_ok s \<Longrightarrow> rows_ok (on_table n (\<lambda>t. t\<lparr>tb_rows := [map (\<lambda>c. (c, g c)) (column_names t)]\<rparr>) s)"
  by (auto simp: rows_ok_def on_table_def in_update_where column_names_def comp_def split: if_splits)

definition demo_stored :: database where
  "demo_stored = on_table ''research_jobs'' (\<lambda>t. t\<lparr>tb_rows :=
     [map (\<lambda>n. (n, case map_of (job_sql (new_job_row 0 0 7 8 9 5 [''PARCEL_RECORD''] None)) n of
                      None \<Rightarrow> Null | Some v \<Rightarrow> v)) (column_names t)]\<rparr>) first_schema"

lemma demo_stored_ok:
  "bare demo_stored = first_schema" "rows_ok demo_stored"
  "length (rows_of demo_stored ''research_jobs'') = 1"
  unfolding demo_stored_def using rj_shape(1)
  by (simp_all add: bare_with_rows bare_first rows_ok_with_row rows_ok_first rows_of_def find_on_table
      split: option.splits)

end
