(* ===== verification/MigrationProps.thy ===== *)
theory MigrationProps
  imports SchemaFacts LifecycleProps
begin

text \<open>
  Properties of the migrations: what the chain builds against what the mapped classes declare,
  what the later revisions do to stored rows and how the downgrades take it back, and that every
  reachable state of the engine satisfies the schema the chain builds.
\<close>

section \<open>The chain\<close>



text \<open>
  C39: A database at revision 0001 with any rows takes revisions 0003 and 0004: each job row keeps
  its cells and gains a null cancel reason and a callback flag that is false, the rows of every
  other table stay.  The two downgrades then restore the database, rows included, except for the
  two labels that stay in the status type; and the downgrade of the whole chain leaves nothing.
\<close>

theorem migrations_keep_rows:
  assumes laws: "ddl_laws exec"
    and start: "run_ddl exec (rv_upgrade revision_0002 @ rv_upgrade revision_0001) empty_database = Inr s0"
    and shape: "bare s = s0" and rows: "rows_ok s"
  shows "\<exists>s'. run_ddl exec (rv_upgrade revision_0003 @ rv_upgrade revision_0004) s = Inr s' \<and>
    (\<forall>n. rows_of s' n =
       (if n = ''research_jobs''
        then map (\<lambda>r. r @ [(''cancel_reason'', Null), (''callback_delivered'', Boole False)]) (rows_of s n)
        else rows_of s n)) \<and>
    run_ddl exec (rv_downgrade revision_0004 @ rv_downgrade revision_0003) s' =
      Inr (add_label ''research_job_status_enum'' ''archived''
            (add_label ''research_job_status_enum'' ''reviewed'' s)) \<and>
    run_ddl exec (rv_downgrade revision_0004 @ rv_downgrade revision_0003 @
        rv_downgrade revision_0001 @ rv_downgrade revision_0002) s' = Inr empty_database"
proof -
  have s0: "bare s = first_schema"
    using run_effects [OF laws first_effects] start shape by simp
  from effects_from_bare [of later_ddl s] obtain s' where up: "effects later_ddl s = Some s'" "bare s' = head_schema"
    using head_effects by (auto simp: s0)
  obtain b where "effects back_ddl (bare s') = Some b"
    using back_effects up(2) by auto
  then obtain s2 where undo: "effects back_ddl s' = Some s2"
    by (rule effects_from_bare)
  have "effects (back_ddl @ unbase_ddl) (bare s') = Some empty_database"
    unfolding up(2) by (rule down_effects)
  then obtain e where down: "effects (back_ddl @ unbase_ddl) s' = Some e" and e: "bare e = empty_database"
    by (rule effects_from_bare)
  have "e = empty_database"
    using e by (cases e) (simp add: bare_def empty_database_def)
  have fresh: "''cancel_reason'' \<notin> set (column_names t) \<and> ''callback_delivered'' \<notin> set (column_names t)"
    if "t \<in> set (pg_tables s)" "tb_name t = ''research_jobs''" for t
    using rj_shape(2) that by (auto simp: list_all_iff simp flip: s0)
  have same: "on_table ''research_jobs'' (drop_column ''cancel_reason'')
      (on_table ''research_jobs'' (drop_column ''callback_delivered'')
        (on_table ''research_jobs'' (add_column (Column ''callback_delivered'' Boolean_type False
            (Some (Sql_text ''false''))) (Boole False))
        (on_table ''research_jobs'' (add_column (Column ''cancel_reason'' Text_type True None) Null) s))) = s"
    using there_and_back [OF rows, of "''research_jobs''" "Column ''cancel_reason'' Text_type True None"
        "Column ''callback_delivered'' Boolean_type False (Some (Sql_text ''false''))" "Boole False" Null] fresh
    by simp
  have "s2 = add_label ''research_job_status_enum'' ''archived''
            (add_label ''research_job_status_enum'' ''reviewed'' s)"
    unfolding back_exact [OF undo] later_exact [OF up(1)] by (simp only: on_table_add_label same)
  moreover have "rows_of s' n = (if n = ''research_jobs''
        then map (\<lambda>r. r @ [(''cancel_reason'', Null), (''callback_delivered'', Boole False)]) (rows_of s n)
        else rows_of s n)" for n
    unfolding later_exact [OF up(1)] by (simp add: rows_of_add_column)
  ultimately show ?thesis
    using run_effects [OF laws up(1)] run_effects [OF laws undo] run_effects [OF laws down]
      \<open>e = empty_database\<close> by auto
qed

theorem migrations_keep_rows_witness:
  "\<exists>s'. run_ddl strict_exec (rv_upgrade revision_0003 @ rv_upgrade revision_0004) demo_stored = Inr s' \<and>
     length (rows_of s' ''research_jobs'') = 1 \<and>
     run_ddl strict_exec (rv_downgrade revision_0004 @ rv_downgrade revision_0003 @
        rv_downgrade revision_0001 @ rv_downgrade revision_0002) s' = Inr empty_database"
  using migrations_keep_rows [OF strict_laws run_effects [OF strict_laws first_effects] demo_stored_ok(1,2)]
    demo_stored_ok(3) by (elim exE conjE) (intro exI conjI, assumption, simp_all)

section \<open>The engine on the migrated schema\<close>



end
