(* ===== verification/MarkupProps.thy ===== *)
theory MarkupProps
  imports Reports
begin

text \<open>
  What the texts of the sources can do to the HTML pages of \<open>services/downloader.py\<close>.  The markup of
  a page is what a reader of HTML takes for tags: the page without its text and without the contents
  of quoted attribute values.  Escaped text leaves no trace in it, so the markup of a page is fixed up
  to the number of its cells; the one text that is not escaped is singled out.
\<close>

section \<open>The markup of a page\<close>

datatype html_mode = In_text | In_tag | In_quotes char

text \<open>One step of the tokenizer: the next mode and what is kept of the character.\<close>

fun html_step :: "html_mode \<Rightarrow> char \<Rightarrow> html_mode \<times> string" where
  "html_step In_text c = (if c = CHR ''<'' then (In_tag, [c]) else (In_text, []))"
| "html_step In_tag c =
     (if c = CHR ''>'' then (In_text, [c])
      else if c = CHR 0x27 \<or> c = CHR 0x22 then (In_quotes c, [c]) else (In_tag, [c]))"
| "html_step (In_quotes q) c = (if c = q then (In_tag, [c]) else (In_quotes q, []))"

primrec html_mode_after :: "html_mode \<Rightarrow> string \<Rightarrow> html_mode" where
  "html_mode_after m [] = m"
| "html_mode_after m (c # cs) = html_mode_after (fst (html_step m c)) cs"

primrec markup :: "html_mode \<Rightarrow> string \<Rightarrow> string" where
  "markup m [] = []"
| "markup m (c # cs) = snd (html_step m c) @ markup (fst (html_step m c)) cs"

lemma html_append [simp]:
  "html_mode_after m (s @ t) = html_mode_after (html_mode_after m s) t"
  "markup m (s @ t) = markup m s @ markup (html_mode_after m s) t"
  by (induction s arbitrary: m) simp_all

text \<open>A text that stays in its mode and leaves nothing.\<close>

definition plain_text :: "string \<Rightarrow> bool" where
  "plain_text s \<longleftrightarrow> CHR ''<'' \<notin> set s"

lemma plain_text_scan [simp]:
  "plain_text s \<Longrightarrow> markup In_text s = []" "plain_text s \<Longrightarrow> html_mode_after In_text s = In_text"
  by (induction s) (auto simp: plain_text_def)

lemma quoted_scan:
  "q \<notin> set s \<Longrightarrow> markup (In_quotes q) s = []"
  "q \<notin> set s \<Longrightarrow> html_mode_after (In_quotes q) s = In_quotes q"
  by (induction s) auto

lemma escape_char_safe: "set (escape_char c) \<inter> {CHR ''<'', CHR ''>'', CHR 0x22, CHR 0x27} = {}"
  by (simp add: escape_char_def)

lemma html_escape_safe:
  "CHR ''<'' \<notin> set (html_escape s)" "CHR 0x27 \<notin> set (html_escape s)" "CHR 0x22 \<notin> set (html_escape s)"
  using escape_char_safe by (auto simp: html_escape_def)

lemma escaped_scan [simp]:
  "markup In_text (html_escape s) = []" "html_mode_after In_text (html_escape s) = In_text"
  "markup In_text (e_text v) = []" "html_mode_after In_text (e_text v) = In_text"
  "markup (In_quotes (CHR 0x27)) (html_escape s) = []"
  "html_mode_after (In_quotes (CHR 0x27)) (html_escape s) = In_quotes (CHR 0x27)"
  by (simp_all add: e_text_def html_escape_safe plain_text_def quoted_scan)

section \<open>Cells, anchors and the frame\<close>

definition cell_markup :: string where
  "cell_markup = ''<div class=''@ [CHR 0x27, CHR 0x27] @ ''><dt></dt><dd></dd></div>''"

definition anchor_markup :: string where
  "anchor_markup = ''<a href='' @ [CHR 0x27, CHR 0x27] @ ''></a>''"

definition frame_markup :: "string \<Rightarrow> string \<Rightarrow> string" where
  "frame_markup source inner =
     ''<div class=doc><div class=head><div><div class=eyebrow></div><h1></h1><div class=sub></div></div>'' @
     ''<div class=stamp><br>'' @ source @ ''</div></div><div class=body>'' @ inner @ ''</div></div>''"

lemma row_scan [simp]:
  "markup In_text (row_cell full label v) = (if in_blanks [[]] v then [] else cell_markup)"
  "html_mode_after In_text (row_cell full label v) = In_text"
  by (simp_all add: row_cell_def cell_markup_def)

lemma anchor_scan [simp]:
  "plain_text t \<Longrightarrow> markup In_text (anchor url t) = anchor_markup"
  "plain_text t \<Longrightarrow> html_mode_after In_text (anchor url t) = In_text"
  by (simp_all add: anchor_def anchor_markup_def)

lemma subtitle_scan [simp]:
  "markup In_text (subtitle_of h meta) = []" "html_mode_after In_text (subtitle_of h meta) = In_text"
  by (simp_all add: subtitle_of_def)

lemma shell_scan:
  assumes "plain_text stamp" "markup In_text subtitle = []" "html_mode_after In_text subtitle = In_text"
    and "html_mode_after In_text source = In_text" "html_mode_after In_text inner = In_text"
  shows "markup In_text (shell stamp eyebrow title subtitle source inner) =
           frame_markup (markup In_text source) (markup In_text inner)"
  using assms by (simp add: shell_def frame_markup_def)

text \<open>A sequence of pieces that all return to text.\<close>

lemma pieces_scan:
  assumes "\<And>x. x \<in> set xs \<Longrightarrow> html_mode_after In_text (f x) = In_text"
  shows "html_mode_after In_text (concat (map f xs)) = In_text"
    and "markup In_text (concat (map f xs)) = concat (map (markup In_text \<circ> f) xs)"
  using assms by (induction xs) simp_all

definition cells_upto :: "nat \<Rightarrow> string \<Rightarrow> bool" where
  "cells_upto k s \<longleftrightarrow> html_mode_after In_text s = In_text \<and>
     (\<exists>n \<le> k. markup In_text s = concat (replicate n cell_markup))"

lemma cells_row: "cells_upto 1 (row_cell full label v)"
  unfolding cells_upto_def by (cases "in_blanks [[]] v") (auto intro: exI [of _ 0] exI [of _ 1])

lemma cells_append:
  assumes "cells_upto a s" "cells_upto b t"
  shows "cells_upto (a + b) (s @ t)"
proof -
  obtain m n where "m \<le> a" "markup In_text s = concat (replicate m cell_markup)"
      "n \<le> b" "markup In_text t = concat (replicate n cell_markup)"
    using assms unfolding cells_upto_def by blast
  moreover from this have "m + n \<le> a + b" by simp
  ultimately show ?thesis
    using assms unfolding cells_upto_def by (intro conjI exI [of _ "m + n"]) (simp_all add: replicate_add)
qed

lemma cells_concat: "list_all (cells_upto 1) xs \<Longrightarrow> cells_upto (length xs) (concat xs)"
proof (induction xs)
  case Nil
  then show ?case by (simp add: cells_upto_def)
next
  case (Cons x xs)
  then show ?case using cells_append [of 1 x "length xs" "concat xs"] by simp
qed

lemma cells_upto_cong: "cells_upto k s \<Longrightarrow> k = n \<Longrightarrow> cells_upto n s"
  by simp

definition dump_markup :: string where
  "dump_markup = ''<div><dt></dt><dd></dd></div>''"

definition shown_attrs :: "attrs \<Rightarrow> nat" where
  "shown_attrs attrs = length (filter (\<lambda>(k, v). shown v \<and> \<not> startswith (lower k) ''shape'') attrs)"

lemma dump_scan:
  "html_mode_after In_text (dump_cells attrs) = In_text"
  "markup In_text (dump_cells attrs) =
     concat (replicate (shown_attrs attrs) dump_markup)"
proof -
  let ?f = "\<lambda>(k, v). ''<div><dt>'' @ html_escape k @ ''</dt><dd>'' @ e_text v @ ''</dd></div>''"
  have one: "html_mode_after In_text (?f x) = In_text" "markup In_text (?f x) = dump_markup" for x
    by (simp_all add: dump_markup_def split: prod.split)
  let ?xs = "filter (\<lambda>(k, v). shown v \<and> \<not> startswith (lower k) ''shape'') attrs"
  have eq: "dump_cells attrs = concat (map ?f ?xs)"
    unfolding dump_cells_def ..
  show "html_mode_after In_text (dump_cells attrs) = In_text"
    unfolding eq by (rule pieces_scan) (rule one)
  have "markup In_text (dump_cells attrs) = concat (map (markup In_text \<circ> ?f) ?xs)"
    unfolding eq by (rule pieces_scan) (rule one)
  also have "map (markup In_text \<circ> ?f) ?xs = replicate (length ?xs) dump_markup"
    using one(2) by (simp add: map_replicate_const [symmetric] comp_def)
  finally show "markup In_text (dump_cells attrs) = concat (replicate (shown_attrs attrs) dump_markup)"
    unfolding shown_attrs_def .
qed

section \<open>The pages as files\<close>

definition page_of :: "string \<Rightarrow> string" where
  "page_of body = ''<!doctype html><meta charset='' @ [CHR 0x27] @ ''utf-8'' @ [CHR 0x27] @ ''>'' @ CSS @ body"

definition page_markup :: "string \<Rightarrow> string" where
  "page_markup m =
     ''<!doctype html><meta charset='' @ [CHR 0x27, CHR 0x27] @ ''><style></style>'' @ m"

lemma css_scan: "markup In_text CSS = ''<style></style>''" "html_mode_after In_text CSS = In_text"
  by code_simp+

lemma page_scan: "markup In_text (page_of body) = page_markup (markup In_text body)"
  by (simp add: page_of_def page_markup_def css_scan)

definition doc_path :: "path \<Rightarrow> string \<Rightarrow> path" where
  "doc_path folder fn = resolve_parts [] (join_path (folder @ [''documents'']) fn)"

lemma write_html_page:
  assumes "write_html folder fn body fs = (Inr r, fs')"
  shows "r = fn \<and> read_bytes fs' (doc_path folder fn) = Inr (page_of body)"
  using assms
  by (auto simp: write_html_def save_doc_def docs_dir_def page_of_def doc_path_def io_then_def io_bind_def
      io_return_def write_bytes_def read_bytes_def map_of_dict_put split: prod.splits sum.splits if_splits)

section \<open>The three reports\<close>

definition parcel_markup :: "string \<Rightarrow> string \<Rightarrow> string \<Rightarrow> string" where
  "parcel_markup source summary dump =
     frame_markup source (''<div class=sec></div><dl class=grid>'' @ summary @
       ''</dl><div class=sec></div><dl class=grid>'' @ dump @ ''</dl><div class=note><b></b></div>'')"

definition flood_markup :: "string \<Rightarrow> string \<Rightarrow> string" where
  "flood_markup rows exhibit =
     frame_markup anchor_markup (''<div class='' @ [CHR 0x27, CHR 0x27] @ ''><span class=lbl></span></div>'' @
       ''<div class=sec></div><dl class=grid>'' @ rows @ ''</dl>'' @ exhibit @ ''<div class=note><b></b></div>'')"

definition exhibit_markup :: string where
  "exhibit_markup = ''<div class=sec></div><div class=exhibit><img src='' @ [CHR 0x27, CHR 0x27] @
     '' alt='' @ [CHR 0x27, CHR 0x27] @ ''><div class=cap></div></div>''"

definition appraiser_markup :: "string \<Rightarrow> string \<Rightarrow> string" where
  "appraiser_markup source rows =
     frame_markup source (''<div class=sec></div><dl class=grid>'' @ rows @ ''</dl><div class=note></div>'')"

lemma parcel_rows:
  "cells_upto 10 (concat ([row ''Parcel ID'' a, row ''Situs address'' b, row ''Land area'' c, row ''County'' d] @
     map (\<lambda>(lbl, aliases). row lbl (alias_attr attrs aliases)) PARCEL_KEYS))"
proof -
  have "list_all (cells_upto 1) ([row ''Parcel ID'' a, row ''Situs address'' b, row ''Land area'' c, row ''County'' d] @
     map (\<lambda>(lbl, aliases). row lbl (alias_attr attrs aliases)) PARCEL_KEYS)"
    by (auto simp: list_all_iff row_def cells_row [simplified])
  from cells_concat [OF this] show ?thesis by (rule cells_upto_cong) (simp add: PARCEL_KEYS_def)
qed

lemma plain_escaped [simp]: "plain_text (html_escape x)"
  by (simp add: plain_text_def html_escape_safe)

lemma parcel_shell:
  assumes "plain_text stamp" "html_mode_after In_text rows = In_text" "html_mode_after In_text src = In_text"
  shows "markup In_text (shell stamp e t (subtitle_of h meta) src
      (''<div class=sec>Parcel summary</div>'' @ (''<dl class=grid>'' @ rows @ ''</dl>'') @
       ''<div class=sec>All recorded attributes</div><dl class=grid>'' @ dump_cells attrs @
       ''</dl><div class=note><b>Verify the situs address matches the subject property.</b> '' @
       ''Values are the county parcel-service figures at fetch time.</div>'')) =
    parcel_markup (markup In_text src) (markup In_text rows) (markup In_text (dump_cells attrs))"
  using assms by (subst shell_scan) (simp_all add: parcel_markup_def dump_scan(1))

lemma parcel_body_scan:
  assumes "plain_text stamp"
  shows "\<exists>n \<le> 10. markup In_text (parcel_body stamp parcel attrs meta) =
    parcel_markup (if opt_or (pa_source parcel) [] = [] then [] else anchor_markup)
      (concat (replicate n cell_markup))
      (concat (replicate (shown_attrs attrs) dump_markup))"
proof -
  let ?rows = "concat ([row ''Parcel ID'' (SStr (dm_parcel_id meta)), row ''Situs address'' (SStr (dm_situs meta)),
     row ''Land area'' (SStr (if truthy (dm_land_sqft meta) then lot_text (dm_land_sqft meta) (dm_land_acres meta) else [])),
     row ''County'' (SStr (county_line meta))] @
     map (\<lambda>(lbl, aliases). row lbl (alias_attr attrs aliases)) PARCEL_KEYS)"
  let ?label = "html_escape (opt_or (pa_source_label parcel) ''county parcel service'')"
  let ?src = "if opt_or (pa_source parcel) [] \<noteq> [] then anchor (opt_or (pa_source parcel) []) ?label else ?label"
  obtain n where n: "n \<le> 10" "html_mode_after In_text ?rows = In_text"
      "markup In_text ?rows = concat (replicate n cell_markup)"
    using parcel_rows unfolding cells_upto_def by blast
  have src: "html_mode_after In_text ?src = In_text" by simp
  have "markup In_text (parcel_body stamp parcel attrs meta) =
      parcel_markup (markup In_text ?src) (markup In_text ?rows) (markup In_text (dump_cells attrs))"
    unfolding parcel_body_def Let_def by (rule parcel_shell [OF assms n(2) src])
  with n show ?thesis
    by (intro exI [of _ n] conjI) (simp_all only: dump_scan(2), simp)
qed

lemma flood_rows_scan: "cells_upto 12 (flood_rows f meta)"
  unfolding flood_rows_def Let_def
  by (rule cells_concat [THEN cells_upto_cong]) (simp_all add: row_def row_full_def cells_row [simplified])

lemma b64_digit_plain: "b64_digit n \<noteq> CHR 0x27"
proof
  assume "b64_digit n = CHR 0x27"
  then have "code_of (b64_digit n) = (39::nat)" by simp
  then show False by (auto simp: b64_digit_def split: if_splits)
qed

lemma b64_plain: "CHR 0x27 \<notin> set (b64 s)"
  by (induction s rule: b64.induct) (auto simp: Let_def b64_digit_plain [symmetric])

lemma exhibit_scan:
  "markup In_text (flood_exhibit (img_data_uri fs p)) = exhibit_markup"
  "html_mode_after In_text (flood_exhibit (img_data_uri fs p)) = In_text"
proof -
  have "CHR 0x27 \<notin> set (img_data_uri fs p)"
    by (simp add: img_data_uri_def b64_plain split: sum.split)
  then show "markup In_text (flood_exhibit (img_data_uri fs p)) = exhibit_markup"
    "html_mode_after In_text (flood_exhibit (img_data_uri fs p)) = In_text"
    by (simp_all add: flood_exhibit_def exhibit_markup_def quoted_scan)
qed

lemma flood_shell:
  assumes "plain_text stamp" "html_mode_after In_text rows = In_text" "html_mode_after In_text ex = In_text"
    and "CHR 0x27 \<notin> set cls"
  shows "markup In_text (shell stamp e t (subtitle_of h meta) (anchor url ''FEMA Map Service Center'')
      ((''<div class='' @ [CHR 0x27] @ ''banner '' @ cls @ [CHR 0x27] @
        ''><span class=lbl>Inside SFHA?</span>'' @ html_escape x @ ''</div>'') @
       ''<div class=sec>Flood determination</div><dl class=grid>'' @ rows @ ''</dl>'' @ ex @
       ''<div class=note><b>Determination is from the effective FEMA NFHL</b> at the '' @
       ''parcel location. Confirm the panel and any LOMA/LOMR on the FEMA Map Service Center before certifying.</div>'')) =
    flood_markup (markup In_text rows) (markup In_text ex)"
proof -
  have "plain_text ''FEMA Map Service Center''" by (simp add: plain_text_def)
  with assms show ?thesis
    by (subst shell_scan) (simp_all add: flood_markup_def quoted_scan)
qed

lemma flood_body_scan:
  assumes "plain_text stamp" "html_mode_after In_text ex = In_text"
  shows "\<exists>n \<le> 12. markup In_text (flood_body stamp f meta ex) =
           flood_markup (concat (replicate n cell_markup)) (markup In_text ex)"
proof -
  obtain n where n: "n \<le> 12" "html_mode_after In_text (flood_rows f meta) = In_text"
      "markup In_text (flood_rows f meta) = concat (replicate n cell_markup)"
    using flood_rows_scan unfolding cells_upto_def by blast
  have cls: "CHR 0x27 \<notin> set (snd (flood_risk f))"
    by (simp add: flood_risk_def Let_def)
  show ?thesis
    unfolding flood_body_def Let_def flood_shell [OF assms(1) n(2) assms(2) cls]
    using n by auto
qed

lemma appraiser_rows_scan: "cells_upto 14 (appraiser_rows attrs meta living)"
  unfolding appraiser_rows_def Let_def
  by (rule cells_concat [THEN cells_upto_cong]) (simp_all add: row_def row_full_def cells_row [simplified])

lemma appraiser_shell:
  assumes "plain_text stamp" "html_mode_after In_text rows = In_text" "html_mode_after In_text src = In_text"
  shows "markup In_text (shell stamp e t (subtitle_of h meta) src
      (''<div class=sec>Property &amp; tax</div><dl class=grid>'' @ rows @
       ''</dl><div class=note>Values (where shown) are the county roll figures. Verify current-year '' @
       ''assessment, exemptions, and tax due on the county Property Appraiser / Assessor site.</div>'')) =
    appraiser_markup (markup In_text src) (markup In_text rows)"
  using assms by (subst shell_scan) (simp_all add: appraiser_markup_def)

lemma appraiser_body_scan:
  assumes "plain_text stamp" "html_mode_after In_text (dm_county meta) = In_text"
  shows "\<exists>n \<le> 14. markup In_text (appraiser_body stamp attrs meta url living) =
    appraiser_markup ((if dm_state meta = ''FL'' then [] else markup In_text (dm_county meta)) @
        (if url = [] then [] else anchor_markup)) (concat (replicate n cell_markup))"
proof -
  obtain n where n: "n \<le> 14" "html_mode_after In_text (appraiser_rows attrs meta living) = In_text"
      "markup In_text (appraiser_rows attrs meta living) = concat (replicate n cell_markup)"
    using appraiser_rows_scan unfolding cells_upto_def by blast
  let ?label = "if dm_state meta = ''FL'' then ''Florida DOR statewide tax roll (NAL/cadastral)''
      else dm_county meta @ '' County parcel / assessor data''"
  let ?src = "?label @ (if url \<noteq> [] then '' &middot; '' @ anchor url ''open county Property Appraiser'' else [])"
  have plain: "plain_text ''open county Property Appraiser''" by (simp add: plain_text_def)
  have src: "html_mode_after In_text ?src = In_text" "markup In_text ?src =
      (if dm_state meta = ''FL'' then [] else markup In_text (dm_county meta)) @ (if url = [] then [] else anchor_markup)"
    using assms(2) plain by simp_all
  have "markup In_text (appraiser_body stamp attrs meta url living) =
      appraiser_markup (markup In_text ?src) (markup In_text (appraiser_rows attrs meta living))"
    unfolding appraiser_body_def Let_def by (rule appraiser_shell [OF assms(1) n(2) src(1)])
  then show ?thesis
    unfolding src(2) n(3) using n(1) by blast
qed

section \<open>Properties\<close>

text \<open>A parcel whose owner is a script element, in a county named like one.\<close>

definition demo_fs :: fs where
  "demo_fs = \<lparr>fs_files = [], fs_dirs = [[], [''job'']]\<rparr>"

definition demo_attrs :: attrs where
  "demo_attrs = [(''OWNER'', SStr ''<script>alert(1)</script>''), (''SHAPE_AREA'', SInt 5)]"

definition demo_parcel :: parcel_info where
  "demo_parcel = \<lparr>pa_county_fips = ''12105'', pa_method = ''point'', pa_source = Some ''https://gis.example/0'',
     pa_layer_name = None, pa_parcels = [demo_attrs], pa_candidate_count = 1, pa_situs = [],
     pa_land_sqft = SNone, pa_land_acres = SNone, pa_buffered_match = False, pa_address_match = None,
     pa_hints = [], pa_source_label = None, pa_arcgis_error = None,
     pa_statewide_error = None, pa_appraiser_url = None, pa_directory_url = None, pa_note = None,
     pa_error = None, pa_parcel_id = ''1''\<rparr>"

definition demo_meta :: "string \<Rightarrow> string \<Rightarrow> doc_meta" where
  "demo_meta county state = \<lparr>dm_parcel_id = ''1'', dm_matched_address = ''12 <b>Main</b>'', dm_county = county,
     dm_state = state, dm_situs = [], dm_land_sqft = SNone, dm_land_acres = SNone\<rparr>"

lemma demo_saves:
  "\<exists>fs'. save_parcel_record ''2026'' [''job''] demo_parcel (demo_meta ''Polk'' ''FL'') demo_fs =
     (Inr (Some ''Parcel_Record.html''), fs')"
  "\<exists>fs'. save_appraiser_record ''2026'' [''job''] demo_attrs (demo_meta c s) [] demo_fs =
     (Inr (Some ''Property_Appraiser.html''), fs')"
proof -
  have w: "\<exists>fs'. write_html [''job''] fn body demo_fs = (Inr fn, fs')"
    if "resolve_parts [] (join_path [''job'', ''documents''] fn) = [''job'', ''documents'', fn]" for fn body
    using that
    by (simp add: write_html_def save_doc_def docs_dir_def io_then_def io_bind_def io_return_def
        demo_fs_def mkdir_parents_def write_bytes_def is_file_def)
  have "resolve_parts [] (join_path [''job'', ''documents''] ''Parcel_Record.html'') =
      [''job'', ''documents'', ''Parcel_Record.html'']"
    "resolve_parts [] (join_path [''job'', ''documents''] ''Property_Appraiser.html'') =
      [''job'', ''documents'', ''Property_Appraiser.html'']"
    by code_simp+
  note p = w [OF this(1)] and a = w [OF this(2)]
  show "\<exists>fs'. save_parcel_record ''2026'' [''job''] demo_parcel (demo_meta ''Polk'' ''FL'') demo_fs =
     (Inr (Some ''Parcel_Record.html''), fs')"
    using p [of "parcel_body ''2026'' demo_parcel demo_attrs (demo_meta ''Polk'' ''FL'')"]
    by (auto simp: save_parcel_record_def demo_parcel_def io_bind_def io_return_def)
  have lv: "needle_attr demo_attrs [''totlvgar'', ''living'', ''heated'', ''finsqft'', ''bldgarea''] = SNone"
    by code_simp
  show "\<exists>fs'. save_appraiser_record ''2026'' [''job''] demo_attrs (demo_meta c s) [] demo_fs =
     (Inr (Some ''Property_Appraiser.html''), fs')"
    using a [of "appraiser_body ''2026'' demo_attrs (demo_meta c s) [] SNone"]
    unfolding save_appraiser_record_def Let_def lv
    by (auto simp: io_bind_def io_return_def) (simp_all add: demo_attrs_def)
qed

text \<open>
  C25: Texts from the sources cannot add markup to the parcel record or the flood report.  Whatever
  the attributes, the addresses and the answers of the flood service hold, the tags and attributes
  of the written page are the fixed frame with at most ten (twelve) summary cells, one cell for
  each attribute shown, one link if there is a source, and one picture if the map is readable.
\<close>

theorem report_markup_is_fixed:
  assumes "plain_text stamp"
  shows "(\<forall>fn fs'. save_parcel_record stamp folder parcel meta fs = (Inr (Some fn), fs') \<longrightarrow>
      (\<exists>page n. read_bytes fs' (doc_path folder fn) = Inr page \<and> n \<le> 10 \<and>
         markup In_text page = page_markup (parcel_markup
           (if opt_or (pa_source parcel) [] = [] then [] else anchor_markup)
           (concat (replicate n cell_markup)) (concat (replicate (shown_attrs (hd (pa_parcels parcel))) dump_markup))))) \<and>
    (\<forall>fn fs'. save_flood_report stamp folder f meta map_file fs = (Inr (Some fn), fs') \<longrightarrow>
      (\<exists>page n exhibit. read_bytes fs' (doc_path folder fn) = Inr page \<and> n \<le> 12 \<and>
         exhibit \<in> {[], exhibit_markup} \<and>
         markup In_text page = page_markup (flood_markup (concat (replicate n cell_markup)) exhibit)))"
proof (intro conjI allI impI)
  fix fn fs' assume save: "save_parcel_record stamp folder parcel meta fs = (Inr (Some fn), fs')"
  then obtain attrs rest where ps: "pa_parcels parcel = attrs # rest"
    by (cases "pa_parcels parcel") (auto simp: save_parcel_record_def io_return_def)
  from save have "write_html folder ''Parcel_Record.html'' (parcel_body stamp parcel attrs meta) fs = (Inr fn, fs')"
    by (auto simp: save_parcel_record_def ps io_bind_def io_return_def split: prod.splits sum.splits)
  from write_html_page [OF this] parcel_body_scan [OF assms, of parcel attrs meta]
  show "\<exists>page n. read_bytes fs' (doc_path folder fn) = Inr page \<and> n \<le> 10 \<and>
         markup In_text page = page_markup (parcel_markup
           (if opt_or (pa_source parcel) [] = [] then [] else anchor_markup)
           (concat (replicate n cell_markup)) (concat (replicate (shown_attrs (hd (pa_parcels parcel))) dump_markup)))"
    by (auto simp: page_scan ps)
next
  fix fn fs' assume "save_flood_report stamp folder f meta map_file fs = (Inr (Some fn), fs')"
  then obtain ex fs1 where w: "write_html folder ''FEMA_Flood_Report.html'' (flood_body stamp f meta ex) fs1 = (Inr fn, fs')"
      and ex: "ex = [] \<or> (\<exists>fs2 p. ex = flood_exhibit (img_data_uri fs2 p))"
    by (auto simp: save_flood_report_def io_bind_def io_return_def Let_def split: if_splits prod.splits sum.splits)
  have "html_mode_after In_text ex = In_text" "markup In_text ex \<in> {[], exhibit_markup}"
    using ex by (auto simp: exhibit_scan)
  moreover from this obtain n where "n \<le> 12" "markup In_text (flood_body stamp f meta ex) =
      flood_markup (concat (replicate n cell_markup)) (markup In_text ex)"
    using flood_body_scan [OF assms, of ex f meta] by blast
  ultimately show "\<exists>page n exhibit. read_bytes fs' (doc_path folder fn) = Inr page \<and> n \<le> 12 \<and>
         exhibit \<in> {[], exhibit_markup} \<and>
         markup In_text page = page_markup (flood_markup (concat (replicate n cell_markup)) exhibit)"
    using write_html_page [OF w] page_scan by metis
qed

theorem report_markup_is_fixed_witness:
  "\<exists>fs' page n. save_parcel_record ''2026'' [''job''] demo_parcel (demo_meta ''Polk'' ''FL'') demo_fs =
       (Inr (Some ''Parcel_Record.html''), fs') \<and>
     read_bytes fs' (doc_path [''job''] ''Parcel_Record.html'') = Inr page \<and> n \<le> 10 \<and>
     markup In_text page = page_markup (parcel_markup anchor_markup (concat (replicate n cell_markup)) dump_markup)"
proof -
  obtain fs' where save: "save_parcel_record ''2026'' [''job''] demo_parcel (demo_meta ''Polk'' ''FL'') demo_fs =
       (Inr (Some ''Parcel_Record.html''), fs')"
    using demo_saves(1) by blast
  have "plain_text ''2026''" "shown_attrs (hd (pa_parcels demo_parcel)) = 1"
      "opt_or (pa_source demo_parcel) [] \<noteq> []"
    by code_simp+
  with report_markup_is_fixed [THEN conjunct1, rule_format, OF _ save] save show ?thesis by fastforce
qed

text \<open>
  C26: The appraiser record prints the county's name unescaped in the line that names its source:
  outside Florida the markup of the page contains that of the name, so a name with a script element
  becomes one.  All its other texts are escaped.
\<close>

theorem appraiser_county_is_markup:
  assumes "plain_text stamp" and "html_mode_after In_text (dm_county meta) = In_text"
    and "save_appraiser_record stamp folder attrs meta url fs = (Inr (Some fn), fs')"
  shows "\<exists>page n. read_bytes fs' (doc_path folder fn) = Inr page \<and> n \<le> 14 \<and>
    markup In_text page = page_markup (appraiser_markup
      ((if dm_state meta = ''FL'' then [] else markup In_text (dm_county meta)) @
       (if url = [] then [] else anchor_markup)) (concat (replicate n cell_markup)))"
proof -
  obtain living where "write_html folder ''Property_Appraiser.html'' (appraiser_body stamp attrs meta url living) fs
      = (Inr fn, fs')"
    using assms(3)
    by (auto simp: save_appraiser_record_def io_bind_def io_return_def io_raise_def Let_def
        split: if_splits prod.splits sum.splits option.splits)
  from write_html_page [OF this] appraiser_body_scan [OF assms(1,2), of attrs url living]
  show ?thesis by (auto simp: page_scan)
qed

theorem appraiser_county_is_markup_witness:
  "\<exists>fs' page n. save_appraiser_record ''2026'' [''job''] demo_attrs (demo_meta ''<script>x</script>'' ''GA'') [] demo_fs =
       (Inr (Some ''Property_Appraiser.html''), fs') \<and>
     read_bytes fs' (doc_path [''job''] ''Property_Appraiser.html'') = Inr page \<and> n \<le> 14 \<and>
     markup In_text page = page_markup (appraiser_markup ''<script></script>'' (concat (replicate n cell_markup)))"
proof -
  obtain fs' where save: "save_appraiser_record ''2026'' [''job''] demo_attrs
      (demo_meta ''<script>x</script>'' ''GA'') [] demo_fs = (Inr (Some ''Property_Appraiser.html''), fs')"
    using demo_saves(2) by blast
  have "plain_text ''2026''" "html_mode_after In_text (dm_county (demo_meta ''<script>x</script>'' ''GA'')) = In_text"
      "dm_state (demo_meta ''<script>x</script>'' ''GA'') = ''GA''"
      "markup In_text (dm_county (demo_meta ''<script>x</script>'' ''GA'')) = ''<script></script>''"
    by code_simp+
  with appraiser_county_is_markup [OF _ _ save] save show ?thesis by fastforce
qed

end
