(* ===== verification/Scripts.thy ===== *)
theory Scripts
  imports Reports
begin

text \<open>
  The tools of \<open>scripts\<close>: the briefing (\<open>build_briefing_pdf.py\<close>), the export of the API contracts
  (\<open>export_contracts.py\<close>) and the local end-to-end run (\<open>e2e_local.py\<close>); the demo seed is in Evidence.  The
  Markdown renderer, the browser, the processes, the clock and the HTTP answers are arguments.  What a
  script only prints is left out, its exit code is the result; an uncaught exception is \<open>Inl\<close>.
\<close>

section \<open>The briefing: headings\<close>

definition slug_char :: "char \<Rightarrow> bool" where
  "slug_char c \<longleftrightarrow> is_alnum c \<or> c = CHR '' '' \<or> c = CHR ''_'' \<or> c = CHR ''-''"

definition slugify :: "string \<Rightarrow> string" where
  "slugify text =
     (let s = lower (strip (filter slug_char text));
          s = re_sub (Plus space) ''-'' s
      in if s = [] then ''section'' else s)"

text \<open>\<open>re.sub(r"<[^>]+>", "", inner)\<close>\<close>

definition tag_pat :: re where
  "tag_pat = seqs [Lit ''<'', Plus (Cls (\<lambda>c. c \<noteq> CHR ''>'')), Lit ''>'']"

definition strip_tags :: "string \<Rightarrow> string" where
  "strip_tags s = re_sub tag_pat [] s"

text \<open>The text up to the first occurrence of a mark, and what follows it.\<close>

fun up_to :: "string \<Rightarrow> string \<Rightarrow> (string \<times> string) option" where
  "up_to mark [] = (if mark = [] then Some ([], []) else None)"
| "up_to mark (c # cs) =
     (if startswith (c # cs) mark then Some ([], drop (length mark) (c # cs))
      else map_option (\<lambda>(a, b). (c # a, b)) (up_to mark cs))"

text \<open>\<open><h([1-4])>(.*?)</h\1>\<close> at the start of a text: level, contents and rest.\<close>

definition heading :: "string \<Rightarrow> (char \<times> string \<times> string) option" where
  "heading s =
     (case s of
        a # b # l # e # r \<Rightarrow>
          if a = CHR ''<'' \<and> b = CHR ''h'' \<and> l \<in> set ''1234'' \<and> e = CHR ''>''
          then map_option (\<lambda>(inner, rest). (l, inner, rest)) (up_to (''</h'' @ [l] @ ''>'') r)
          else None
      | _ \<Rightarrow> None)"

text \<open>The identifier of a heading: a name seen before gets its number.\<close>

definition next_id :: "(string \<times> nat) list \<Rightarrow> string \<Rightarrow> string \<times> (string \<times> nat) list" where
  "next_id ids inner =
     (let base = slugify (strip_tags inner);
          n = (case map_of ids base of None \<Rightarrow> 0 | Some k \<Rightarrow> k)
      in (if n \<noteq> 0 then base @ ''-'' @ show_nat (n + 1) else base, dict_put base (n + 1) ids))"

fun anchor_iter :: "nat \<Rightarrow> (string \<times> nat) list \<Rightarrow> string \<Rightarrow> string" where
  "anchor_iter 0 ids s = s"
| "anchor_iter (Suc n) ids [] = []"
| "anchor_iter (Suc n) ids (c # cs) =
     (case heading (c # cs) of
        None \<Rightarrow> c # anchor_iter n ids cs
      | Some (l, inner, rest) \<Rightarrow>
          let (slug, ids') = next_id ids inner
          in ''<h'' @ [l] @ '' id='' @ [CHR 0x22] @ slug @ [CHR 0x22] @ ''>'' @ inner @ ''</h'' @ [l] @ ''>'' @
             anchor_iter n ids' rest)"

text \<open>\<open>re.search(r"<h1[^>]*>(.*?)</h1>", out, flags=re.S)\<close>\<close>

fun first_h1 :: "string \<Rightarrow> string option" where
  "first_h1 [] = None"
| "first_h1 (c # cs) =
     (if startswith (c # cs) ''<h1'' then
        (case dropWhile (\<lambda>x. x \<noteq> CHR ''>'') (drop 3 (c # cs)) of
           [] \<Rightarrow> first_h1 cs
         | _ # r \<Rightarrow> (case up_to ''</h1>'' r of Some (t, _) \<Rightarrow> Some t | None \<Rightarrow> first_h1 cs))
      else first_h1 cs)"

definition anchor_headings :: "string \<Rightarrow> string \<times> string" where
  "anchor_headings body =
     (let out = anchor_iter (length body) [] body
      in (out, case first_h1 out of None \<Rightarrow> [] | Some t \<Rightarrow> strip (strip_tags t)))"

section \<open>The briefing: the page\<close>

definition DOC_FILES :: "string list" where
  "DOC_FILES =
     [''00-INDEX.md'', ''01-system-overview.md'', ''02-engine-deep-dive.md'', ''03-frontend-deep-dive.md'',
      ''04-data-sources-registry.md'', ''05-deployment-egress.md'', ''06-glossary-conventions.md'',
      ''07-opportunities-roadmap.md'']"

definition PRINT_CSS :: string where
  "PRINT_CSS = join NL
     [[],
      '':root { --ink:#171b16; --dim:#5b6257; --accent:#3FA424; --line:#c8cdc2; }'',
      ''* { box-sizing: border-box; }'',
      ''html { -webkit-print-color-adjust: exact; print-color-adjust: exact; }'',
      ''body { font-family:'Segoe UI','Helvetica Neue',Arial,sans-serif; font-size:10pt;'',
      ''       color:var(--ink); line-height:1.5; margin:0; }'',
      ''header.titleblock { border-bottom:3px solid var(--accent); padding-bottom:8px;'',
      ''                    margin-bottom:10px; }'',
      ''header.titleblock h1 { font-size:20pt; margin:0 0 2px; color:#0f2c0c; }'',
      ''header.titleblock p { color:var(--dim); margin:0; font-size:9pt; }'',
      ''section.doc { break-before:page; }'',
      ''section.doc.first { break-before:auto; }'',
      ''h1 { font-size:16pt; color:#0f2c0c; border-bottom:1px solid #d7dcd2;'',
      ''     padding-bottom:3px; margin:16px 0 8px; break-after:avoid; }'',
      ''h2 { font-size:12.5pt; color:#24401f; margin:13px 0 6px; break-after:avoid; }'',
      ''h3 { font-size:10.5pt; color:#2c4a26; margin:10px 0 4px; break-after:avoid; }'',
      ''h4 { font-size:10pt; margin:8px 0 3px; break-after:avoid; }'',
      ''p { margin:5px 0; }'',
      ''ul,ol { margin:5px 0 8px; padding-left:22px; }'',
      ''li { margin:2px 0; }'',
      ''blockquote { border-left:3px solid var(--accent); background:#f3f8f0;'',
      ''             padding:4px 10px; margin:6px 0; color:#333; }'',
      ''code { font-family:Consolas,'Cascadia Code',monospace; font-size:8.6pt;'',
      ''       background:#f1f3ee; padding:1px 3px; border-radius:3px; }'',
      ''pre { background:#f6f8fa; border:1px solid #e6e8e3; border-radius:5px;'',
      ''      padding:6px 10px; margin:6px 0; white-space:pre-wrap;'',
      ''      word-break:break-word; }'',
      ''pre code { background:none; padding:0; }'',
      ''pre.mermaid { font-family:Consolas,'Cascadia Code',monospace; font-size:8.6pt; }'',
      ''pre.mermaid svg { font-family:inherit; }'',
      ''.highlight pre { margin:0; white-space:pre-wrap; word-break:break-word; }'',
      ''table { width:100%; border-collapse:collapse; font-size:8.8pt; margin:6px 0;'',
      ''        break-inside:auto; }'',
      ''th,td { border:1px solid var(--line); padding:3px 7px; text-align:left;'',
      ''        vertical-align:top; }'',
      ''th { background:#eef4e9; font-weight:600; }'',
      ''tr { break-inside:avoid; }'',
      ''tr:nth-child(even) td { background:#f8fbf5; }'',
      ''a { color:#1f5f17; text-decoration:none; }'',
      ''svg { max-width:100%; height:auto; }'',
      ''.toc ul { list-style:none; padding-left:0; }'',
      ''.toc li { margin:5px 0; }'',
      ''.toc .num { display:inline-block; min-width:40px; color:var(--dim); }'',
      ''.toc .sep { color:var(--dim); }'',
      ''hr { border:none; border-top:1px solid var(--line); margin:10px 0; }'',
      []]"

definition MERMAID_BOOT :: string where
  "MERMAID_BOOT = join NL
     [[],
      ''(function () {'',
      ''  var boot = function () {'',
      ''    document.querySelectorAll('' @ [CHR 0x22] @ ''pre code.language-mermaid'' @ [CHR 0x22] @ '').forEach(function (c) {'',
      ''      var p = c.parentNode;'',
      ''      var n = document.createElement('' @ [CHR 0x22] @ ''pre'' @ [CHR 0x22] @ '');'',
      ''      n.className = '' @ [CHR 0x22] @ ''mermaid'' @ [CHR 0x22] @ '';'',
      ''      n.textContent = c.textContent;'',
      ''      if (p && p.parentNode) { p.parentNode.replaceChild(n, p); }'',
      ''    });'',
      ''    if (!window.mermaid) return;   /* CDN unreachable -> degrade gracefully */'',
      ''    try {'',
      ''      mermaid.initialize({ startOnLoad:false, theme:'' @ [CHR 0x22] @ ''default'' @ [CHR 0x22] @ '','',
      ''                           securityLevel:'' @ [CHR 0x22] @ ''loose'' @ [CHR 0x22] @ '' });'',
      ''      mermaid.run({ querySelector:'' @ [CHR 0x22] @ ''pre.mermaid'' @ [CHR 0x22] @ '' }).then(function () {'',
      ''        window.__mmdDone = true;'',
      ''      }).catch(function (e) {'',
      ''        window.__mmdError = String(e);'',
      ''        window.__mmdDone = true;'',
      ''      });'',
      ''    } catch (e) {'',
      ''      window.__mmdError = String(e);'',
      ''      window.__mmdDone = true;'',
      ''    }'',
      ''  };'',
      ''  if (document.readyState === '' @ [CHR 0x22] @ ''loading'' @ [CHR 0x22] @ '') {'',
      ''    document.addEventListener('' @ [CHR 0x22] @ ''DOMContentLoaded'' @ [CHR 0x22] @ '', boot);'',
      ''  } else { boot(); }'',
      ''})();'',
      []]"

definition FOOTER_TMPL :: string where
  "FOOTER_TMPL = join NL
     [''<div style='' @ [CHR 0x22] @ ''width:100%;text-align:center;font-size:8px;color:#666;'' @ [CHR 0x22] @ ''>ResearchHub &middot; Technical Briefing &mdash; <span class='' @ [CHR 0x22] @ ''pageNumber'' @ [CHR 0x22] @ ''></span> / <span class='' @ [CHR 0x22] @ ''totalPages'' @ [CHR 0x22] @ ''></span></div>'']"

definition HEADER_TMPL :: string where
  "HEADER_TMPL = join NL
     [''<span></span>'']"

definition MERMAID_CDN :: string where
  "MERMAID_CDN = join NL
     [''https://cdn.jsdelivr.net/npm/mermaid@11.4.1/dist/mermaid.min.js'']"

text \<open>\<open>body.count(s)\<close>\<close>

fun count_in :: "nat \<Rightarrow> string \<Rightarrow> string \<Rightarrow> nat" where
  "count_in 0 mark s = 0"
| "count_in (Suc n) mark s = (case up_to mark s of None \<Rightarrow> 0 | Some (_, r) \<Rightarrow> Suc (count_in n mark r))"

definition quoted :: "string \<Rightarrow> string" where
  "quoted s = [CHR 0x22] @ s @ [CHR 0x22]"

record brief_doc =
  bd_name :: string
  bd_body :: string
  bd_title :: string

definition doc_slug :: "brief_doc \<Rightarrow> string" where
  "doc_slug d = ''doc-'' @ take 2 (bd_name d)"

definition section_html :: "bool \<Rightarrow> brief_doc \<Rightarrow> string" where
  "section_html first d =
     ''<section class='' @ quoted (''doc'' @ (if first then '' first'' else [])) @ '' id='' @ quoted (doc_slug d) @
     ''>'' @ NL @ bd_body d @ NL @ ''</section>''"

definition toc_row :: "brief_doc \<Rightarrow> string" where
  "toc_row d =
     ''<li><a href='' @ quoted (''#'' @ doc_slug d) @ ''><span class='' @ quoted ''num'' @ ''>'' @
     drop (length (doc_slug d) - 2) (doc_slug d) @ ''</span><span>'' @ or_str (bd_title d) (bd_name d) @
     ''</span></a></li>''"

definition toc_html :: "brief_doc list \<Rightarrow> string" where
  "toc_html docs =
     ''<section class='' @ quoted ''doc'' @ '' id='' @ quoted ''toc'' @ ''>'' @ NL @ ''<h1>Table of Contents</h1>'' @ NL @
     ''<p class='' @ quoted ''toc-note'' @ ''>Reading order for the ResearchHub teams '' @
     ''(frontend / backend / business analyst), per <code>00-INDEX.md</code>.</p>'' @ NL @
     ''<ul class='' @ quoted ''toc'' @ ''>'' @ join NL (map toc_row docs) @ ''</ul>'' @ NL @ ''</section>''"

definition page_html :: "brief_doc list \<Rightarrow> string" where
  "page_html docs =
     join NL
       [''<!DOCTYPE html>'', ''<html lang='' @ quoted ''en'' @ ''>'', ''<head>'',
        ''<meta charset='' @ quoted ''utf-8'' @ ''>'',
        ''<title>ResearchHub '' @ emdash @ '' Technical Briefing</title>'',
        ''<script src='' @ quoted MERMAID_CDN @ ''></script>'', ''<script>'' @ MERMAID_BOOT @ ''</script>'',
        ''<style>'' @ PRINT_CSS @ ''</style>'', ''</head>'', ''<body>'',
        ''<header class='' @ quoted ''titleblock'' @ ''>'',
        ''<h1>ResearchHub '' @ middot @ '' Technical Briefing</h1>'',
        ''<p>Research engine + QuickPlot '' @ emdash @
        '' doc set for the frontend, backend, and BA teams. Generated from the survey-research codebase.</p>'',
        ''</header>'', ''<main>'', toc_html docs,
        join NL (case docs of [] \<Rightarrow> [] | d # ds \<Rightarrow> section_html True d # map (section_html False) ds),
        ''</main>'', ''</body>'', ''</html>'', []]"

text \<open>\<open>build_html\<close>: a missing file ends the script with code 2 (\<open>Inr (Inl 2)\<close>).\<close>

fun read_docs :: "(string \<Rightarrow> string) \<Rightarrow> path \<Rightarrow> string list \<Rightarrow> fs \<Rightarrow> string + nat + brief_doc list" where
  "read_docs render dir [] fs = Inr (Inr [])"
| "read_docs render dir (name # names) fs =
     (if \<not> is_file fs (dir @ [name]) \<and> dir @ [name] \<notin> set (fs_dirs fs) then Inr (Inl 2)
      else case read_bytes fs (dir @ [name]) of
             Inl e \<Rightarrow> Inl e
           | Inr md \<Rightarrow>
               let (body, title) = anchor_headings (render md)
               in case read_docs render dir names fs of
                    Inr (Inr ds) \<Rightarrow> Inr (Inr (\<lparr>bd_name = name, bd_body = body, bd_title = title\<rparr> # ds))
                  | r \<Rightarrow> r)"

definition mermaid_blocks :: "brief_doc list \<Rightarrow> nat" where
  "mermaid_blocks docs =
     sum_list (map (\<lambda>d. count_in (length (bd_body d)) ''language-mermaid'' (bd_body d)) docs)"

text \<open>The browser: navigation, the wait for the diagrams, what it reports of them, and printing.\<close>

record mermaid_state =
  ms_loaded :: bool
  ms_rendered :: nat
  ms_syntax_errs :: nat

record 's printer =
  pr_goto :: "path \<Rightarrow> (string, unit, 's \<times> fs) io"
  pr_wait_done :: "(string, unit, 's \<times> fs) io"
  pr_state :: "(string, mermaid_state, 's \<times> fs) io"
  pr_pdf :: "path \<Rightarrow> string \<Rightarrow> string \<Rightarrow> (string, unit, 's \<times> fs) io"

definition fs_io :: "(string, 'a, fs) io \<Rightarrow> (string, 'a, 's \<times> fs) io" where
  "fs_io m s = (case m (snd s) of (r, fs') \<Rightarrow> (r, (fst s, fs')))"

text \<open>True when a diagram has a syntax error, which ends the script.\<close>

definition await_diagrams :: "'s printer \<Rightarrow> (string, bool, 's \<times> fs) io" where
  "await_diagrams pr =
     (\<lambda>s. case pr_wait_done pr s of
        (Inl _, t) \<Rightarrow> (Inr False, t)
      | (Inr _, t) \<Rightarrow> io_bind (pr_state pr) (\<lambda>m. io_return (ms_syntax_errs m \<noteq> 0)) t)"

definition unlink_quietly :: "path \<Rightarrow> (string, unit, fs) io" where
  "unlink_quietly p fs =
     (Inr (), if is_file fs p then fs\<lparr>fs_files := filter (\<lambda>(q, _). q \<noteq> p) (fs_files fs)\<rparr> else fs)"

definition stat_size :: "path \<Rightarrow> (string, nat, fs) io" where
  "stat_size p fs = (case read_bytes fs p of Inl e \<Rightarrow> (Inl e, fs) | Inr d \<Rightarrow> (Inr (length d), fs))"

definition build_briefing ::
  "bool \<Rightarrow> (string \<Rightarrow> string) \<Rightarrow> 's printer \<Rightarrow> path \<Rightarrow> path \<Rightarrow> bool \<Rightarrow> (string, nat, 's \<times> fs) io" where
  "build_briefing playwright render pr root out keep_html =
     (if \<not> playwright then io_return 1
      else (\<lambda>s. case read_docs render (root @ [''docs'', ''technical-briefing'']) DOC_FILES (snd s) of
        Inl e \<Rightarrow> (Inl e, s)
      | Inr (Inl code) \<Rightarrow> (Inr code, s)
      | Inr (Inr docs) \<Rightarrow>
          (let tmp = root @ [''build'', ''briefing.html'']
           in io_then (fs_io (\<lambda>fs. mkdir_parents fs (butlast tmp)))
             (io_then (fs_io (\<lambda>fs. write_bytes fs tmp (page_html docs)))
             (io_then (fs_io (\<lambda>fs. mkdir_parents fs (butlast out)))
             (io_then (pr_goto pr tmp)
             (io_bind (if mermaid_blocks docs \<noteq> 0 then await_diagrams pr else io_return False) (\<lambda>bad.
                if bad then io_return 1
                else io_then (pr_pdf pr out HEADER_TMPL FOOTER_TMPL)
                  (io_then (if keep_html then io_return () else fs_io (unlink_quietly tmp))
                  (io_bind (fs_io (stat_size out)) (\<lambda>_. io_return 0)))))))) s)))"

section \<open>The contract export\<close>

text \<open>
  The specification the application serves: its JSON text, the number of its paths, and its schemas
  with their JSON texts.
\<close>

record api_spec =
  as_text :: string
  as_paths :: nat
  as_schemas :: "(string \<times> string) list"

fun write_schemas :: "path \<Rightarrow> (string \<times> string) list \<Rightarrow> (string, unit, fs) io" where
  "write_schemas dir [] = io_return ()"
| "write_schemas dir ((name, text) # rest) =
     io_then (\<lambda>fs. write_bytes fs (resolve_parts [] (join_path dir (name @ ''.json''))) text)
       (write_schemas dir rest)"

definition export_contracts :: "bool \<Rightarrow> api_spec \<Rightarrow> path \<Rightarrow> (string, nat, fs) io" where
  "export_contracts fastapi spec out_dir =
     (if \<not> fastapi then io_return 1
      else io_then (\<lambda>fs. mkdir_parents fs (out_dir @ [''schemas'']))
        (io_then (\<lambda>fs. write_bytes fs (out_dir @ [''openapi.json'']) (as_text spec))
        (io_then (write_schemas (out_dir @ [''schemas'']) (as_schemas spec))
          (io_return (if as_paths spec = 0 then 1 else 0)))))"

section \<open>The end-to-end run\<close>

record e2e_doc =
  ed_status :: string
  ed_file_key :: "string option"

record e2e_job =
  ej_id :: string
  ej_status :: string
  ej_documents :: "e2e_doc list"

text \<open>
  The migration and the seed as processes, starting and stopping the API and the worker, one health
  probe, the clock in seconds, the three requests, and the artifacts on disk.
\<close>

record 's e2e =
  ee_upgrade :: "(string, unit, 's) io"
  ee_seed :: "(string, string list, 's) io"
  ee_start :: "(string, unit, 's) io"
  ee_stop :: "(string, unit, 's) io"
  ee_probe :: "(string, nat, 's) io"
  ee_time :: "(string, nat, 's) io"
  ee_sleep :: "nat \<Rightarrow> (string, unit, 's) io"
  ee_create :: "uuid \<Rightarrow> string list \<Rightarrow> (string, e2e_job, 's) io"
  ee_get :: "string \<Rightarrow> (string, e2e_job, 's) io"
  ee_cancel :: "string \<Rightarrow> (string, unit, 's) io"
  ee_is_file :: "string \<Rightarrow> (string, bool, 's) io"

definition ALL_DOC_TYPES :: "string list" where
  "ALL_DOC_TYPES =
     [''PARCEL_RECORD'', ''PROPERTY_APPRAISER_TAX_RECORD'', ''RECORDED_PLAT_SUBDIVISION_MAP'',
      ''DEED_SUBJECT_PARCEL'', ''FEMA_FLOOD_ZONE_FIRM'', ''NGS_CONTROL'']"

text \<open>The loops wait at least a second in each turn; the fuel is the number of turns.\<close>

fun wait_health :: "'s e2e \<Rightarrow> nat \<Rightarrow> nat \<Rightarrow> (string, bool, 's) io" where
  "wait_health en deadline 0 = io_return False"
| "wait_health en deadline (Suc n) =
     io_bind (ee_time en) (\<lambda>now.
       if now \<ge> deadline then io_return False
       else io_bind (io_catch (io_bind (ee_probe en) (\<lambda>c. io_return (c = 200))) (\<lambda>_. io_return False)) (\<lambda>up.
         if up then io_return True else io_then (ee_sleep en 1) (wait_health en deadline n)))"

definition terminal_status :: "string \<Rightarrow> bool" where
  "terminal_status s \<longleftrightarrow> s \<in> {''completed'', ''partial'', ''failed'', ''cancelled''}"

fun poll_terminal :: "'s e2e \<Rightarrow> nat \<Rightarrow> nat \<Rightarrow> e2e_job \<Rightarrow> (string, e2e_job, 's) io" where
  "poll_terminal en deadline 0 seen = io_return seen"
| "poll_terminal en deadline (Suc n) seen =
     io_bind (ee_time en) (\<lambda>now.
       if now \<ge> deadline then io_return seen
       else io_bind (ee_get en (ej_id seen)) (\<lambda>job.
         if terminal_status (ej_status job) then io_return job
         else io_then (ee_sleep en 3) (poll_terminal en deadline n (job\<lparr>ej_id := ej_id seen\<rparr>))))"

fun poll_cancelled :: "'s e2e \<Rightarrow> nat \<Rightarrow> nat \<Rightarrow> string \<Rightarrow> string \<Rightarrow> (string, string, 's) io" where
  "poll_cancelled en deadline 0 job_id seen = io_return seen"
| "poll_cancelled en deadline (Suc n) job_id seen =
     io_bind (ee_time en) (\<lambda>now.
       if now \<ge> deadline then io_return seen
       else io_bind (io_catch (io_bind (ee_get en job_id) (\<lambda>job. io_return (ej_status job)))
                       (\<lambda>_. io_return seen)) (\<lambda>st.
         if st = ''cancelled'' then io_return st
         else io_then (ee_sleep en 1) (poll_cancelled en deadline n job_id st)))"

text \<open>The first uploaded artifact that is not on disk.\<close>

fun missing_artifact :: "'s e2e \<Rightarrow> e2e_doc list \<Rightarrow> (string, bool, 's) io" where
  "missing_artifact en [] = io_return False"
| "missing_artifact en (d # ds) =
     (case (ed_status d = ''uploaded'', ed_file_key d) of
        (True, Some key) \<Rightarrow>
          io_bind (ee_is_file en key) (\<lambda>ok. if ok then missing_artifact en ds else io_return True)
      | _ \<Rightarrow> missing_artifact en ds)"

definition seeded_order :: "string list \<Rightarrow> string + uuid" where
  "seeded_order lines =
     (case List.find (\<lambda>l. startswith l ''ORDER='') lines of
        None \<Rightarrow> Inl ''IndexError''
      | Some l \<Rightarrow> (case parse_uuid (drop 6 l) of None \<Rightarrow> Inl ''ValueError'' | Some i \<Rightarrow> Inr i))"

definition e2e_drive :: "'s e2e \<Rightarrow> uuid \<Rightarrow> (string, nat, 's) io" where
  "e2e_drive en order_id =
     io_bind (ee_time en) (\<lambda>t0. io_bind (wait_health en (t0 + 45) 46) (\<lambda>healthy.
       if \<not> healthy then io_return 2
       else io_then (ee_sleep en 6) (io_bind (ee_create en order_id ALL_DOC_TYPES) (\<lambda>job.
         io_bind (ee_time en) (\<lambda>t1. io_bind (poll_terminal en (t1 + 240) 81 job) (\<lambda>data.
           if \<not> terminal_status (ej_status data) then io_return 3
           else io_bind (missing_artifact en (ej_documents data)) (\<lambda>missing.
             if missing then io_return 4
             else io_bind (ee_create en order_id ALL_DOC_TYPES) (\<lambda>cjob.
               io_then (ee_cancel en (ej_id cjob)) (io_bind (ee_time en) (\<lambda>t2.
                 io_bind (poll_cancelled en (t2 + 30) 31 (ej_id cjob) ''cancel-request-failed'') (\<lambda>st.
                   io_return (if st \<noteq> ''cancelled'' then 5 else 0))))))))))))"

definition e2e_main :: "'s e2e \<Rightarrow> (string, nat, 's) io" where
  "e2e_main en =
     io_then (ee_upgrade en) (io_bind (ee_seed en) (\<lambda>lines.
       case seeded_order lines of
         Inl e \<Rightarrow> io_raise e
       | Inr order_id \<Rightarrow>
           io_then (ee_start en) (\<lambda>s.
             case e2e_drive en order_id s of
               (r, t) \<Rightarrow> (case ee_stop en t of (Inl e, u) \<Rightarrow> (Inl e, u) | (Inr _, u) \<Rightarrow> (r, u)))))"

section \<open>Facts\<close>

text \<open>
  Two headings can get one identifier: the number of a repeated name is not checked against the names
  of other headings.
\<close>

lemma heading_ids_collide:
  "anchor_headings ''<h2>A</h2><h2>A</h2><h2>A 2</h2>'' =
     (''<h2 id='' @ quoted ''a'' @ ''>A</h2><h2 id='' @ quoted ''a-2'' @ ''>A</h2><h2 id='' @ quoted ''a-2'' @
      ''>A 2</h2>'', [])"
  by code_simp

text \<open>A successful export says nothing of the files it replaced: only the number of paths decides.\<close>

lemma export_exit_code:
  "export_contracts True spec out fs = (Inr code, fs') \<Longrightarrow> code = (if as_paths spec = 0 then 1 else 0)"
  by (auto simp: export_contracts_def io_then_def io_bind_def io_return_def split: prod.splits sum.splits)

text \<open>
  Code 0 of the end-to-end run means that a poll answered \<open>cancelled\<close>, and the processes were stopped
  last.
\<close>

lemma poll_cancelled_answer:
  "poll_cancelled en d n i seen s = (Inr ''cancelled'', t) \<Longrightarrow> seen \<noteq> ''cancelled'' \<Longrightarrow>
     \<exists>u v job. ee_get en i u = (Inr job, v) \<and> ej_status job = ''cancelled''"
proof (induction n arbitrary: seen s)
  case (Suc n)
  from Suc.prems show ?case
    by (auto simp: io_bind_def io_then_def io_catch_def io_return_def split: prod.splits sum.splits if_splits)
      (blast dest: Suc.IH)+
qed (simp add: io_return_def)

lemma e2e_drive_passes:
  assumes "e2e_drive en order_id s = (Inr 0, t)"
  shows "\<exists>i u v job. ee_get en i u = (Inr job, v) \<and> ej_status job = ''cancelled''"
  using assms unfolding e2e_drive_def
  by (auto simp: io_bind_def io_then_def io_return_def split: prod.splits sum.splits if_splits
      dest!: poll_cancelled_answer)

lemma e2e_passes:
  assumes "e2e_main en s = (Inr 0, u)"
  shows "(\<exists>i v w job. ee_get en i v = (Inr job, w) \<and> ej_status job = ''cancelled'') \<and>
         (\<exists>t. ee_stop en t = (Inr (), u))"
  using assms unfolding e2e_main_def
  by (auto simp: io_bind_def io_then_def io_raise_def split: prod.splits sum.splits dest!: e2e_drive_passes)

end
