(* ===== verification/Spec2Isabelle.thy ===== *)
theory Spec2Isabelle
  imports ServiceProps LifecycleProps ApiProps StorageProps SitusProps ParcelProps ClerkProps PortalProps ReportProps RunProps RegistryProps MigrationProps MarkupProps Scripts Config
begin

text \<open>
  \<^bold>\<open>Verification of the ResearchHub engine\<close> (\<^verbatim>\<open>src/backend/app\<close>)

  The engine researches the public records of a property for a land-survey order.  An HTTP request
  creates a research job with one row per requested document type; a Celery task then fetches each
  document from county, state and federal sources, copies what was fetched into a blob store and
  records the outcome; jobs are polled, cancelled, retried, reviewed and archived through the API.

  \<^bold>\<open>Parts and theories\<close>

  \<^item> \<^bold>\<open>Foundations.\<close>  \<^verbatim>\<open>Prelude\<close> (results as sums, ordered dictionaries, updates by condition),
    \<^verbatim>\<open>PyStr\<close> (Python's string methods), \<^verbatim>\<open>PyVal\<close> (the scalars of a JSON answer, with \<open>str\<close>, truth and
    \<open>float\<close>), \<^verbatim>\<open>Regex\<close> (the part of \<open>re\<close> the source uses, as a backtracking matcher), \<^verbatim>\<open>FsIO\<close>
    (computations that change a state and may raise), \<^verbatim>\<open>Uuid\<close>.
  \<^item> \<^bold>\<open>Contracts\<close> (\<^verbatim>\<open>engine/contracts.py, schemas.py, errors.py\<close>): enumerations with their wire
    values, exceptions, request and response records.
  \<^item> \<^bold>\<open>Tables\<close>: \<^verbatim>\<open>Store\<close> (\<^verbatim>\<open>engine/models.py, repository.py\<close>) holds the rows of jobs and documents in
    insertion order with a clock and a supply of identifiers; \<^verbatim>\<open>Evidence\<close>
    (\<^verbatim>\<open>evidence_source.py, order_source.py, mappers.py\<close>) the file, order and tenant tables and the mapping
    of rows to responses.  The locale \<^verbatim>\<open>keyed_table\<close> is the contract of a table under \<open>save\<close>.
  \<^item> \<^bold>\<open>Service\<close> (\<^verbatim>\<open>engine/service.py\<close>): \<^verbatim>\<open>Service\<close> with lemmas in \<^verbatim>\<open>ServiceFacts\<close> and \<^verbatim>\<open>CreateFacts\<close>, and
    properties in \<^verbatim>\<open>ServiceProps\<close>.  Creation is modelled over two snapshots, so that a concurrent
    request can win the race on an idempotency key.
  \<^item> \<^bold>\<open>Worker\<close> (\<^verbatim>\<open>engine/worker.py\<close>): \<^verbatim>\<open>Worker\<close> cuts the task at its commits and queries; other
    processes run between the segments.  \<^verbatim>\<open>WorkerFacts\<close>, \<^verbatim>\<open>WorkerProps\<close>: termination, refinement of a
    sequential reference, cancellation, callbacks.
  \<^item> \<^bold>\<open>The engine as a whole\<close>: \<^verbatim>\<open>Lifecycle\<close> interleaves requests, task segments, redeliveries, the reaper,
    deletions and the clock as one step relation; the locale \<^verbatim>\<open>transition_system\<close> carries its
    invariants (\<^verbatim>\<open>LifecycleFacts\<close>, \<^verbatim>\<open>LifecycleProps\<close>).
  \<^item> \<^bold>\<open>API\<close> (\<^verbatim>\<open>router.py, dependencies.py, main.py, core/limiter.py, core/middleware.py, config.py\<close>):
    \<^verbatim>\<open>Api\<close>, \<^verbatim>\<open>ApiProps\<close>.
  \<^item> \<^bold>\<open>Blob storage\<close> (\<^verbatim>\<open>services/storage.py\<close>): \<^verbatim>\<open>Storage\<close>, \<^verbatim>\<open>StorageProps\<close>; the locale \<^verbatim>\<open>blob_store\<close> is
    its contract, interpreted for the local backend.
  \<^item> \<^bold>\<open>Records registry\<close> (\<^verbatim>\<open>data/county_platforms.py, data/states/__init__.py, services/clerk.py\<close>):
    \<^verbatim>\<open>Registry\<close>.  The data it is built from (\<^verbatim>\<open>data/states/*.py\<close>, the literal of \<^verbatim>\<open>county_platforms.py\<close>)
    is in \<^verbatim>\<open>StateData\<close>, \<^verbatim>\<open>GeorgiaData\<close> and \<^verbatim>\<open>RegistryData\<close>, entry by entry with the code that computes
    entries; \<^verbatim>\<open>RegistryTypes\<close> says what a well-typed registry is, \<^verbatim>\<open>RegistryChecks\<close> checks every literal,
    \<^verbatim>\<open>RegistryProps\<close> draws the consequences for the registry the program runs with.
  \<^item> \<^bold>\<open>Geography\<close> (\<^verbatim>\<open>data/geography.py\<close>): \<^verbatim>\<open>Geography\<close>; \<^bold>\<open>geocoding\<close>
    (\<^verbatim>\<open>services/geocode.py\<close>): \<^verbatim>\<open>Geocode\<close>.
  \<^item> \<^bold>\<open>Parcel resolution\<close> (\<^verbatim>\<open>services/parcel.py\<close>): \<^verbatim>\<open>Situs\<close> (site address, lot area, comparison of
    addresses) and \<^verbatim>\<open>Parcel\<close> (candidate search, choice, joins, search by ID), with \<^verbatim>\<open>SitusProps\<close> and
    \<^verbatim>\<open>ParcelProps\<close>.
  \<^item> \<^bold>\<open>Sources\<close>: \<^verbatim>\<open>Federal\<close> (\<^verbatim>\<open>fema.py, ngs.py, http.py\<close>), \<^verbatim>\<open>Appraiser\<close> (\<^verbatim>\<open>appraiser.py\<close>), \<^verbatim>\<open>ClerkScraper\<close>
    and \<^verbatim>\<open>ClerkDrivers\<close> with \<^verbatim>\<open>ClerkProps\<close> and \<^verbatim>\<open>PortalProps\<close> (\<^verbatim>\<open>clerk_scraper.py\<close>: its decisions over a
    driver, and the driver of each portal family over a browser), \<^verbatim>\<open>Reports\<close> with \<^verbatim>\<open>ReportProps\<close> and
    \<^verbatim>\<open>MarkupProps\<close> (\<^verbatim>\<open>downloader.py\<close>; what texts can do to the pages).
  \<^item> \<^bold>\<open>Orchestration\<close> (\<^verbatim>\<open>engine/orchestration\<close>): \<^verbatim>\<open>Research\<close> (\<^verbatim>\<open>context.py, folders.py\<close>), \<^verbatim>\<open>Sources\<close>
    (\<^verbatim>\<open>sources.py\<close>), \<^verbatim>\<open>Steps\<close> (\<^verbatim>\<open>steps.py, runner.py\<close> and the reference set of \<^verbatim>\<open>data/reference.py\<close>);
    \<^verbatim>\<open>Adapters\<close> (\<^verbatim>\<open>engine/adapters.py\<close>) is the fetcher the worker calls, and interprets the locale
    \<^verbatim>\<open>document_fetcher\<close>, which \<^verbatim>\<open>worker_fetcher\<close> extends with what the worker makes of the answers.
    \<^verbatim>\<open>StepFacts\<close>, \<^verbatim>\<open>AuditFacts\<close> and \<^verbatim>\<open>AdapterFacts\<close> hold the lemmas, \<^verbatim>\<open>RunProps\<close> the
    properties.
  \<^item> \<^bold>\<open>Migrations\<close> (\<^verbatim>\<open>alembic/versions\<close>): \<^verbatim>\<open>Migrations\<close> holds each revision as the list of its
    operations, and the tables the mapped classes declare; \<^verbatim>\<open>Schema\<close> a database with the documented
    effect of the operations, the comparison with the classes, and the rows of \<^verbatim>\<open>Store\<close> as SQL rows;
    \<^verbatim>\<open>SchemaFacts\<close>, \<^verbatim>\<open>MigrationProps\<close>.
  \<^item> \<^bold>\<open>Set-up and tools\<close>: \<^verbatim>\<open>Config\<close> (\<^verbatim>\<open>config.py, db/base.py, core/logging.py\<close>, the Celery
    configuration, the start of the API) and \<^verbatim>\<open>Scripts\<close> (\<^verbatim>\<open>scripts\<close>).

  \<^bold>\<open>How state corresponds\<close>

  A database is a record of row lists.  An ORM session is explicit: the worker holds the objects it
  read, and a flush writes only the columns that changed, over whatever the row has by then.  A
  source adapter works on a triple of the property context, the portals' driver and the file system;
  a computation returns its outcome (an exception is \<open>Inl\<close>) together with the state it leaves, so
  effects before an exception stay.  Files are a map from resolved paths to bytes with a set of
  directories; there are no symbolic links.  A portal session is a pair of the browser's state and the
  session object's attributes; what the page received while an operation ran reaches the session's
  listener right after it.  A dictionary literal is an association list in source order, read as the
  source reads it: a later entry for the same key wins.  A migrated database is a list of tables with
  columns, constraints, indexes and rows, and the enumeration types with their labels; \<open>bare\<close> forgets
  the rows.

  \<^bold>\<open>Bounds\<close>

  The worker's run is driven by fuel: a task of \<open>n\<close> documents needs two segments for each document
  and two more, and \<open>research_job\<close> supplies that many; \<open>research_job_terminates\<close> shows it is enough
  under any interference.  Retries of a scrape (2), attempts of a callback and the widening radii of
  the parcel search (75, 150, 300 metres) are the source's constants, and so are the polls of the portal sessions (40 half seconds for a first page,
  25 waits for a next one, page count plus three turns of the viewer, 20 seconds for a download).  The polls of the end-to-end
  script sleep at least a second (three for the first job) against deadlines of 45, 240 and 30 seconds, so
  46, 81 and 31 turns are enough.  Every
  other loop is structural
  recursion over a list; the regular expressions recurse on the length of the text that is left.

  \<^bold>\<open>What the lemmas show\<close>

  Tables stay well formed in every reachable state, tenants do not interfere, a job's status moves
  only along the edges of the event that happens, creation is idempotent under races, the task
  refines a sequential reference; storage keys separate tenants and stay under the root; addresses,
  parcels and deeds are only matched when they agree; a run assembles a step for each wanted document
  whatever the sources do, reports a failure as a link, logs its provenance, and the fetcher keeps the
  contract of the worker; an undisturbed task with that fetcher always comes to rest.  The registry is
  well typed, a county's fields come from its own state module before the bulk links, and every link
  handed out is absolute; a portal that serves documents only ever leaves PDF files; the exhibit of a
  report is the map file, and no text of a source becomes markup of a parcel or flood page.  The
  migrations build the tables the classes declare up to a listed set of differences, keep the stored rows
  and are undone by their downgrades, and every reachable state of the engine fits the tables they
  build.  Some properties state defects of the code as it is: a cancel lost in the
  last fetch, a redelivered task, an error text that is dropped, source errors that never reach a row,
  a file row that describes other bytes than the stored ones, Georgia counties that lose their appraiser
  link, a county name that is printed unescaped.

  \<^bold>\<open>Modelling decisions\<close>

  A float is the decimal it prints as and arithmetic on floats is exact; \<open>inf\<close> and \<open>nan\<close> are not
  numbers.  Text is a list of bytes, and the classification of characters is that of ASCII.  The text
  columns of a flood zone are texts.  JSON text, digests, the clock, UUID generation, HTTP answers,
  the operations of the browser and of the imaging library, and the two JSON files of the package (the
  county list, the bulk links) are arguments.

  \<^bold>\<open>Not modelled\<close>

  The libraries behind the interfaces above (Playwright, Pillow, requests with its retrying session,
  boto3, SQLAlchemy, alembic, PostgreSQL, structlog, Celery), the float projection of the flood map, the
  display tables of \<^verbatim>\<open>data/reference.py\<close> that no code reads, the OpenAPI descriptions of the endpoints, and
  what the scripts print.  A database that executes migrations is an argument: \<^verbatim>\<open>ddl_laws\<close> states the
  documented effect of each statement where its preconditions hold, and nothing about the others; the
  lengths of texts are not compared with those of the columns.
\<close>

end
